(* ===== verification/Console_Prelude.thy ===== *)
theory Console_Prelude
  imports Main "HOL-Library.Word" "HOL-Library.Sublist"
begin

text \<open>
  The shared vocabulary of the development.

  \<^item> Python values: strings as lists of code points below 256, UUIDs as 128-bit words,
    datetimes with or without a time zone, StrEnum lookup by value.
  \<^item> Effects: an operation takes the state and returns either an exception or a value,
    together with the new state; \<open>bnd\<close> sequences operations the way successive statements
    do, \<open>catching\<close> is an except clause, \<open>transaction\<close> is a SQL transaction block
    that is committed when the block is left by a return and rolled back when it is left by
    an exception.
  \<^item> Tables: the SELECT, UPDATE and DELETE forms the repositories use, on lists of rows.
  \<^item> \<open>obeys R m\<close>: every run of the operation \<open>m\<close> relates the state before to the
    state after by \<open>R\<close>. The locale \<open>step_law\<close> collects the rules by which this is
    carried from the statements of an operation to the whole operation, for any reflexive
    and transitive \<open>R\<close>.
\<close>

named_theorems effects \<open>definitions that unfold an operation to a function on states\<close>
named_theorems enum_value \<open>value tables of the string enumerations\<close>

section \<open>Python strings\<close>

text \<open>
  The white-space test of \<open>str.isspace\<close> and \<open>str.strip\<close> on the code points below 256.
\<close>

definition py_isspace :: "char \<Rightarrow> bool" where
  "py_isspace c \<longleftrightarrow>
     (let n = (of_char c :: nat) in
      9 \<le> n \<and> n \<le> 13 \<or> 28 \<le> n \<and> n \<le> 32 \<or> n = 133 \<or> n = 160)"

definition py_strip :: "string \<Rightarrow> string" where
  "py_strip s = rev (dropWhile py_isspace (rev (dropWhile py_isspace s)))"

definition py_startswith :: "string \<Rightarrow> string \<Rightarrow> bool" where
  "py_startswith s p \<longleftrightarrow> take (length p) s = p"

lemma py_strip_eq_Nil_iff: "py_strip s = [] \<longleftrightarrow> (\<forall>c \<in> set s. py_isspace c)"
proof
  assume "py_strip s = []"
  then have "\<forall>c \<in> set (dropWhile py_isspace s). py_isspace c"
    by (simp add: py_strip_def)
  then have "dropWhile py_isspace s = []"
    by (metis hd_dropWhile list.set_sel(1))
  then show "\<forall>c \<in> set s. py_isspace c"
    by (simp add: dropWhile_eq_Nil_conv)
next
  assume "\<forall>c \<in> set s. py_isspace c"
  then show "py_strip s = []" by (auto simp: py_strip_def dest: set_dropWhileD)
qed

lemma dropWhile_dropWhile_rev:
  "dropWhile P (rev (dropWhile P (rev (dropWhile P xs)))) = rev (dropWhile P (rev (dropWhile P xs)))"
proof -
  have "dropWhile P (rev (dropWhile P (rev ys))) = rev (dropWhile P (rev ys))"
    if "ys = [] \<or> \<not> P (hd ys)" for ys
  proof (cases "rev (dropWhile P (rev ys))")
    case (Cons z zs)
    have "prefix (rev (dropWhile P (rev ys))) ys"
      by (metis rev_rev_ident suffix_dropWhile suffix_to_prefix)
    then have "hd ys = z" using Cons by (auto simp: prefix_def)
    moreover have "ys \<noteq> []" using Cons by auto
    ultimately show ?thesis using that Cons by simp
  next
    case Nil
    then show ?thesis by (simp only: dropWhile.simps)
  qed
  then show ?thesis
    by (metis hd_dropWhile)
qed

lemma py_strip_idem [simp]: "py_strip (py_strip s) = py_strip s"
  by (simp add: py_strip_def dropWhile_dropWhile_rev dropWhile_idem)

section \<open>Identifiers and their text form\<close>

type_synonym uuid = "128 word"

definition hex_digit :: "nat \<Rightarrow> char" where
  "hex_digit n = ''0123456789abcdef'' ! n"

fun hex_fixed :: "nat \<Rightarrow> nat \<Rightarrow> string" where
  "hex_fixed 0 n = []"
| "hex_fixed (Suc k) n = hex_fixed k (n div 16) @ [hex_digit (n mod 16)]"

text \<open>\<open>str(uuid)\<close>: 32 lower-case hexadecimal digits in groups of 8, 4, 4, 4 and 12.\<close>

definition uuid_str :: "uuid \<Rightarrow> string" where
  "uuid_str u =
     (let h = hex_fixed 32 (unat u) in
      take 8 h @ ''-'' @ take 4 (drop 8 h) @ ''-'' @ take 4 (drop 12 h) @ ''-'' @
      take 4 (drop 16 h) @ ''-'' @ drop 20 h)"

section \<open>Datetimes\<close>

text \<open>
  A datetime carries its position on the time line in microseconds and whether it has a time
  zone. Order and subtraction act on the position.
\<close>

datatype datetime = Aware (instant: int) | Naive (instant: int)

type_synonym timedelta = int

fun tz_aware :: "datetime \<Rightarrow> bool" where
  "tz_aware (Aware _) = True"
| "tz_aware (Naive _) = False"

fun dt_add :: "datetime \<Rightarrow> timedelta \<Rightarrow> datetime" where
  "dt_add (Aware i) d = Aware (i + d)"
| "dt_add (Naive i) d = Naive (i + d)"

abbreviation dt_lt :: "datetime \<Rightarrow> datetime \<Rightarrow> bool" where
  "dt_lt a b \<equiv> instant a < instant b"

abbreviation dt_le :: "datetime \<Rightarrow> datetime \<Rightarrow> bool" where
  "dt_le a b \<equiv> instant a \<le> instant b"

definition seconds :: "int \<Rightarrow> timedelta" where
  "seconds n = n * 1000000"

definition minutes :: "int \<Rightarrow> timedelta" where
  "minutes n = seconds (60 * n)"

definition days :: "int \<Rightarrow> timedelta" where
  "days n = seconds (86400 * n)"

lemma instant_dt_add [simp]: "instant (dt_add d x) = instant d + x"
  by (cases d) simp_all

lemma tz_aware_dt_add [simp]: "tz_aware (dt_add d x) = tz_aware d"
  by (cases d) simp_all

definition opt_aware :: "datetime option \<Rightarrow> bool" where
  "opt_aware d = (case d of None \<Rightarrow> True | Some t \<Rightarrow> tz_aware t)"

lemma opt_aware_simps [simp]:
  "opt_aware None" "opt_aware (Some t) = tz_aware t"
  by (simp_all add: opt_aware_def)

section \<open>String enumerations\<close>

text \<open>
  \<open>E(value)\<close> on a StrEnum returns the member with that value and raises ValueError when
  there is none.
\<close>

definition enum_parse :: "('e \<Rightarrow> string) \<Rightarrow> 'e list \<Rightarrow> string \<Rightarrow> 'e option" where
  "enum_parse val members s = find (\<lambda>e. val e = s) members"

lemma enum_parse_value:
  assumes "distinct (map val members)" and "e \<in> set members"
  shows "enum_parse val members (val e) = Some e"
  using assms
proof (induction members)
  case (Cons m ms)
  then show ?case by (auto simp: enum_parse_def)
qed simp

lemma enum_parse_Some: "enum_parse val members s = Some e \<Longrightarrow> val e = s \<and> e \<in> set members"
  by (auto simp: enum_parse_def find_Some_iff)

section \<open>Exceptions\<close>

datatype error =
    ValueError string
  | PermissionError string
  | ConfigurationError string
  | ConnectionError string
  | RuntimeError string
  | InvalidToken
  | AttributeError string
  | RecursionError
  | TypeError string
  | KeyError string
  | OSError string
  | OverflowError string
  | TimeoutError
  | IndexError string
  | IncompleteReadError
  | IntegrityError
  | MultipleResultsFound
  | AccessDeniedError string
  | AuthenticationRejectedError string
  | BrowserSessionBulkRevocationRejectedError string
  | BrowserSessionListRejectedError string
  | BrowserSessionReauthenticationRejectedError string
  | EmailPasswordRegistrationRejectedError string
  | EmailPasswordRegistrationVerificationRejectedError string
  | IdentityLinkRejectedError string
  | IdentityLinkStartRejectedError string
  | IdentityLinkCompletionRejectedError string
  | LoginIdentityManagementRejectedError string
  | OAuthLoginStartRejectedError string
  | OAuthLoginCompletionRejectedError string
  | OrganizationCreationRejectedError string
  | OrganizationListRejectedError string
  | OrganizationMemberManagementRejectedError string
  | OrganizationInvitationRejectedError string
  | OrganizationInvitationAcceptanceRejectedError string
  | OrganizationInvitationListingRejectedError string
  | OrganizationInvitationRevocationRejectedError string
  | PasswordChangeRejectedError string
  | PasswordRecoveryCompletionRejectedError string
  | PlatformConnectionConnectRejectedError string
  | PlatformConnectionLifecycleRejectedError string
  | PlatformControlUnavailableError string
  | PlatformHealthUnavailableError string
  | RecentAuthenticationRequiredError string
  | RedisOneTimeTokenStoreUnavailableError string
  | RedisRateLimitUnavailableError string
  | HTTPException nat string "(string \<times> string) list"
  | SessionCreationRejectedError string

text \<open>
  The body of a \<open>__post_init__\<close>: a list of raising conditions with their messages, tested in
  order; the object is returned when none of them holds.
\<close>

definition checked :: "(bool \<times> string) list \<Rightarrow> 'a \<Rightarrow> error + 'a" where
  "checked conds x =
     (case find fst conds of None \<Rightarrow> Inr x | Some (_, msg) \<Rightarrow> Inl (ValueError msg))"

lemma checked_Nil [simp]: "checked [] x = Inr x"
  by (simp add: checked_def)

lemma checked_Cons [simp]:
  "checked ((b, msg) # conds) x = (if b then Inl (ValueError msg) else checked conds x)"
  by (simp add: checked_def)

lemma checked_Inr_iff: "checked conds x = Inr y \<longleftrightarrow> y = x \<and> (\<forall>c \<in> set conds. \<not> fst c)"
  by (induction conds) (auto split: if_splits)

lemma checked_Inl: "checked conds x = Inl e \<Longrightarrow> \<exists>msg. e = ValueError msg"
  by (induction conds) (auto split: if_splits)

section \<open>Operations with state and exceptions\<close>

type_synonym ('s, 'a) operation = "'s \<Rightarrow> (error + 'a) \<times> 's"

definition ret :: "'a \<Rightarrow> ('s, 'a) operation" where
  "ret x = (\<lambda>s. (Inr x, s))"

definition raise :: "error \<Rightarrow> ('s, 'a) operation" where
  "raise e = (\<lambda>s. (Inl e, s))"

definition reads :: "('s \<Rightarrow> 'a) \<Rightarrow> ('s, 'a) operation" where
  "reads f = (\<lambda>s. (Inr (f s), s))"

definition tries :: "('s \<Rightarrow> error + 'a) \<Rightarrow> ('s, 'a) operation" where
  "tries f = (\<lambda>s. (f s, s))"

definition bnd :: "('s, 'a) operation \<Rightarrow> ('a \<Rightarrow> ('s, 'b) operation) \<Rightarrow> ('s, 'b) operation" where
  "bnd m f = (\<lambda>s. case m s of (Inl e, s') \<Rightarrow> (Inl e, s') | (Inr x, s') \<Rightarrow> f x s')"

definition catching :: "('s, 'a) operation \<Rightarrow> (error \<Rightarrow> ('s, 'a) operation) \<Rightarrow> ('s, 'a) operation" where
  "catching m h = (\<lambda>s. case m s of (Inl e, s') \<Rightarrow> h e s' | (Inr x, s') \<Rightarrow> (Inr x, s'))"

definition transaction :: "('s, 'a) operation \<Rightarrow> ('s, 'a) operation" where
  "transaction m = (\<lambda>s. case m s of (Inl e, s') \<Rightarrow> (Inl e, s) | (Inr x, s') \<Rightarrow> (Inr x, s'))"

text \<open>The repositories' frame: a transaction whose IntegrityError becomes a return value.\<close>

definition atomically :: "'a \<Rightarrow> ('s, 'a) operation \<Rightarrow> ('s, 'a) operation" where
  "atomically conflict body =
     catching (transaction body)
       (\<lambda>e. if e = IntegrityError then ret conflict else raise e)"

fun each :: "('a \<Rightarrow> ('s, unit) operation) \<Rightarrow> 'a list \<Rightarrow> ('s, unit) operation" where
  "each f [] = ret ()"
| "each f (x # xs) = bnd (f x) (\<lambda>_. each f xs)"

lemmas [effects] =
  ret_def raise_def reads_def tries_def

lemma bnd_apply [effects]:
  "bnd m f s = (case fst (m s) of Inl e \<Rightarrow> (Inl e, snd (m s)) | Inr x \<Rightarrow> f x (snd (m s)))"
  by (simp add: bnd_def split: prod.splits sum.splits)

lemma transaction_apply [effects]:
  "transaction m s = (case fst (m s) of Inl e \<Rightarrow> (Inl e, s) | Inr x \<Rightarrow> (Inr x, snd (m s)))"
  by (simp add: transaction_def split: prod.splits sum.splits)

lemma catching_apply [effects]:
  "catching m h s = (case fst (m s) of Inl e \<Rightarrow> h e (snd (m s)) | Inr x \<Rightarrow> (Inr x, snd (m s)))"
  by (simp add: catching_def split: prod.splits sum.splits)

lemma bnd_ret [simp]: "bnd (ret x) f = f x"
  by (simp add: fun_eq_iff effects)

lemma bnd_raise [simp]: "bnd (raise e) f = raise e"
  by (simp add: fun_eq_iff effects)

lemma bnd_reads [simp]: "bnd (reads g) f s = f (g s) s"
  by (simp add: effects)

lemma bnd_tries: "bnd (tries g) f s = (case g s of Inl e \<Rightarrow> (Inl e, s) | Inr x \<Rightarrow> f x s)"
  by (simp add: effects split: sum.splits)

lemma atomically_cases:
  "atomically c m s =
     (case fst (m s) of
        Inl e \<Rightarrow> (if e = IntegrityError then (Inr c, s) else (Inl e, s))
      | Inr x \<Rightarrow> (Inr x, snd (m s)))"
  by (simp add: atomically_def effects split: sum.splits)

text \<open>An operation that left the state through an exception inside a transaction changed nothing.\<close>

lemma atomically_error_unchanged: "fst (atomically c m s) = Inl e \<Longrightarrow> snd (atomically c m s) = s"
  by (auto simp: atomically_cases split: sum.splits if_splits)

section \<open>Relations kept by operations\<close>

definition obeys :: "('s \<Rightarrow> 's \<Rightarrow> bool) \<Rightarrow> ('s, 'a) operation \<Rightarrow> bool" where
  "obeys R m \<longleftrightarrow> (\<forall>s. R s (snd (m s)))"

lemma obeysI: "(\<And>s. R s (snd (m s))) \<Longrightarrow> obeys R m"
  by (simp add: obeys_def)

lemma obeysD: "obeys R m \<Longrightarrow> R s (snd (m s))"
  by (simp add: obeys_def)

locale step_law =
  fixes R :: "'s \<Rightarrow> 's \<Rightarrow> bool"
  assumes law_refl: "R s s"
    and law_trans: "R s t \<Longrightarrow> R t u \<Longrightarrow> R s u"
begin

lemma ret: "obeys R (ret x)"
  by (simp add: obeys_def effects law_refl)

lemma raise: "obeys R (raise e)"
  by (simp add: obeys_def effects law_refl)

lemma reads: "obeys R (reads f)"
  by (simp add: obeys_def effects law_refl)

lemma tries: "obeys R (tries f)"
  by (simp add: obeys_def effects law_refl)

lemma bnd: "obeys R m \<Longrightarrow> (\<And>x. obeys R (f x)) \<Longrightarrow> obeys R (bnd m f)"
  by (auto simp: obeys_def effects split: sum.splits intro: law_trans)

lemma catching: "obeys R m \<Longrightarrow> (\<And>e. obeys R (h e)) \<Longrightarrow> obeys R (catching m h)"
  by (auto simp: obeys_def effects split: sum.splits intro: law_trans)

lemma transaction: "obeys R m \<Longrightarrow> obeys R (transaction m)"
  by (auto simp: obeys_def effects split: sum.splits intro: law_refl)

lemma if_op: "(b \<Longrightarrow> obeys R m) \<Longrightarrow> (\<not> b \<Longrightarrow> obeys R n) \<Longrightarrow> obeys R (if b then m else n)"
  by simp

lemma option_op:
  "(x = None \<Longrightarrow> obeys R m) \<Longrightarrow> (\<And>y. x = Some y \<Longrightarrow> obeys R (f y)) \<Longrightarrow>
   obeys R (case x of None \<Rightarrow> m | Some y \<Rightarrow> f y)"
  by (simp split: option.split)

lemma sum_op:
  "(\<And>y. x = Inl y \<Longrightarrow> obeys R (g y)) \<Longrightarrow> (\<And>y. x = Inr y \<Longrightarrow> obeys R (f y)) \<Longrightarrow>
   obeys R (case x of Inl y \<Rightarrow> g y | Inr y \<Rightarrow> f y)"
  by (simp split: sum.split)

lemma prod_op: "(\<And>a b. x = (a, b) \<Longrightarrow> obeys R (f a b)) \<Longrightarrow> obeys R (case x of (a, b) \<Rightarrow> f a b)"
  by (simp split: prod.split)

lemma atomically: "obeys R m \<Longrightarrow> obeys R (atomically c m)"
  unfolding atomically_def
  by (intro catching transaction if_op ret raise)

lemma each: "(\<And>x. obeys R (f x)) \<Longrightarrow> obeys R (each f xs)"
  by (induction xs) (auto intro: ret bnd)

lemmas rules = ret raise reads tries bnd catching transaction atomically each
  if_op option_op sum_op prod_op

end

section \<open>Tables\<close>

text \<open>
  \<open>scalar_one_or_none\<close> of a result: None, the single row, or MultipleResultsFound.
\<close>

fun scalar_one_or_none :: "'a list \<Rightarrow> error + 'a option" where
  "scalar_one_or_none [] = Inr None"
| "scalar_one_or_none [x] = Inr (Some x)"
| "scalar_one_or_none (x # y # zs) = Inl MultipleResultsFound"

definition rowcount :: "('r \<Rightarrow> bool) \<Rightarrow> 'r list \<Rightarrow> nat" where
  "rowcount P rows = length (filter P rows)"

definition update_rows :: "('r \<Rightarrow> bool) \<Rightarrow> ('r \<Rightarrow> 'r) \<Rightarrow> 'r list \<Rightarrow> 'r list" where
  "update_rows P f rows = map (\<lambda>r. if P r then f r else r) rows"

definition delete_rows :: "('r \<Rightarrow> bool) \<Rightarrow> 'r list \<Rightarrow> 'r list" where
  "delete_rows P rows = filter (\<lambda>r. \<not> P r) rows"

lemma length_update_rows [simp]: "length (update_rows P f rows) = length rows"
  by (simp add: update_rows_def)

lemma update_rows_none: "rowcount P rows = 0 \<Longrightarrow> update_rows P f rows = rows"
  by (induction rows) (auto simp: update_rows_def rowcount_def split: if_splits)

lemma delete_rows_none: "rowcount P rows = 0 \<Longrightarrow> delete_rows P rows = rows"
  by (induction rows) (auto simp: delete_rows_def rowcount_def split: if_splits)

lemma rowcount_pos_iff: "0 < rowcount P rows \<longleftrightarrow> (\<exists>r \<in> set rows. P r)"
  by (auto simp: rowcount_def filter_empty_conv)

lemma map_update_rows: "(\<And>r. k (f r) = k r) \<Longrightarrow> map k (update_rows P f rows) = map k rows"
  by (simp add: update_rows_def)

lemma set_update_rows: "r \<in> set (update_rows P f rows) \<longleftrightarrow>
    (\<exists>q \<in> set rows. r = (if P q then f q else q))"
  by (auto simp: update_rows_def)

lemma set_delete_rows [simp]: "set (delete_rows P rows) = {r \<in> set rows. \<not> P r}"
  by (auto simp: delete_rows_def)

lemma distinct_map_delete_rows: "distinct (map k rows) \<Longrightarrow> distinct (map k (delete_rows P rows))"
  by (simp add: delete_rows_def distinct_map_filter)

text \<open>A key that no two rows share makes a lookup by that key single-valued.\<close>

lemma distinct_key_Cons:
  "distinct (map k (a # rows)) \<Longrightarrow> q \<in> set rows \<Longrightarrow> k q \<noteq> k a"
  by (metis distinct.simps(2) image_eqI list.set_map list.simps(9))

lemma filter_key_cases:
  assumes "distinct (map k rows)"
  obtains "filter (\<lambda>r. k r = x) rows = []" | r where "filter (\<lambda>r. k r = x) rows = [r]"
proof -
  have "\<exists>r. filter (\<lambda>r. k r = x) rows = [r]" if "filter (\<lambda>r. k r = x) rows \<noteq> []"
    using assms that
  proof (induction rows)
    case (Cons a rows)
    show ?case
    proof (cases "k a = x")
      case True
      with distinct_key_Cons [OF Cons.prems(1)] have "filter (\<lambda>r. k r = x) rows = []"
        by (simp add: filter_empty_conv)
      with True show ?thesis by simp
    next
      case False
      with Cons show ?thesis by simp
    qed
  qed simp
  with that show thesis by blast
qed

lemma scalar_one_or_none_key:
  assumes "distinct (map k rows)"
  shows "\<exists>r. scalar_one_or_none (filter (\<lambda>r. k r = x) rows) = Inr r"
  using assms by (rule filter_key_cases [where x = x]) auto

lemma scalar_one_or_none_Some: "scalar_one_or_none xs = Inr (Some x) \<longleftrightarrow> xs = [x]"
  by (cases xs rule: scalar_one_or_none.cases) auto

lemma scalar_one_or_none_None: "scalar_one_or_none xs = Inr None \<longleftrightarrow> xs = []"
  by (cases xs rule: scalar_one_or_none.cases) auto

lemma filter_distinct_key:
  assumes "distinct (map k rows)" and "r \<in> set rows" and "P r"
    and "\<And>q. P q \<Longrightarrow> k q = k r"
  shows "filter P rows = [r]"
  using assms
proof (induction rows)
  case (Cons a rows)
  note ne = distinct_key_Cons [OF Cons.prems(1)]
  show ?case
  proof (cases "a = r")
    case True
    have "\<not> P q" if "q \<in> set rows" for q
      using ne [OF that] Cons.prems(4) [of q] True by blast
    then have "filter P rows = []" by (simp add: filter_empty_conv)
    with True Cons.prems(3) show ?thesis by simp
  next
    case False
    with Cons.prems(2) have "r \<in> set rows" by simp
    with ne [of r] Cons.prems(4) [of a] have "\<not> P a" by fastforce
    moreover have "filter P rows = [r]"
      using Cons.prems(1) by (intro Cons.IH \<open>r \<in> set rows\<close> Cons.prems(3,4)) simp_all
    ultimately show ?thesis by simp
  qed
qed simp

text \<open>At most one row matches a predicate that pins a unique key, so an update has row count 0 or 1.\<close>

lemma rowcount_unique_key:
  assumes "distinct (map k rows)" and "\<And>r. P r \<Longrightarrow> k r = x"
  shows "rowcount P rows \<le> 1"
proof -
  have "filter P rows = filter P (filter (\<lambda>r. k r = x) rows)"
    using assms(2) by (simp add: filter_filter) (metis)
  moreover have "length (filter (\<lambda>r. k r = x) rows) \<le> 1"
    using assms(1) by (rule filter_key_cases [where x = x]) auto
  ultimately show ?thesis
    by (metis length_filter_le le_trans rowcount_def)
qed

end
