(* ===== verification/Domain_Identity.thy ===== *)
theory Domain_Identity
  imports Console_Prelude
begin

text \<open>
  The identity side of the domain layer: users, login identities, e-mail addresses, password
  credentials, browser sessions, the one-time OAuth and password-recovery transactions and
  audit facts (\<open>domain/identity.py\<close>, \<open>domain/sessions.py\<close>,
  \<open>domain/identity_linking.py\<close>, \<open>domain/oauth_login.py\<close>,
  \<open>domain/password_recovery.py\<close>, \<open>domain/audit.py\<close>). Each class is a record; its
  \<open>__post_init__\<close> is the function with suffix \<open>_post_init\<close>, which returns the object or
  the ValueError.
\<close>

section \<open>Enumerations\<close>

datatype UserStatus = PENDING_VERIFICATION | USER_ACTIVE | SUSPENDED | DELETED

fun UserStatus_value :: "UserStatus \<Rightarrow> string" where
  "UserStatus_value PENDING_VERIFICATION = ''pending_verification''"
| "UserStatus_value USER_ACTIVE = ''active''"
| "UserStatus_value SUSPENDED = ''suspended''"
| "UserStatus_value DELETED = ''deleted''"

definition UserStatus_parse :: "string \<Rightarrow> UserStatus option" where
  "UserStatus_parse = enum_parse UserStatus_value [PENDING_VERIFICATION, USER_ACTIVE, SUSPENDED, DELETED]"

datatype LoginIdentityProvider =
  PROVIDER_EMAIL | PROVIDER_DISCORD | PROVIDER_TWITCH | PROVIDER_TELEGRAM | PROVIDER_GOOGLE | PROVIDER_YANDEX

fun LoginIdentityProvider_value :: "LoginIdentityProvider \<Rightarrow> string" where
  "LoginIdentityProvider_value PROVIDER_EMAIL = ''email''"
| "LoginIdentityProvider_value PROVIDER_DISCORD = ''discord''"
| "LoginIdentityProvider_value PROVIDER_TWITCH = ''twitch''"
| "LoginIdentityProvider_value PROVIDER_TELEGRAM = ''telegram''"
| "LoginIdentityProvider_value PROVIDER_GOOGLE = ''google''"
| "LoginIdentityProvider_value PROVIDER_YANDEX = ''yandex''"

definition LoginIdentityProvider_parse :: "string \<Rightarrow> LoginIdentityProvider option" where
  "LoginIdentityProvider_parse = enum_parse LoginIdentityProvider_value
     [PROVIDER_EMAIL, PROVIDER_DISCORD, PROVIDER_TWITCH, PROVIDER_TELEGRAM, PROVIDER_GOOGLE, PROVIDER_YANDEX]"

datatype SessionAssuranceLevel = ASSURANCE_PASSWORD | RECENT_AUTHENTICATION

fun SessionAssuranceLevel_value :: "SessionAssuranceLevel \<Rightarrow> string" where
  "SessionAssuranceLevel_value ASSURANCE_PASSWORD = ''password''"
| "SessionAssuranceLevel_value RECENT_AUTHENTICATION = ''recent_authentication''"

definition SessionAssuranceLevel_parse :: "string \<Rightarrow> SessionAssuranceLevel option" where
  "SessionAssuranceLevel_parse =
     enum_parse SessionAssuranceLevel_value [ASSURANCE_PASSWORD, RECENT_AUTHENTICATION]"

lemma UserStatus_parse_value [simp]: "UserStatus_parse (UserStatus_value s) = Some s"
  by (cases s) (simp_all add: UserStatus_parse_def enum_parse_def)

lemma LoginIdentityProvider_parse_value [simp]:
  "LoginIdentityProvider_parse (LoginIdentityProvider_value p) = Some p"
  by (cases p) (simp_all add: LoginIdentityProvider_parse_def enum_parse_def)

lemma SessionAssuranceLevel_parse_value [simp]:
  "SessionAssuranceLevel_parse (SessionAssuranceLevel_value a) = Some a"
  by (cases a) (simp_all add: SessionAssuranceLevel_parse_def enum_parse_def)

lemma LoginIdentityProvider_value_inject [simp]:
  "LoginIdentityProvider_value p = LoginIdentityProvider_value q \<longleftrightarrow> p = q"
  by (metis LoginIdentityProvider_parse_value option.inject)

lemma UserStatus_value_inject [simp]: "UserStatus_value p = UserStatus_value q \<longleftrightarrow> p = q"
  by (metis UserStatus_parse_value option.inject)

section \<open>Users and login identities\<close>

record User =
  user_id :: uuid
  user_status :: UserStatus
  user_display_name :: string

definition User_post_init :: "User \<Rightarrow> error + User" where
  "User_post_init u = checked
     [(py_strip (user_display_name u) = [] \<or> length (user_display_name u) > 64,
       ''Display name must contain 1 to 64 non-blank characters.'')] u"

record LoginIdentity =
  identity_id :: uuid
  identity_user_id :: uuid
  identity_provider :: LoginIdentityProvider
  identity_provider_subject :: string

definition LoginIdentity_post_init :: "LoginIdentity \<Rightarrow> error + LoginIdentity" where
  "LoginIdentity_post_init i = checked
     [(identity_provider_subject i = [] \<or> length (identity_provider_subject i) > 255,
       ''Provider subject must contain 1 to 255 characters.'')] i"

record LoginIdentityProfile =
  profile_id :: uuid
  profile_user_id :: uuid
  profile_provider :: LoginIdentityProvider
  profile_linked_at :: datetime
  profile_last_used_at :: "datetime option"

definition LoginIdentityProfile_post_init :: "LoginIdentityProfile \<Rightarrow> error + LoginIdentityProfile" where
  "LoginIdentityProfile_post_init p = checked
     [(\<not> tz_aware (profile_linked_at p), ''Identity link time must be timezone-aware.''),
      (\<not> opt_aware (profile_last_used_at p), ''Identity last-used time must be timezone-aware.'')] p"

record UserEmail =
  email_id :: uuid
  email_user_id :: uuid
  email_ciphertext :: string
  email_lookup_hash :: string
  email_is_primary :: bool

definition UserEmail_post_init :: "UserEmail \<Rightarrow> error + UserEmail" where
  "UserEmail_post_init e = checked
     [(email_ciphertext e = [], ''Email ciphertext must not be empty.''),
      (length (email_lookup_hash e) \<noteq> 64,
       ''Email lookup hash must be a SHA-256-sized hex digest.'')] e"

record PasswordCredential =
  credential_user_id :: uuid
  credential_password_hash :: string

definition PasswordCredential_post_init :: "PasswordCredential \<Rightarrow> error + PasswordCredential" where
  "PasswordCredential_post_init c = checked
     [(\<not> py_startswith (credential_password_hash c) ''$argon2id$'',
       ''Password credential must use Argon2id.'')] c"

record EmailPasswordRegistration =
  registration_user :: User
  registration_identity :: LoginIdentity
  registration_email :: UserEmail
  registration_password_credential :: PasswordCredential

definition EmailPasswordRegistration_post_init ::
  "EmailPasswordRegistration \<Rightarrow> error + EmailPasswordRegistration" where
  "EmailPasswordRegistration_post_init r =
     (let uid = user_id (registration_user r) in checked
       [(\<exists>related \<in> set [identity_user_id (registration_identity r),
                        email_user_id (registration_email r),
                        credential_user_id (registration_password_credential r)]. related \<noteq> uid,
         ''Email/password registration records must belong to one user.''),
        (identity_provider (registration_identity r) \<noteq> PROVIDER_EMAIL,
         ''Email/password registration must create an email identity.'')] r)"

record EmailPasswordAccount =
  account_user_id :: uuid
  account_status :: UserStatus
  account_password_hash :: string

definition EmailPasswordAccount_post_init :: "EmailPasswordAccount \<Rightarrow> error + EmailPasswordAccount" where
  "EmailPasswordAccount_post_init a = checked
     [(\<not> py_startswith (account_password_hash a) ''$argon2id$'',
       ''Email/password account must hold an Argon2id credential.'')] a"

section \<open>Browser sessions\<close>

record AuthSession =
  session_id :: uuid
  session_user_id :: uuid
  session_token_hash :: string
  session_expires_at :: datetime
  session_assurance_level :: SessionAssuranceLevel
  session_revoked_at :: "datetime option"
  session_authenticated_at :: "datetime option"
  session_last_seen_at :: "datetime option"
  session_ip_hash :: "string option"
  session_user_agent_hash :: "string option"

definition opt_digest :: "string option \<Rightarrow> bool" where
  "opt_digest h = (case h of None \<Rightarrow> True | Some d \<Rightarrow> length d = 64)"

definition AuthSession_post_init :: "AuthSession \<Rightarrow> error + AuthSession" where
  "AuthSession_post_init s = checked
     [(length (session_token_hash s) \<noteq> 64, ''Session token hash must be a SHA-256-sized hex digest.''),
      (\<not> tz_aware (session_expires_at s), ''Session expiry must be timezone-aware.''),
      (\<not> opt_aware (session_revoked_at s), ''Session revocation time must be timezone-aware.''),
      (\<not> opt_aware (session_authenticated_at s), ''Session authentication time must be timezone-aware.''),
      (\<not> opt_aware (session_last_seen_at s), ''Session last-seen time must be timezone-aware.''),
      (\<not> opt_digest (session_ip_hash s), ''Session IP hash must be a SHA-256-sized hex digest.''),
      (\<not> opt_digest (session_user_agent_hash s),
       ''Session user-agent hash must be a SHA-256-sized hex digest.'')] s"

definition session_is_active_at :: "AuthSession \<Rightarrow> datetime \<Rightarrow> error + bool" where
  "session_is_active_at s t = checked
     [(\<not> tz_aware t, ''Session checks require a timezone-aware instant.'')]
     (session_revoked_at s = None \<and> dt_lt t (session_expires_at s))"

section \<open>One-time transactions\<close>

record IdentityLinkTransaction =
  linktx_id :: uuid
  linktx_user_id :: uuid
  linktx_provider :: LoginIdentityProvider
  linktx_state_hash :: string
  linktx_code_verifier_ciphertext :: string
  linktx_expires_at :: datetime
  linktx_consumed_at :: "datetime option"

definition IdentityLinkTransaction_post_init ::
  "IdentityLinkTransaction \<Rightarrow> error + IdentityLinkTransaction" where
  "IdentityLinkTransaction_post_init t = checked
     [(linktx_provider t = PROVIDER_EMAIL, ''E-mail is not an external OAuth identity provider.''),
      (length (linktx_state_hash t) \<noteq> 64, ''OAuth state hash must be a SHA-256-sized hex digest.''),
      (linktx_code_verifier_ciphertext t = [], ''OAuth PKCE verifier ciphertext must not be empty.''),
      (\<not> tz_aware (linktx_expires_at t), ''OAuth transaction expiry must be timezone-aware.''),
      (\<not> opt_aware (linktx_consumed_at t), ''OAuth transaction consumption must be timezone-aware.'')] t"

definition linktx_is_usable_at :: "IdentityLinkTransaction \<Rightarrow> datetime \<Rightarrow> error + bool" where
  "linktx_is_usable_at t i = checked
     [(\<not> tz_aware i, ''OAuth transaction checks require a timezone-aware instant.'')]
     (linktx_consumed_at t = None \<and> dt_lt i (linktx_expires_at t))"

record OAuthLoginTransaction =
  logintx_id :: uuid
  logintx_provider :: LoginIdentityProvider
  logintx_state_hash :: string
  logintx_code_verifier_ciphertext :: string
  logintx_expires_at :: datetime

definition OAuthLoginTransaction_post_init ::
  "OAuthLoginTransaction \<Rightarrow> error + OAuthLoginTransaction" where
  "OAuthLoginTransaction_post_init t = checked
     [(logintx_provider t = PROVIDER_EMAIL, ''Email is not an OAuth login provider.''),
      (length (logintx_state_hash t) \<noteq> 64, ''OAuth login state hash must be SHA-256-sized.''),
      (\<not> tz_aware (logintx_expires_at t), ''OAuth login expiry must be timezone-aware.'')] t"

record PasswordRecoveryTransaction =
  recovery_id :: uuid
  recovery_user_id :: uuid
  recovery_token_hash :: string
  recovery_expires_at :: datetime
  recovery_consumed_at :: "datetime option"

definition PasswordRecoveryTransaction_post_init ::
  "PasswordRecoveryTransaction \<Rightarrow> error + PasswordRecoveryTransaction" where
  "PasswordRecoveryTransaction_post_init t = checked
     [(length (recovery_token_hash t) \<noteq> 64, ''Password recovery token hash must be SHA-256-sized.''),
      (\<not> tz_aware (recovery_expires_at t), ''Password recovery expiry must be timezone-aware.''),
      (\<not> opt_aware (recovery_consumed_at t),
       ''Password recovery consumption time must be timezone-aware.'')] t"

definition recovery_is_active_at :: "PasswordRecoveryTransaction \<Rightarrow> datetime \<Rightarrow> error + bool" where
  "recovery_is_active_at t i = checked
     [(\<not> tz_aware i, ''Password recovery checks require a timezone-aware instant.'')]
     (recovery_consumed_at t = None \<and> dt_lt i (recovery_expires_at t))"

section \<open>Audit facts\<close>

record AuditEvent =
  audit_id :: uuid
  audit_correlation_id :: uuid
  audit_actor_id :: "uuid option"
  audit_organization_id :: "uuid option"
  audit_action :: string
  audit_resource_type :: string
  audit_resource_id :: "string option"
  audit_result :: string

definition AuditEvent_post_init :: "AuditEvent \<Rightarrow> error + AuditEvent" where
  "AuditEvent_post_init e = checked
     [(audit_action e = [] \<or> audit_resource_type e = [] \<or> audit_result e = [],
       ''Audit event action, resource type and result are required.'')] e"

record AuditLogEntry =
  entry_id :: uuid
  entry_correlation_id :: uuid
  entry_actor_id :: "uuid option"
  entry_action :: string
  entry_resource_type :: string
  entry_resource_id :: "string option"
  entry_result :: string
  entry_created_at :: datetime

definition AuditLogEntry_post_init :: "AuditLogEntry \<Rightarrow> error + AuditLogEntry" where
  "AuditLogEntry_post_init e = checked
     [(entry_action e = [] \<or> entry_resource_type e = [] \<or> entry_result e = [],
       ''Audit log entry action, resource type and result are required.''),
      (\<not> tz_aware (entry_created_at e), ''Audit log entry creation time must be timezone-aware.'')] e"

end
