(* ===== verification/Domain_Organizations.thy ===== *)
theory Domain_Organizations
  imports Console_Prelude
begin

text \<open>
  Organizations, roles, resource scopes, memberships, the authorization facts and the membership
  invitations (\<open>domain/authorization.py\<close>, \<open>domain/organizations.py\<close>,
  \<open>domain/organization_invitations.py\<close>). A frozenset of scopes is the duplicate-free list of
  its elements.
\<close>

section \<open>Authorization facts\<close>

datatype AuthorizationAction = ACTION_READ | ACTION_MANAGE

fun AuthorizationAction_value :: "AuthorizationAction \<Rightarrow> string" where
  "AuthorizationAction_value ACTION_READ = ''read''"
| "AuthorizationAction_value ACTION_MANAGE = ''manage''"

definition AuthorizationAction_parse :: "string \<Rightarrow> AuthorizationAction option" where
  "AuthorizationAction_parse = enum_parse AuthorizationAction_value [ACTION_READ, ACTION_MANAGE]"

datatype AuthorizationResource =
  CONTROL_MODULES | PLATFORM_CONNECTIONS | AUDIT_EVENTS | ORGANIZATION_MEMBERS

fun AuthorizationResource_value :: "AuthorizationResource \<Rightarrow> string" where
  "AuthorizationResource_value CONTROL_MODULES = ''console.control_modules''"
| "AuthorizationResource_value PLATFORM_CONNECTIONS = ''console.platform_connections''"
| "AuthorizationResource_value AUDIT_EVENTS = ''console.audit_events''"
| "AuthorizationResource_value ORGANIZATION_MEMBERS = ''console.organization_members''"

definition AuthorizationResource_parse :: "string \<Rightarrow> AuthorizationResource option" where
  "AuthorizationResource_parse = enum_parse AuthorizationResource_value
     [CONTROL_MODULES, PLATFORM_CONNECTIONS, AUDIT_EVENTS, ORGANIZATION_MEMBERS]"

record AuthorizationRequest =
  request_actor_id :: uuid
  request_organization_id :: uuid
  request_resource :: AuthorizationResource
  request_action :: AuthorizationAction

section \<open>Roles and scopes\<close>

datatype OrganizationRole = OWNER | ADMIN | MODERATOR | ANALYST | VIEWER

fun OrganizationRole_value :: "OrganizationRole \<Rightarrow> string" where
  "OrganizationRole_value OWNER = ''owner''"
| "OrganizationRole_value ADMIN = ''admin''"
| "OrganizationRole_value MODERATOR = ''moderator''"
| "OrganizationRole_value ANALYST = ''analyst''"
| "OrganizationRole_value VIEWER = ''viewer''"

definition OrganizationRole_parse :: "string \<Rightarrow> OrganizationRole option" where
  "OrganizationRole_parse =
     enum_parse OrganizationRole_value [OWNER, ADMIN, MODERATOR, ANALYST, VIEWER]"

fun ROLE_RANK :: "OrganizationRole \<Rightarrow> nat" where
  "ROLE_RANK OWNER = 0"
| "ROLE_RANK ADMIN = 1"
| "ROLE_RANK MODERATOR = 2"
| "ROLE_RANK ANALYST = 3"
| "ROLE_RANK VIEWER = 4"

definition may_assign :: "OrganizationRole \<Rightarrow> OrganizationRole \<Rightarrow> bool" where
  "may_assign self target \<longleftrightarrow> ROLE_RANK self < ROLE_RANK target"

definition role_supports_pair ::
  "OrganizationRole \<Rightarrow> AuthorizationResource \<Rightarrow> AuthorizationAction \<Rightarrow> bool" where
  "role_supports_pair role resource action =
     (case resource of
        ORGANIZATION_MEMBERS \<Rightarrow> role \<in> {OWNER, ADMIN}
      | CONTROL_MODULES \<Rightarrow> action = ACTION_READ
      | PLATFORM_CONNECTIONS \<Rightarrow> role = ADMIN \<and> action \<in> {ACTION_READ, ACTION_MANAGE}
      | AUDIT_EVENTS \<Rightarrow> role \<in> {ADMIN, ANALYST} \<and> action = ACTION_READ)"

definition role_supports :: "OrganizationRole \<Rightarrow> AuthorizationRequest \<Rightarrow> bool" where
  "role_supports role request =
     role_supports_pair role (request_resource request) (request_action request)"

record MembershipResourceScope =
  scope_resource :: AuthorizationResource
  scope_action :: AuthorizationAction
  scope_id :: "uuid option"

definition supports_scope :: "OrganizationRole \<Rightarrow> MembershipResourceScope \<Rightarrow> bool" where
  "supports_scope role scope = role_supports_pair role (scope_resource scope) (scope_action scope)"

definition scope_allows :: "MembershipResourceScope \<Rightarrow> AuthorizationRequest \<Rightarrow> bool" where
  "scope_allows scope request \<longleftrightarrow>
     scope_resource scope = request_resource request \<and> scope_action scope = request_action request"

section \<open>Organizations and memberships\<close>

record Organization =
  organization_id :: uuid
  organization_name :: string
  organization_slug :: string

definition Organization_post_init :: "Organization \<Rightarrow> error + Organization" where
  "Organization_post_init org = checked
     [(py_strip (organization_name org) = [] \<or> length (organization_name org) > 128,
       ''Organization name must contain 1 to 128 non-blank characters.''),
      (organization_slug org = [] \<or> length (organization_slug org) > 96,
       ''Organization slug must contain 1 to 96 characters.'')] org"

record OrganizationMembership =
  member_actor_id :: uuid
  member_organization_id :: uuid
  member_role :: OrganizationRole
  member_resource_scopes :: "MembershipResourceScope list"
  member_id :: "uuid option"

definition membership_allows :: "OrganizationMembership \<Rightarrow> AuthorizationRequest \<Rightarrow> bool" where
  "membership_allows m request =
     (if request_actor_id request \<noteq> member_actor_id m
         \<or> request_organization_id request \<noteq> member_organization_id m then False
      else if member_role m = OWNER then True
      else if \<not> role_supports (member_role m) request then False
      else list_ex (\<lambda>scope. scope_allows scope request) (member_resource_scopes m))"

record OrganizationMemberProfile =
  mprofile_membership :: OrganizationMembership
  mprofile_display_name :: string

definition OrganizationMemberProfile_post_init ::
  "OrganizationMemberProfile \<Rightarrow> error + OrganizationMemberProfile" where
  "OrganizationMemberProfile_post_init p = checked
     [(py_strip (mprofile_display_name p) = [] \<or> length (mprofile_display_name p) > 64,
       ''Organization member display name must contain 1 to 64 characters.'')] p"

record OrganizationMembershipProfile =
  oprofile_organization :: Organization
  oprofile_membership :: OrganizationMembership

section \<open>Invitations\<close>

datatype OrganizationInvitationStatus = INVITATION_PENDING | ACCEPTED | INVITATION_REVOKED | EXPIRED

datatype OrganizationInvitationDeliveryStatus = SENT | UNAVAILABLE | FAILED

fun OrganizationInvitationDeliveryStatus_value :: "OrganizationInvitationDeliveryStatus \<Rightarrow> string" where
  "OrganizationInvitationDeliveryStatus_value SENT = ''sent''"
| "OrganizationInvitationDeliveryStatus_value UNAVAILABLE = ''unavailable''"
| "OrganizationInvitationDeliveryStatus_value FAILED = ''failed''"

definition OrganizationInvitationDeliveryStatus_parse ::
  "string \<Rightarrow> OrganizationInvitationDeliveryStatus option" where
  "OrganizationInvitationDeliveryStatus_parse =
     enum_parse OrganizationInvitationDeliveryStatus_value [SENT, UNAVAILABLE, FAILED]"

record OrganizationInvitation =
  invitation_id :: uuid
  invitation_organization_id :: uuid
  invitation_invited_by_user_id :: uuid
  invitation_email_lookup_hash :: string
  invitation_email_hint :: string
  invitation_email_ciphertext :: string
  invitation_token_hash :: string
  invitation_role :: OrganizationRole
  invitation_resource_scopes :: "MembershipResourceScope list"
  invitation_expires_at :: datetime
  invitation_created_at :: datetime
  invitation_accepted_at :: "datetime option"
  invitation_revoked_at :: "datetime option"
  invitation_delivery_status :: "OrganizationInvitationDeliveryStatus option"

definition OrganizationInvitation_post_init ::
  "OrganizationInvitation \<Rightarrow> error + OrganizationInvitation" where
  "OrganizationInvitation_post_init i = checked
     [(length (invitation_email_lookup_hash i) \<noteq> 64,
       ''Invitation e-mail lookup hash must be a SHA-256 hex digest.''),
      (length (invitation_token_hash i) \<noteq> 64,
       ''Invitation token hash must be a SHA-256 hex digest.''),
      (py_strip (invitation_email_hint i) = [] \<or> length (invitation_email_hint i) > 192,
       ''Invitation e-mail hint must contain 1 to 192 characters.''),
      (invitation_email_ciphertext i = [],
       ''Invitation e-mail ciphertext must not be empty.''),
      (\<not> tz_aware (invitation_created_at i) \<or> \<not> tz_aware (invitation_expires_at i),
       ''Invitation timestamps must be timezone-aware.''),
      (dt_le (invitation_expires_at i) (invitation_created_at i),
       ''Invitation expiry must be after creation.''),
      (invitation_accepted_at i \<noteq> None \<and> invitation_revoked_at i \<noteq> None,
       ''Invitation cannot be accepted and revoked at the same time.'')] i"

definition status_at :: "OrganizationInvitation \<Rightarrow> datetime \<Rightarrow> error + OrganizationInvitationStatus" where
  "status_at i now = checked
     [(\<not> tz_aware now, ''Invitation status checks require a timezone-aware timestamp.'')]
     (if invitation_accepted_at i \<noteq> None then ACCEPTED
      else if invitation_revoked_at i \<noteq> None then INVITATION_REVOKED
      else if dt_le (invitation_expires_at i) now then EXPIRED
      else INVITATION_PENDING)"

section \<open>Value tables\<close>

lemma AuthorizationAction_parse_value [simp]:
  "AuthorizationAction_parse (AuthorizationAction_value a) = Some a"
  by (cases a) (simp_all add: AuthorizationAction_parse_def enum_parse_def)

lemma AuthorizationResource_parse_value [simp]:
  "AuthorizationResource_parse (AuthorizationResource_value r) = Some r"
  by (cases r) (simp_all add: AuthorizationResource_parse_def enum_parse_def)

lemma OrganizationRole_parse_value [simp]: "OrganizationRole_parse (OrganizationRole_value r) = Some r"
  by (cases r) (simp_all add: OrganizationRole_parse_def enum_parse_def)

lemma OrganizationInvitationDeliveryStatus_parse_value [simp]:
  "OrganizationInvitationDeliveryStatus_parse (OrganizationInvitationDeliveryStatus_value d) = Some d"
  by (cases d) (simp_all add: OrganizationInvitationDeliveryStatus_parse_def enum_parse_def)

lemma OrganizationRole_parse_Some: "OrganizationRole_parse s = Some r \<Longrightarrow> s = OrganizationRole_value r"
  unfolding OrganizationRole_parse_def by (drule enum_parse_Some) simp

lemma OrganizationRole_value_inject [simp]:
  "OrganizationRole_value r = OrganizationRole_value q \<longleftrightarrow> r = q"
  by (metis OrganizationRole_parse_value option.inject)

section \<open>The role hierarchy\<close>

text \<open>The roles are linearly ordered by \<open>_ROLE_RANK\<close>; granting goes strictly upwards in this order.\<close>

instantiation OrganizationRole :: linorder
begin

definition less_eq_OrganizationRole :: "OrganizationRole \<Rightarrow> OrganizationRole \<Rightarrow> bool" where
  "less_eq_OrganizationRole r q \<longleftrightarrow> ROLE_RANK r \<le> ROLE_RANK q"

definition less_OrganizationRole :: "OrganizationRole \<Rightarrow> OrganizationRole \<Rightarrow> bool" where
  "less_OrganizationRole r q \<longleftrightarrow> ROLE_RANK r < ROLE_RANK q"

instance
proof
  fix r q :: OrganizationRole
  show "r \<le> q \<Longrightarrow> q \<le> r \<Longrightarrow> r = q"
    by (cases r; cases q) (simp_all add: less_eq_OrganizationRole_def)
qed (auto simp: less_eq_OrganizationRole_def less_OrganizationRole_def)

end

lemma may_assign_less: "may_assign r q \<longleftrightarrow> r < q"
  by (simp add: may_assign_def less_OrganizationRole_def)

lemma not_less_OWNER [simp]: "\<not> r < OWNER"
  by (simp add: less_OrganizationRole_def)

lemma may_assign_OWNER [simp]: "\<not> may_assign r OWNER"
  by (simp add: may_assign_less)

lemma membership_allows_cases:
  "membership_allows m req \<Longrightarrow>
     request_actor_id req = member_actor_id m \<and> request_organization_id req = member_organization_id m \<and>
     (member_role m = OWNER \<or>
      role_supports (member_role m) req \<and>
      (\<exists>scope \<in> set (member_resource_scopes m). scope_allows scope req))"
  by (auto simp: membership_allows_def list_ex_iff split: if_splits)

end
