(* ===== verification/Domain_Connections.thy ===== *)
theory Domain_Connections
  imports Console_Prelude
begin

text \<open>
  Platforms, the life cycle of a platform connection, its capability keys and the decisions of
  the reconciliation probes (\<open>domain/activity.py\<close>, \<open>domain/connection_status_reason.py\<close>,
  \<open>domain/connections.py\<close>, \<open>domain/connection_reconciliation.py\<close>,
  \<open>domain/platform_connection_capabilities.py\<close>,
  \<open>application/platform_connection_lifecycle_action.py\<close>).
\<close>

section \<open>Platforms and status values\<close>

datatype Platform = DISCORD | TWITCH | TELEGRAM

fun Platform_value :: "Platform \<Rightarrow> string" where
  "Platform_value DISCORD = ''discord''"
| "Platform_value TWITCH = ''twitch''"
| "Platform_value TELEGRAM = ''telegram''"

definition Platform_parse :: "string \<Rightarrow> Platform option" where
  "Platform_parse = enum_parse Platform_value [DISCORD, TWITCH, TELEGRAM]"

datatype ConnectionStatus = CONN_PENDING | CONN_ACTIVE | DEGRADED | REAUTH_REQUIRED | CONN_DISCONNECTED

fun ConnectionStatus_value :: "ConnectionStatus \<Rightarrow> string" where
  "ConnectionStatus_value CONN_PENDING = ''pending''"
| "ConnectionStatus_value CONN_ACTIVE = ''active''"
| "ConnectionStatus_value DEGRADED = ''degraded''"
| "ConnectionStatus_value REAUTH_REQUIRED = ''reauth_required''"
| "ConnectionStatus_value CONN_DISCONNECTED = ''disconnected''"

definition ConnectionStatus_parse :: "string \<Rightarrow> ConnectionStatus option" where
  "ConnectionStatus_parse = enum_parse ConnectionStatus_value
     [CONN_PENDING, CONN_ACTIVE, DEGRADED, REAUTH_REQUIRED, CONN_DISCONNECTED]"

datatype ConnectionStatusReason =
    INITIAL_PENDING | REASON_HEALTHY | REASON_PREFLIGHT_FAILED | REASON_TOKEN_EXPIRED
  | REASON_SCOPES_MISSING | REASON_PLATFORM_UNREACHABLE | REASON_RESOURCE_REMOVED
  | REAUTHORIZED | REVOKED | REASON_DISCONNECTED

fun ConnectionStatusReason_value :: "ConnectionStatusReason \<Rightarrow> string" where
  "ConnectionStatusReason_value INITIAL_PENDING = ''initial_pending''"
| "ConnectionStatusReason_value REASON_HEALTHY = ''healthy''"
| "ConnectionStatusReason_value REASON_PREFLIGHT_FAILED = ''preflight_failed''"
| "ConnectionStatusReason_value REASON_TOKEN_EXPIRED = ''token_expired''"
| "ConnectionStatusReason_value REASON_SCOPES_MISSING = ''scopes_missing''"
| "ConnectionStatusReason_value REASON_PLATFORM_UNREACHABLE = ''platform_unreachable''"
| "ConnectionStatusReason_value REASON_RESOURCE_REMOVED = ''resource_removed''"
| "ConnectionStatusReason_value REAUTHORIZED = ''reauthorized''"
| "ConnectionStatusReason_value REVOKED = ''revoked''"
| "ConnectionStatusReason_value REASON_DISCONNECTED = ''disconnected''"

definition ConnectionStatusReason_parse :: "string \<Rightarrow> ConnectionStatusReason option" where
  "ConnectionStatusReason_parse = enum_parse ConnectionStatusReason_value
     [INITIAL_PENDING, REASON_HEALTHY, REASON_PREFLIGHT_FAILED, REASON_TOKEN_EXPIRED,
      REASON_SCOPES_MISSING, REASON_PLATFORM_UNREACHABLE, REASON_RESOURCE_REMOVED,
      REAUTHORIZED, REVOKED, REASON_DISCONNECTED]"

section \<open>Connections and their transitions\<close>

fun ALLOWED_TRANSITIONS :: "ConnectionStatus \<Rightarrow> ConnectionStatus list" where
  "ALLOWED_TRANSITIONS CONN_PENDING = [CONN_ACTIVE, DEGRADED, REAUTH_REQUIRED, CONN_DISCONNECTED]"
| "ALLOWED_TRANSITIONS CONN_ACTIVE = [DEGRADED, REAUTH_REQUIRED, CONN_DISCONNECTED]"
| "ALLOWED_TRANSITIONS DEGRADED = [CONN_ACTIVE, REAUTH_REQUIRED, CONN_DISCONNECTED]"
| "ALLOWED_TRANSITIONS REAUTH_REQUIRED = [CONN_ACTIVE, CONN_DISCONNECTED]"
| "ALLOWED_TRANSITIONS CONN_DISCONNECTED = []"

record PlatformConnection =
  connection_id :: uuid
  connection_organization_id :: uuid
  connection_platform :: Platform
  connection_external_resource_id :: string
  connection_status :: ConnectionStatus
  connection_status_reason :: "ConnectionStatusReason option"
  connection_granted_capabilities :: "string list"

definition PlatformConnection_post_init :: "PlatformConnection \<Rightarrow> error + PlatformConnection" where
  "PlatformConnection_post_init c = checked
     [(py_strip (connection_external_resource_id c) = []
         \<or> length (connection_external_resource_id c) > 255,
       ''External resource identifier must contain 1 to 255 characters.''),
      (list_ex (\<lambda>capability. py_strip capability = [] \<or> length capability > 128)
         (connection_granted_capabilities c),
       ''Connection capability keys must contain 1 to 128 characters.''),
      (\<not> distinct (connection_granted_capabilities c),
       ''Connection capability keys must be unique.'')] c"

definition transition_to ::
  "PlatformConnection \<Rightarrow> ConnectionStatus \<Rightarrow> ConnectionStatusReason option \<Rightarrow> error + PlatformConnection" where
  "transition_to c target reason =
     (if target \<notin> set (ALLOWED_TRANSITIONS (connection_status c))
      then Inl (ValueError (''Cannot transition connection from '' @
             ConnectionStatus_value (connection_status c) @ '' to '' @
             ConnectionStatus_value target @ ''.''))
      else PlatformConnection_post_init
        \<lparr>connection_id = connection_id c,
         connection_organization_id = connection_organization_id c,
         connection_platform = connection_platform c,
         connection_external_resource_id = connection_external_resource_id c,
         connection_status = target,
         connection_status_reason = reason,
         connection_granted_capabilities = connection_granted_capabilities c\<rparr>)"

record PlatformConnectionLifecycleIdempotencyResult =
  idem_organization_id :: uuid
  idem_connection_id :: uuid
  idem_action :: string
  idem_result_status :: ConnectionStatus
  idem_result_reason :: "ConnectionStatusReason option"

definition PlatformConnectionLifecycleIdempotencyResult_post_init ::
  "PlatformConnectionLifecycleIdempotencyResult \<Rightarrow> error + PlatformConnectionLifecycleIdempotencyResult" where
  "PlatformConnectionLifecycleIdempotencyResult_post_init r = checked
     [(py_strip (idem_action r) = [], ''Lifecycle idempotency action must be non-empty.'')] r"

fun capability_keys_for_platform :: "Platform \<Rightarrow> string list" where
  "capability_keys_for_platform DISCORD = [''discord.guild.read'', ''discord.guild.manage'']"
| "capability_keys_for_platform TWITCH = [''twitch.channel.read'', ''twitch.channel.manage'']"
| "capability_keys_for_platform TELEGRAM = [''telegram.chat.read'', ''telegram.chat.manage'']"

section \<open>Life-cycle actions of a user\<close>

datatype PlatformConnectionLifecycleAction = REAUTHORIZE | REVOKE | DISCONNECT

fun lifecycle_action_value :: "PlatformConnectionLifecycleAction \<Rightarrow> string" where
  "lifecycle_action_value REAUTHORIZE = ''reauthorize''"
| "lifecycle_action_value REVOKE = ''revoke''"
| "lifecycle_action_value DISCONNECT = ''disconnect''"

fun target_status :: "PlatformConnectionLifecycleAction \<Rightarrow> ConnectionStatus" where
  "target_status REAUTHORIZE = CONN_ACTIVE"
| "target_status REVOKE = REAUTH_REQUIRED"
| "target_status DISCONNECT = CONN_DISCONNECTED"

definition audit_action_name :: "PlatformConnectionLifecycleAction \<Rightarrow> string" where
  "audit_action_name a = ''platform_connection.'' @ lifecycle_action_value a"

fun status_reason :: "PlatformConnectionLifecycleAction \<Rightarrow> ConnectionStatusReason" where
  "status_reason REAUTHORIZE = REAUTHORIZED"
| "status_reason REVOKE = REVOKED"
| "status_reason DISCONNECT = REASON_DISCONNECTED"

section \<open>Reconciliation decisions\<close>

datatype ConnectionReconciliationReason =
  HEALTHY | PREFLIGHT_FAILED | TOKEN_EXPIRED | SCOPES_MISSING | PLATFORM_UNREACHABLE | RESOURCE_REMOVED

fun ConnectionReconciliationReason_value :: "ConnectionReconciliationReason \<Rightarrow> string" where
  "ConnectionReconciliationReason_value HEALTHY = ''healthy''"
| "ConnectionReconciliationReason_value PREFLIGHT_FAILED = ''preflight_failed''"
| "ConnectionReconciliationReason_value TOKEN_EXPIRED = ''token_expired''"
| "ConnectionReconciliationReason_value SCOPES_MISSING = ''scopes_missing''"
| "ConnectionReconciliationReason_value PLATFORM_UNREACHABLE = ''platform_unreachable''"
| "ConnectionReconciliationReason_value RESOURCE_REMOVED = ''resource_removed''"

fun ALLOWED_TARGET_STATUSES :: "ConnectionReconciliationReason \<Rightarrow> ConnectionStatus list" where
  "ALLOWED_TARGET_STATUSES HEALTHY = [CONN_PENDING, CONN_ACTIVE, DEGRADED]"
| "ALLOWED_TARGET_STATUSES PREFLIGHT_FAILED = [CONN_PENDING, DEGRADED]"
| "ALLOWED_TARGET_STATUSES TOKEN_EXPIRED = [REAUTH_REQUIRED]"
| "ALLOWED_TARGET_STATUSES SCOPES_MISSING = [REAUTH_REQUIRED]"
| "ALLOWED_TARGET_STATUSES PLATFORM_UNREACHABLE = [DEGRADED]"
| "ALLOWED_TARGET_STATUSES RESOURCE_REMOVED = [CONN_DISCONNECTED]"

record ConnectionReconciliationDecision =
  decision_target_status :: ConnectionStatus
  decision_reason :: ConnectionReconciliationReason

definition ConnectionReconciliationDecision_post_init ::
  "ConnectionReconciliationDecision \<Rightarrow> error + ConnectionReconciliationDecision" where
  "ConnectionReconciliationDecision_post_init d = checked
     [(decision_target_status d \<notin> set (ALLOWED_TARGET_STATUSES (decision_reason d)),
       ''Connection reconciliation reason does not match target status.'')] d"

section \<open>Facts on the value tables and the transition table\<close>

lemma Platform_parse_value [simp]: "Platform_parse (Platform_value p) = Some p"
  by (cases p) (simp_all add: Platform_parse_def enum_parse_def)

lemma ConnectionStatus_parse_value [simp]: "ConnectionStatus_parse (ConnectionStatus_value s) = Some s"
  by (cases s) (simp_all add: ConnectionStatus_parse_def enum_parse_def)

lemma ConnectionStatusReason_parse_value [simp]:
  "ConnectionStatusReason_parse (ConnectionStatusReason_value s) = Some s"
  by (cases s) (simp_all add: ConnectionStatusReason_parse_def enum_parse_def)

lemma ConnectionStatus_value_inject [simp]:
  "ConnectionStatus_value s = ConnectionStatus_value t \<longleftrightarrow> s = t"
  by (metis ConnectionStatus_parse_value option.inject)

lemma Platform_value_inject [simp]: "Platform_value p = Platform_value q \<longleftrightarrow> p = q"
  by (metis Platform_parse_value option.inject)

lemma ConnectionStatus_parse_Some:
  "ConnectionStatus_parse v = Some s \<Longrightarrow> v = ConnectionStatus_value s"
  unfolding ConnectionStatus_parse_def by (drule enum_parse_Some) simp

lemma reconciliation_reason_is_status_reason:
  "\<exists>r. ConnectionStatusReason_parse (ConnectionReconciliationReason_value q) = Some r"
  by (cases q) (simp_all add: ConnectionStatusReason_parse_def enum_parse_def)

lemma transition_to_Inr:
  "transition_to c t r = Inr c' \<Longrightarrow>
     t \<in> set (ALLOWED_TRANSITIONS (connection_status c)) \<and>
     c' = c\<lparr>connection_status := t, connection_status_reason := r\<rparr>"
  by (cases c) (auto simp: transition_to_def PlatformConnection_post_init_def split: if_splits)

lemma transition_to_valid:
  assumes "PlatformConnection_post_init c = Inr c"
    and "t \<in> set (ALLOWED_TRANSITIONS (connection_status c))"
  shows "transition_to c t r = Inr (c\<lparr>connection_status := t, connection_status_reason := r\<rparr>)"
  using assms by (cases c) (auto simp: transition_to_def PlatformConnection_post_init_def split: if_splits)

lemma capability_keys_valid:
  "distinct (capability_keys_for_platform p) \<and>
   list_all (\<lambda>k. py_strip k \<noteq> [] \<and> length k \<le> 128) (capability_keys_for_platform p)"
  by (cases p) (simp_all add: py_strip_def py_isspace_def)

end
