(* ===== verification/Database.thy ===== *)
theory Database
  imports Domain_Identity Domain_Organizations Domain_Connections
begin

text \<open>
  The Console database (\<open>infrastructure/persistence/models.py\<close>): one record per mapped class,
  one list of rows per table, and for every table the INSERT with its primary key, UNIQUE, FOREIGN
  KEY and CHECK constraints, whose violation is IntegrityError. Enumerations are stored as their
  string values, as in the tables. Columns that no repository reads or writes (avatar, locale,
  version and the like) are left out, and so are the length limits of the character columns, whose
  violation is not an IntegrityError.

  \<open>db_ok\<close> is the schema invariant: every constraint holds of the stored rows.
\<close>

section \<open>Rows\<close>

record UserRecord =
  u_id :: uuid
  u_status :: string
  u_display_name :: string

record LoginIdentityRecord =
  li_id :: uuid
  li_user_id :: uuid
  li_provider :: string
  li_provider_subject :: string
  li_linked_at :: datetime
  li_last_used_at :: "datetime option"

record IdentityLinkTransactionRecord =
  lt_id :: uuid
  lt_user_id :: uuid
  lt_provider :: string
  lt_state_hash :: string
  lt_code_verifier_ciphertext :: string
  lt_expires_at :: datetime
  lt_consumed_at :: "datetime option"

record OAuthLoginTransactionRecord =
  ot_id :: uuid
  ot_provider :: string
  ot_state_hash :: string
  ot_code_verifier_ciphertext :: string
  ot_expires_at :: datetime
  ot_consumed_at :: "datetime option"

record PasswordRecoveryTransactionRecord =
  pr_id :: uuid
  pr_user_id :: uuid
  pr_token_hash :: string
  pr_expires_at :: datetime
  pr_consumed_at :: "datetime option"

record UserEmailRecord =
  ue_id :: uuid
  ue_user_id :: uuid
  ue_email_ciphertext :: string
  ue_email_lookup_hash :: string
  ue_is_primary :: bool

record PasswordCredentialRecord =
  pc_user_id :: uuid
  pc_password_hash :: string
  pc_password_changed_at :: datetime
  pc_failed_attempts :: int
  pc_locked_until :: "datetime option"

record OrganizationRecord =
  o_id :: uuid
  o_name :: string
  o_slug :: string

record OrganizationMembershipRecord =
  m_id :: uuid
  m_organization_id :: uuid
  m_user_id :: uuid
  m_role :: string

record MembershipResourceScopeRecord =
  ms_id :: uuid
  ms_membership_id :: uuid
  ms_resource :: string
  ms_action :: string

record OrganizationInvitationRecord =
  oi_id :: uuid
  oi_organization_id :: uuid
  oi_invited_by_user_id :: "uuid option"
  oi_email_ciphertext :: string
  oi_email_lookup_hash :: string
  oi_email_hint :: string
  oi_token_hash :: string
  oi_role :: string
  oi_delivery_status :: "string option"
  oi_expires_at :: datetime
  oi_accepted_at :: "datetime option"
  oi_revoked_at :: "datetime option"
  oi_created_at :: datetime

record OrganizationInvitationScopeRecord =
  is_id :: uuid
  is_invitation_id :: uuid
  is_resource :: string
  is_action :: string

record AuthSessionRecord =
  s_id :: uuid
  s_user_id :: uuid
  s_token_hash :: string
  s_expires_at :: datetime
  s_revoked_at :: "datetime option"
  s_assurance_level :: string
  s_ip_hash :: "string option"
  s_user_agent_hash :: "string option"
  s_last_seen_at :: "datetime option"
  s_created_at :: datetime

record PlatformConnectionRecord =
  c_id :: uuid
  c_organization_id :: uuid
  c_platform :: string
  c_external_resource_id :: string
  c_status :: string
  c_status_reason :: "string option"
  c_granted_capabilities :: "(string \<times> bool) list"

record PlatformConnectionLifecycleIdempotencyRecord =
  k_organization_id :: uuid
  k_idempotency_key :: string
  k_connection_id :: uuid
  k_action :: string
  k_result_status :: string
  k_result_reason :: "string option"

record AuditEventRecord =
  a_id :: uuid
  a_correlation_id :: uuid
  a_actor_id :: "uuid option"
  a_organization_id :: "uuid option"
  a_action :: string
  a_resource_type :: string
  a_resource_id :: "string option"
  a_result :: string
  a_created_at :: datetime

section \<open>The database\<close>

record console =
  users :: "UserRecord list"
  login_identities :: "LoginIdentityRecord list"
  identity_link_transactions :: "IdentityLinkTransactionRecord list"
  oauth_login_transactions :: "OAuthLoginTransactionRecord list"
  password_recovery_transactions :: "PasswordRecoveryTransactionRecord list"
  user_emails :: "UserEmailRecord list"
  password_credentials :: "PasswordCredentialRecord list"
  organizations :: "OrganizationRecord list"
  organization_memberships :: "OrganizationMembershipRecord list"
  membership_resource_scopes :: "MembershipResourceScopeRecord list"
  organization_invitations :: "OrganizationInvitationRecord list"
  organization_invitation_scopes :: "OrganizationInvitationScopeRecord list"
  auth_sessions :: "AuthSessionRecord list"
  platform_connections :: "PlatformConnectionRecord list"
  platform_connection_lifecycle_idempotency :: "PlatformConnectionLifecycleIdempotencyRecord list"
  audit_events :: "AuditEventRecord list"

definition empty_console :: console where
  "empty_console =
     \<lparr>users = [], login_identities = [], identity_link_transactions = [],
      oauth_login_transactions = [], password_recovery_transactions = [], user_emails = [],
      password_credentials = [], organizations = [], organization_memberships = [],
      membership_resource_scopes = [], organization_invitations = [],
      organization_invitation_scopes = [], auth_sessions = [], platform_connections = [],
      platform_connection_lifecycle_idempotency = [], audit_events = []\<rparr>"

section \<open>Check constraints\<close>

definition ck_users_status :: "string \<Rightarrow> bool" where
  "ck_users_status v \<longleftrightarrow> v \<in> set [''pending_verification'', ''active'', ''suspended'', ''deleted'']"

definition ck_external_provider :: "string \<Rightarrow> bool" where
  "ck_external_provider v \<longleftrightarrow> v \<in> set [''discord'', ''twitch'', ''telegram'', ''google'', ''yandex'']"

definition ck_organization_memberships_role :: "string \<Rightarrow> bool" where
  "ck_organization_memberships_role v \<longleftrightarrow>
     v \<in> set [''owner'', ''admin'', ''moderator'', ''analyst'', ''viewer'']"

definition ck_organization_invitations_role :: "string \<Rightarrow> bool" where
  "ck_organization_invitations_role v \<longleftrightarrow> v \<in> set [''admin'', ''moderator'', ''analyst'', ''viewer'']"

definition ck_organization_invitations_delivery_status :: "string option \<Rightarrow> bool" where
  "ck_organization_invitations_delivery_status v \<longleftrightarrow>
     v \<in> set [None, Some ''sent'', Some ''unavailable'', Some ''failed'']"

definition ck_connection_status :: "string \<Rightarrow> bool" where
  "ck_connection_status v \<longleftrightarrow>
     v \<in> set [''pending'', ''active'', ''degraded'', ''reauth_required'', ''disconnected'']"

definition ck_lifecycle_action :: "string \<Rightarrow> bool" where
  "ck_lifecycle_action v \<longleftrightarrow> v \<in> set [''reauthorize'', ''revoke'', ''disconnect'']"

definition ck_audit_events_result :: "string \<Rightarrow> bool" where
  "ck_audit_events_result v \<longleftrightarrow> v \<in> set [''allowed'', ''denied'', ''succeeded'', ''failed'']"

section \<open>Inserts\<close>

definition has_key :: "('r \<Rightarrow> 'k) \<Rightarrow> 'k \<Rightarrow> 'r list \<Rightarrow> bool" where
  "has_key f k rows \<longleftrightarrow> k \<in> set (map f rows)"

definition constrained :: "('s \<Rightarrow> bool) \<Rightarrow> ('s \<Rightarrow> 's) \<Rightarrow> ('s, unit) operation" where
  "constrained ok upd = (\<lambda>s. if ok s then (Inr (), upd s) else (Inl IntegrityError, s))"

definition insert_user :: "UserRecord \<Rightarrow> (console, unit) operation" where
  "insert_user r = constrained
     (\<lambda>s. \<not> has_key u_id (u_id r) (users s) \<and> ck_users_status (u_status r))
     (\<lambda>s. s\<lparr>users := users s @ [r]\<rparr>)"

definition insert_login_identity :: "LoginIdentityRecord \<Rightarrow> (console, unit) operation" where
  "insert_login_identity r = constrained
     (\<lambda>s. \<not> has_key li_id (li_id r) (login_identities s)
        \<and> \<not> has_key (\<lambda>i. (li_provider i, li_provider_subject i))
             (li_provider r, li_provider_subject r) (login_identities s)
        \<and> has_key u_id (li_user_id r) (users s))
     (\<lambda>s. s\<lparr>login_identities := login_identities s @ [r]\<rparr>)"

definition insert_identity_link_transaction ::
  "IdentityLinkTransactionRecord \<Rightarrow> (console, unit) operation" where
  "insert_identity_link_transaction r = constrained
     (\<lambda>s. \<not> has_key lt_id (lt_id r) (identity_link_transactions s)
        \<and> \<not> has_key lt_state_hash (lt_state_hash r) (identity_link_transactions s)
        \<and> has_key u_id (lt_user_id r) (users s) \<and> ck_external_provider (lt_provider r))
     (\<lambda>s. s\<lparr>identity_link_transactions := identity_link_transactions s @ [r]\<rparr>)"

definition insert_oauth_login_transaction ::
  "OAuthLoginTransactionRecord \<Rightarrow> (console, unit) operation" where
  "insert_oauth_login_transaction r = constrained
     (\<lambda>s. \<not> has_key ot_id (ot_id r) (oauth_login_transactions s)
        \<and> \<not> has_key ot_state_hash (ot_state_hash r) (oauth_login_transactions s)
        \<and> ck_external_provider (ot_provider r))
     (\<lambda>s. s\<lparr>oauth_login_transactions := oauth_login_transactions s @ [r]\<rparr>)"

definition insert_password_recovery_transaction ::
  "PasswordRecoveryTransactionRecord \<Rightarrow> (console, unit) operation" where
  "insert_password_recovery_transaction r = constrained
     (\<lambda>s. \<not> has_key pr_id (pr_id r) (password_recovery_transactions s)
        \<and> \<not> has_key pr_token_hash (pr_token_hash r) (password_recovery_transactions s)
        \<and> has_key u_id (pr_user_id r) (users s))
     (\<lambda>s. s\<lparr>password_recovery_transactions := password_recovery_transactions s @ [r]\<rparr>)"

definition insert_user_email :: "UserEmailRecord \<Rightarrow> (console, unit) operation" where
  "insert_user_email r = constrained
     (\<lambda>s. \<not> has_key ue_id (ue_id r) (user_emails s)
        \<and> \<not> has_key ue_email_lookup_hash (ue_email_lookup_hash r) (user_emails s)
        \<and> has_key u_id (ue_user_id r) (users s))
     (\<lambda>s. s\<lparr>user_emails := user_emails s @ [r]\<rparr>)"

definition insert_password_credential :: "PasswordCredentialRecord \<Rightarrow> (console, unit) operation" where
  "insert_password_credential r = constrained
     (\<lambda>s. \<not> has_key pc_user_id (pc_user_id r) (password_credentials s)
        \<and> has_key u_id (pc_user_id r) (users s))
     (\<lambda>s. s\<lparr>password_credentials := password_credentials s @ [r]\<rparr>)"

definition insert_organization :: "OrganizationRecord \<Rightarrow> (console, unit) operation" where
  "insert_organization r = constrained
     (\<lambda>s. \<not> has_key o_id (o_id r) (organizations s) \<and> \<not> has_key o_slug (o_slug r) (organizations s))
     (\<lambda>s. s\<lparr>organizations := organizations s @ [r]\<rparr>)"

definition insert_membership :: "OrganizationMembershipRecord \<Rightarrow> (console, unit) operation" where
  "insert_membership r = constrained
     (\<lambda>s. \<not> has_key m_id (m_id r) (organization_memberships s)
        \<and> \<not> has_key (\<lambda>m. (m_organization_id m, m_user_id m)) (m_organization_id r, m_user_id r)
             (organization_memberships s)
        \<and> has_key o_id (m_organization_id r) (organizations s)
        \<and> has_key u_id (m_user_id r) (users s)
        \<and> ck_organization_memberships_role (m_role r))
     (\<lambda>s. s\<lparr>organization_memberships := organization_memberships s @ [r]\<rparr>)"

definition insert_membership_scope :: "MembershipResourceScopeRecord \<Rightarrow> (console, unit) operation" where
  "insert_membership_scope r = constrained
     (\<lambda>s. \<not> has_key ms_id (ms_id r) (membership_resource_scopes s)
        \<and> has_key m_id (ms_membership_id r) (organization_memberships s))
     (\<lambda>s. s\<lparr>membership_resource_scopes := membership_resource_scopes s @ [r]\<rparr>)"

definition insert_invitation :: "OrganizationInvitationRecord \<Rightarrow> (console, unit) operation" where
  "insert_invitation r = constrained
     (\<lambda>s. \<not> has_key oi_id (oi_id r) (organization_invitations s)
        \<and> \<not> has_key oi_token_hash (oi_token_hash r) (organization_invitations s)
        \<and> has_key o_id (oi_organization_id r) (organizations s)
        \<and> (case oi_invited_by_user_id r of None \<Rightarrow> True | Some u \<Rightarrow> has_key u_id u (users s))
        \<and> ck_organization_invitations_role (oi_role r)
        \<and> ck_organization_invitations_delivery_status (oi_delivery_status r))
     (\<lambda>s. s\<lparr>organization_invitations := organization_invitations s @ [r]\<rparr>)"

definition insert_invitation_scope :: "OrganizationInvitationScopeRecord \<Rightarrow> (console, unit) operation" where
  "insert_invitation_scope r = constrained
     (\<lambda>s. \<not> has_key is_id (is_id r) (organization_invitation_scopes s)
        \<and> \<not> has_key (\<lambda>i. (is_invitation_id i, is_resource i, is_action i))
             (is_invitation_id r, is_resource r, is_action r) (organization_invitation_scopes s)
        \<and> has_key oi_id (is_invitation_id r) (organization_invitations s))
     (\<lambda>s. s\<lparr>organization_invitation_scopes := organization_invitation_scopes s @ [r]\<rparr>)"

definition insert_auth_session :: "AuthSessionRecord \<Rightarrow> (console, unit) operation" where
  "insert_auth_session r = constrained
     (\<lambda>s. \<not> has_key s_id (s_id r) (auth_sessions s)
        \<and> \<not> has_key s_token_hash (s_token_hash r) (auth_sessions s)
        \<and> has_key u_id (s_user_id r) (users s))
     (\<lambda>s. s\<lparr>auth_sessions := auth_sessions s @ [r]\<rparr>)"

definition insert_platform_connection :: "PlatformConnectionRecord \<Rightarrow> (console, unit) operation" where
  "insert_platform_connection r = constrained
     (\<lambda>s. \<not> has_key c_id (c_id r) (platform_connections s)
        \<and> \<not> has_key (\<lambda>c. (c_platform c, c_external_resource_id c))
             (c_platform r, c_external_resource_id r) (platform_connections s)
        \<and> has_key o_id (c_organization_id r) (organizations s)
        \<and> ck_connection_status (c_status r))
     (\<lambda>s. s\<lparr>platform_connections := platform_connections s @ [r]\<rparr>)"

definition insert_lifecycle_idempotency ::
  "PlatformConnectionLifecycleIdempotencyRecord \<Rightarrow> (console, unit) operation" where
  "insert_lifecycle_idempotency r = constrained
     (\<lambda>s. \<not> has_key (\<lambda>k. (k_organization_id k, k_idempotency_key k))
             (k_organization_id r, k_idempotency_key r) (platform_connection_lifecycle_idempotency s)
        \<and> has_key o_id (k_organization_id r) (organizations s)
        \<and> has_key c_id (k_connection_id r) (platform_connections s)
        \<and> ck_lifecycle_action (k_action r) \<and> ck_connection_status (k_result_status r))
     (\<lambda>s. s\<lparr>platform_connection_lifecycle_idempotency :=
               platform_connection_lifecycle_idempotency s @ [r]\<rparr>)"

definition insert_audit_event :: "AuditEventRecord \<Rightarrow> (console, unit) operation" where
  "insert_audit_event r = constrained
     (\<lambda>s. \<not> has_key a_id (a_id r) (audit_events s) \<and> ck_audit_events_result (a_result r))
     (\<lambda>s. s\<lparr>audit_events := audit_events s @ [r]\<rparr>)"

text \<open>The row the writers store for an audit fact; \<open>created_at\<close> is the server default \<open>now()\<close>.\<close>

definition audit_record :: "datetime \<Rightarrow> AuditEvent \<Rightarrow> AuditEventRecord" where
  "audit_record db_now e =
     \<lparr>a_id = audit_id e, a_correlation_id = audit_correlation_id e, a_actor_id = audit_actor_id e,
      a_organization_id = audit_organization_id e, a_action = audit_action e,
      a_resource_type = audit_resource_type e, a_resource_id = audit_resource_id e,
      a_result = audit_result e, a_created_at = db_now\<rparr>"

definition record_audit :: "datetime \<Rightarrow> AuditEvent \<Rightarrow> (console, unit) operation" where
  "record_audit db_now e = insert_audit_event (audit_record db_now e)"

lemmas inserts =
  insert_user_def insert_login_identity_def insert_identity_link_transaction_def
  insert_oauth_login_transaction_def insert_password_recovery_transaction_def
  insert_user_email_def insert_password_credential_def insert_organization_def
  insert_membership_def insert_membership_scope_def insert_invitation_def
  insert_invitation_scope_def insert_auth_session_def insert_platform_connection_def
  insert_lifecycle_idempotency_def insert_audit_event_def record_audit_def

section \<open>Updates and deletes\<close>

text \<open>UPDATE statements return the number of rows they changed.\<close>

definition update_memberships ::
  "(OrganizationMembershipRecord \<Rightarrow> bool) \<Rightarrow> string \<Rightarrow> (console, nat) operation" where
  "update_memberships P role = (\<lambda>s.
     if rowcount P (organization_memberships s) > 0 \<and> \<not> ck_organization_memberships_role role
     then (Inl IntegrityError, s)
     else (Inr (rowcount P (organization_memberships s)),
           s\<lparr>organization_memberships :=
               update_rows P (\<lambda>m. m\<lparr>m_role := role\<rparr>) (organization_memberships s)\<rparr>))"

definition delete_membership_scopes ::
  "(MembershipResourceScopeRecord \<Rightarrow> bool) \<Rightarrow> (console, nat) operation" where
  "delete_membership_scopes P = (\<lambda>s.
     (Inr (rowcount P (membership_resource_scopes s)),
      s\<lparr>membership_resource_scopes := delete_rows P (membership_resource_scopes s)\<rparr>))"

text \<open>The scopes of a deleted membership go with it (\<open>ON DELETE CASCADE\<close>).\<close>

definition delete_memberships ::
  "(OrganizationMembershipRecord \<Rightarrow> bool) \<Rightarrow> (console, nat) operation" where
  "delete_memberships P = (\<lambda>s.
     (let rest = delete_rows P (organization_memberships s) in
      (Inr (rowcount P (organization_memberships s)),
       s\<lparr>organization_memberships := rest,
         membership_resource_scopes :=
           filter (\<lambda>r. has_key m_id (ms_membership_id r) rest) (membership_resource_scopes s)\<rparr>)))"

definition update_sessions ::
  "(AuthSessionRecord \<Rightarrow> bool) \<Rightarrow> (AuthSessionRecord \<Rightarrow> AuthSessionRecord) \<Rightarrow> (console, nat) operation" where
  "update_sessions P f = (\<lambda>s.
     (Inr (rowcount P (auth_sessions s)), s\<lparr>auth_sessions := update_rows P f (auth_sessions s)\<rparr>))"

definition delete_sessions :: "(AuthSessionRecord \<Rightarrow> bool) \<Rightarrow> (console, nat) operation" where
  "delete_sessions P = (\<lambda>s.
     (Inr (rowcount P (auth_sessions s)), s\<lparr>auth_sessions := delete_rows P (auth_sessions s)\<rparr>))"

definition delete_login_identities :: "(LoginIdentityRecord \<Rightarrow> bool) \<Rightarrow> (console, nat) operation" where
  "delete_login_identities P = (\<lambda>s.
     (Inr (rowcount P (login_identities s)),
      s\<lparr>login_identities := delete_rows P (login_identities s)\<rparr>))"

definition update_invitations ::
  "(OrganizationInvitationRecord \<Rightarrow> bool) \<Rightarrow>
   (OrganizationInvitationRecord \<Rightarrow> OrganizationInvitationRecord) \<Rightarrow> (console, nat) operation" where
  "update_invitations P f = (\<lambda>s.
     (Inr (rowcount P (organization_invitations s)),
      s\<lparr>organization_invitations := update_rows P f (organization_invitations s)\<rparr>))"

definition update_connections ::
  "(PlatformConnectionRecord \<Rightarrow> bool) \<Rightarrow> string \<Rightarrow> string option \<Rightarrow> (console, nat) operation" where
  "update_connections P status reason = (\<lambda>s.
     if rowcount P (platform_connections s) > 0 \<and> \<not> ck_connection_status status
     then (Inl IntegrityError, s)
     else (Inr (rowcount P (platform_connections s)),
           s\<lparr>platform_connections :=
               update_rows P (\<lambda>c. c\<lparr>c_status := status, c_status_reason := reason\<rparr>)
                 (platform_connections s)\<rparr>))"

definition update_credentials ::
  "(PasswordCredentialRecord \<Rightarrow> bool) \<Rightarrow>
   (PasswordCredentialRecord \<Rightarrow> PasswordCredentialRecord) \<Rightarrow> (console, nat) operation" where
  "update_credentials P f = (\<lambda>s.
     (Inr (rowcount P (password_credentials s)),
      s\<lparr>password_credentials := update_rows P f (password_credentials s)\<rparr>))"

definition delete_recoveries ::
  "(PasswordRecoveryTransactionRecord \<Rightarrow> bool) \<Rightarrow> (console, nat) operation" where
  "delete_recoveries P = (\<lambda>s.
     (Inr (rowcount P (password_recovery_transactions s)),
      s\<lparr>password_recovery_transactions := delete_rows P (password_recovery_transactions s)\<rparr>))"

text \<open>
  UPDATE ... RETURNING on the tables of one-time transactions: the rows that matched, after the
  update.
\<close>

definition claim_link_transactions ::
  "(IdentityLinkTransactionRecord \<Rightarrow> bool) \<Rightarrow> datetime \<Rightarrow>
   (console, IdentityLinkTransactionRecord list) operation" where
  "claim_link_transactions P now = (\<lambda>s.
     (Inr (map (\<lambda>t. t\<lparr>lt_consumed_at := Some now\<rparr>) (filter P (identity_link_transactions s))),
      s\<lparr>identity_link_transactions :=
          update_rows P (\<lambda>t. t\<lparr>lt_consumed_at := Some now\<rparr>) (identity_link_transactions s)\<rparr>))"

definition claim_login_transactions ::
  "(OAuthLoginTransactionRecord \<Rightarrow> bool) \<Rightarrow> datetime \<Rightarrow>
   (console, OAuthLoginTransactionRecord list) operation" where
  "claim_login_transactions P now = (\<lambda>s.
     (Inr (map (\<lambda>t. t\<lparr>ot_consumed_at := Some now\<rparr>) (filter P (oauth_login_transactions s))),
      s\<lparr>oauth_login_transactions :=
          update_rows P (\<lambda>t. t\<lparr>ot_consumed_at := Some now\<rparr>) (oauth_login_transactions s)\<rparr>))"

definition claim_recoveries ::
  "(PasswordRecoveryTransactionRecord \<Rightarrow> bool) \<Rightarrow> datetime \<Rightarrow>
   (console, PasswordRecoveryTransactionRecord list) operation" where
  "claim_recoveries P now = (\<lambda>s.
     (Inr (map (\<lambda>t. t\<lparr>pr_consumed_at := Some now\<rparr>) (filter P (password_recovery_transactions s))),
      s\<lparr>password_recovery_transactions :=
          update_rows P (\<lambda>t. t\<lparr>pr_consumed_at := Some now\<rparr>) (password_recovery_transactions s)\<rparr>))"

lemmas mutations =
  update_memberships_def delete_membership_scopes_def delete_memberships_def update_sessions_def
  delete_sessions_def delete_login_identities_def update_invitations_def update_connections_def
  update_credentials_def delete_recoveries_def claim_link_transactions_def
  claim_login_transactions_def claim_recoveries_def

end
