(* ===== verification/Schema.thy ===== *)
theory Schema
  imports Database
begin

text \<open>
  The schema invariant of the database and the laws every INSERT, UPDATE and DELETE keeps:
  \<^item> \<open>inv\<close> (an instance of \<open>step_law\<close>): a database that satisfies all constraints still does
    after the operation;
  \<^item> \<open>his\<close>: the audit trail, the users and the organizations are only ever extended at their
    end, and a one-time OAuth transaction or invitation that was used stays used.
  The rules of these two interpretations carry both laws to every repository and every use case.
\<close>

section \<open>The schema invariant\<close>

definition refs :: "('r \<Rightarrow> 'k) \<Rightarrow> 'r list \<Rightarrow> ('p \<Rightarrow> 'k) \<Rightarrow> 'p list \<Rightarrow> bool" where
  "refs f rows g parents \<longleftrightarrow> (\<forall>r \<in> set rows. has_key g (f r) parents)"

definition users_ok :: "UserRecord list \<Rightarrow> bool" where
  "users_ok us \<longleftrightarrow> distinct (map u_id us) \<and> (\<forall>u \<in> set us. ck_users_status (u_status u))"

definition identities_ok :: "UserRecord list \<Rightarrow> LoginIdentityRecord list \<Rightarrow> bool" where
  "identities_ok us lis \<longleftrightarrow> distinct (map li_id lis)
     \<and> distinct (map (\<lambda>i. (li_provider i, li_provider_subject i)) lis) \<and> refs li_user_id lis u_id us"

definition links_ok :: "UserRecord list \<Rightarrow> IdentityLinkTransactionRecord list \<Rightarrow> bool" where
  "links_ok us ts \<longleftrightarrow> distinct (map lt_id ts) \<and> distinct (map lt_state_hash ts)
     \<and> refs lt_user_id ts u_id us \<and> (\<forall>t \<in> set ts. ck_external_provider (lt_provider t))"

definition logins_ok :: "OAuthLoginTransactionRecord list \<Rightarrow> bool" where
  "logins_ok ts \<longleftrightarrow> distinct (map ot_id ts) \<and> distinct (map ot_state_hash ts)
     \<and> (\<forall>t \<in> set ts. ck_external_provider (ot_provider t))"

definition recoveries_ok :: "UserRecord list \<Rightarrow> PasswordRecoveryTransactionRecord list \<Rightarrow> bool" where
  "recoveries_ok us ts \<longleftrightarrow> distinct (map pr_id ts) \<and> distinct (map pr_token_hash ts)
     \<and> refs pr_user_id ts u_id us"

definition emails_ok :: "UserRecord list \<Rightarrow> UserEmailRecord list \<Rightarrow> bool" where
  "emails_ok us es \<longleftrightarrow> distinct (map ue_id es) \<and> distinct (map ue_email_lookup_hash es)
     \<and> refs ue_user_id es u_id us"

definition credentials_ok :: "UserRecord list \<Rightarrow> PasswordCredentialRecord list \<Rightarrow> bool" where
  "credentials_ok us cs \<longleftrightarrow> distinct (map pc_user_id cs) \<and> refs pc_user_id cs u_id us"

definition organizations_ok :: "OrganizationRecord list \<Rightarrow> bool" where
  "organizations_ok os \<longleftrightarrow> distinct (map o_id os) \<and> distinct (map o_slug os)"

definition memberships_ok ::
  "UserRecord list \<Rightarrow> OrganizationRecord list \<Rightarrow> OrganizationMembershipRecord list \<Rightarrow> bool" where
  "memberships_ok us os ms \<longleftrightarrow> distinct (map m_id ms)
     \<and> distinct (map (\<lambda>m. (m_organization_id m, m_user_id m)) ms)
     \<and> refs m_organization_id ms o_id os \<and> refs m_user_id ms u_id us
     \<and> (\<forall>m \<in> set ms. ck_organization_memberships_role (m_role m))"

definition scopes_ok ::
  "OrganizationMembershipRecord list \<Rightarrow> MembershipResourceScopeRecord list \<Rightarrow> bool" where
  "scopes_ok ms ss \<longleftrightarrow> distinct (map ms_id ss) \<and> refs ms_membership_id ss m_id ms"

definition invitations_ok ::
  "UserRecord list \<Rightarrow> OrganizationRecord list \<Rightarrow> OrganizationInvitationRecord list \<Rightarrow> bool" where
  "invitations_ok us os is \<longleftrightarrow> distinct (map oi_id is) \<and> distinct (map oi_token_hash is)
     \<and> refs oi_organization_id is o_id os
     \<and> (\<forall>i \<in> set is. \<forall>u. oi_invited_by_user_id i = Some u \<longrightarrow> has_key u_id u us)
     \<and> (\<forall>i \<in> set is. ck_organization_invitations_role (oi_role i)
          \<and> ck_organization_invitations_delivery_status (oi_delivery_status i))"

definition invitation_scopes_ok ::
  "OrganizationInvitationRecord list \<Rightarrow> OrganizationInvitationScopeRecord list \<Rightarrow> bool" where
  "invitation_scopes_ok is ss \<longleftrightarrow> distinct (map is_id ss)
     \<and> distinct (map (\<lambda>i. (is_invitation_id i, is_resource i, is_action i)) ss)
     \<and> refs is_invitation_id ss oi_id is"

definition sessions_ok :: "UserRecord list \<Rightarrow> AuthSessionRecord list \<Rightarrow> bool" where
  "sessions_ok us ss \<longleftrightarrow> distinct (map s_id ss) \<and> distinct (map s_token_hash ss)
     \<and> refs s_user_id ss u_id us"

definition connections_ok :: "OrganizationRecord list \<Rightarrow> PlatformConnectionRecord list \<Rightarrow> bool" where
  "connections_ok os cs \<longleftrightarrow> distinct (map c_id cs)
     \<and> distinct (map (\<lambda>c. (c_platform c, c_external_resource_id c)) cs)
     \<and> refs c_organization_id cs o_id os \<and> (\<forall>c \<in> set cs. ck_connection_status (c_status c))"

definition idempotency_ok ::
  "OrganizationRecord list \<Rightarrow> PlatformConnectionRecord list \<Rightarrow>
   PlatformConnectionLifecycleIdempotencyRecord list \<Rightarrow> bool" where
  "idempotency_ok os cs ks \<longleftrightarrow> distinct (map (\<lambda>k. (k_organization_id k, k_idempotency_key k)) ks)
     \<and> refs k_organization_id ks o_id os \<and> refs k_connection_id ks c_id cs
     \<and> (\<forall>k \<in> set ks. ck_lifecycle_action (k_action k) \<and> ck_connection_status (k_result_status k))"

definition audit_ok :: "AuditEventRecord list \<Rightarrow> bool" where
  "audit_ok es \<longleftrightarrow> distinct (map a_id es) \<and> (\<forall>e \<in> set es. ck_audit_events_result (a_result e))"

definition db_ok :: "console \<Rightarrow> bool" where
  "db_ok s \<longleftrightarrow> users_ok (users s)
     \<and> identities_ok (users s) (login_identities s)
     \<and> links_ok (users s) (identity_link_transactions s)
     \<and> logins_ok (oauth_login_transactions s)
     \<and> recoveries_ok (users s) (password_recovery_transactions s)
     \<and> emails_ok (users s) (user_emails s)
     \<and> credentials_ok (users s) (password_credentials s)
     \<and> organizations_ok (organizations s)
     \<and> memberships_ok (users s) (organizations s) (organization_memberships s)
     \<and> scopes_ok (organization_memberships s) (membership_resource_scopes s)
     \<and> invitations_ok (users s) (organizations s) (organization_invitations s)
     \<and> invitation_scopes_ok (organization_invitations s) (organization_invitation_scopes s)
     \<and> sessions_ok (users s) (auth_sessions s)
     \<and> connections_ok (organizations s) (platform_connections s)
     \<and> idempotency_ok (organizations s) (platform_connections s)
          (platform_connection_lifecycle_idempotency s)
     \<and> audit_ok (audit_events s)"

lemmas table_ok_defs =
  users_ok_def identities_ok_def links_ok_def logins_ok_def recoveries_ok_def emails_ok_def
  credentials_ok_def organizations_ok_def memberships_ok_def scopes_ok_def invitations_ok_def
  invitation_scopes_ok_def sessions_ok_def connections_ok_def idempotency_ok_def audit_ok_def

lemma db_ok_empty: "db_ok empty_console"
  by (simp add: db_ok_def empty_console_def table_ok_defs refs_def)

section \<open>Growing a parent table keeps every reference\<close>

lemma has_key_append [simp]: "has_key f k (xs @ [x]) \<longleftrightarrow> has_key f k xs \<or> k = f x"
  by (auto simp: has_key_def)

lemma refs_append_child [simp]: "refs f (rows @ [r]) g ps \<longleftrightarrow> refs f rows g ps \<and> has_key g (f r) ps"
  by (auto simp: refs_def)

lemma refs_append_parent: "refs f rows g ps \<Longrightarrow> refs f rows g (ps @ [p])"
  by (auto simp: refs_def)

lemma distinct_append_key [simp]:
  "distinct (map f (rows @ [r])) \<longleftrightarrow> distinct (map f rows) \<and> \<not> has_key f (f r) rows"
  by (auto simp: has_key_def)

lemma parent_user_mono:
  "identities_ok us lis \<Longrightarrow> identities_ok (us @ [u]) lis"
  "links_ok us ts \<Longrightarrow> links_ok (us @ [u]) ts"
  "recoveries_ok us rs \<Longrightarrow> recoveries_ok (us @ [u]) rs"
  "emails_ok us es \<Longrightarrow> emails_ok (us @ [u]) es"
  "credentials_ok us cs \<Longrightarrow> credentials_ok (us @ [u]) cs"
  "memberships_ok us os ms \<Longrightarrow> memberships_ok (us @ [u]) os ms"
  "invitations_ok us os is \<Longrightarrow> invitations_ok (us @ [u]) os is"
  "sessions_ok us ss \<Longrightarrow> sessions_ok (us @ [u]) ss"
  by (auto simp: table_ok_defs refs_append_parent)

lemma parent_organization_mono:
  "memberships_ok us os ms \<Longrightarrow> memberships_ok us (os @ [org]) ms"
  "invitations_ok us os is \<Longrightarrow> invitations_ok us (os @ [org]) is"
  "connections_ok os cs \<Longrightarrow> connections_ok (os @ [org]) cs"
  "idempotency_ok os cs ks \<Longrightarrow> idempotency_ok (os @ [org]) cs ks"
  by (auto simp: table_ok_defs refs_append_parent)

lemma parent_other_mono:
  "scopes_ok ms ss \<Longrightarrow> scopes_ok (ms @ [m]) ss"
  "invitation_scopes_ok is iss \<Longrightarrow> invitation_scopes_ok (is @ [i]) iss"
  "idempotency_ok os cs ks \<Longrightarrow> idempotency_ok os (cs @ [c]) ks"
  by (auto simp: table_ok_defs refs_append_parent)

lemma parent_key_cong:
  "map m_id ms' = map m_id ms \<Longrightarrow> scopes_ok ms' ss = scopes_ok ms ss"
  "map oi_id is' = map oi_id is \<Longrightarrow> invitation_scopes_ok is' iss = invitation_scopes_ok is iss"
  "map c_id cs' = map c_id cs \<Longrightarrow> idempotency_ok os cs' ks = idempotency_ok os cs ks"
  by (simp_all only: table_ok_defs refs_def has_key_def)

section \<open>The law of the invariant\<close>

abbreviation keeps_db_ok :: "console \<Rightarrow> console \<Rightarrow> bool" where
  "keeps_db_ok s t \<equiv> db_ok s \<longrightarrow> db_ok t"

interpretation inv: step_law keeps_db_ok
  by unfold_locales auto

definition link_spent :: "string \<Rightarrow> console \<Rightarrow> bool" where
  "link_spent k s \<longleftrightarrow>
     (\<exists>r \<in> set (identity_link_transactions s). lt_state_hash r = k \<and> lt_consumed_at r \<noteq> None)"

definition login_spent :: "string \<Rightarrow> console \<Rightarrow> bool" where
  "login_spent k s \<longleftrightarrow>
     (\<exists>r \<in> set (oauth_login_transactions s). ot_state_hash r = k \<and> ot_consumed_at r \<noteq> None)"

definition invitation_spent :: "string \<Rightarrow> console \<Rightarrow> bool" where
  "invitation_spent k s \<longleftrightarrow> (\<exists>r \<in> set (organization_invitations s). oi_token_hash r = k
     \<and> (oi_accepted_at r \<noteq> None \<or> oi_revoked_at r \<noteq> None))"

definition history :: "console \<Rightarrow> console \<Rightarrow> bool" where
  "history s t \<longleftrightarrow>
     prefix (audit_events s) (audit_events t) \<and> prefix (users s) (users t)
     \<and> prefix (organizations s) (organizations t)
     \<and> (\<forall>k. link_spent k s \<longrightarrow> link_spent k t) \<and> (\<forall>k. login_spent k s \<longrightarrow> login_spent k t)
     \<and> (\<forall>k. invitation_spent k s \<longrightarrow> invitation_spent k t)"

interpretation his: step_law history
  by unfold_locales (auto simp: history_def intro: prefix_order.trans)

lemma obeys_constrained:
  "(\<And>s. ok s \<Longrightarrow> R s (upd s)) \<Longrightarrow> (\<And>s. R s s) \<Longrightarrow> obeys R (constrained ok upd)"
  by (auto simp: obeys_def constrained_def)

lemma inv_users_insert: "obeys keeps_db_ok (insert_user r)"
  unfolding insert_user_def
  by (rule obeys_constrained) (auto simp: has_key_def db_ok_def users_ok_def parent_user_mono)

lemma inv_organization_insert: "obeys keeps_db_ok (insert_organization r)"
  unfolding insert_organization_def
  by (rule obeys_constrained) (auto simp: has_key_def db_ok_def organizations_ok_def parent_organization_mono)

lemma inv_membership_insert: "obeys keeps_db_ok (insert_membership r)"
  unfolding insert_membership_def
  by (rule obeys_constrained) (auto simp: has_key_def db_ok_def memberships_ok_def parent_other_mono)

lemma inv_invitation_insert: "obeys keeps_db_ok (insert_invitation r)"
  unfolding insert_invitation_def
  by (rule obeys_constrained)
    (auto simp: has_key_def db_ok_def invitations_ok_def parent_other_mono split: option.splits)

lemma inv_connection_insert: "obeys keeps_db_ok (insert_platform_connection r)"
  unfolding insert_platform_connection_def
  by (rule obeys_constrained) (auto simp: has_key_def db_ok_def connections_ok_def parent_other_mono)

lemma inv_leaf_inserts:
  "obeys keeps_db_ok (insert_login_identity li)"
  "obeys keeps_db_ok (insert_identity_link_transaction lt)"
  "obeys keeps_db_ok (insert_oauth_login_transaction ot)"
  "obeys keeps_db_ok (insert_password_recovery_transaction pr)"
  "obeys keeps_db_ok (insert_user_email ue)"
  "obeys keeps_db_ok (insert_password_credential pc)"
  "obeys keeps_db_ok (insert_membership_scope ms)"
  "obeys keeps_db_ok (insert_invitation_scope isc)"
  "obeys keeps_db_ok (insert_auth_session se)"
  "obeys keeps_db_ok (insert_lifecycle_idempotency k)"
  "obeys keeps_db_ok (insert_audit_event a)"
  unfolding inserts
  by (rule obeys_constrained; auto simp: has_key_def db_ok_def table_ok_defs)+

lemma inv_record_audit: "obeys keeps_db_ok (record_audit t e)"
  by (simp add: record_audit_def inv_leaf_inserts)

lemma refs_update_rows [simp]:
  "(\<And>r. f (g r) = f r) \<Longrightarrow> refs f (update_rows P g rows) k ps = refs f rows k ps"
  by (induction rows) (auto simp: refs_def update_rows_def)

lemma refs_delete_rows: "refs f rows k ps \<Longrightarrow> refs f (delete_rows P rows) k ps"
  by (simp add: refs_def)

lemma inv_update_memberships: "obeys keeps_db_ok (update_memberships P role)"
proof (rule obeysI, rule impI)
  fix s assume ok: "db_ok s"
  let ?ms = "update_rows P (\<lambda>m. m\<lparr>m_role := role\<rparr>) (organization_memberships s)"
  have keys: "map m_id ?ms = map m_id (organization_memberships s)"
    "map (\<lambda>m. (m_organization_id m, m_user_id m)) ?ms =
       map (\<lambda>m. (m_organization_id m, m_user_id m)) (organization_memberships s)"
    by (simp_all add: map_update_rows)
  have "memberships_ok (users s) (organizations s) ?ms"
    if "rowcount P (organization_memberships s) > 0 \<longrightarrow> ck_organization_memberships_role role"
    using ok that unfolding db_ok_def memberships_ok_def keys
    by (auto simp: set_update_rows rowcount_pos_iff)
  then show "db_ok (snd (update_memberships P role s))"
    using ok by (auto simp: update_memberships_def db_ok_def parent_key_cong(1) [OF keys(1)])
qed

lemma inv_delete_memberships: "obeys keeps_db_ok (delete_memberships P)"
  by (rule obeysI)
    (auto simp: delete_memberships_def Let_def db_ok_def memberships_ok_def scopes_ok_def
      distinct_map_delete_rows refs_delete_rows distinct_map_filter refs_def [of ms_membership_id])

lemma inv_update_connections: "obeys keeps_db_ok (update_connections P status reason)"
proof (rule obeysI, rule impI)
  fix s assume ok: "db_ok s"
  let ?cs = "update_rows P (\<lambda>c. c\<lparr>c_status := status, c_status_reason := reason\<rparr>) (platform_connections s)"
  have keys: "map c_id ?cs = map c_id (platform_connections s)"
    "map (\<lambda>c. (c_platform c, c_external_resource_id c)) ?cs =
       map (\<lambda>c. (c_platform c, c_external_resource_id c)) (platform_connections s)"
    by (simp_all add: map_update_rows)
  have "connections_ok (organizations s) ?cs"
    if "rowcount P (platform_connections s) > 0 \<longrightarrow> ck_connection_status status"
    using ok that unfolding db_ok_def connections_ok_def keys
    by (auto simp: set_update_rows rowcount_pos_iff)
  then show "db_ok (snd (update_connections P status reason s))"
    using ok by (auto simp: update_connections_def db_ok_def parent_key_cong(3) [OF keys(1)])
qed

lemma inv_update_sessions:
  assumes "\<And>r. s_id (f r) = s_id r" "\<And>r. s_token_hash (f r) = s_token_hash r"
    "\<And>r. s_user_id (f r) = s_user_id r"
  shows "obeys keeps_db_ok (update_sessions P f)"
  using assms
  by (auto simp: obeys_def update_sessions_def db_ok_def sessions_ok_def map_update_rows)

lemma inv_update_invitations:
  assumes "\<And>r. oi_id (f r) = oi_id r" "\<And>r. oi_token_hash (f r) = oi_token_hash r"
    "\<And>r. oi_organization_id (f r) = oi_organization_id r" "\<And>r. oi_role (f r) = oi_role r"
    "\<And>r. oi_invited_by_user_id (f r) = oi_invited_by_user_id r"
    "\<And>r. ck_organization_invitations_delivery_status (oi_delivery_status r) \<Longrightarrow>
      ck_organization_invitations_delivery_status (oi_delivery_status (f r))"
  shows "obeys keeps_db_ok (update_invitations P f)"
proof (rule obeysI, rule impI)
  fix s assume ok: "db_ok s"
  let ?is = "update_rows P f (organization_invitations s)"
  have keys: "map oi_id ?is = map oi_id (organization_invitations s)"
    "map oi_token_hash ?is = map oi_token_hash (organization_invitations s)"
    using assms by (simp_all add: map_update_rows)
  have "invitations_ok (users s) (organizations s) ?is"
    using ok assms unfolding db_ok_def invitations_ok_def keys
    by (auto simp: set_update_rows split: if_splits)
  then show "db_ok (snd (update_invitations P f s))"
    using ok by (auto simp: update_invitations_def db_ok_def parent_key_cong(2) [OF keys(1)])
qed

lemma inv_update_credentials:
  assumes "\<And>r. pc_user_id (f r) = pc_user_id r"
  shows "obeys keeps_db_ok (update_credentials P f)"
  using assms
  by (auto simp: obeys_def update_credentials_def db_ok_def credentials_ok_def map_update_rows)

lemma inv_claims:
  "obeys keeps_db_ok (claim_link_transactions PL t)"
  "obeys keeps_db_ok (claim_login_transactions PO t)"
  "obeys keeps_db_ok (claim_recoveries PR t)"
  by (auto simp: obeys_def mutations db_ok_def links_ok_def logins_ok_def recoveries_ok_def
      map_update_rows set_update_rows)

lemma inv_deletes:
  "obeys keeps_db_ok (delete_sessions PS)"
  "obeys keeps_db_ok (delete_login_identities PI)"
  "obeys keeps_db_ok (delete_recoveries PR)"
  "obeys keeps_db_ok (delete_membership_scopes PM)"
  by (auto simp: obeys_def mutations db_ok_def table_ok_defs distinct_map_delete_rows refs_delete_rows)

lemmas inv_rules = inv.rules inv_users_insert inv_organization_insert inv_membership_insert
  inv_invitation_insert inv_connection_insert inv_leaf_inserts inv_record_audit
  inv_update_memberships inv_delete_memberships inv_update_connections inv_claims inv_deletes

section \<open>The law of the recorded history\<close>

lemmas spent_defs = link_spent_def login_spent_def invitation_spent_def

lemma his_inserts:
  "obeys history (insert_user r1)"
  "obeys history (insert_login_identity r2)"
  "obeys history (insert_identity_link_transaction r3)"
  "obeys history (insert_oauth_login_transaction r4)"
  "obeys history (insert_password_recovery_transaction r5)"
  "obeys history (insert_user_email r6)"
  "obeys history (insert_password_credential r7)"
  "obeys history (insert_organization r8)"
  "obeys history (insert_membership r9)"
  "obeys history (insert_membership_scope r10)"
  "obeys history (insert_invitation r11)"
  "obeys history (insert_invitation_scope r12)"
  "obeys history (insert_auth_session r13)"
  "obeys history (insert_platform_connection r14)"
  "obeys history (insert_lifecycle_idempotency r15)"
  "obeys history (insert_audit_event r16)"
  "obeys history (record_audit t e)"
  unfolding inserts by (rule obeys_constrained; auto simp: history_def spent_defs)+

lemma update_rows_keeps:
  "r \<in> set rows \<Longrightarrow> Q r \<Longrightarrow> Q (f r) \<Longrightarrow> \<exists>q \<in> set (update_rows P f rows). Q q"
  by (rule bexI [of _ "if P r then f r else r"]) (auto simp: set_update_rows)

lemma his_mutations:
  "obeys history (update_memberships p1 x1)"
  "obeys history (delete_membership_scopes p2)"
  "obeys history (delete_memberships p3)"
  "obeys history (update_sessions p4 x4)"
  "obeys history (delete_sessions p5)"
  "obeys history (delete_login_identities p6)"
  "obeys history (update_connections p8 x8 y8)"
  "obeys history (update_credentials p9 x9)"
  "obeys history (delete_recoveries p10)"
  "obeys history (claim_link_transactions p11 x11)"
  "obeys history (claim_login_transactions p12 x12)"
  "obeys history (claim_recoveries p13 x13)"
  by (auto simp: obeys_def mutations Let_def history_def spent_defs intro!: update_rows_keeps)

lemma his_update_invitations:
  assumes "\<And>r. oi_token_hash (f r) = oi_token_hash r"
    and "\<And>r. oi_accepted_at r \<noteq> None \<Longrightarrow> oi_accepted_at (f r) \<noteq> None"
    and "\<And>r. oi_revoked_at r \<noteq> None \<Longrightarrow> oi_revoked_at (f r) \<noteq> None"
  shows "obeys history (update_invitations P f)"
  using assms
  by (auto simp: obeys_def update_invitations_def history_def spent_defs intro!: update_rows_keeps)

lemmas his_rules = his.rules his_inserts his_mutations

end
