(* ===== verification/Ports.thy ===== *)
theory Ports
  imports Schema
begin

text \<open>
  What the use cases get injected, and the tools by which their runs are computed.

  \<^item> \<open>ports\<close> holds the deterministic collaborators that come from outside the repository:
    e-mail validation, keyed digests, password verification, decryption and the collation of the
    database.
  \<^item> \<open>io\<close> holds what the effectful collaborators answer during one call, in the order of the
    calls: the n-th reading of the clock, the n-th identifier, token and so on.
  \<^item> \<open>outcomes\<close> is the collection of rules that decompose a known result of an operation into
    the results of its statements.
\<close>

section \<open>Collaborators\<close>

record ports =
  normalize :: "string \<Rightarrow> error + string"
  lookup_hash :: "string \<Rightarrow> string"
  decrypt :: "string \<Rightarrow> error + string"
  token_hash :: "string \<Rightarrow> string"
  hash_ip_address :: "string \<Rightarrow> string"
  hash_user_agent :: "string \<Rightarrow> string"
  verify_password :: "string \<Rightarrow> string \<Rightarrow> bool"
  pkce_challenge :: "string \<Rightarrow> string"
  collate_le :: "string \<Rightarrow> string \<Rightarrow> bool"

record io =
  clock :: "nat \<Rightarrow> datetime"
  new_id :: "nat \<Rightarrow> uuid"
  new_token :: "nat \<Rightarrow> string"
  encrypt :: "string \<Rightarrow> string"
  hash_password :: "string \<Rightarrow> string"
  slug_for :: "string \<Rightarrow> string"
  db_now :: "nat \<Rightarrow> datetime"

section \<open>Statements shared by the repositories and use cases\<close>

text \<open>The construction of a domain object, which may raise ValueError.\<close>

definition construct :: "error + 'a \<Rightarrow> ('s, 'a) operation" where
  "construct x = tries (\<lambda>_. x)"

text \<open>\<open>try: return f(...) except ValueError: return None\<close> on a constructor.\<close>

definition fail_closed :: "error + 'a \<Rightarrow> 'a option" where
  "fail_closed x = (case x of Inl _ \<Rightarrow> None | Inr y \<Rightarrow> Some y)"

text \<open>SELECT of at most one row, mapped to a domain object; malformed rows read as None.\<close>

definition find_one :: "('r \<Rightarrow> bool) \<Rightarrow> ('r \<Rightarrow> 'a option) \<Rightarrow> 'r list \<Rightarrow> error + 'a option" where
  "find_one P f rows =
     (case scalar_one_or_none (filter P rows) of
        Inl e \<Rightarrow> Inl e | Inr None \<Rightarrow> Inr None | Inr (Some r) \<Rightarrow> Inr (f r))"

text \<open>ORDER BY: insertion sort by a comparison of rows.\<close>

fun insert_by :: "('r \<Rightarrow> 'r \<Rightarrow> bool) \<Rightarrow> 'r \<Rightarrow> 'r list \<Rightarrow> 'r list" where
  "insert_by le x [] = [x]"
| "insert_by le x (y # ys) = (if le x y then x # y # ys else y # insert_by le x ys)"

definition order_by :: "('r \<Rightarrow> 'r \<Rightarrow> bool) \<Rightarrow> 'r list \<Rightarrow> 'r list" where
  "order_by le rows = foldr (insert_by le) rows []"

text \<open>A lexicographic comparison: the first key decides unless both directions hold.\<close>

definition then_by :: "('r \<Rightarrow> 'r \<Rightarrow> bool) \<Rightarrow> ('r \<Rightarrow> 'r \<Rightarrow> bool) \<Rightarrow> 'r \<Rightarrow> 'r \<Rightarrow> bool" where
  "then_by le1 le2 x y \<longleftrightarrow> le1 x y \<and> (le1 y x \<longrightarrow> le2 x y)"

lemma mset_insert_by [simp]: "set (insert_by le x ys) = insert x (set ys)"
  by (induction ys) auto

lemma set_order_by [simp]: "set (order_by le rows) = set rows"
  by (induction rows) (simp_all add: order_by_def)

lemma length_insert_by [simp]: "length (insert_by le x ys) = Suc (length ys)"
  by (induction ys) auto

lemma length_order_by [simp]: "length (order_by le rows) = length rows"
  by (induction rows) (simp_all add: order_by_def)

lemma sorted_insert_by:
  assumes total: "\<And>a b. le a b \<or> le b a" and trans: "\<And>a b c. le a b \<Longrightarrow> le b c \<Longrightarrow> le a c"
    and "sorted_wrt le ys"
  shows "sorted_wrt le (insert_by le x ys)"
  using assms(3)
proof (induction ys)
  case (Cons y ys)
  then show ?case
    using total [of x y] by (auto intro: trans)
qed simp

lemma sorted_order_by:
  assumes "\<And>a b. le a b \<or> le b a" and "\<And>a b c. le a b \<Longrightarrow> le b c \<Longrightarrow> le a c"
  shows "sorted_wrt le (order_by le rows)"
  by (induction rows) (simp_all add: order_by_def sorted_insert_by assms)

lemma then_by_total:
  "(\<And>a b. le1 a b \<or> le1 b a) \<Longrightarrow> (\<And>a b. le2 a b \<or> le2 b a) \<Longrightarrow> then_by le1 le2 a b \<or> then_by le1 le2 b a"
  by (auto simp: then_by_def)

lemma then_by_trans:
  assumes "\<And>a b c. le1 a b \<Longrightarrow> le1 b c \<Longrightarrow> le1 a c" "\<And>a b c. le2 a b \<Longrightarrow> le2 b c \<Longrightarrow> le2 a c"
  shows "then_by le1 le2 a b \<Longrightarrow> then_by le1 le2 b c \<Longrightarrow> then_by le1 le2 a c"
  unfolding then_by_def by (meson assms)

section \<open>Decomposing a known outcome\<close>

named_theorems outcomes \<open>rules that decompose the outcome of an operation\<close>

lemma ret_outcome [outcomes]: "ret x s = (r, t) \<longleftrightarrow> r = Inr x \<and> t = s"
  by (auto simp: ret_def)

lemma raise_outcome [outcomes]: "raise e s = (r, t) \<longleftrightarrow> r = Inl e \<and> t = s"
  by (auto simp: raise_def)

lemma reads_outcome [outcomes]: "reads f s = (r, t) \<longleftrightarrow> r = Inr (f s) \<and> t = s"
  by (auto simp: reads_def)

lemma tries_outcome [outcomes]: "tries f s = (r, t) \<longleftrightarrow> f s = r \<and> t = s"
  by (auto simp: tries_def)

lemma construct_outcome [outcomes]: "construct x s = (r, t) \<longleftrightarrow> x = r \<and> t = s"
  by (auto simp: construct_def tries_def)

lemma bnd_returns [outcomes]:
  "bnd m f s = (Inr v, t) \<longleftrightarrow> (\<exists>x u. m s = (Inr x, u) \<and> f x u = (Inr v, t))"
  by (auto simp: bnd_def split: prod.splits sum.splits)

lemma bnd_raises [outcomes]:
  "bnd m f s = (Inl e, t) \<longleftrightarrow>
     m s = (Inl e, t) \<or> (\<exists>x u. m s = (Inr x, u) \<and> f x u = (Inl e, t))"
  by (auto simp: bnd_def split: prod.splits sum.splits)

lemma catching_returns [outcomes]:
  "catching m h s = (Inr v, t) \<longleftrightarrow>
     m s = (Inr v, t) \<or> (\<exists>e u. m s = (Inl e, u) \<and> h e u = (Inr v, t))"
  by (auto simp: catching_def split: prod.splits sum.splits)

lemma catching_raises [outcomes]:
  "catching m h s = (Inl e, t) \<longleftrightarrow> (\<exists>e' u. m s = (Inl e', u) \<and> h e' u = (Inl e, t))"
  by (auto simp: catching_def split: prod.splits sum.splits)

lemma transaction_returns [outcomes]: "transaction m s = (Inr v, t) \<longleftrightarrow> m s = (Inr v, t)"
  by (auto simp: transaction_def split: prod.splits sum.splits)

lemma transaction_raises [outcomes]: "transaction m s = (Inl e, t) \<longleftrightarrow> (\<exists>u. m s = (Inl e, u)) \<and> t = s"
  by (auto simp: transaction_def split: prod.splits sum.splits)

lemma atomically_returns [outcomes]:
  "atomically c m s = (Inr v, t) \<longleftrightarrow>
     m s = (Inr v, t) \<or> (\<exists>u. m s = (Inl IntegrityError, u)) \<and> v = c \<and> t = s"
  by (auto simp: atomically_def outcomes split: if_splits)

lemma atomically_raises [outcomes]:
  "atomically c m s = (Inl e, t) \<longleftrightarrow> (\<exists>u. m s = (Inl e, u)) \<and> e \<noteq> IntegrityError \<and> t = s"
  by (auto simp: atomically_def outcomes split: if_splits)

lemma constrained_returns [outcomes]: "constrained ok upd s = (Inr v, t) \<longleftrightarrow> ok s \<and> t = upd s"
  by (auto simp: constrained_def)

lemma constrained_raises [outcomes]:
  "constrained ok upd s = (Inl e, t) \<longleftrightarrow> \<not> ok s \<and> e = IntegrityError \<and> t = s"
  by (auto simp: constrained_def)

lemma if_outcome [outcomes]:
  "(if b then m else n) s = r \<longleftrightarrow> b \<and> m s = r \<or> \<not> b \<and> n s = r"
  by simp

lemma option_outcome [outcomes]:
  "(case x of None \<Rightarrow> m | Some y \<Rightarrow> f y) s = r \<longleftrightarrow>
     x = None \<and> m s = r \<or> (\<exists>y. x = Some y \<and> f y s = r)"
  by (simp split: option.split)

lemma sum_outcome [outcomes]:
  "(case x of Inl e \<Rightarrow> g e | Inr y \<Rightarrow> f y) s = r \<longleftrightarrow>
     (\<exists>e. x = Inl e \<and> g e s = r) \<or> (\<exists>y. x = Inr y \<and> f y s = r)"
  by (simp split: sum.split)

lemma construct_obeys: "(\<And>s. R s s) \<Longrightarrow> obeys R (construct x)"
  by (simp add: obeys_def construct_def tries_def)

lemma fail_closed_Some [simp]: "fail_closed x = Some y \<longleftrightarrow> x = Inr y"
  by (auto simp: fail_closed_def split: sum.splits)

lemma fail_closed_Inr [simp]: "fail_closed (Inr y) = Some y"
  by simp

lemma find_one_Some:
  "find_one P f rows = Inr (Some a) \<longleftrightarrow> (\<exists>r. filter P rows = [r] \<and> f r = Some a)"
  by (auto simp: find_one_def scalar_one_or_none_Some split: sum.splits option.splits)

lemma find_one_SomeD:
  "find_one P f rows = Inr (Some a) \<Longrightarrow> \<exists>r \<in> set rows. P r \<and> f r = Some a"
  by (auto simp: find_one_Some filter_eq_Cons_iff)

lemma find_one_unique:
  assumes "distinct (map k rows)" and "\<And>r. P r \<Longrightarrow> k r = x"
  shows "\<exists>o'. find_one P f rows = Inr o'"
proof -
  have "length (filter P rows) \<le> 1"
    using rowcount_unique_key [OF assms] by (simp add: rowcount_def)
  then have "\<exists>o'. scalar_one_or_none (filter P rows) = Inr o'"
    by (cases "filter P rows" rule: scalar_one_or_none.cases) auto
  then show ?thesis
    by (auto simp: find_one_def split: option.splits)
qed

lemma find_one_hit:
  assumes "distinct (map k rows)" and "r \<in> set rows" and "P r" and "\<And>q. P q \<Longrightarrow> k q = k r"
  shows "find_one P f rows = Inr (f r)"
  using filter_distinct_key [where P = P and k = k, OF assms] by (simp add: find_one_def)

text \<open>The rule sets of the two laws extended by object construction.\<close>

lemmas inv_steps = inv_rules construct_obeys [where R = keeps_db_ok, simplified]
lemmas his_steps = his_rules construct_obeys [where R = history, OF his.law_refl]

lemma db_ok_after: "obeys keeps_db_ok m \<Longrightarrow> db_ok s \<Longrightarrow> m s = (r, t) \<Longrightarrow> db_ok t"
  by (metis obeysD snd_conv)

section \<open>Failures that leave no trace\<close>

text \<open>
  \<open>clean m\<close>: a run of \<open>m\<close> from a consistent database that raises leaves it as it was. \<open>silent m\<close>: no run
  changes the state.
\<close>

definition clean :: "(console, 'a) operation \<Rightarrow> bool" where
  "clean m \<longleftrightarrow> (\<forall>s e t. db_ok s \<longrightarrow> m s = (Inl e, t) \<longrightarrow> t = s)"

definition silent :: "('s, 'a) operation \<Rightarrow> bool" where
  "silent m \<longleftrightarrow> (\<forall>s r t. m s = (r, t) \<longrightarrow> t = s)"

lemma silent_simps [simp]:
  "silent (ret x)" "silent (raise e)" "silent (reads f)" "silent (tries g)" "silent (construct y)"
  by (simp_all add: silent_def outcomes)

lemma silent_bnd: "silent m \<Longrightarrow> (\<And>x. silent (f x)) \<Longrightarrow> silent (bnd m f)"
  unfolding silent_def bnd_def by (auto split: prod.splits sum.splits) metis

lemma silent_clean: "silent m \<Longrightarrow> clean m"
  by (auto simp: silent_def clean_def)

lemma clean_transaction: "clean (transaction m)" "clean (atomically c m)"
  by (auto simp: clean_def outcomes)

lemma clean_silent_bnd: "silent m \<Longrightarrow> (\<And>x. clean (f x)) \<Longrightarrow> clean (bnd m f)"
  unfolding clean_def silent_def bnd_raises by blast

text \<open>
  \<open>reports bad m\<close>: a writer that answers with a \<open>bad\<close> value (False, None or 0) changed
  nothing and never leaves a change behind when it raises. The use cases test the answer and raise.
\<close>

definition reports :: "('a \<Rightarrow> bool) \<Rightarrow> (console, 'a) operation \<Rightarrow> bool" where
  "reports bad m \<longleftrightarrow> clean m \<and> (\<forall>s x t. db_ok s \<longrightarrow> m s = (Inr x, t) \<longrightarrow> bad x \<longrightarrow> t = s)"

lemma clean_report:
  assumes "reports bad m" and "\<And>x. bad x \<Longrightarrow> silent (f x)"
    and "\<And>x s e t. \<not> bad x \<Longrightarrow> f x s \<noteq> (Inl e, t)"
  shows "clean (bnd m f)"
  using assms unfolding reports_def clean_def silent_def bnd_raises by metis

lemma reports_atomically:
  "(\<And>s x t. db_ok s \<Longrightarrow> m s = (Inr x, t) \<Longrightarrow> bad x \<Longrightarrow> t = s) \<Longrightarrow> reports bad (atomically c m)"
  by (auto simp: reports_def clean_transaction outcomes)

lemma reports_transaction:
  "(\<And>s x t. db_ok s \<Longrightarrow> m s = (Inr x, t) \<Longrightarrow> bad x \<Longrightarrow> t = s) \<Longrightarrow> reports bad (transaction m)"
  by (auto simp: reports_def clean_transaction outcomes)

lemma reports_raise: "reports bad (raise e)"
  by (simp add: reports_def clean_def outcomes)

lemma reports_option:
  "(x = None \<Longrightarrow> reports bad m) \<Longrightarrow> (\<And>y. x = Some y \<Longrightarrow> reports bad (f y)) \<Longrightarrow>
   reports bad (case x of None \<Rightarrow> m | Some y \<Rightarrow> f y)"
  by (simp split: option.split)

lemma ret_not_raises [simp]: "ret x s \<noteq> (Inl e, t)"
  by (simp add: outcomes)

lemma clean_if: "(b \<Longrightarrow> clean m) \<Longrightarrow> (\<not> b \<Longrightarrow> clean n) \<Longrightarrow> clean (if b then m else n)"
  by simp

lemma clean_option:
  "(x = None \<Longrightarrow> clean m) \<Longrightarrow> (\<And>y. x = Some y \<Longrightarrow> clean (f y)) \<Longrightarrow>
   clean (case x of None \<Rightarrow> m | Some y \<Rightarrow> f y)"
  by (simp split: option.split)

lemma clean_sum:
  "(\<And>y. x = Inl y \<Longrightarrow> clean (g y)) \<Longrightarrow> (\<And>y. x = Inr y \<Longrightarrow> clean (f y)) \<Longrightarrow>
   clean (case x of Inl y \<Rightarrow> g y | Inr y \<Rightarrow> f y)"
  by (simp split: sum.split)

lemma clean_prod: "(\<And>a b. x = (a, b) \<Longrightarrow> clean (f a b)) \<Longrightarrow> clean (case x of (a, b) \<Rightarrow> f a b)"
  by (simp split: prod.split)

lemma silent_if [simp]: "(b \<Longrightarrow> silent m) \<Longrightarrow> (\<not> b \<Longrightarrow> silent n) \<Longrightarrow> silent (if b then m else n)"
  by simp

lemma silent_option [simp]:
  "(x = None \<Longrightarrow> silent m) \<Longrightarrow> (\<And>y. x = Some y \<Longrightarrow> silent (f y)) \<Longrightarrow>
   silent (case x of None \<Rightarrow> m | Some y \<Rightarrow> f y)"
  by (simp split: option.split)

lemma silent_obeys: "silent m \<Longrightarrow> (\<And>s. R s s) \<Longrightarrow> obeys R m"
  unfolding obeys_def silent_def by (metis prod.collapse)

lemma silentD: "silent m \<Longrightarrow> m s = (r, t) \<Longrightarrow> t = s"
  by (simp add: silent_def)

lemma clean_ret_raise: "clean (ret x)" "clean (raise e)"
  by (simp_all add: silent_clean)

lemmas clean_steps = clean_ret_raise clean_if clean_option clean_sum clean_prod clean_transaction clean_silent_bnd

end
