(* ===== verification/Repo_Organizations.thy ===== *)
theory Repo_Organizations
  imports Ports
begin

text \<open>
  The repository adapters of \<open>persistence/organization_repository.py\<close>: user status, tenant
  creation, membership lookup, listings and the membership mutations, each of which stores its
  audit fact in the same transaction. At the end the interface \<open>membership_directory\<close>, which is
  all that the authorization decisions rely on, and its interpretation on the SQL reader.
\<close>

section \<open>Readers\<close>

definition get_status :: "uuid \<Rightarrow> (console, UserStatus option) operation" where
  "get_status uid = tries (\<lambda>s.
     find_one (\<lambda>u. u_id u = uid) (\<lambda>u. UserStatus_parse (u_status u)) (users s))"

definition scope_from_record :: "MembershipResourceScopeRecord \<Rightarrow> MembershipResourceScope option" where
  "scope_from_record r =
     (case AuthorizationResource_parse (ms_resource r) of
        None \<Rightarrow> None
      | Some res \<Rightarrow>
          (case AuthorizationAction_parse (ms_action r) of
             None \<Rightarrow> None
           | Some act \<Rightarrow> Some \<lparr>scope_resource = res, scope_action = act, scope_id = Some (ms_id r)\<rparr>))"

fun scopes_from_records :: "MembershipResourceScopeRecord list \<Rightarrow> MembershipResourceScope list option" where
  "scopes_from_records [] = Some []"
| "scopes_from_records (r # rs) =
     (case scope_from_record r of
        None \<Rightarrow> None
      | Some sc \<Rightarrow> map_option (\<lambda>scs. sc # scs) (scopes_from_records rs))"

definition membership_from_record ::
  "OrganizationMembershipRecord \<Rightarrow> MembershipResourceScopeRecord list \<Rightarrow> OrganizationMembership option" where
  "membership_from_record m scopes =
     (case OrganizationRole_parse (m_role m) of
        None \<Rightarrow> None
      | Some role \<Rightarrow>
          (case scopes_from_records scopes of
             None \<Rightarrow> None
           | Some scs \<Rightarrow> Some
               \<lparr>member_actor_id = m_user_id m, member_organization_id = m_organization_id m,
                member_role = role, member_resource_scopes = remdups scs,
                member_id = Some (m_id m)\<rparr>))"

definition scopes_of :: "console \<Rightarrow> uuid \<Rightarrow> MembershipResourceScopeRecord list" where
  "scopes_of s mid = filter (\<lambda>r. ms_membership_id r = mid) (membership_resource_scopes s)"

definition get_membership :: "uuid \<Rightarrow> uuid \<Rightarrow> (console, OrganizationMembership option) operation" where
  "get_membership actor org = tries (\<lambda>s.
     find_one (\<lambda>m. m_user_id m = actor \<and> m_organization_id m = org)
       (\<lambda>m. membership_from_record m (scopes_of s (m_id m))) (organization_memberships s))"

definition organization_from_record :: "OrganizationRecord \<Rightarrow> Organization option" where
  "organization_from_record r = fail_closed (Organization_post_init
     \<lparr>organization_id = o_id r, organization_name = o_name r, organization_slug = o_slug r\<rparr>)"

definition find_organization_by_id :: "uuid \<Rightarrow> (console, Organization option) operation" where
  "find_organization_by_id org = tries (\<lambda>s.
     find_one (\<lambda>r. o_id r = org) organization_from_record (organizations s))"

definition list_for_actor ::
  "ports \<Rightarrow> uuid \<Rightarrow> (console, OrganizationMembershipProfile list) operation" where
  "list_for_actor P actor = reads (\<lambda>s.
     let rows = order_by
           (then_by (\<lambda>x y. collate_le P (o_name (fst x)) (o_name (fst y)))
                    (\<lambda>x y. o_id (fst x) \<le> o_id (fst y)))
           [(org, m). org \<leftarrow> organizations s, m \<leftarrow> organization_memberships s,
              m_organization_id m = o_id org \<and> m_user_id m = actor]
     in List.map_filter (\<lambda>(org, m).
          case organization_from_record org of
            None \<Rightarrow> None
          | Some og \<Rightarrow> map_option (\<lambda>mem. \<lparr>oprofile_organization = og, oprofile_membership = mem\<rparr>)
                        (membership_from_record m (scopes_of s (m_id m)))) rows)"

definition list_for_organization ::
  "ports \<Rightarrow> uuid \<Rightarrow> (console, OrganizationMembership list) operation" where
  "list_for_organization P org = reads (\<lambda>s.
     List.map_filter (\<lambda>m. membership_from_record m (scopes_of s (m_id m)))
       (order_by
         (then_by (\<lambda>x y. collate_le P (m_role x) (m_role y)) (\<lambda>x y. m_user_id x \<le> m_user_id y))
         (filter (\<lambda>m. m_organization_id m = org) (organization_memberships s))))"

definition list_profiles ::
  "ports \<Rightarrow> uuid \<Rightarrow> (console, OrganizationMemberProfile list) operation" where
  "list_profiles P org = reads (\<lambda>s.
     let rows = order_by
           (then_by (\<lambda>x y. collate_le P (m_role (fst x)) (m_role (fst y)))
                    (\<lambda>x y. collate_le P (snd x) (snd y)))
           [(m, u_display_name u). m \<leftarrow> organization_memberships s, u \<leftarrow> users s,
              u_id u = m_user_id m \<and> m_organization_id m = org]
     in List.map_filter (\<lambda>(m, name).
          case membership_from_record m (scopes_of s (m_id m)) of
            None \<Rightarrow> None
          | Some mem \<Rightarrow> fail_closed (OrganizationMemberProfile_post_init
                          \<lparr>mprofile_membership = mem, mprofile_display_name = name\<rparr>)) rows)"

section \<open>Writers\<close>

definition membership_record :: "uuid \<Rightarrow> OrganizationMembership \<Rightarrow> OrganizationMembershipRecord" where
  "membership_record mid m =
     \<lparr>m_id = mid, m_organization_id = member_organization_id m, m_user_id = member_actor_id m,
      m_role = OrganizationRole_value (member_role m)\<rparr>"

definition scope_record :: "uuid \<Rightarrow> MembershipResourceScope \<Rightarrow> error + MembershipResourceScopeRecord" where
  "scope_record mid scope =
     (case scope_id scope of
        None \<Rightarrow> Inl (ValueError ''Membership resource scopes must have server-generated identifiers.'')
      | Some i \<Rightarrow> Inr \<lparr>ms_id = i, ms_membership_id = mid,
                      ms_resource = AuthorizationResource_value (scope_resource scope),
                      ms_action = AuthorizationAction_value (scope_action scope)\<rparr>)"

definition insert_scopes :: "uuid \<Rightarrow> MembershipResourceScope list \<Rightarrow> (console, unit) operation" where
  "insert_scopes mid = each (\<lambda>scope. bnd (construct (scope_record mid scope)) insert_membership_scope)"

definition organization_create ::
  "datetime \<Rightarrow> Organization \<Rightarrow> OrganizationMembership \<Rightarrow> AuditEvent \<Rightarrow> (console, bool) operation" where
  "organization_create t org owner event =
     (case member_id owner of
        None \<Rightarrow> raise (ValueError
          ''Organization creation requires a server-generated membership identifier.'')
      | Some mid \<Rightarrow> atomically False
          (bnd (insert_organization
                  \<lparr>o_id = organization_id org, o_name = organization_name org,
                   o_slug = organization_slug org\<rparr>) (\<lambda>_.
           bnd (insert_membership (membership_record mid owner)) (\<lambda>_.
           bnd (record_audit t event) (\<lambda>_. ret True)))))"

definition add_member ::
  "datetime \<Rightarrow> OrganizationMembership \<Rightarrow> AuditEvent \<Rightarrow> (console, bool) operation" where
  "add_member t m event =
     (case member_id m of
        None \<Rightarrow> raise (ValueError ''Adding an organization member requires a membership identifier.'')
      | Some mid \<Rightarrow> atomically False
          (bnd (insert_membership (membership_record mid m)) (\<lambda>_.
           bnd (insert_scopes mid (member_resource_scopes m)) (\<lambda>_.
           bnd (record_audit t event) (\<lambda>_. ret True)))))"

definition update_member ::
  "datetime \<Rightarrow> OrganizationMembership \<Rightarrow> AuditEvent \<Rightarrow> (console, bool) operation" where
  "update_member t m event =
     (case member_id m of
        None \<Rightarrow> raise (ValueError ''Updating an organization member requires a membership identifier.'')
      | Some mid \<Rightarrow> atomically False
          (bnd (update_memberships (\<lambda>r. m_id r = mid) (OrganizationRole_value (member_role m))) (\<lambda>n.
           if n \<noteq> 1 then ret False else
           bnd (delete_membership_scopes (\<lambda>r. ms_membership_id r = mid)) (\<lambda>_.
           bnd (insert_scopes mid (member_resource_scopes m)) (\<lambda>_.
           bnd (record_audit t event) (\<lambda>_. ret True))))))"

definition remove_member :: "datetime \<Rightarrow> uuid \<Rightarrow> AuditEvent \<Rightarrow> (console, bool) operation" where
  "remove_member t mid event = atomically False
     (bnd (delete_memberships (\<lambda>r. m_id r = mid)) (\<lambda>n.
      if n \<noteq> 1 then ret False else
      bnd (record_audit t event) (\<lambda>_. ret True)))"

section \<open>Laws of the writers\<close>

lemma silent_organization_readers [simp]:
  "silent (get_status u)" "silent (get_membership a b)" "silent (find_organization_by_id c)"
  "silent (list_for_actor P a)" "silent (list_for_organization P b)" "silent (list_profiles P b)"
  by (simp_all add: get_status_def get_membership_def find_organization_by_id_def
      list_for_actor_def list_for_organization_def list_profiles_def)

lemma inv_organization_writers:
  "obeys keeps_db_ok (organization_create t org own e)"
  "obeys keeps_db_ok (add_member t m e)"
  "obeys keeps_db_ok (update_member t m e)"
  "obeys keeps_db_ok (remove_member t mid e)"
  unfolding organization_create_def add_member_def update_member_def remove_member_def insert_scopes_def
  by (intro inv_steps)+

lemma his_organization_writers:
  "obeys history (organization_create t org own e)"
  "obeys history (add_member t m e)"
  "obeys history (update_member t m e)"
  "obeys history (remove_member t mid e)"
  unfolding organization_create_def add_member_def update_member_def remove_member_def insert_scopes_def
  by (intro his_steps)+

lemma rowcount_not_one:
  assumes "distinct (map k rows)" and "\<And>r. P r \<Longrightarrow> k r = x" and "rowcount P rows \<noteq> 1"
  shows "update_rows P f rows = rows" and "delete_rows P rows = rows"
proof -
  have "rowcount P rows = 0"
    using rowcount_unique_key [where P = P and k = k, OF assms(1,2)] assms(3) by simp
  then show "update_rows P f rows = rows" "delete_rows P rows = rows"
    by (simp_all add: update_rows_none delete_rows_none)
qed

lemma reports_organization_writers:
  "reports Not (organization_create t org own e)"
  "reports Not (add_member t m e)"
  "reports Not (update_member t m e)"
  "reports Not (remove_member t mid e)"
proof -
  show "reports Not (organization_create t org own e)" "reports Not (add_member t m e)"
    unfolding organization_create_def add_member_def
    by (intro reports_option reports_raise reports_atomically; simp add: outcomes)+
  show "reports Not (update_member t m e)"
    unfolding update_member_def
  proof (intro reports_option reports_raise reports_atomically, goal_cases)
    case (1 mid s x u)
    then have "distinct (map m_id (organization_memberships s))"
      by (simp add: db_ok_def memberships_ok_def)
    note no_row = rowcount_not_one(1) [where P = "\<lambda>r. m_id r = mid", OF this]
    show ?case
      using 1 by (auto simp: outcomes update_memberships_def no_row split: if_splits)
  qed
  show "reports Not (remove_member t mid e)"
    unfolding remove_member_def
  proof (intro reports_atomically)
    fix s x u
    assume ok: "db_ok s" and bad: "\<not> x"
      and run: "bnd (delete_memberships (\<lambda>r. m_id r = mid))
        (\<lambda>n. if n \<noteq> 1 then ret False else bnd (record_audit t e) (\<lambda>_. ret True)) s = (Inr x, u)"
    from ok have keys: "distinct (map m_id (organization_memberships s))"
      and scopes: "refs ms_membership_id (membership_resource_scopes s) m_id (organization_memberships s)"
      by (simp_all add: db_ok_def memberships_ok_def scopes_ok_def)
    note no_row = rowcount_not_one(2) [where P = "\<lambda>r. m_id r = mid", OF keys]
    have "filter (\<lambda>r. has_key m_id (ms_membership_id r) (organization_memberships s))
        (membership_resource_scopes s) = membership_resource_scopes s"
      using scopes by (simp add: filter_id_conv refs_def)
    then show "u = s"
      using run bad by (auto simp: outcomes delete_memberships_def Let_def no_row split: if_splits)
  qed
qed

section \<open>Functional effect\<close>

lemma scope_roundtrip:
  "scope_record mid sc = Inr r \<Longrightarrow> ms_membership_id r = mid \<and> scope_from_record r = Some sc"
  by (cases sc) (auto simp: scope_record_def scope_from_record_def split: option.splits)

lemma insert_scopes_returns:
  "insert_scopes mid scs s = (Inr u, t) \<Longrightarrow>
     \<exists>recs. t = s\<lparr>membership_resource_scopes := membership_resource_scopes s @ recs\<rparr> \<and>
       (\<forall>r \<in> set recs. ms_membership_id r = mid) \<and> scopes_from_records recs = Some scs"
proof (induction scs arbitrary: s)
  case Nil
  then show ?case
    by (intro exI [of _ "[]"]) (simp add: insert_scopes_def outcomes)
next
  case (Cons sc scs)
  then obtain r s' where r: "scope_record mid sc = Inr r"
    and s': "s' = s\<lparr>membership_resource_scopes := membership_resource_scopes s @ [r]\<rparr>"
    and rest: "insert_scopes mid scs s' = (Inr u, t)"
    by (auto simp: insert_scopes_def outcomes insert_membership_scope_def)
  from Cons.IH [OF rest] obtain recs
    where "t = s'\<lparr>membership_resource_scopes := membership_resource_scopes s' @ recs\<rparr>"
      "\<forall>r \<in> set recs. ms_membership_id r = mid" "scopes_from_records recs = Some scs"
    by blast
  then show ?case
    using scope_roundtrip [OF r] s' by (intro exI [of _ "r # recs"]) simp
qed

text \<open>What a stored membership reads back as: the lookup by user and organization.\<close>

lemma get_membership_hit:
  assumes "db_ok s" and "r \<in> set (organization_memberships s)"
  shows "get_membership (m_user_id r) (m_organization_id r) s =
    (Inr (membership_from_record r (scopes_of s (m_id r))), s)"
proof -
  have "distinct (map (\<lambda>m. (m_organization_id m, m_user_id m)) (organization_memberships s))"
    using assms(1) by (simp add: db_ok_def memberships_ok_def)
  then show ?thesis
    unfolding get_membership_def tries_def using assms(2)
    by (simp add: find_one_hit [where k = "\<lambda>m. (m_organization_id m, m_user_id m)"])
qed

lemma get_membership_Some:
  assumes "get_membership a org s = (Inr (Some m), t)"
  shows "t = s" "member_actor_id m = a" "member_organization_id m = org"
    "\<exists>r \<in> set (organization_memberships s). m_user_id r = a \<and> m_organization_id r = org \<and>
       member_id m = Some (m_id r) \<and> m_role r = OrganizationRole_value (member_role m) \<and>
       membership_from_record r (scopes_of s (m_id r)) = Some m"
proof -
  from assms show "t = s" by (simp add: get_membership_def outcomes)
  from assms obtain r where r: "r \<in> set (organization_memberships s)" "m_user_id r = a"
    "m_organization_id r = org" "membership_from_record r (scopes_of s (m_id r)) = Some m"
    unfolding get_membership_def outcomes by (blast dest: find_one_SomeD sym)
  then show "member_actor_id m = a" "member_organization_id m = org"
    "\<exists>r \<in> set (organization_memberships s). m_user_id r = a \<and> m_organization_id r = org \<and>
       member_id m = Some (m_id r) \<and> m_role r = OrganizationRole_value (member_role m) \<and>
       membership_from_record r (scopes_of s (m_id r)) = Some m"
    by (auto simp: membership_from_record_def split: option.splits dest: OrganizationRole_parse_Some
        intro!: bexI [of _ r])
qed

end
