(* ===== verification/Repo_Identity.thy ===== *)
theory Repo_Identity
  imports Repo_Organizations
begin

text \<open>
  The repository adapters for accounts, login identities, password credentials, the one-time
  OAuth and recovery transactions, registration and the clean-up of expired records
  (\<open>persistence/identity_repository.py\<close>, \<open>identity_link_writer.py\<close>,
  \<open>identity_unlink_writer.py\<close>, \<open>identity_link_transaction_writer.py\<close>,
  \<open>oauth_login_transaction_repository.py\<close>, \<open>password_recovery_repository.py\<close>,
  \<open>password_recovery_recipient_reader.py\<close>, \<open>registration_writer.py\<close>,
  \<open>security_cleanup_repository.py\<close>).

  The three consumers share one contract, the locale \<open>one_time_ledger\<close>: a claim that succeeded
  can never succeed again. Its interpretations stand at the end.
\<close>

section \<open>Readers\<close>

definition find_account_by_email_lookup_hash ::
  "string \<Rightarrow> (console, EmailPasswordAccount option) operation" where
  "find_account_by_email_lookup_hash h = tries (\<lambda>s.
     find_one (\<lambda>_. True)
       (\<lambda>(uid, status, pw).
          case UserStatus_parse status of
            None \<Rightarrow> None
          | Some st \<Rightarrow> fail_closed (EmailPasswordAccount_post_init
              \<lparr>account_user_id = uid, account_status = st, account_password_hash = pw\<rparr>))
       [(u_id u, u_status u, pc_password_hash c).
          u \<leftarrow> users s, e \<leftarrow> user_emails s, c \<leftarrow> password_credentials s,
          ue_user_id e = u_id u \<and> pc_user_id c = u_id u \<and> ue_email_lookup_hash e = h])"

definition find_active_user_id_by_email_lookup_hash :: "string \<Rightarrow> (console, uuid option) operation" where
  "find_active_user_id_by_email_lookup_hash h = tries (\<lambda>s.
     scalar_one_or_none
       [u_id u. u \<leftarrow> users s, e \<leftarrow> user_emails s,
          ue_user_id e = u_id u \<and> ue_email_lookup_hash e = h
          \<and> u_status u = UserStatus_value USER_ACTIVE])"

definition find_provider_subject ::
  "uuid \<Rightarrow> LoginIdentityProvider \<Rightarrow> (console, string option) operation" where
  "find_provider_subject uid provider = tries (\<lambda>s.
     find_one (\<lambda>i. li_user_id i = uid \<and> li_provider i = LoginIdentityProvider_value provider)
       (\<lambda>i. if li_provider_subject i = [] then None else Some (li_provider_subject i))
       (login_identities s))"

definition find_identity_user_id ::
  "LoginIdentityProvider \<Rightarrow> string \<Rightarrow> (console, uuid option) operation" where
  "find_identity_user_id provider subject = tries (\<lambda>s.
     find_one (\<lambda>i. li_provider i = LoginIdentityProvider_value provider
                 \<and> li_provider_subject i = subject)
       (\<lambda>i. Some (li_user_id i)) (login_identities s))"

definition profile_from_record :: "LoginIdentityRecord \<Rightarrow> LoginIdentityProfile option" where
  "profile_from_record r =
     (case LoginIdentityProvider_parse (li_provider r) of
        None \<Rightarrow> None
      | Some p \<Rightarrow> fail_closed (LoginIdentityProfile_post_init
          \<lparr>profile_id = li_id r, profile_user_id = li_user_id r, profile_provider = p,
           profile_linked_at = li_linked_at r, profile_last_used_at = li_last_used_at r\<rparr>))"

definition list_identities_for_user :: "uuid \<Rightarrow> (console, LoginIdentityProfile list) operation" where
  "list_identities_for_user uid = reads (\<lambda>s.
     List.map_filter profile_from_record
       (order_by
         (then_by (\<lambda>x y. dt_le (li_linked_at x) (li_linked_at y)) (\<lambda>x y. li_id x \<le> li_id y))
         (filter (\<lambda>r. li_user_id r = uid) (login_identities s))))"

definition find_credential_for_user :: "uuid \<Rightarrow> (console, PasswordCredential option) operation" where
  "find_credential_for_user uid = tries (\<lambda>s.
     find_one (\<lambda>c. pc_user_id c = uid)
       (\<lambda>c. fail_closed (PasswordCredential_post_init
          \<lparr>credential_user_id = uid, credential_password_hash = pc_password_hash c\<rparr>))
       (password_credentials s))"

definition find_primary_email :: "ports \<Rightarrow> uuid \<Rightarrow> (console, string option) operation" where
  "find_primary_email P uid = tries (\<lambda>s.
     find_one (\<lambda>e. ue_user_id e = uid \<and> ue_is_primary e)
       (\<lambda>e. case decrypt P (ue_email_ciphertext e) of
              Inl _ \<Rightarrow> None | Inr email \<Rightarrow> if email = [] then None else Some email)
       (user_emails s))"

section \<open>Writers\<close>

definition credential_row_changed ::
  "string \<Rightarrow> datetime \<Rightarrow> PasswordCredentialRecord \<Rightarrow> PasswordCredentialRecord" where
  "credential_row_changed h t c =
     c\<lparr>pc_password_hash := h, pc_password_changed_at := t, pc_failed_attempts := 0,
       pc_locked_until := None\<rparr>"

definition change_password ::
  "datetime \<Rightarrow> uuid \<Rightarrow> string \<Rightarrow> datetime \<Rightarrow> AuditEvent \<Rightarrow> (console, bool) operation" where
  "change_password t uid h changed_at event = atomically False
     (bnd (update_credentials (\<lambda>c. pc_user_id c = uid) (credential_row_changed h changed_at)) (\<lambda>n.
      if n \<noteq> 1 then ret False else
      bnd (record_audit t event) (\<lambda>_. ret True)))"

definition link_identity :: "datetime \<Rightarrow> LoginIdentity \<Rightarrow> AuditEvent \<Rightarrow> (console, bool) operation" where
  "link_identity t i event = atomically False
     (bnd (insert_login_identity
             \<lparr>li_id = identity_id i, li_user_id = identity_user_id i,
              li_provider = LoginIdentityProvider_value (identity_provider i),
              li_provider_subject = identity_provider_subject i,
              li_linked_at = t, li_last_used_at = None\<rparr>) (\<lambda>_.
      bnd (record_audit t (event\<lparr>audit_organization_id := None\<rparr>)) (\<lambda>_. ret True)))"

definition unlink_identity ::
  "datetime \<Rightarrow> uuid \<Rightarrow> uuid \<Rightarrow> AuditEvent \<Rightarrow> (console, bool) operation" where
  "unlink_identity t iid uid event = atomically False
     (bnd (delete_login_identities (\<lambda>r. li_id r = iid \<and> li_user_id r = uid
             \<and> li_provider r \<noteq> LoginIdentityProvider_value PROVIDER_EMAIL)) (\<lambda>n.
      if n \<noteq> 1 then ret False else
      bnd (record_audit t event) (\<lambda>_. ret True)))"

definition link_transaction_create ::
  "datetime \<Rightarrow> IdentityLinkTransaction \<Rightarrow> AuditEvent \<Rightarrow> (console, bool) operation" where
  "link_transaction_create t tx event = atomically False
     (bnd (insert_identity_link_transaction
             \<lparr>lt_id = linktx_id tx, lt_user_id = linktx_user_id tx,
              lt_provider = LoginIdentityProvider_value (linktx_provider tx),
              lt_state_hash = linktx_state_hash tx,
              lt_code_verifier_ciphertext = linktx_code_verifier_ciphertext tx,
              lt_expires_at = linktx_expires_at tx, lt_consumed_at = None\<rparr>) (\<lambda>_.
      bnd (record_audit t (event\<lparr>audit_organization_id := None\<rparr>)) (\<lambda>_. ret True)))"

definition login_transaction_create ::
  "datetime \<Rightarrow> OAuthLoginTransaction \<Rightarrow> AuditEvent \<Rightarrow> (console, bool) operation" where
  "login_transaction_create t tx event = atomically False
     (bnd (insert_oauth_login_transaction
             \<lparr>ot_id = logintx_id tx,
              ot_provider = LoginIdentityProvider_value (logintx_provider tx),
              ot_state_hash = logintx_state_hash tx,
              ot_code_verifier_ciphertext = logintx_code_verifier_ciphertext tx,
              ot_expires_at = logintx_expires_at tx, ot_consumed_at = None\<rparr>) (\<lambda>_.
      bnd (record_audit t event) (\<lambda>_. ret True)))"

definition recovery_create ::
  "datetime \<Rightarrow> PasswordRecoveryTransaction \<Rightarrow> AuditEvent \<Rightarrow> (console, bool) operation" where
  "recovery_create t tx event = atomically False
     (bnd (insert_password_recovery_transaction
             \<lparr>pr_id = recovery_id tx, pr_user_id = recovery_user_id tx,
              pr_token_hash = recovery_token_hash tx, pr_expires_at = recovery_expires_at tx,
              pr_consumed_at = recovery_consumed_at tx\<rparr>) (\<lambda>_.
      bnd (record_audit t event) (\<lambda>_. ret True)))"

definition register_email_password ::
  "datetime \<Rightarrow> EmailPasswordRegistration \<Rightarrow> AuditEvent \<Rightarrow> (console, bool) operation" where
  "register_email_password t r event = atomically False
     (bnd (insert_user
             \<lparr>u_id = user_id (registration_user r),
              u_status = UserStatus_value (user_status (registration_user r)),
              u_display_name = user_display_name (registration_user r)\<rparr>) (\<lambda>_.
      bnd (insert_login_identity
             \<lparr>li_id = identity_id (registration_identity r),
              li_user_id = identity_user_id (registration_identity r),
              li_provider = LoginIdentityProvider_value (identity_provider (registration_identity r)),
              li_provider_subject = identity_provider_subject (registration_identity r),
              li_linked_at = t, li_last_used_at = None\<rparr>) (\<lambda>_.
      bnd (insert_user_email
             \<lparr>ue_id = email_id (registration_email r),
              ue_user_id = email_user_id (registration_email r),
              ue_email_ciphertext = email_ciphertext (registration_email r),
              ue_email_lookup_hash = email_lookup_hash (registration_email r),
              ue_is_primary = email_is_primary (registration_email r)\<rparr>) (\<lambda>_.
      bnd (insert_password_credential
             \<lparr>pc_user_id = credential_user_id (registration_password_credential r),
              pc_password_hash = credential_password_hash (registration_password_credential r),
              pc_password_changed_at = t, pc_failed_attempts = 0, pc_locked_until = None\<rparr>) (\<lambda>_.
      bnd (record_audit t event) (\<lambda>_. ret True))))))"

section \<open>One-time consumers\<close>

definition link_from_record :: "IdentityLinkTransactionRecord \<Rightarrow> IdentityLinkTransaction option" where
  "link_from_record r =
     (case LoginIdentityProvider_parse (lt_provider r) of
        None \<Rightarrow> None
      | Some p \<Rightarrow> fail_closed (IdentityLinkTransaction_post_init
          \<lparr>linktx_id = lt_id r, linktx_user_id = lt_user_id r, linktx_provider = p,
           linktx_state_hash = lt_state_hash r,
           linktx_code_verifier_ciphertext = lt_code_verifier_ciphertext r,
           linktx_expires_at = lt_expires_at r, linktx_consumed_at = lt_consumed_at r\<rparr>))"

definition consume_link_transaction ::
  "string \<Rightarrow> datetime \<Rightarrow> (console, IdentityLinkTransaction option) operation" where
  "consume_link_transaction h now =
     bnd (transaction
       (bnd (claim_link_transactions (\<lambda>r. lt_state_hash r = h \<and> lt_consumed_at r = None
               \<and> dt_lt now (lt_expires_at r)) now) (\<lambda>rows.
        construct (scalar_one_or_none rows))))
     (\<lambda>rec. ret (Option.bind rec link_from_record))"

definition login_from_record :: "OAuthLoginTransactionRecord \<Rightarrow> error + OAuthLoginTransaction" where
  "login_from_record r =
     (case LoginIdentityProvider_parse (ot_provider r) of
        None \<Rightarrow> Inl (ValueError (ot_provider r @ '' is not a valid LoginIdentityProvider''))
      | Some p \<Rightarrow> OAuthLoginTransaction_post_init
          \<lparr>logintx_id = ot_id r, logintx_provider = p, logintx_state_hash = ot_state_hash r,
           logintx_code_verifier_ciphertext = ot_code_verifier_ciphertext r,
           logintx_expires_at = ot_expires_at r\<rparr>)"

definition consume_login_transaction ::
  "string \<Rightarrow> datetime \<Rightarrow> (console, OAuthLoginTransaction option) operation" where
  "consume_login_transaction h now =
     bnd (transaction
       (bnd (claim_login_transactions (\<lambda>r. ot_state_hash r = h \<and> ot_consumed_at r = None
               \<and> dt_lt now (ot_expires_at r)) now) (\<lambda>rows.
        construct (scalar_one_or_none rows))))
     (\<lambda>rec. case rec of
        None \<Rightarrow> ret None
      | Some r \<Rightarrow> bnd (construct (login_from_record r)) (\<lambda>tx. ret (Some tx)))"

definition recovery_complete ::
  "datetime \<Rightarrow> string \<Rightarrow> string \<Rightarrow> datetime \<Rightarrow> uuid \<Rightarrow> uuid \<Rightarrow> (console, uuid option) operation" where
  "recovery_complete t h pw now audit correlation = atomically None
     (bnd (claim_recoveries (\<lambda>r. pr_token_hash r = h \<and> pr_consumed_at r = None
             \<and> dt_lt now (pr_expires_at r)) now) (\<lambda>rows.
      bnd (construct (scalar_one_or_none rows)) (\<lambda>rec.
      case rec of
        None \<Rightarrow> ret None
      | Some r \<Rightarrow>
          bnd (update_credentials (\<lambda>c. pc_user_id c = pr_user_id r) (credential_row_changed pw now)) (\<lambda>n.
          if n \<noteq> 1 then ret None else
          bnd (update_sessions (\<lambda>x. s_user_id x = pr_user_id r \<and> s_revoked_at x = None
                 \<and> dt_lt now (s_expires_at x)) (\<lambda>x. x\<lparr>s_revoked_at := Some now\<rparr>)) (\<lambda>_.
          bnd (record_audit t
             \<lparr>audit_id = audit, audit_correlation_id = correlation,
              audit_actor_id = Some (pr_user_id r), audit_organization_id = None,
              audit_action = ''auth.password_recovered'', audit_resource_type = ''user'',
              audit_resource_id = Some (uuid_str (pr_user_id r)),
              audit_result = ''succeeded''\<rparr>) (\<lambda>_.
          ret (Some (pr_user_id r))))))))"

section \<open>Clean-up\<close>

definition opt_before :: "datetime option \<Rightarrow> datetime \<Rightarrow> bool" where
  "opt_before x t = (case x of None \<Rightarrow> False | Some d \<Rightarrow> dt_lt d t)"

definition delete_expired_or_revoked_sessions :: "datetime \<Rightarrow> (console, nat) operation" where
  "delete_expired_or_revoked_sessions before = transaction
     (delete_sessions (\<lambda>r. dt_lt (s_expires_at r) before \<or> opt_before (s_revoked_at r) before))"

definition delete_consumed_or_expired_password_recovery_transactions ::
  "datetime \<Rightarrow> (console, nat) operation" where
  "delete_consumed_or_expired_password_recovery_transactions before = transaction
     (delete_recoveries (\<lambda>r. dt_lt (pr_expires_at r) before \<or> opt_before (pr_consumed_at r) before))"

lemmas identity_readers =
  find_account_by_email_lookup_hash_def find_active_user_id_by_email_lookup_hash_def
  find_provider_subject_def find_identity_user_id_def list_identities_for_user_def
  find_credential_for_user_def find_primary_email_def

lemmas identity_writers =
  change_password_def link_identity_def unlink_identity_def link_transaction_create_def
  login_transaction_create_def recovery_create_def register_email_password_def
  consume_link_transaction_def consume_login_transaction_def recovery_complete_def
  delete_expired_or_revoked_sessions_def delete_consumed_or_expired_password_recovery_transactions_def

section \<open>Laws\<close>

lemma silent_identity_readers [simp]:
  "silent (find_account_by_email_lookup_hash h)"
  "silent (find_active_user_id_by_email_lookup_hash h)"
  "silent (find_provider_subject u p)"
  "silent (find_identity_user_id p sub)"
  "silent (list_identities_for_user u)"
  "silent (find_credential_for_user u)"
  "silent (find_primary_email P u)"
  by (simp_all add: identity_readers)

lemma inv_credential_updates [intro]:
  "obeys keeps_db_ok (update_credentials Q (credential_row_changed h d))"
  "obeys keeps_db_ok (update_sessions Q' (\<lambda>x. x\<lparr>s_revoked_at := r\<rparr>))"
  by (simp_all add: inv_update_credentials inv_update_sessions credential_row_changed_def)

lemma inv_identity_writers:
  "obeys keeps_db_ok (change_password t u h d e)"
  "obeys keeps_db_ok (link_identity t i e)"
  "obeys keeps_db_ok (unlink_identity t a u e)"
  "obeys keeps_db_ok (link_transaction_create t l e)"
  "obeys keeps_db_ok (login_transaction_create t ol e)"
  "obeys keeps_db_ok (recovery_create t rt e)"
  "obeys keeps_db_ok (register_email_password t rg e)"
  "obeys keeps_db_ok (consume_link_transaction h d)"
  "obeys keeps_db_ok (consume_login_transaction h d)"
  "obeys keeps_db_ok (recovery_complete t h pw d a c)"
  "obeys keeps_db_ok (delete_expired_or_revoked_sessions d)"
  "obeys keeps_db_ok (delete_consumed_or_expired_password_recovery_transactions d)"
  unfolding identity_writers by (intro inv_steps inv_credential_updates)+

lemma his_identity_writers:
  "obeys history (change_password t u h d e)"
  "obeys history (link_identity t i e)"
  "obeys history (unlink_identity t a u e)"
  "obeys history (link_transaction_create t l e)"
  "obeys history (login_transaction_create t ol e)"
  "obeys history (recovery_create t rt e)"
  "obeys history (register_email_password t rg e)"
  "obeys history (consume_link_transaction h d)"
  "obeys history (consume_login_transaction h d)"
  "obeys history (recovery_complete t h pw d a c)"
  "obeys history (delete_expired_or_revoked_sessions d)"
  "obeys history (delete_consumed_or_expired_password_recovery_transactions d)"
  unfolding identity_writers by (intro his_steps)+

lemma reports_identity_inserts:
  "reports Not (link_identity t i e)"
  "reports Not (link_transaction_create t l e)"
  "reports Not (login_transaction_create t ol e)"
  "reports Not (recovery_create t rt e)"
  "reports Not (register_email_password t rg e)"
  unfolding identity_writers by (rule reports_atomically; simp add: outcomes)+

lemma reports_change_password: "reports Not (change_password t u h d e)"
  unfolding change_password_def
proof (rule reports_atomically)
  fix s x t'
  assume "db_ok s"
  then have "distinct (map pc_user_id (password_credentials s))"
    by (simp add: db_ok_def credentials_ok_def)
  note no_row = rowcount_not_one(1) [where P = "\<lambda>c. pc_user_id c = u", OF this]
  assume "bnd (update_credentials (\<lambda>c. pc_user_id c = u) (credential_row_changed h d))
    (\<lambda>n. if n \<noteq> 1 then ret False else bnd (record_audit t e) (\<lambda>_. ret True)) s = (Inr x, t')" "\<not> x"
  then show "t' = s"
    by (auto simp: outcomes update_credentials_def no_row split: if_splits)
qed

lemma reports_unlink_identity: "reports Not (unlink_identity t iid u e)"
  unfolding unlink_identity_def
proof (rule reports_atomically)
  fix s x t'
  let ?P = "\<lambda>r. li_id r = iid \<and> li_user_id r = u \<and> li_provider r \<noteq> LoginIdentityProvider_value PROVIDER_EMAIL"
  assume "db_ok s"
  then have "distinct (map li_id (login_identities s))"
    by (simp add: db_ok_def identities_ok_def)
  note no_row = rowcount_not_one(2) [where P = ?P, OF this]
  assume "bnd (delete_login_identities ?P)
    (\<lambda>n. if n \<noteq> 1 then ret False else bnd (record_audit t e) (\<lambda>_. ret True)) s = (Inr x, t')" "\<not> x"
  then show "t' = s"
    by (auto simp: outcomes delete_login_identities_def no_row split: if_splits
        simp del: LoginIdentityProvider_value.simps)
qed

section \<open>One-time use\<close>

text \<open>
  The contract of a one-time consumer: a claim that returned a transaction spends its key, and a
  spent key is refused without any change. Its consequence holds for whatever happens between two
  claims, as long as it keeps the database consistent and the key spent.
\<close>

locale one_time_ledger =
  fixes claim :: "string \<Rightarrow> datetime \<Rightarrow> (console, 'tx option) operation"
    and spent :: "string \<Rightarrow> console \<Rightarrow> bool"
  assumes claim_spends: "claim k now s = (Inr (Some tx), t) \<Longrightarrow> spent k t"
    and spent_refused: "db_ok s \<Longrightarrow> spent k s \<Longrightarrow> claim k now s = (Inr None, s)"
    and claim_keeps: "obeys keeps_db_ok (claim k now)"
begin

lemma at_most_once:
  assumes "db_ok s" and "claim k now s = (Inr (Some tx), t)"
    and "keeps_db_ok t u" and "spent k t \<longrightarrow> spent k u"
  shows "claim k later u = (Inr None, u)"
proof -
  have "db_ok t"
    using obeysD [OF claim_keeps, of s k now] assms(1,2) by simp
  with assms claim_spends show ?thesis
    by (intro spent_refused) auto
qed

end

lemma no_match_of_key:
  assumes "distinct (map k rows)" and "r \<in> set rows" and "k r = x" and "\<not> P r"
    and "\<And>q. P q \<Longrightarrow> k q = x"
  shows "filter P rows = []"
proof (rule ccontr)
  assume "filter P rows \<noteq> []"
  then obtain q where "q \<in> set rows" "P q"
    by (auto simp: filter_empty_conv)
  with assms have "q = r"
    by (metis distinct_map inj_on_eq_iff)
  with \<open>P q\<close> \<open>\<not> P r\<close> show False by simp
qed

lemma no_match_update: "filter P rows = [] \<Longrightarrow> update_rows P f rows = rows"
  by (simp add: update_rows_none rowcount_def)

lemma claimed_row:
  assumes "scalar_one_or_none (map f (filter P rows)) = Inr (Some x)"
  shows "\<exists>r \<in> set rows. P r \<and> x = f r \<and> f r \<in> set (update_rows P f rows)"
proof -
  from assms obtain r where r: "filter P rows = [r]" "x = f r"
    by (auto simp: scalar_one_or_none_Some)
  then have "r \<in> set rows" "P r"
    by (auto simp: filter_eq_Cons_iff)
  with r show ?thesis
    by (auto simp: set_update_rows)
qed

lemma consume_link_spends: "consume_link_transaction h now s = (Inr (Some tx), t) \<Longrightarrow> link_spent h t"
  unfolding consume_link_transaction_def outcomes claim_link_transactions_def
  by (auto simp: outcomes bind_eq_Some_conv eq_commute [of "Some _"] link_spent_def
      dest!: claimed_row) (auto intro: rev_bexI)

lemma consume_link_refused:
  assumes "db_ok s" and "link_spent h s"
  shows "consume_link_transaction h now s = (Inr None, s)"
proof -
  let ?P = "\<lambda>r. lt_state_hash r = h \<and> lt_consumed_at r = None \<and> dt_lt now (lt_expires_at r)"
  obtain r where r: "r \<in> set (identity_link_transactions s)" "lt_state_hash r = h" "lt_consumed_at r \<noteq> None"
    using assms(2) unfolding link_spent_def by blast
  have "distinct (map lt_state_hash (identity_link_transactions s))"
    using assms(1) by (simp add: db_ok_def links_ok_def)
  from this r(1,2) have none: "filter ?P (identity_link_transactions s) = []"
    by (rule no_match_of_key) (use r(3) in auto)
  then show ?thesis
    by (simp add: consume_link_transaction_def claim_link_transactions_def effects construct_def
        no_match_update [OF none])
qed

interpretation link_ledger: one_time_ledger consume_link_transaction link_spent
  by unfold_locales
    (simp_all add: consume_link_spends consume_link_refused inv_identity_writers)

lemma consume_login_spends: "consume_login_transaction h now s = (Inr (Some tx), t) \<Longrightarrow> login_spent h t"
  unfolding consume_login_transaction_def outcomes claim_login_transactions_def
  by (auto simp: outcomes login_spent_def dest!: claimed_row) (auto intro: rev_bexI)

lemma consume_login_refused:
  assumes "db_ok s" and "login_spent h s"
  shows "consume_login_transaction h now s = (Inr None, s)"
proof -
  let ?P = "\<lambda>r. ot_state_hash r = h \<and> ot_consumed_at r = None \<and> dt_lt now (ot_expires_at r)"
  obtain r where r: "r \<in> set (oauth_login_transactions s)" "ot_state_hash r = h" "ot_consumed_at r \<noteq> None"
    using assms(2) unfolding login_spent_def by blast
  have "distinct (map ot_state_hash (oauth_login_transactions s))"
    using assms(1) by (simp add: db_ok_def logins_ok_def)
  from this r(1,2) have none: "filter ?P (oauth_login_transactions s) = []"
    by (rule no_match_of_key) (use r(3) in auto)
  then show ?thesis
    by (simp add: consume_login_transaction_def claim_login_transactions_def effects construct_def
        no_match_update [OF none])
qed

interpretation login_ledger: one_time_ledger consume_login_transaction login_spent
  by unfold_locales
    (simp_all add: consume_login_spends consume_login_refused inv_identity_writers)

definition recovery_spent :: "string \<Rightarrow> console \<Rightarrow> bool" where
  "recovery_spent k s \<longleftrightarrow>
     (\<exists>r \<in> set (password_recovery_transactions s). pr_token_hash r = k \<and> pr_consumed_at r \<noteq> None)"

lemma recovery_complete_Some:
  assumes "recovery_complete d h pw now a c s = (Inr (Some uid), t)"
  obtains r where "r \<in> set (password_recovery_transactions s)" "pr_token_hash r = h"
    "pr_consumed_at r = None" "dt_lt now (pr_expires_at r)" "pr_user_id r = uid"
    "r\<lparr>pr_consumed_at := Some now\<rparr> \<in> set (password_recovery_transactions t)"
    "rowcount (\<lambda>c. pc_user_id c = uid) (password_credentials s) = 1"
    "password_credentials t =
       update_rows (\<lambda>c. pc_user_id c = uid) (credential_row_changed pw now) (password_credentials s)"
    "auth_sessions t =
       update_rows (\<lambda>x. s_user_id x = uid \<and> s_revoked_at x = None \<and> dt_lt now (s_expires_at x))
         (\<lambda>x. x\<lparr>s_revoked_at := Some now\<rparr>) (auth_sessions s)"
proof -
  let ?P = "\<lambda>r. pr_token_hash r = h \<and> pr_consumed_at r = None \<and> dt_lt now (pr_expires_at r)"
  let ?f = "\<lambda>r. r\<lparr>pr_consumed_at := Some now\<rparr>"
  from assms obtain x where
    one: "scalar_one_or_none (map ?f (filter ?P (password_recovery_transactions s))) = Inr (Some x)"
    and t: "uid = pr_user_id x"
      "rowcount (\<lambda>c. pc_user_id c = pr_user_id x) (password_credentials s) = 1"
      "password_recovery_transactions t = update_rows ?P ?f (password_recovery_transactions s)"
      "password_credentials t = update_rows (\<lambda>c. pc_user_id c = pr_user_id x)
         (credential_row_changed pw now) (password_credentials s)"
      "auth_sessions t =
         update_rows (\<lambda>y. s_user_id y = pr_user_id x \<and> s_revoked_at y = None \<and> dt_lt now (s_expires_at y))
           (\<lambda>y. y\<lparr>s_revoked_at := Some now\<rparr>) (auth_sessions s)"
    unfolding recovery_complete_def atomically_returns bnd_returns
    by (auto simp: outcomes inserts claim_recoveries_def update_credentials_def update_sessions_def)
  from claimed_row [OF one] t show thesis
    by (auto intro: that)
qed

lemma recovery_complete_spends:
  "recovery_complete d h pw now a c s = (Inr (Some uid), t) \<Longrightarrow> recovery_spent h t"
  by (erule recovery_complete_Some) (auto simp: recovery_spent_def intro: rev_bexI)

lemma recovery_complete_refused:
  assumes "db_ok s" and "recovery_spent h s"
  shows "recovery_complete d h pw now a c s = (Inr None, s)"
proof -
  let ?P = "\<lambda>r. pr_token_hash r = h \<and> pr_consumed_at r = None \<and> dt_lt now (pr_expires_at r)"
  obtain r where r: "r \<in> set (password_recovery_transactions s)" "pr_token_hash r = h" "pr_consumed_at r \<noteq> None"
    using assms(2) unfolding recovery_spent_def by blast
  have "distinct (map pr_token_hash (password_recovery_transactions s))"
    using assms(1) by (simp add: db_ok_def recoveries_ok_def)
  from this r(1,2) have none: "filter ?P (password_recovery_transactions s) = []"
    by (rule no_match_of_key) (use r(3) in auto)
  then show ?thesis
    by (simp add: recovery_complete_def atomically_def claim_recoveries_def effects construct_def
        no_match_update [OF none])
qed

interpretation recovery_ledger:
  one_time_ledger "\<lambda>h now. recovery_complete d h pw now a c" recovery_spent
  by unfold_locales
    (auto simp: recovery_complete_refused inv_identity_writers dest: recovery_complete_spends)

end
