(* ===== verification/Samples.thy ===== *)
theory Samples
  imports Repo_Identity
begin

text \<open>
  A small deployment on which the properties are exercised: an organization with an owner (user 1),
  an administrator (user 2) and a viewer (user 3), a registered user 4 that is in no organization,
  a browser session, a platform connection, a pending invitation and pending one-time transactions;
  and collaborators that answer deterministically. Digests are 64 characters long and Argon2id
  hashes carry their prefix, as the domain objects require.
\<close>

definition pad64 :: "string \<Rightarrow> string" where
  "pad64 s = take 64 (s @ ''................................................................'')"

definition sample_ports :: ports where
  "sample_ports =
     \<lparr>normalize = (\<lambda>e. if CHR ''@'' \<in> set e then Inr e else Inl (ValueError ''Email address is invalid.'')),
      lookup_hash = pad64,
      decrypt = (\<lambda>c. Inr (drop 4 c)),
      token_hash = pad64,
      hash_ip_address = pad64,
      hash_user_agent = pad64,
      verify_password = (\<lambda>h p. h = ''$argon2id$'' @ p),
      pkce_challenge = (\<lambda>v. ''s256:'' @ v),
      collate_le = (\<lambda>a b. lexordp_eq (map (of_char :: char \<Rightarrow> nat) a) (map of_char b))\<rparr>"

definition sample_io :: io where
  "sample_io =
     \<lparr>clock = (\<lambda>n. Aware (1000000000 + int n)),
      new_id = (\<lambda>n. word_of_nat (500 + n)),
      new_token = (\<lambda>n. if n = 0 then ''tok-a'' else if n = 1 then ''tok-b'' else ''tok-c''),
      encrypt = (\<lambda>p. ''enc:'' @ p),
      hash_password = (\<lambda>p. ''$argon2id$'' @ p),
      slug_for = (\<lambda>name. ''org-slug''),
      db_now = (\<lambda>n. Aware (1000000100 + int n))\<rparr>"

definition sample_user :: "uuid \<Rightarrow> string \<Rightarrow> UserRecord" where
  "sample_user i name = \<lparr>u_id = i, u_status = ''active'', u_display_name = name\<rparr>"

definition sample_email :: "uuid \<Rightarrow> string \<Rightarrow> UserEmailRecord" where
  "sample_email i address =
     \<lparr>ue_id = 10 + i, ue_user_id = i, ue_email_ciphertext = ''enc:'' @ address,
      ue_email_lookup_hash = pad64 address, ue_is_primary = True\<rparr>"

definition sample_credential :: "uuid \<Rightarrow> string \<Rightarrow> PasswordCredentialRecord" where
  "sample_credential i pw =
     \<lparr>pc_user_id = i, pc_password_hash = ''$argon2id$'' @ pw, pc_password_changed_at = Aware 0,
      pc_failed_attempts = 0, pc_locked_until = None\<rparr>"

definition sample_identity :: "uuid \<Rightarrow> uuid \<Rightarrow> string \<Rightarrow> string \<Rightarrow> LoginIdentityRecord" where
  "sample_identity i u provider subject =
     \<lparr>li_id = i, li_user_id = u, li_provider = provider, li_provider_subject = subject,
      li_linked_at = Aware 0, li_last_used_at = None\<rparr>"

definition sample_member :: "uuid \<Rightarrow> uuid \<Rightarrow> string \<Rightarrow> OrganizationMembershipRecord" where
  "sample_member i u role = \<lparr>m_id = i, m_organization_id = 100, m_user_id = u, m_role = role\<rparr>"

definition sample_session :: AuthSessionRecord where
  "sample_session =
     \<lparr>s_id = 60, s_user_id = 1, s_token_hash = pad64 ''token'', s_expires_at = Aware 2000000000,
      s_revoked_at = None, s_assurance_level = ''recent_authentication'', s_ip_hash = None,
      s_user_agent_hash = None, s_last_seen_at = None, s_created_at = Aware 999999999\<rparr>"

definition sample_connection :: PlatformConnectionRecord where
  "sample_connection =
     \<lparr>c_id = 70, c_organization_id = 100, c_platform = ''discord'', c_external_resource_id = ''guild-1'',
      c_status = ''active'', c_status_reason = Some ''healthy'',
      c_granted_capabilities = [(''discord.guild.read'', True)]\<rparr>"

definition sample_invitation :: OrganizationInvitationRecord where
  "sample_invitation =
     \<lparr>oi_id = 80, oi_organization_id = 100, oi_invited_by_user_id = Some 1,
      oi_email_ciphertext = ''enc:d@x'', oi_email_lookup_hash = pad64 ''d@x'', oi_email_hint = ''d*@x'',
      oi_token_hash = pad64 ''invite'', oi_role = ''viewer'', oi_delivery_status = None,
      oi_expires_at = Aware 2000000000, oi_accepted_at = None, oi_revoked_at = None,
      oi_created_at = Aware 0\<rparr>"

definition sample :: console where
  "sample = empty_console
     \<lparr>users := [sample_user 1 ''Ann'', sample_user 2 ''Bob'', sample_user 3 ''Cid'', sample_user 4 ''Dee''],
      login_identities := [sample_identity 20 1 ''email'' ''a@x'', sample_identity 21 1 ''discord'' ''900''],
      identity_link_transactions :=
        [\<lparr>lt_id = 30, lt_user_id = 1, lt_provider = ''twitch'', lt_state_hash = pad64 ''link-state'',
          lt_code_verifier_ciphertext = ''enc:verifier'', lt_expires_at = Aware 2000000000,
          lt_consumed_at = None\<rparr>],
      oauth_login_transactions :=
        [\<lparr>ot_id = 31, ot_provider = ''discord'', ot_state_hash = pad64 ''login-state'',
          ot_code_verifier_ciphertext = ''enc:verifier'', ot_expires_at = Aware 2000000000,
          ot_consumed_at = None\<rparr>],
      password_recovery_transactions :=
        [\<lparr>pr_id = 32, pr_user_id = 1, pr_token_hash = pad64 ''recover'', pr_expires_at = Aware 2000000000,
          pr_consumed_at = None\<rparr>],
      user_emails := [sample_email 1 ''a@x'', sample_email 2 ''b@x'', sample_email 3 ''c@x'', sample_email 4 ''d@x''],
      password_credentials := [sample_credential 1 ''old-password'', sample_credential 2 ''secret''],
      organizations := [\<lparr>o_id = 100, o_name = ''Acme'', o_slug = ''acme''\<rparr>],
      organization_memberships :=
        [sample_member 50 1 ''owner'', sample_member 51 2 ''admin'', sample_member 52 3 ''viewer''],
      membership_resource_scopes :=
        [\<lparr>ms_id = 55, ms_membership_id = 51, ms_resource = ''console.platform_connections'',
          ms_action = ''manage''\<rparr>],
      organization_invitations := [sample_invitation],
      organization_invitation_scopes :=
        [\<lparr>is_id = 85, is_invitation_id = 80, is_resource = ''console.control_modules'', is_action = ''read''\<rparr>],
      auth_sessions := [sample_session],
      platform_connections := [sample_connection]\<rparr>"

lemmas sample_defs = sample_def sample_user_def sample_email_def sample_credential_def
  sample_identity_def sample_member_def sample_session_def sample_connection_def
  sample_invitation_def empty_console_def

lemma has_key_list_ex: "has_key f k rows = list_ex (\<lambda>r. f r = k) rows"
  by (auto simp: has_key_def list_ex_iff)

text \<open>The definitions that compute a run on the sample deployment.\<close>

lemmas evaluation =
  sample_defs sample_ports_def sample_io_def pad64_def
  ret_def raise_def reads_def tries_def bnd_def construct_def catching_def transaction_def
  atomically_def constrained_def Let_def
  inserts mutations audit_record_def has_key_list_ex rowcount_def update_rows_def delete_rows_def
  find_one_def fail_closed_def order_by_def then_by_def List.map_filter_simps
  ck_users_status_def ck_external_provider_def ck_organization_memberships_role_def
  ck_organization_invitations_role_def ck_organization_invitations_delivery_status_def
  ck_connection_status_def ck_lifecycle_action_def ck_audit_events_result_def
  enum_parse_def UserStatus_parse_def LoginIdentityProvider_parse_def SessionAssuranceLevel_parse_def
  AuthorizationAction_parse_def AuthorizationResource_parse_def OrganizationRole_parse_def
  OrganizationInvitationDeliveryStatus_parse_def Platform_parse_def ConnectionStatus_parse_def
  ConnectionStatusReason_parse_def
  User_post_init_def LoginIdentity_post_init_def LoginIdentityProfile_post_init_def
  UserEmail_post_init_def PasswordCredential_post_init_def EmailPasswordAccount_post_init_def
  AuthSession_post_init_def IdentityLinkTransaction_post_init_def OAuthLoginTransaction_post_init_def
  PasswordRecoveryTransaction_post_init_def AuditEvent_post_init_def AuditLogEntry_post_init_def
  Organization_post_init_def OrganizationMemberProfile_post_init_def
  OrganizationInvitation_post_init_def PlatformConnection_post_init_def
  session_is_active_at_def status_at_def opt_digest_def opt_aware_def
  py_strip_eq_Nil_iff py_startswith_def py_isspace_def
  get_status_def get_membership_def find_organization_by_id_def scopes_of_def
  membership_from_record_def scope_from_record_def scope_record_def insert_scopes_def
  membership_record_def organization_from_record_def organization_create_def add_member_def
  update_member_def remove_member_def identity_readers identity_writers credential_row_changed_def
  link_from_record_def login_from_record_def opt_before_def

lemma sample_ok: "db_ok sample"
  unfolding db_ok_def
  by (intro conjI; simp add: sample_defs table_ok_defs refs_def has_key_def pad64_def
      ck_users_status_def ck_external_provider_def ck_organization_memberships_role_def
      ck_organization_invitations_role_def ck_organization_invitations_delivery_status_def
      ck_connection_status_def)

text \<open>A run that returns has a result and a final state.\<close>

lemma run_eq: "fst (m s) = r \<Longrightarrow> m s = (r, snd (m s))"
  by (metis prod.collapse)

lemma returns: "\<exists>x. fst (m s) = Inr x \<Longrightarrow> (\<And>x t. m s = (Inr x, t) \<Longrightarrow> thesis) \<Longrightarrow> thesis"
  by (metis prod.collapse)

lemma returns_value: "fst (m s) = Inr x \<Longrightarrow> (\<And>t. m s = (Inr x, t) \<Longrightarrow> thesis) \<Longrightarrow> thesis"
  by (metis prod.collapse)

end
