(* ===== verification/Organizations.thy ===== *)
theory Organizations
  imports Samples
begin

text \<open>
  Authorization and the organization use cases: the membership authorizer
  (\<open>application/organization_authorizer.py\<close>), creating and listing organizations
  (\<open>create_organization_use_case.py\<close>, \<open>list_organizations_use_case.py\<close>) and member
  management (\<open>organization_member_management_helpers.py\<close>, \<open>add_organization_member.py\<close>,
  \<open>update_organization_member.py\<close>, \<open>remove_organization_member.py\<close>,
  \<open>list_organization_members.py\<close>). A use case is the operation named after its class with the
  suffix \<open>_execute\<close>.
\<close>

section \<open>The authorizer\<close>

record AuthorizationDecision =
  allowed :: bool

definition deny :: AuthorizationDecision where
  "deny = \<lparr>allowed = False\<rparr>"

definition authorize ::
  "(uuid \<Rightarrow> uuid \<Rightarrow> ('s, OrganizationMembership option) operation) \<Rightarrow>
   AuthorizationRequest \<Rightarrow> ('s, AuthorizationDecision) operation" where
  "authorize memberships request =
     bnd (memberships (request_actor_id request) (request_organization_id request)) (\<lambda>m.
     case m of
       None \<Rightarrow> ret deny
     | Some membership \<Rightarrow> ret \<lparr>allowed = membership_allows membership request\<rparr>)"

section \<open>Organizations\<close>

record CreateOrganizationCommand =
  co_actor_id :: uuid
  co_name :: string
  co_correlation_id :: uuid

definition CreateOrganization_execute ::
  "io \<Rightarrow> CreateOrganizationCommand \<Rightarrow> (console, Organization) operation" where
  "CreateOrganization_execute io cmd =
     bnd (get_status (co_actor_id cmd)) (\<lambda>status.
     if status \<noteq> Some USER_ACTIVE
     then raise (OrganizationCreationRejectedError ''The user is not allowed to create an organization.'')
     else
       bnd (construct (Organization_post_init
              \<lparr>organization_id = new_id io 0, organization_name = co_name cmd,
               organization_slug = slug_for io (co_name cmd)\<rparr>)) (\<lambda>org.
       bnd (construct (AuditEvent_post_init
              \<lparr>audit_id = new_id io 2, audit_correlation_id = co_correlation_id cmd,
               audit_actor_id = Some (co_actor_id cmd),
               audit_organization_id = Some (organization_id org),
               audit_action = ''organization.create'', audit_resource_type = ''organization'',
               audit_resource_id = Some (uuid_str (organization_id org)),
               audit_result = ''succeeded''\<rparr>)) (\<lambda>event.
       bnd (organization_create (db_now io 0) org
              \<lparr>member_actor_id = co_actor_id cmd, member_organization_id = organization_id org,
               member_role = OWNER, member_resource_scopes = [], member_id = Some (new_id io 1)\<rparr>
              event) (\<lambda>created.
       if \<not> created
       then raise (OrganizationCreationRejectedError ''The organization could not be created.'')
       else ret org))))"

definition ListOrganizations_execute ::
  "ports \<Rightarrow> uuid \<Rightarrow> (console, OrganizationMembershipProfile list) operation" where
  "ListOrganizations_execute P actor =
     bnd (get_status actor) (\<lambda>status.
     if status \<noteq> Some USER_ACTIVE
     then raise (OrganizationListRejectedError ''The user is not allowed to list organizations.'')
     else list_for_actor P actor)"

section \<open>Member management\<close>

definition can_manage_organization_members :: "OrganizationRole \<Rightarrow> bool" where
  "can_manage_organization_members role \<longleftrightarrow> role \<in> {OWNER, ADMIN}"

definition require_actor_can_manage ::
  "uuid \<Rightarrow> uuid \<Rightarrow> OrganizationRole \<Rightarrow> (console, OrganizationMembership) operation" where
  "require_actor_can_manage actor org target_role =
     bnd (get_membership actor org) (\<lambda>m.
     case m of
       None \<Rightarrow> raise (OrganizationMemberManagementRejectedError ''Member management denied.'')
     | Some a \<Rightarrow>
         if \<not> can_manage_organization_members (member_role a) \<or> \<not> may_assign (member_role a) target_role
         then raise (OrganizationMemberManagementRejectedError ''Member management denied.'')
         else ret a)"

text \<open>
  \<open>assign_scope_ids\<close>: the list of scopes with their identifiers and the number of identifiers
  drawn so far.
\<close>

fun assign_scope_ids ::
  "(nat \<Rightarrow> uuid) \<Rightarrow> nat \<Rightarrow> MembershipResourceScope list \<Rightarrow> MembershipResourceScope list \<times> nat" where
  "assign_scope_ids new n [] = ([], n)"
| "assign_scope_ids new n (sc # scs) =
     (case scope_id sc of
        None \<Rightarrow> (let (rest, k) = assign_scope_ids new (Suc n) scs
                 in (sc\<lparr>scope_id := Some (new n)\<rparr> # rest, k))
      | Some _ \<Rightarrow> (let (rest, k) = assign_scope_ids new n scs in (sc # rest, k)))"

definition reject_scopes_not_supported_by_role ::
  "OrganizationRole \<Rightarrow> MembershipResourceScope list \<Rightarrow> (console, unit) operation" where
  "reject_scopes_not_supported_by_role role scopes =
     (if filter (\<lambda>scope. \<not> supports_scope role scope) scopes = [] then ret ()
      else raise (OrganizationMemberManagementRejectedError ''Role does not support requested scopes.''))"

definition create_member_audit_event ::
  "uuid \<Rightarrow> uuid \<Rightarrow> uuid \<Rightarrow> uuid \<Rightarrow> string \<Rightarrow> uuid \<Rightarrow> error + AuditEvent" where
  "create_member_audit_event eid correlation actor org action target = AuditEvent_post_init
     \<lparr>audit_id = eid, audit_correlation_id = correlation, audit_actor_id = Some actor,
      audit_organization_id = Some org, audit_action = action,
      audit_resource_type = ''organization_member'', audit_resource_id = Some (uuid_str target),
      audit_result = ''succeeded''\<rparr>"

record AddOrganizationMemberCommand =
  am_actor_id :: uuid
  am_organization_id :: uuid
  am_email :: string
  am_role :: OrganizationRole
  am_resource_scopes :: "MembershipResourceScope list"
  am_correlation_id :: uuid

definition AddOrganizationMember_execute ::
  "ports \<Rightarrow> io \<Rightarrow> AddOrganizationMemberCommand \<Rightarrow> (console, OrganizationMembership) operation" where
  "AddOrganizationMember_execute P io cmd =
     bnd (construct (normalize P (am_email cmd))) (\<lambda>email.
     bnd (require_actor_can_manage (am_actor_id cmd) (am_organization_id cmd) (am_role cmd)) (\<lambda>actor.
     bnd (reject_scopes_not_supported_by_role (am_role cmd) (am_resource_scopes cmd)) (\<lambda>_.
     bnd (find_active_user_id_by_email_lookup_hash (lookup_hash P email)) (\<lambda>target.
     case target of
       None \<Rightarrow> raise (OrganizationMemberManagementRejectedError ''Invitee user is unavailable.'')
     | Some target_user_id \<Rightarrow>
         bnd (get_status target_user_id) (\<lambda>status.
         if status \<noteq> Some USER_ACTIVE
         then raise (OrganizationMemberManagementRejectedError ''Target user is not active.'')
         else
           let (scopes, n) = assign_scope_ids (new_id io) 1 (am_resource_scopes cmd);
               membership =
                 \<lparr>member_actor_id = target_user_id, member_organization_id = am_organization_id cmd,
                  member_role = am_role cmd, member_resource_scopes = remdups scopes,
                  member_id = Some (new_id io 0)\<rparr>
           in
           bnd (construct (create_member_audit_event (new_id io n) (am_correlation_id cmd)
                  (am_actor_id cmd) (am_organization_id cmd) ''organization.member.add''
                  target_user_id)) (\<lambda>event.
           bnd (add_member (db_now io 0) membership event) (\<lambda>created.
           if \<not> created
           then raise (OrganizationMemberManagementRejectedError ''Member could not be added.'')
           else ret membership)))))))"

record UpdateOrganizationMemberCommand =
  um_actor_id :: uuid
  um_organization_id :: uuid
  um_user_id :: uuid
  um_role :: OrganizationRole
  um_resource_scopes :: "MembershipResourceScope list"
  um_correlation_id :: uuid

definition UpdateOrganizationMember_execute ::
  "io \<Rightarrow> UpdateOrganizationMemberCommand \<Rightarrow> (console, OrganizationMembership) operation" where
  "UpdateOrganizationMember_execute io cmd =
     bnd (require_actor_can_manage (um_actor_id cmd) (um_organization_id cmd) (um_role cmd)) (\<lambda>actor.
     bnd (reject_scopes_not_supported_by_role (um_role cmd) (um_resource_scopes cmd)) (\<lambda>_.
     bnd (get_membership (um_user_id cmd) (um_organization_id cmd)) (\<lambda>found.
     case found of
       None \<Rightarrow> raise (OrganizationMemberManagementRejectedError ''Member update denied.'')
     | Some target \<Rightarrow>
         if member_id target = None \<or> member_actor_id target = member_actor_id actor
            \<or> \<not> may_assign (member_role actor) (member_role target)
         then raise (OrganizationMemberManagementRejectedError ''Member update denied.'')
         else
           let (scopes, n) = assign_scope_ids (new_id io) 0 (um_resource_scopes cmd);
               updated =
                 \<lparr>member_actor_id = member_actor_id target,
                  member_organization_id = member_organization_id target,
                  member_role = um_role cmd, member_resource_scopes = remdups scopes,
                  member_id = member_id target\<rparr>
           in
           bnd (construct (create_member_audit_event (new_id io n) (um_correlation_id cmd)
                  (um_actor_id cmd) (um_organization_id cmd) ''organization.member.update''
                  (um_user_id cmd))) (\<lambda>event.
           bnd (update_member (db_now io 0) updated event) (\<lambda>saved.
           if \<not> saved
           then raise (OrganizationMemberManagementRejectedError ''Member update failed.'')
           else ret updated)))))"

record RemoveOrganizationMemberCommand =
  rm_actor_id :: uuid
  rm_organization_id :: uuid
  rm_user_id :: uuid
  rm_correlation_id :: uuid

definition RemoveOrganizationMember_execute ::
  "io \<Rightarrow> RemoveOrganizationMemberCommand \<Rightarrow> (console, unit) operation" where
  "RemoveOrganizationMember_execute io cmd =
     bnd (get_membership (rm_actor_id cmd) (rm_organization_id cmd)) (\<lambda>actor.
     bnd (get_membership (rm_user_id cmd) (rm_organization_id cmd)) (\<lambda>target.
     case (actor, target) of
       (Some a, Some tg) \<Rightarrow>
         (case member_id tg of
            None \<Rightarrow> raise (OrganizationMemberManagementRejectedError ''Member removal denied.'')
          | Some mid \<Rightarrow>
              if member_actor_id tg = member_actor_id a
                 \<or> \<not> can_manage_organization_members (member_role a)
                 \<or> \<not> may_assign (member_role a) (member_role tg)
              then raise (OrganizationMemberManagementRejectedError ''Member removal denied.'')
              else
                bnd (construct (create_member_audit_event (new_id io 0) (rm_correlation_id cmd)
                       (rm_actor_id cmd) (rm_organization_id cmd) ''organization.member.remove''
                       (rm_user_id cmd))) (\<lambda>event.
                bnd (remove_member (db_now io 0) mid event) (\<lambda>removed.
                if \<not> removed
                then raise (OrganizationMemberManagementRejectedError ''Member removal failed.'')
                else ret ())))
     | _ \<Rightarrow> raise (OrganizationMemberManagementRejectedError ''Member removal denied.'')))"

definition ListOrganizationMembers_execute ::
  "ports \<Rightarrow> uuid \<Rightarrow> uuid \<Rightarrow> (console, OrganizationMemberProfile list) operation" where
  "ListOrganizationMembers_execute P actor org =
     bnd (get_membership actor org) (\<lambda>m.
     case m of
       None \<Rightarrow> raise (OrganizationMemberManagementRejectedError ''Access denied.'')
     | Some a \<Rightarrow>
         if member_role a \<notin> {OWNER, ADMIN}
         then raise (OrganizationMemberManagementRejectedError ''Access denied.'')
         else list_profiles P org)"

lemmas organization_use_cases =
  CreateOrganization_execute_def ListOrganizations_execute_def AddOrganizationMember_execute_def
  UpdateOrganizationMember_execute_def RemoveOrganizationMember_execute_def
  ListOrganizationMembers_execute_def

lemmas member_guards = require_actor_can_manage_def reject_scopes_not_supported_by_role_def

section \<open>Invariant and history\<close>

lemmas inv_readers = silent_obeys [where R = keeps_db_ok, simplified]
lemmas his_readers = silent_obeys [where R = history, OF _ his.law_refl]

lemma silent_member_guards [simp]:
  "silent (require_actor_can_manage a org r)" "silent (reject_scopes_not_supported_by_role r scs)"
  by (simp_all add: member_guards silent_bnd)

lemma silent_listings [simp]:
  "silent (ListOrganizations_execute P a)" "silent (ListOrganizationMembers_execute P a org)"
  by (simp_all add: organization_use_cases silent_bnd)

lemma inv_organization_use_cases:
  "obeys keeps_db_ok (CreateOrganization_execute io c1)"
  "obeys keeps_db_ok (AddOrganizationMember_execute P io c2)"
  "obeys keeps_db_ok (UpdateOrganizationMember_execute io c3)"
  "obeys keeps_db_ok (RemoveOrganizationMember_execute io c4)"
  unfolding organization_use_cases Let_def
  by (intro inv_steps inv_organization_writers inv_readers silent_organization_readers
      silent_identity_readers silent_member_guards)+

lemma his_organization_use_cases:
  "obeys history (CreateOrganization_execute io c1)"
  "obeys history (AddOrganizationMember_execute P io c2)"
  "obeys history (UpdateOrganizationMember_execute io c3)"
  "obeys history (RemoveOrganizationMember_execute io c4)"
  unfolding organization_use_cases Let_def
  by (intro his_steps his_organization_writers his_readers silent_organization_readers
      silent_identity_readers silent_member_guards)+

section \<open>Rejections leave no trace\<close>

lemmas clean_organization_writes = reports_organization_writers [THEN clean_report]

lemma clean_organization_use_cases:
  "clean (CreateOrganization_execute io c1)"
  "clean (AddOrganizationMember_execute P io c2)"
  "clean (UpdateOrganizationMember_execute io c3)"
  "clean (RemoveOrganizationMember_execute io c4)"
  unfolding organization_use_cases Let_def
  by (rule clean_organization_writes clean_steps | simp)+

section \<open>What the authorizer decides\<close>

text \<open>
  The interface between the authorizer and the membership reader: the reader finds every effective
  membership by its two keys and nothing else.
\<close>

locale membership_directory =
  fixes lookup :: "uuid \<Rightarrow> uuid \<Rightarrow> ('s, OrganizationMembership option) operation"
    and effective :: "'s \<Rightarrow> OrganizationMembership list"
    and wf :: "'s \<Rightarrow> bool"
  assumes lookup_hit: "wf s \<Longrightarrow> m \<in> set (effective s) \<Longrightarrow>
      lookup (member_actor_id m) (member_organization_id m) s = (Inr (Some m), s)"
    and lookup_miss: "wf s \<Longrightarrow>
      \<forall>m \<in> set (effective s). \<not> (member_actor_id m = a \<and> member_organization_id m = org) \<Longrightarrow>
      lookup a org s = (Inr None, s)"
begin

lemma authorize_effective:
  assumes "wf s"
  shows "authorize lookup req s =
    (Inr \<lparr>allowed = (\<exists>m \<in> set (effective s). membership_allows m req)\<rparr>, s)"
proof (cases "\<exists>m \<in> set (effective s). member_actor_id m = request_actor_id req
    \<and> member_organization_id m = request_organization_id req")
  case True
  then obtain m where m: "m \<in> set (effective s)" "member_actor_id m = request_actor_id req"
    "member_organization_id m = request_organization_id req" by blast
  have same: "q = m" if "q \<in> set (effective s)" "membership_allows q req" for q
    using lookup_hit [OF assms that(1)] lookup_hit [OF assms m(1)] m
      membership_allows_cases [OF that(2)] by simp
  from lookup_hit [OF assms m(1)] m(2,3) m(1) same show ?thesis
    by (auto simp: authorize_def effects)
next
  case False
  then have "\<not> (\<exists>m \<in> set (effective s). membership_allows m req)"
    using membership_allows_cases by metis
  moreover have "lookup (request_actor_id req) (request_organization_id req) s = (Inr None, s)"
    using False by (intro lookup_miss [OF assms]) auto
  ultimately show ?thesis
    by (simp add: authorize_def effects deny_def)
qed

end

text \<open>The memberships that the stored rows amount to; malformed rows count for nothing.\<close>

definition effective_memberships :: "console \<Rightarrow> OrganizationMembership list" where
  "effective_memberships s =
     List.map_filter (\<lambda>r. membership_from_record r (scopes_of s (m_id r))) (organization_memberships s)"

lemma effective_memberships_iff:
  "m \<in> set (effective_memberships s) \<longleftrightarrow>
     (\<exists>r \<in> set (organization_memberships s). membership_from_record r (scopes_of s (m_id r)) = Some m)"
  by (force simp: effective_memberships_def List.map_filter_def)

lemma membership_from_record_keys:
  "membership_from_record r scs = Some m \<Longrightarrow>
     member_actor_id m = m_user_id r \<and> member_organization_id m = m_organization_id r
     \<and> member_id m = Some (m_id r)"
  by (auto simp: membership_from_record_def split: option.splits)

lemma get_membership_returns:
  assumes "db_ok s" shows "\<exists>m. get_membership a org s = (Inr m, s)"
proof -
  have "distinct (map (\<lambda>m. (m_organization_id m, m_user_id m)) (organization_memberships s))"
    using assms by (simp add: db_ok_def memberships_ok_def)
  then have "\<exists>m. find_one (\<lambda>m. m_user_id m = a \<and> m_organization_id m = org) f
      (organization_memberships s) = Inr m" for f :: "_ \<Rightarrow> OrganizationMembership option"
    by (rule find_one_unique [where x = "(org, a)"]) simp
  then show ?thesis
    by (simp add: get_membership_def tries_def)
qed

interpretation directory: membership_directory get_membership effective_memberships db_ok
proof unfold_locales
  fix s m
  assume ok: "db_ok s" and "m \<in> set (effective_memberships s)"
  then obtain r where r: "r \<in> set (organization_memberships s)"
    "membership_from_record r (scopes_of s (m_id r)) = Some m"
    by (auto simp: effective_memberships_iff)
  from get_membership_hit [OF ok r(1)] r(2) membership_from_record_keys [OF r(2)]
  show "get_membership (member_actor_id m) (member_organization_id m) s = (Inr (Some m), s)"
    by simp
next
  fix s a org
  assume ok: "db_ok s"
    and none: "\<forall>m \<in> set (effective_memberships s). \<not> (member_actor_id m = a \<and> member_organization_id m = org)"
  obtain x where x: "get_membership a org s = (Inr x, s)"
    using get_membership_returns [OF ok] by blast
  show "get_membership a org s = (Inr None, s)"
  proof (cases x)
    case (Some m)
    with x get_membership_Some [of a org s m s] none show ?thesis
      by (auto simp: effective_memberships_iff)
  qed (simp add: x)
qed

text \<open>The access matrix at the level of the stored rows.\<close>

definition row_grants :: "console \<Rightarrow> AuthorizationRequest \<Rightarrow> OrganizationMembershipRecord \<Rightarrow> bool" where
  "row_grants s req r \<longleftrightarrow>
     m_user_id r = request_actor_id req \<and> m_organization_id r = request_organization_id req
     \<and> list_all (\<lambda>q. scope_from_record q \<noteq> None) (scopes_of s (m_id r))
     \<and> (case OrganizationRole_parse (m_role r) of
          None \<Rightarrow> False
        | Some role \<Rightarrow> role = OWNER \<or> role_supports role req
            \<and> list_ex (\<lambda>q. ms_resource q = AuthorizationResource_value (request_resource req)
                         \<and> ms_action q = AuthorizationAction_value (request_action req))
                (scopes_of s (m_id r)))"

lemma scopes_from_records_eq:
  "scopes_from_records rs =
     (if list_all (\<lambda>q. scope_from_record q \<noteq> None) rs
      then Some (List.map_filter scope_from_record rs) else None)"
  by (induction rs) (auto simp: List.map_filter_simps split: option.splits)

lemma scope_from_record_Some:
  "scope_from_record q = Some sc \<Longrightarrow>
     ms_resource q = AuthorizationResource_value (scope_resource sc)
     \<and> ms_action q = AuthorizationAction_value (scope_action sc)"
  by (auto simp: scope_from_record_def AuthorizationResource_parse_def AuthorizationAction_parse_def
      split: option.splits dest!: enum_parse_Some)

lemma AuthorizationResource_value_inject [simp]:
  "AuthorizationResource_value a = AuthorizationResource_value b \<longleftrightarrow> a = b"
  by (metis AuthorizationResource_parse_value option.inject)

lemma AuthorizationAction_value_inject [simp]:
  "AuthorizationAction_value a = AuthorizationAction_value b \<longleftrightarrow> a = b"
  by (metis AuthorizationAction_parse_value option.inject)

lemma some_scope_allows:
  assumes "list_all (\<lambda>q. scope_from_record q \<noteq> None) rs"
  shows "(\<exists>sc \<in> set (List.map_filter scope_from_record rs). scope_allows sc req) \<longleftrightarrow>
    list_ex (\<lambda>q. ms_resource q = AuthorizationResource_value (request_resource req)
      \<and> ms_action q = AuthorizationAction_value (request_action req)) rs"
  using assms
proof (induction rs)
  case (Cons q rs)
  then obtain sc where sc: "scope_from_record q = Some sc" by auto
  with scope_from_record_Some [OF sc] Cons show ?case
    by (auto simp: List.map_filter_simps scope_allows_def)
qed (simp add: List.map_filter_simps)

lemma row_grants_eq:
  "row_grants s req r \<longleftrightarrow>
     (case membership_from_record r (scopes_of s (m_id r)) of
        None \<Rightarrow> False | Some m \<Rightarrow> membership_allows m req)"
  using some_scope_allows [of "scopes_of s (m_id r)" req]
  by (auto simp: membership_from_record_def row_grants_def scopes_from_records_eq
      membership_allows_def list_ex_iff split: option.splits)

lemma row_grants_iff:
  "row_grants s req r \<longleftrightarrow>
     (\<exists>m. membership_from_record r (scopes_of s (m_id r)) = Some m \<and> membership_allows m req)"
  by (simp add: row_grants_eq split: option.split)

lemma effective_allows_iff:
  "(\<exists>m \<in> set (effective_memberships s). membership_allows m req) \<longleftrightarrow>
     (\<exists>r \<in> set (organization_memberships s). row_grants s req r)"
  unfolding row_grants_iff Bex_def effective_memberships_iff by blast

section \<open>Effect of the membership writers\<close>

lemma no_scopes_of_fresh_membership:
  "db_ok s \<Longrightarrow> \<not> has_key m_id mid (organization_memberships s) \<Longrightarrow> scopes_of s mid = []"
  by (auto simp: db_ok_def scopes_ok_def refs_def scopes_of_def filter_empty_conv)

lemma membership_record_roundtrip:
  assumes "member_id m = Some mid" and "distinct (member_resource_scopes m)"
    and "scopes_from_records recs = Some (member_resource_scopes m)"
  shows "membership_from_record (membership_record mid m) recs = Some m"
  using assms by (cases m) (simp add: membership_from_record_def membership_record_def distinct_remdups_id)

lemma add_member_effect:
  assumes ok: "db_ok s" and run: "add_member d m e s = (Inr True, t)"
    and scopes: "distinct (member_resource_scopes m)"
  obtains mid where "member_id m = Some mid"
    "organization_memberships t = organization_memberships s @ [membership_record mid m]"
    "audit_events t = audit_events s @ [audit_record d e]"
    "get_membership (member_actor_id m) (member_organization_id m) t = (Inr (Some m), t)"
proof -
  from run obtain mid s1 s2 where mid: "member_id m = Some mid"
    and ins: "insert_membership (membership_record mid m) s = (Inr (), s1)"
    and sc: "insert_scopes mid (member_resource_scopes m) s1 = (Inr (), s2)"
    and aud: "record_audit d e s2 = (Inr (), t)"
    by (auto simp: add_member_def outcomes)
  from ins have s1: "s1 = s\<lparr>organization_memberships := organization_memberships s @ [membership_record mid m]\<rparr>"
    and fresh: "\<not> has_key m_id mid (organization_memberships s)"
    by (auto simp: insert_membership_def outcomes membership_record_def)
  from insert_scopes_returns [OF sc] obtain recs where
    s2: "s2 = s1\<lparr>membership_resource_scopes := membership_resource_scopes s1 @ recs\<rparr>"
    and recs: "\<forall>r \<in> set recs. ms_membership_id r = mid"
      "scopes_from_records recs = Some (member_resource_scopes m)"
    by blast
  from aud have t: "t = s2\<lparr>audit_events := audit_events s2 @ [audit_record d e]\<rparr>"
    by (auto simp: inserts outcomes)
  have "scopes_of t mid = recs"
    using no_scopes_of_fresh_membership [OF ok fresh] recs(1)
    by (simp add: t s2 s1 scopes_of_def filter_id_conv)
  moreover have "db_ok t"
    using obeysD [OF inv_organization_writers(2), of s d m e] ok run by simp
  ultimately have "get_membership (member_actor_id m) (member_organization_id m) t = (Inr (Some m), t)"
    using get_membership_hit [of t "membership_record mid m"]
      membership_record_roundtrip [OF mid scopes recs(2)]
    by (simp add: t s2 s1) (simp add: membership_record_def)
  with mid show thesis
    by (intro that) (simp_all add: t s2 s1)
qed

lemma silent_outcome: "silent m \<Longrightarrow> m s = (r, t) \<longleftrightarrow> fst (m s) = r \<and> t = s"
  by (auto simp: silent_def) (metis prod.collapse)

lemmas reader_outcomes =
  silent_organization_readers [THEN silent_outcome] silent_identity_readers [THEN silent_outcome]

lemma require_actor_can_manage_returns:
  "require_actor_can_manage a org role s = (Inr actor, t) \<longleftrightarrow>
     t = s \<and> fst (get_membership a org s) = Inr (Some actor) \<and>
     can_manage_organization_members (member_role actor) \<and> may_assign (member_role actor) role"
  by (auto simp: require_actor_can_manage_def outcomes reader_outcomes)

lemma reject_scopes_returns:
  "reject_scopes_not_supported_by_role role scs s = (Inr u, t) \<longleftrightarrow>
     t = s \<and> list_all (supports_scope role) scs"
  by (auto simp: reject_scopes_not_supported_by_role_def outcomes filter_empty_conv list_all_iff)

lemma create_member_audit_event_Inr:
  "create_member_audit_event i c a org action u = Inr e \<Longrightarrow>
     audit_action e = action \<and> audit_actor_id e = Some a \<and> audit_organization_id e = Some org
     \<and> audit_resource_id e = Some (uuid_str u) \<and> audit_result e = ''succeeded''"
  by (auto simp: create_member_audit_event_def AuditEvent_post_init_def split: if_splits)

lemma row_of_id:
  assumes "db_ok s" and "r \<in> set (organization_memberships s)" and "q \<in> set (organization_memberships s)"
    and "m_id q = m_id r"
  shows "q = r"
  using assms by (auto simp: db_ok_def memberships_ok_def distinct_map dest: inj_onD)

lemma row_of_keys:
  assumes "db_ok s" and "r \<in> set (organization_memberships s)" and "q \<in> set (organization_memberships s)"
    and "m_user_id q = m_user_id r" and "m_organization_id q = m_organization_id r"
  shows "q = r"
  using assms by (auto simp: db_ok_def memberships_ok_def distinct_map inj_on_def)

lemma update_member_effect:
  assumes ok: "db_ok s" and run: "update_member d m e s = (Inr True, t)"
    and scopes: "distinct (member_resource_scopes m)"
    and row: "r \<in> set (organization_memberships s)" "member_id m = Some (m_id r)"
      "m_user_id r = member_actor_id m" "m_organization_id r = member_organization_id m"
  shows "organization_memberships t = update_rows (\<lambda>q. m_id q = m_id r)
      (\<lambda>q. q\<lparr>m_role := OrganizationRole_value (member_role m)\<rparr>) (organization_memberships s)" (is ?rows)
    and "audit_events t = audit_events s @ [audit_record d e]"
    and "get_membership (member_actor_id m) (member_organization_id m) t = (Inr (Some m), t)" (is ?get)
proof -
  let ?mid = "m_id r"
  from run row(2) obtain s1 s2 s3 where
    s1: "s1 = s\<lparr>organization_memberships := update_rows (\<lambda>q. m_id q = ?mid)
      (\<lambda>q. q\<lparr>m_role := OrganizationRole_value (member_role m)\<rparr>) (organization_memberships s)\<rparr>"
    and s2: "s2 = s1\<lparr>membership_resource_scopes :=
      delete_rows (\<lambda>q. ms_membership_id q = ?mid) (membership_resource_scopes s1)\<rparr>"
    and sc: "insert_scopes ?mid (member_resource_scopes m) s2 = (Inr (), s3)"
    and aud: "record_audit d e s3 = (Inr (), t)"
    by (auto simp: update_member_def outcomes update_memberships_def delete_membership_scopes_def
        split: if_splits)
  from insert_scopes_returns [OF sc] obtain recs where
    s3: "s3 = s2\<lparr>membership_resource_scopes := membership_resource_scopes s2 @ recs\<rparr>"
    and recs: "\<forall>q \<in> set recs. ms_membership_id q = ?mid"
      "scopes_from_records recs = Some (member_resource_scopes m)"
    by blast
  from aud have t: "t = s3\<lparr>audit_events := audit_events s3 @ [audit_record d e]\<rparr>"
    by (auto simp: inserts outcomes)
  show ?rows "audit_events t = audit_events s @ [audit_record d e]"
    by (simp_all add: t s3 s2 s1)
  let ?new = "r\<lparr>m_role := OrganizationRole_value (member_role m)\<rparr>"
  have new: "?new = membership_record ?mid m"
    using row(3,4) by (cases r) (simp add: membership_record_def)
  have "scopes_of t ?mid = recs"
    using recs(1) by (simp add: t s3 s2 s1 scopes_of_def filter_id_conv delete_rows_def filter_empty_conv)
  moreover have "?new \<in> set (organization_memberships t)"
    using row(1) by (auto simp: t s3 s2 s1 set_update_rows)
  moreover have "db_ok t"
    using obeysD [OF inv_organization_writers(3), of s d m e] ok run by simp
  ultimately show ?get
    using get_membership_hit [of t ?new] membership_record_roundtrip [OF row(2) scopes recs(2)] row(3,4)
    by (simp add: new [symmetric])
qed

lemma remove_member_effect:
  assumes "remove_member d mid e s = (Inr True, t)"
  shows "organization_memberships t = delete_rows (\<lambda>q. m_id q = mid) (organization_memberships s)"
    and "audit_events t = audit_events s @ [audit_record d e]"
  using assms
  by (auto simp: remove_member_def outcomes delete_memberships_def Let_def inserts split: if_splits)

lemma organization_create_effect:
  assumes "organization_create d org own e s = (Inr True, t)"
  obtains mid where "member_id own = Some mid"
    "t = s\<lparr>organizations := organizations s @
             [\<lparr>o_id = organization_id org, o_name = organization_name org, o_slug = organization_slug org\<rparr>],
           organization_memberships := organization_memberships s @ [membership_record mid own],
           audit_events := audit_events s @ [audit_record d e]\<rparr>"
    "\<not> has_key m_id mid (organization_memberships s)"
  using assms
  by (auto simp: organization_create_def outcomes inserts membership_record_def)

section \<open>Owners\<close>

text \<open>
  The law of ownership: the owner rows of the membership table are the same before and after. Every
  use case but the creation of an organization obeys it.
\<close>

definition owner_rows :: "console \<Rightarrow> OrganizationMembershipRecord list" where
  "owner_rows s = filter (\<lambda>r. m_role r = OrganizationRole_value OWNER) (organization_memberships s)"

definition keeps_owners :: "console \<Rightarrow> console \<Rightarrow> bool" where
  "keeps_owners s t \<longleftrightarrow> (db_ok s \<longrightarrow> db_ok t \<and> owner_rows t = owner_rows s)"

interpretation own: step_law keeps_owners
  by unfold_locales (auto simp: keeps_owners_def)

lemma own_if_memberships_kept:
  assumes "obeys keeps_db_ok m" and "\<And>s. organization_memberships (snd (m s)) = organization_memberships s"
  shows "obeys keeps_owners m"
  using assms by (auto simp: obeys_def keeps_owners_def owner_rows_def)

lemma own_of_outcomes:
  assumes "obeys keeps_db_ok m" and "clean m"
    and "\<And>s x t. db_ok s \<Longrightarrow> m s = (Inr x, t) \<Longrightarrow> owner_rows t = owner_rows s"
  shows "obeys keeps_owners m"
proof (rule obeysI)
  fix s
  obtain r t where run: "m s = (r, t)" by fastforce
  have "owner_rows t = owner_rows s" if "db_ok s"
    using assms(2,3) run that unfolding clean_def by (cases r) blast+
  then show "keeps_owners s (snd (m s))"
    using obeysD [OF assms(1), of s] run by (simp add: keeps_owners_def)
qed

lemma owner_rows_update:
  assumes "\<And>q. q \<in> set rows \<Longrightarrow> P q \<Longrightarrow> m_role q \<noteq> v" and "w \<noteq> v"
  shows "filter (\<lambda>r. m_role r = v) (update_rows P (\<lambda>q. q\<lparr>m_role := w\<rparr>) rows) =
    filter (\<lambda>r. m_role r = v) rows"
  using assms by (induction rows) (auto simp: update_rows_def)

lemma owner_rows_delete:
  assumes "\<And>q. q \<in> set rows \<Longrightarrow> P q \<Longrightarrow> m_role q \<noteq> v"
  shows "filter (\<lambda>r. m_role r = v) (delete_rows P rows) = filter (\<lambda>r. m_role r = v) rows"
  using assms by (induction rows) (auto simp: delete_rows_def)

section \<open>Properties\<close>

lemmas organization_evaluation = evaluation organization_use_cases member_guards
  can_manage_organization_members_def may_assign_def supports_scope_def role_supports_pair_def
  create_member_audit_event_def authorize_def deny_def membership_allows_def

lemma AddOrganizationMember_effect:
  assumes "db_ok s" and "AddOrganizationMember_execute P io cmd s = (Inr m, t)"
  shows "(\<exists>actor. fst (get_membership (am_actor_id cmd) (am_organization_id cmd) s) = Inr (Some actor)
      \<and> member_role actor \<in> {OWNER, ADMIN} \<and> member_role actor < am_role cmd)
    \<and> list_all (supports_scope (am_role cmd)) (am_resource_scopes cmd)
    \<and> member_organization_id m = am_organization_id cmd \<and> member_role m = am_role cmd
    \<and> fst (get_status (member_actor_id m) s) = Inr (Some USER_ACTIVE)
    \<and> organization_memberships t = organization_memberships s @ [membership_record (new_id io 0) m]
    \<and> (\<exists>e. audit_events t = audit_events s @ [e] \<and> a_action e = ''organization.member.add''
         \<and> a_actor_id e = Some (am_actor_id cmd) \<and> a_resource_id e = Some (uuid_str (member_actor_id m)))
    \<and> get_membership (member_actor_id m) (am_organization_id cmd) t = (Inr (Some m), t)"
proof -
  obtain scopes n where scopes: "assign_scope_ids (new_id io) (Suc 0) (am_resource_scopes cmd) = (scopes, n)"
    by fastforce
  from assms(2) obtain actor uid event where
    guard: "fst (get_membership (am_actor_id cmd) (am_organization_id cmd) s) = Inr (Some actor)"
      "can_manage_organization_members (member_role actor)" "may_assign (member_role actor) (am_role cmd)"
      "list_all (supports_scope (am_role cmd)) (am_resource_scopes cmd)"
      "fst (get_status uid s) = Inr (Some USER_ACTIVE)"
    and m: "m = \<lparr>member_actor_id = uid, member_organization_id = am_organization_id cmd,
                 member_role = am_role cmd, member_resource_scopes = remdups scopes,
                 member_id = Some (new_id io 0)\<rparr>"
    and event: "create_member_audit_event (new_id io n) (am_correlation_id cmd) (am_actor_id cmd)
                  (am_organization_id cmd) ''organization.member.add'' uid = Inr event"
    and run: "add_member (db_now io 0) m event s = (Inr True, t)"
    unfolding AddOrganizationMember_execute_def Let_def
    by (auto simp: outcomes reader_outcomes require_actor_can_manage_returns reject_scopes_returns scopes)
  from add_member_effect [OF assms(1) run] m obtain
    eff: "organization_memberships t = organization_memberships s @ [membership_record (new_id io 0) m]"
      "audit_events t = audit_events s @ [audit_record (db_now io 0) event]"
      "get_membership (member_actor_id m) (member_organization_id m) t = (Inr (Some m), t)"
    by auto
  from guard create_member_audit_event_Inr [OF event] eff show ?thesis
    by (auto simp: m can_manage_organization_members_def may_assign_less audit_record_def)
qed

lemma UpdateOrganizationMember_returns:
  assumes "UpdateOrganizationMember_execute io cmd s = (Inr m, t)"
  obtains actor target event where
    "fst (get_membership (um_actor_id cmd) (um_organization_id cmd) s) = Inr (Some actor)"
    "fst (get_membership (um_user_id cmd) (um_organization_id cmd) s) = Inr (Some target)"
    "can_manage_organization_members (member_role actor)" "may_assign (member_role actor) (um_role cmd)"
    "may_assign (member_role actor) (member_role target)" "member_actor_id target \<noteq> member_actor_id actor"
    "list_all (supports_scope (um_role cmd)) (um_resource_scopes cmd)"
    "member_actor_id m = member_actor_id target" "member_organization_id m = member_organization_id target"
    "member_role m = um_role cmd" "member_id m = member_id target" "distinct (member_resource_scopes m)"
    "audit_action event = ''organization.member.update''" "audit_actor_id event = Some (um_actor_id cmd)"
    "update_member (db_now io 0) m event s = (Inr True, t)"
proof -
  obtain scopes n where scopes: "assign_scope_ids (new_id io) 0 (um_resource_scopes cmd) = (scopes, n)"
    by fastforce
  show thesis
    using assms unfolding UpdateOrganizationMember_execute_def Let_def
    by (auto simp: outcomes reader_outcomes require_actor_can_manage_returns reject_scopes_returns scopes
        dest: create_member_audit_event_Inr intro: that)
qed

lemma RemoveOrganizationMember_returns:
  assumes "RemoveOrganizationMember_execute io cmd s = (Inr u, t)"
  obtains actor target mid event where
    "fst (get_membership (rm_actor_id cmd) (rm_organization_id cmd) s) = Inr (Some actor)"
    "fst (get_membership (rm_user_id cmd) (rm_organization_id cmd) s) = Inr (Some target)"
    "can_manage_organization_members (member_role actor)"
    "may_assign (member_role actor) (member_role target)" "member_actor_id target \<noteq> member_actor_id actor"
    "member_id target = Some mid"
    "audit_action event = ''organization.member.remove''" "audit_actor_id event = Some (rm_actor_id cmd)"
    "remove_member (db_now io 0) mid event s = (Inr True, t)"
  using assms unfolding RemoveOrganizationMember_execute_def
  by (auto simp: outcomes reader_outcomes split: prod.splits option.splits
      dest: create_member_audit_event_Inr intro: that)

lemma CreateOrganization_returns:
  assumes "CreateOrganization_execute io cmd s = (Inr org, t)"
  obtains event where
    "fst (get_status (co_actor_id cmd) s) = Inr (Some USER_ACTIVE)"
    "org = \<lparr>organization_id = new_id io 0, organization_name = co_name cmd,
            organization_slug = slug_for io (co_name cmd)\<rparr>"
    "organization_create (db_now io 0) org
       \<lparr>member_actor_id = co_actor_id cmd, member_organization_id = new_id io 0,
        member_role = OWNER, member_resource_scopes = [], member_id = Some (new_id io 1)\<rparr> event s
     = (Inr True, t)"
    "audit_action event = ''organization.create''" "audit_actor_id event = Some (co_actor_id cmd)"
  using assms unfolding CreateOrganization_execute_def
  by (auto simp: outcomes reader_outcomes Organization_post_init_def AuditEvent_post_init_def
      split: if_splits intro: that)

lemma get_membership_row:
  assumes "db_ok s" and "fst (get_membership a org s) = Inr (Some m)"
  obtains r where "r \<in> set (organization_memberships s)" "m_user_id r = a" "m_organization_id r = org"
    "member_actor_id m = a" "member_organization_id m = org" "member_id m = Some (m_id r)"
    "m_role r = OrganizationRole_value (member_role m)"
proof -
  have "get_membership a org s = (Inr (Some m), s)"
    using assms(2) by (simp add: reader_outcomes)
  from get_membership_Some [OF this] that show thesis by blast
qed

lemma own_organization_use_cases:
  "obeys keeps_owners (AddOrganizationMember_execute P io c2)"
  "obeys keeps_owners (UpdateOrganizationMember_execute io c3)"
  "obeys keeps_owners (RemoveOrganizationMember_execute io c4)"
proof -
  have role: "role \<noteq> OWNER" if "may_assign r role" for r role
    using that by auto
  show "obeys keeps_owners (UpdateOrganizationMember_execute io c3)"
  proof (rule own_of_outcomes [OF inv_organization_use_cases(3) clean_organization_use_cases(3)])
    fix s m t
    assume ok: "db_ok s" and run: "UpdateOrganizationMember_execute io c3 s = (Inr m, t)"
    from run show "owner_rows t = owner_rows s"
    proof (elim UpdateOrganizationMember_returns, goal_cases)
      case (1 actor target event)
      from get_membership_row [OF ok 1(2)] obtain r where
        r: "r \<in> set (organization_memberships s)" "member_actor_id target = m_user_id r"
          "member_organization_id target = m_organization_id r" "member_id target = Some (m_id r)"
          "m_role r = OrganizationRole_value (member_role target)" by metis
      have "m_role q \<noteq> OrganizationRole_value OWNER"
        if "q \<in> set (organization_memberships s)" "m_id q = m_id r" for q
        using row_of_id [OF ok r(1) that] r(5) role [OF 1(5)] by (simp del: OrganizationRole_value.simps)
      moreover have "OrganizationRole_value (um_role c3) \<noteq> OrganizationRole_value OWNER"
        using role [OF 1(4)] by (simp del: OrganizationRole_value.simps)
      ultimately show ?case
        unfolding owner_rows_def
        using update_member_effect(1) [OF ok 1(15) 1(12) r(1)] 1(8-11) r
        by (simp add: owner_rows_update del: OrganizationRole_value.simps)
    qed
  qed
  show "obeys keeps_owners (RemoveOrganizationMember_execute io c4)"
  proof (rule own_of_outcomes [OF inv_organization_use_cases(4) clean_organization_use_cases(4)])
    fix s m t
    assume ok: "db_ok s" and run: "RemoveOrganizationMember_execute io c4 s = (Inr m, t)"
    from run show "owner_rows t = owner_rows s"
    proof (elim RemoveOrganizationMember_returns, goal_cases)
      case (1 actor target mid event)
      from get_membership_row [OF ok 1(2)] obtain r where
        r: "r \<in> set (organization_memberships s)" "mid = m_id r"
          "m_role r = OrganizationRole_value (member_role target)" using 1(6) by (metis option.inject)
      have "m_role q \<noteq> OrganizationRole_value OWNER"
        if "q \<in> set (organization_memberships s)" "m_id q = mid" for q
        using row_of_id [OF ok r(1) that(1)] that(2) r role [OF 1(4)]
        by (simp del: OrganizationRole_value.simps)
      then show ?case
        unfolding owner_rows_def
        by (simp add: owner_rows_delete remove_member_effect(1) [OF 1(9)] del: OrganizationRole_value.simps)
    qed
  qed
  show "obeys keeps_owners (AddOrganizationMember_execute P io c2)"
  proof (rule own_of_outcomes [OF inv_organization_use_cases(2) clean_organization_use_cases(2)])
    fix s m t
    assume ok: "db_ok s" and run: "AddOrganizationMember_execute P io c2 s = (Inr m, t)"
    from AddOrganizationMember_effect [OF ok run] show "owner_rows t = owner_rows s"
      by (auto simp: owner_rows_def membership_record_def simp del: OrganizationRole_value.simps)
  qed
qed

text \<open>
  C9: The authorizer always decides, without touching the database, and it allows a request exactly
  when some stored membership row of that user in that organization grants it: all its scope rows
  are well formed and its role is owner, or its role supports the requested resource and action and
  one of its scope rows names exactly that resource and action.
\<close>

theorem authorize_decides:
  assumes "db_ok s"
  shows "authorize get_membership req s =
    (Inr \<lparr>allowed = (\<exists>r \<in> set (organization_memberships s). row_grants s req r)\<rparr>, s)"
  using directory.authorize_effective [OF assms] by (simp add: effective_allows_iff)

theorem authorize_decides_witness:
  "fst (authorize get_membership
     \<lparr>request_actor_id = 1, request_organization_id = 100, request_resource = PLATFORM_CONNECTIONS,
      request_action = ACTION_MANAGE\<rparr> sample) = Inr \<lparr>allowed = True\<rparr>"
proof -
  have "row_grants sample
     \<lparr>request_actor_id = 1, request_organization_id = 100, request_resource = PLATFORM_CONNECTIONS,
      request_action = ACTION_MANAGE\<rparr> (sample_member 50 1 ''owner'')"
    by (simp add: row_grants_def sample_defs scopes_of_def OrganizationRole_parse_def enum_parse_def)
  moreover have "sample_member 50 1 ''owner'' \<in> set (organization_memberships sample)"
    by (simp add: sample_def)
  ultimately show ?thesis
    using authorize_decides [OF sample_ok] by auto
qed

text \<open>
  C10: Adding a member succeeds only for an owner or administrator who outranks the granted role and
  only with scopes that role supports; the new member is an active user, the membership row and one
  audit row are appended, and a lookup afterwards returns exactly the membership that was returned.
\<close>

theorem add_member_correct:
  assumes "db_ok s" and "AddOrganizationMember_execute P io cmd s = (Inr m, t)"
  shows "(\<exists>actor. fst (get_membership (am_actor_id cmd) (am_organization_id cmd) s) = Inr (Some actor)
      \<and> member_role actor \<in> {OWNER, ADMIN} \<and> member_role actor < am_role cmd)
    \<and> list_all (supports_scope (am_role cmd)) (am_resource_scopes cmd)
    \<and> member_organization_id m = am_organization_id cmd \<and> member_role m = am_role cmd
    \<and> fst (get_status (member_actor_id m) s) = Inr (Some USER_ACTIVE)
    \<and> organization_memberships t = organization_memberships s @ [membership_record (new_id io 0) m]
    \<and> (\<exists>e. audit_events t = audit_events s @ [e] \<and> a_action e = ''organization.member.add''
         \<and> a_actor_id e = Some (am_actor_id cmd) \<and> a_resource_id e = Some (uuid_str (member_actor_id m)))
    \<and> get_membership (member_actor_id m) (am_organization_id cmd) t = (Inr (Some m), t)"
  using assms by (rule AddOrganizationMember_effect)

theorem add_member_correct_witness:
  "\<exists>t. AddOrganizationMember_execute sample_ports sample_io
     \<lparr>am_actor_id = 2, am_organization_id = 100, am_email = ''d@x'', am_role = MODERATOR,
      am_resource_scopes = [\<lparr>scope_resource = CONTROL_MODULES, scope_action = ACTION_READ, scope_id = None\<rparr>],
      am_correlation_id = 9\<rparr> sample = (Inr
       \<lparr>member_actor_id = 4, member_organization_id = 100, member_role = MODERATOR,
        member_resource_scopes =
          [\<lparr>scope_resource = CONTROL_MODULES, scope_action = ACTION_READ, scope_id = Some 501\<rparr>],
        member_id = Some 500\<rparr>, t)
     \<and> length (organization_memberships t) = 4"
  (is "\<exists>t. ?exec sample = (Inr ?m, t) \<and> _")
proof -
  have "fst (?exec sample) = Inr ?m"
    by (simp add: organization_evaluation)
  then obtain t where run: "?exec sample = (Inr ?m, t)"
    by (rule returns_value)
  from add_member_correct [OF sample_ok run] run show ?thesis
    by (intro exI [of _ t]) (simp add: sample_def)
qed



text \<open>
  Removing a member succeeds only for an owner or administrator who outranks the member and is
  not that member; exactly the member's row is deleted, one audit row is appended, and the member
  is no longer found afterwards.
\<close>

theorem remove_member_correct:
  assumes "db_ok s" and "RemoveOrganizationMember_execute io cmd s = (Inr u, t)"
  shows "rm_user_id cmd \<noteq> rm_actor_id cmd
    \<and> (\<exists>actor target.
         fst (get_membership (rm_actor_id cmd) (rm_organization_id cmd) s) = Inr (Some actor)
         \<and> fst (get_membership (rm_user_id cmd) (rm_organization_id cmd) s) = Inr (Some target)
         \<and> member_role actor \<in> {OWNER, ADMIN} \<and> member_role actor < member_role target)
    \<and> organization_memberships t = delete_rows
         (\<lambda>r. m_user_id r = rm_user_id cmd \<and> m_organization_id r = rm_organization_id cmd)
         (organization_memberships s)
    \<and> (\<exists>e. audit_events t = audit_events s @ [e] \<and> a_action e = ''organization.member.remove''
         \<and> a_actor_id e = Some (rm_actor_id cmd))
    \<and> get_membership (rm_user_id cmd) (rm_organization_id cmd) t = (Inr None, t)"
  using assms(2)
proof (elim RemoveOrganizationMember_returns, goal_cases)
  case (1 actor target mid event)
  from get_membership_row [OF assms(1) 1(2)] obtain r where
    r: "r \<in> set (organization_memberships s)" "m_user_id r = rm_user_id cmd"
      "m_organization_id r = rm_organization_id cmd" "member_actor_id target = rm_user_id cmd"
      "member_id target = Some (m_id r)" by metis
  with 1(6) have same: "m_id q = mid \<longleftrightarrow>
      m_user_id q = rm_user_id cmd \<and> m_organization_id q = rm_organization_id cmd"
    if "q \<in> set (organization_memberships s)" for q
    using that row_of_id [OF assms(1) r(1) that] row_of_keys [OF assms(1) r(1) that] by auto
  have rows: "organization_memberships t = delete_rows
      (\<lambda>r. m_user_id r = rm_user_id cmd \<and> m_organization_id r = rm_organization_id cmd)
      (organization_memberships s)"
    using remove_member_effect(1) [OF 1(9)] same by (simp add: delete_rows_def cong: filter_cong)
  then have "get_membership (rm_user_id cmd) (rm_organization_id cmd) t = (Inr None, t)"
    by (simp add: get_membership_def tries_def find_one_def delete_rows_def filter_empty_conv)
  moreover have "member_actor_id actor = rm_actor_id cmd"
    using get_membership_row [OF assms(1) 1(1)] by metis
  ultimately show ?case
    using 1 r(4) rows remove_member_effect(2) [OF 1(9)]
    by (auto simp: can_manage_organization_members_def may_assign_less audit_record_def)
qed

theorem remove_member_correct_witness:
  "\<exists>t. RemoveOrganizationMember_execute sample_io
     \<lparr>rm_actor_id = 2, rm_organization_id = 100, rm_user_id = 3, rm_correlation_id = 9\<rparr> sample = (Inr (), t)
     \<and> get_membership 3 100 t = (Inr None, t)"
  (is "\<exists>t. ?exec sample = _ \<and> _")
proof -
  have "fst (?exec sample) = Inr ()"
    by (simp add: organization_evaluation)
  then obtain t where run: "?exec sample = (Inr (), t)"
    by (rule returns_value)
  from remove_member_correct [OF sample_ok run] run show ?thesis
    by (intro exI [of _ t]) simp
qed

text \<open>
  A created organization belongs to its creator at once: the creator is an active user, the only
  new membership row makes the creator its owner, and the authorizer allows the creator every action
  on every resource of it.
\<close>

theorem create_organization_grants_owner:
  assumes "db_ok s" and "CreateOrganization_execute io cmd s = (Inr org, t)"
  shows "fst (get_status (co_actor_id cmd) s) = Inr (Some USER_ACTIVE)
    \<and> organization_name org = co_name cmd
    \<and> owner_rows t = owner_rows s @ [\<lparr>m_id = new_id io 1, m_organization_id = organization_id org,
         m_user_id = co_actor_id cmd, m_role = ''owner''\<rparr>]
    \<and> authorize get_membership \<lparr>request_actor_id = co_actor_id cmd,
         request_organization_id = organization_id org, request_resource = res, request_action = act\<rparr> t
       = (Inr \<lparr>allowed = True\<rparr>, t)"
  using assms(2)
proof (elim CreateOrganization_returns, goal_cases)
  case (1 event)
  let ?row = "\<lparr>m_id = new_id io 1, m_organization_id = organization_id org,
    m_user_id = co_actor_id cmd, m_role = ''owner''\<rparr>"
  from 1(3) have
    t: "organization_memberships t = organization_memberships s @ [?row]"
      "membership_resource_scopes t = membership_resource_scopes s"
      "\<not> has_key m_id (new_id io 1) (organization_memberships s)"
    by (rule organization_create_effect, simp add: membership_record_def 1(2))+
  have ok: "db_ok t"
    using obeysD [OF inv_organization_use_cases(1), of s io cmd] assms by simp
  have "scopes_of t (new_id io 1) = []"
    using no_scopes_of_fresh_membership [OF assms(1) t(3)] by (simp add: scopes_of_def t(2))
  then have "row_grants t \<lparr>request_actor_id = co_actor_id cmd,
      request_organization_id = organization_id org, request_resource = res, request_action = act\<rparr> ?row"
    by (simp add: row_grants_def OrganizationRole_parse_def enum_parse_def)
  then show ?case
    using directory.authorize_effective [OF ok] 1(1,2) t(1)
    by (auto simp: effective_allows_iff owner_rows_def)
qed

theorem create_organization_grants_owner_witness:
  "\<exists>org t. CreateOrganization_execute sample_io
     \<lparr>co_actor_id = 4, co_name = ''New Team'', co_correlation_id = 9\<rparr> sample = (Inr org, t)
     \<and> authorize get_membership \<lparr>request_actor_id = 4, request_organization_id = organization_id org,
         request_resource = AUDIT_EVENTS, request_action = ACTION_READ\<rparr> t = (Inr \<lparr>allowed = True\<rparr>, t)"
  (is "\<exists>org t. ?exec sample = _ \<and> _")
proof -
  have "\<exists>x. fst (?exec sample) = Inr x"
    by (simp add: organization_evaluation)
  then obtain m t where run: "?exec sample = (Inr m, t)"
    by (rule returns)
  from create_organization_grants_owner [OF sample_ok run, of AUDIT_EVENTS ACTION_READ] run show ?thesis
    by (intro exI [of _ m] exI [of _ t]) simp
qed

end
