(* ===== verification/Repo_Sessions.thy ===== *)
theory Repo_Sessions
  imports Organizations
begin

text \<open>
  The persistence of browser sessions (\<open>persistence/session_repository.py\<close>,
  \<open>session_last_seen_repository.py\<close>): creation, lookup by token hash, listing, revocation,
  re-authentication and the last-seen update. Every mutation names the session by a condition that
  a revoked session does not meet; the law \<open>rev\<close> says what follows: a revoked row never changes.
\<close>

definition session_record :: "datetime \<Rightarrow> AuthSession \<Rightarrow> AuthSessionRecord" where
  "session_record t x =
     \<lparr>s_id = session_id x, s_user_id = session_user_id x, s_token_hash = session_token_hash x,
      s_expires_at = session_expires_at x, s_revoked_at = session_revoked_at x,
      s_assurance_level = SessionAssuranceLevel_value (session_assurance_level x),
      s_ip_hash = session_ip_hash x, s_user_agent_hash = session_user_agent_hash x,
      s_last_seen_at = session_last_seen_at x,
      s_created_at = (case session_authenticated_at x of None \<Rightarrow> t | Some a \<Rightarrow> a)\<rparr>"

definition session_create :: "datetime \<Rightarrow> AuthSession \<Rightarrow> AuditEvent \<Rightarrow> (console, bool) operation" where
  "session_create t x event = atomically False
     (bnd (insert_auth_session (session_record t x)) (\<lambda>_.
      bnd (record_audit t event) (\<lambda>_. ret True)))"

definition session_from_record :: "AuthSessionRecord \<Rightarrow> AuthSession option" where
  "session_from_record r =
     (case SessionAssuranceLevel_parse (s_assurance_level r) of
        None \<Rightarrow> None
      | Some level \<Rightarrow> fail_closed (AuthSession_post_init
          \<lparr>session_id = s_id r, session_user_id = s_user_id r, session_token_hash = s_token_hash r,
           session_expires_at = s_expires_at r, session_assurance_level = level,
           session_revoked_at = s_revoked_at r, session_authenticated_at = Some (s_created_at r),
           session_last_seen_at = s_last_seen_at r, session_ip_hash = s_ip_hash r,
           session_user_agent_hash = s_user_agent_hash r\<rparr>))"

definition find_by_token_hash :: "string \<Rightarrow> (console, AuthSession option) operation" where
  "find_by_token_hash h = tries (\<lambda>s.
     find_one (\<lambda>r. s_token_hash r = h) session_from_record (auth_sessions s))"

text \<open>\<open>last_seen_at DESC NULLS LAST\<close>\<close>

definition seen_desc_le :: "datetime option \<Rightarrow> datetime option \<Rightarrow> bool" where
  "seen_desc_le a b =
     (case b of None \<Rightarrow> True | Some y \<Rightarrow> (case a of None \<Rightarrow> False | Some x \<Rightarrow> dt_le y x))"

definition list_active_for_user :: "uuid \<Rightarrow> datetime \<Rightarrow> (console, AuthSession list) operation" where
  "list_active_for_user uid now = reads (\<lambda>s.
     List.map_filter session_from_record
       (order_by (then_by (\<lambda>x y. seen_desc_le (s_last_seen_at x) (s_last_seen_at y))
                          (\<lambda>x y. s_id x \<le> s_id y))
         (filter (\<lambda>r. s_user_id r = uid \<and> s_revoked_at r = None \<and> dt_lt now (s_expires_at r))
            (auth_sessions s))))"

definition session_revoke ::
  "datetime \<Rightarrow> uuid \<Rightarrow> uuid \<Rightarrow> datetime \<Rightarrow> AuditEvent \<Rightarrow> (console, bool) operation" where
  "session_revoke t sid uid revoked_at event = transaction
     (bnd (update_sessions (\<lambda>r. s_id r = sid \<and> s_user_id r = uid \<and> s_revoked_at r = None)
             (\<lambda>r. r\<lparr>s_revoked_at := Some revoked_at\<rparr>)) (\<lambda>n.
      if n \<noteq> 1 then ret False else
      bnd (record_audit t event) (\<lambda>_. ret True)))"

definition revoke_all_for_user ::
  "datetime \<Rightarrow> uuid \<Rightarrow> datetime \<Rightarrow> AuditEvent \<Rightarrow> (console, nat) operation" where
  "revoke_all_for_user t uid revoked_at event = transaction
     (bnd (update_sessions (\<lambda>r. s_user_id r = uid \<and> s_revoked_at r = None
             \<and> dt_lt revoked_at (s_expires_at r)) (\<lambda>r. r\<lparr>s_revoked_at := Some revoked_at\<rparr>)) (\<lambda>n.
      if n < 1 then ret 0 else
      bnd (record_audit t event) (\<lambda>_. ret n)))"

definition session_reauthenticate ::
  "datetime \<Rightarrow> uuid \<Rightarrow> uuid \<Rightarrow> datetime \<Rightarrow> AuditEvent \<Rightarrow> (console, bool) operation" where
  "session_reauthenticate t sid uid at event = transaction
     (bnd (update_sessions (\<lambda>r. s_id r = sid \<and> s_user_id r = uid \<and> s_revoked_at r = None
             \<and> dt_lt at (s_expires_at r))
             (\<lambda>r. r\<lparr>s_assurance_level := SessionAssuranceLevel_value RECENT_AUTHENTICATION,
                    s_created_at := at, s_last_seen_at := Some at\<rparr>)) (\<lambda>n.
      if n \<noteq> 1 then ret False else
      bnd (record_audit t event) (\<lambda>_. ret True)))"

definition touch_last_seen :: "uuid \<Rightarrow> uuid \<Rightarrow> datetime \<Rightarrow> (console, bool) operation" where
  "touch_last_seen sid uid at =
     bnd (transaction (update_sessions (\<lambda>r. s_id r = sid \<and> s_user_id r = uid \<and> s_revoked_at r = None
             \<and> dt_lt at (s_expires_at r)) (\<lambda>r. r\<lparr>s_last_seen_at := Some at\<rparr>))) (\<lambda>n. ret (n = 1))"

lemmas session_repository =
  session_create_def find_by_token_hash_def list_active_for_user_def session_revoke_def
  revoke_all_for_user_def session_reauthenticate_def touch_last_seen_def

section \<open>Laws\<close>

lemma silent_session_readers [simp]:
  "silent (find_by_token_hash h)" "silent (list_active_for_user u d)"
  by (simp_all add: session_repository)

lemma inv_session_updates:
  "obeys keeps_db_ok (update_sessions Q (\<lambda>r. r\<lparr>s_revoked_at := v\<rparr>))"
  "obeys keeps_db_ok (update_sessions Q (\<lambda>r. r\<lparr>s_assurance_level := l, s_created_at := c, s_last_seen_at := d\<rparr>))"
  "obeys keeps_db_ok (update_sessions Q (\<lambda>r. r\<lparr>s_last_seen_at := d\<rparr>))"
  by (simp_all add: inv_update_sessions)

lemma inv_session_writers:
  "obeys keeps_db_ok (session_create t x e)"
  "obeys keeps_db_ok (session_revoke t sid u d e)"
  "obeys keeps_db_ok (revoke_all_for_user t u d e)"
  "obeys keeps_db_ok (session_reauthenticate t sid u d e)"
  "obeys keeps_db_ok (touch_last_seen sid u d)"
  unfolding session_repository by (intro inv_steps inv_session_updates)+

lemma his_session_writers:
  "obeys history (session_create t x e)"
  "obeys history (session_revoke t sid u d e)"
  "obeys history (revoke_all_for_user t u d e)"
  "obeys history (session_reauthenticate t sid u d e)"
  "obeys history (touch_last_seen sid u d)"
  unfolding session_repository by (intro his_steps)+

lemma reports_by_key:
  assumes "\<And>r. Q r \<Longrightarrow> s_id r = sid"
  shows "reports Not (transaction (bnd (update_sessions Q f) (\<lambda>n.
      if n \<noteq> 1 then ret False else bnd (record_audit t e) (\<lambda>_. ret True))))"
proof (rule reports_transaction)
  fix s x u
  assume "db_ok s" and bad: "\<not> x"
    and run: "bnd (update_sessions Q f)
      (\<lambda>n. if n \<noteq> 1 then ret False else bnd (record_audit t e) (\<lambda>_. ret True)) s = (Inr x, u)"
  then have "distinct (map s_id (auth_sessions s))"
    by (simp add: db_ok_def sessions_ok_def)
  note no_row = rowcount_not_one(1) [where P = Q and k = s_id and x = sid, OF this assms]
  show "u = s"
    using run bad by (auto simp: outcomes update_sessions_def no_row split: if_splits)
qed

lemma reports_session_writers:
  "reports Not (session_create t x e)"
  "reports Not (session_revoke t sid u d e)"
  "reports (\<lambda>n. n < 1) (revoke_all_for_user t u d e)"
  "reports Not (session_reauthenticate t sid u d e)"
proof -
  show "reports Not (session_create t x e)"
    unfolding session_create_def by (rule reports_atomically) (simp add: outcomes)
  show "reports Not (session_revoke t sid u d e)" "reports Not (session_reauthenticate t sid u d e)"
    unfolding session_revoke_def session_reauthenticate_def by (rule reports_by_key, simp)+
  show "reports (\<lambda>n. n < 1) (revoke_all_for_user t u d e)"
    unfolding revoke_all_for_user_def
    by (rule reports_transaction)
      (auto simp: outcomes update_sessions_def update_rows_none split: if_splits)
qed

section \<open>Revocation is final\<close>

text \<open>
  The law of revocation: a revoked row stays in the table as it is. Every operation but the clean-up
  of old records obeys it.
\<close>

definition keeps_revoked :: "console \<Rightarrow> console \<Rightarrow> bool" where
  "keeps_revoked s t \<longleftrightarrow>
     (\<forall>r \<in> set (auth_sessions s). s_revoked_at r \<noteq> None \<longrightarrow> r \<in> set (auth_sessions t))"

interpretation rev: step_law keeps_revoked
  by unfold_locales (auto simp: keeps_revoked_def)

lemma rev_inserts:
  "obeys keeps_revoked (insert_user r1)"
  "obeys keeps_revoked (insert_login_identity r2)"
  "obeys keeps_revoked (insert_identity_link_transaction r3)"
  "obeys keeps_revoked (insert_oauth_login_transaction r4)"
  "obeys keeps_revoked (insert_password_recovery_transaction r5)"
  "obeys keeps_revoked (insert_user_email r6)"
  "obeys keeps_revoked (insert_password_credential r7)"
  "obeys keeps_revoked (insert_organization r8)"
  "obeys keeps_revoked (insert_membership r9)"
  "obeys keeps_revoked (insert_membership_scope r10)"
  "obeys keeps_revoked (insert_invitation r11)"
  "obeys keeps_revoked (insert_invitation_scope r12)"
  "obeys keeps_revoked (insert_auth_session r13)"
  "obeys keeps_revoked (insert_platform_connection r14)"
  "obeys keeps_revoked (insert_lifecycle_idempotency r15)"
  "obeys keeps_revoked (insert_audit_event r16)"
  "obeys keeps_revoked (record_audit t e)"
  unfolding inserts by (rule obeys_constrained; simp add: keeps_revoked_def)+

lemma rev_mutations:
  "obeys keeps_revoked (update_memberships p1 x1)"
  "obeys keeps_revoked (delete_membership_scopes p2)"
  "obeys keeps_revoked (delete_memberships p3)"
  "obeys keeps_revoked (delete_login_identities p6)"
  "obeys keeps_revoked (update_invitations p7 x7)"
  "obeys keeps_revoked (update_connections p8 x8 y8)"
  "obeys keeps_revoked (update_credentials p9 x9)"
  "obeys keeps_revoked (delete_recoveries p10)"
  "obeys keeps_revoked (claim_link_transactions p11 x11)"
  "obeys keeps_revoked (claim_login_transactions p12 x12)"
  "obeys keeps_revoked (claim_recoveries p13 x13)"
  by (simp_all add: obeys_def mutations Let_def keeps_revoked_def)

lemma rev_update_sessions:
  "(\<And>r. Q r \<Longrightarrow> s_revoked_at r = None) \<Longrightarrow> obeys keeps_revoked (update_sessions Q f)"
  by (auto simp: obeys_def update_sessions_def keeps_revoked_def set_update_rows)
    (metis option.distinct(1))

lemmas rev_steps = rev.rules rev_inserts rev_mutations
  construct_obeys [where R = keeps_revoked, OF rev.law_refl]
  silent_obeys [where R = keeps_revoked, OF _ rev.law_refl]

lemma rev_session_writers:
  "obeys keeps_revoked (session_create t x e)"
  "obeys keeps_revoked (session_revoke t sid u d e)"
  "obeys keeps_revoked (revoke_all_for_user t u d e)"
  "obeys keeps_revoked (session_reauthenticate t sid u d e)"
  "obeys keeps_revoked (touch_last_seen sid u d)"
  unfolding session_repository by (rule rev.rules rev_inserts rev_update_sessions | simp)+

lemma rev_identity_writers:
  "obeys keeps_revoked (change_password t u h d e)"
  "obeys keeps_revoked (link_identity t i e)"
  "obeys keeps_revoked (unlink_identity t a u e)"
  "obeys keeps_revoked (link_transaction_create t l e)"
  "obeys keeps_revoked (login_transaction_create t ol e)"
  "obeys keeps_revoked (recovery_create t rt e)"
  "obeys keeps_revoked (register_email_password t rg e)"
  "obeys keeps_revoked (consume_link_transaction h d)"
  "obeys keeps_revoked (consume_login_transaction h d)"
  "obeys keeps_revoked (recovery_complete t h pw d a c)"
  unfolding identity_writers
  by (rule rev.rules rev_inserts rev_mutations rev_update_sessions
      construct_obeys [where R = keeps_revoked, OF rev.law_refl] | simp)+

lemma rev_organization_use_cases:
  "obeys keeps_revoked (CreateOrganization_execute io c1)"
  "obeys keeps_revoked (AddOrganizationMember_execute P io c2)"
  "obeys keeps_revoked (UpdateOrganizationMember_execute io c3)"
  "obeys keeps_revoked (RemoveOrganizationMember_execute io c4)"
  unfolding organization_use_cases Let_def organization_create_def add_member_def update_member_def
    remove_member_def insert_scopes_def
  by (intro rev_steps silent_organization_readers silent_identity_readers silent_member_guards)+

end
