(* ===== verification/Sessions.thy ===== *)
theory Sessions
  imports Repo_Sessions
begin

text \<open>
  The browser-session use cases of the application layer: \<open>create_browser_session_use_case.py\<close>,
  \<open>resolve_browser_session_use_case.py\<close>, \<open>reauthenticate_browser_session_use_case.py\<close>,
  \<open>require_recent_authentication_use_case.py\<close>, \<open>revoke_browser_session.py\<close>,
  \<open>revoke_all_browser_sessions_use_case.py\<close>, \<open>list_browser_sessions_use_case.py\<close> and
  \<open>authenticate_email_password_use_case.py\<close>.
\<close>

section \<open>Creating a session\<close>

record CreateBrowserSessionCommand =
  cs_user_id :: uuid
  cs_correlation_id :: uuid
  cs_assurance_level :: SessionAssuranceLevel
  cs_client_ip :: "string option"
  cs_user_agent :: "string option"

record IssuedBrowserSession =
  issued_id :: uuid
  issued_raw_token :: string
  issued_raw_csrf_token :: string
  issued_expires_at :: datetime
  issued_assurance_level :: SessionAssuranceLevel

definition fingerprint :: "(string \<Rightarrow> string) \<Rightarrow> string option \<Rightarrow> string option" where
  "fingerprint hasher x =
     (let v = py_strip (case x of None \<Rightarrow> [] | Some y \<Rightarrow> y) in if v \<noteq> [] then Some (hasher v) else None)"

definition session_lifetime :: timedelta where
  "session_lifetime = days 14"

definition session_audit_event ::
  "uuid \<Rightarrow> uuid \<Rightarrow> uuid \<Rightarrow> string \<Rightarrow> uuid \<Rightarrow> error + AuditEvent" where
  "session_audit_event eid correlation actor action sid = AuditEvent_post_init
     \<lparr>audit_id = eid, audit_correlation_id = correlation, audit_actor_id = Some actor,
      audit_organization_id = None, audit_action = action, audit_resource_type = ''auth_session'',
      audit_resource_id = Some (uuid_str sid), audit_result = ''succeeded''\<rparr>"

definition CreateBrowserSession_execute ::
  "ports \<Rightarrow> io \<Rightarrow> CreateBrowserSessionCommand \<Rightarrow> (console, IssuedBrowserSession) operation" where
  "CreateBrowserSession_execute P io cmd =
     bnd (get_status (cs_user_id cmd)) (\<lambda>status.
     if status \<noteq> Some USER_ACTIVE
     then raise (SessionCreationRejectedError ''The user is not allowed to create a session.'')
     else
       let now = clock io 0; raw_token = new_token io 0; raw_csrf_token = new_token io 1 in
       bnd (construct (AuthSession_post_init
              \<lparr>session_id = new_id io 0, session_user_id = cs_user_id cmd,
               session_token_hash = token_hash P raw_token,
               session_expires_at = dt_add now session_lifetime,
               session_assurance_level = cs_assurance_level cmd, session_revoked_at = None,
               session_authenticated_at = Some now, session_last_seen_at = Some now,
               session_ip_hash = fingerprint (hash_ip_address P) (cs_client_ip cmd),
               session_user_agent_hash = fingerprint (hash_user_agent P) (cs_user_agent cmd)\<rparr>)) (\<lambda>session.
       bnd (construct (session_audit_event (new_id io 1) (cs_correlation_id cmd) (cs_user_id cmd)
              ''auth.session_created'' (session_id session))) (\<lambda>event.
       bnd (session_create (db_now io 0) session event) (\<lambda>created.
       if \<not> created then raise (SessionCreationRejectedError ''The session could not be created.'')
       else ret
         \<lparr>issued_id = session_id session, issued_raw_token = raw_token,
          issued_raw_csrf_token = raw_csrf_token, issued_expires_at = session_expires_at session,
          issued_assurance_level = session_assurance_level session\<rparr>))))"

section \<open>Resolving a token\<close>

record BrowserSessionPrincipal =
  principal_user_id :: uuid
  principal_session_id :: uuid
  principal_assurance_level :: SessionAssuranceLevel
  principal_authenticated_at :: "datetime option"

definition is_usable_token :: "string \<Rightarrow> bool" where
  "is_usable_token token =
     (if token = [] \<or> length token > 4096 then False else \<not> list_ex py_isspace token)"

definition last_seen_requires_update :: "datetime option \<Rightarrow> datetime \<Rightarrow> timedelta \<Rightarrow> error + bool" where
  "last_seen_requires_update last_seen now interval =
     (if interval \<le> 0 then Inl (ValueError ''Last-seen update interval must be positive.'')
      else Inr (case last_seen of None \<Rightarrow> True | Some l \<Rightarrow> interval \<le> instant now - instant l))"

text \<open>The optional updater is present or not; its exceptions are swallowed.\<close>

definition touch_last_seen_of ::
  "bool \<Rightarrow> timedelta \<Rightarrow> AuthSession \<Rightarrow> datetime \<Rightarrow> (console, unit) operation" where
  "touch_last_seen_of updater interval session now =
     (if \<not> updater then ret () else
      bnd (construct (last_seen_requires_update (session_last_seen_at session) now interval)) (\<lambda>needed.
      if \<not> needed then ret () else
      catching
        (bnd (touch_last_seen (session_id session) (session_user_id session) now) (\<lambda>_. ret ()))
        (\<lambda>_. ret ())))"

definition ResolveBrowserSession_execute ::
  "ports \<Rightarrow> io \<Rightarrow> bool \<Rightarrow> timedelta \<Rightarrow> string \<Rightarrow> (console, BrowserSessionPrincipal option) operation" where
  "ResolveBrowserSession_execute P io updater interval raw_token =
     (if \<not> is_usable_token raw_token then ret None else
      bnd (find_by_token_hash (token_hash P raw_token)) (\<lambda>found.
      case found of
        None \<Rightarrow> ret None
      | Some session \<Rightarrow>
          bnd (construct (session_is_active_at session (clock io 0))) (\<lambda>active.
          if \<not> active then ret None else
          bnd (get_status (session_user_id session)) (\<lambda>status.
          if status \<noteq> Some USER_ACTIVE then ret None else
          bnd (touch_last_seen_of updater interval session (clock io 0)) (\<lambda>_.
          ret (Some
            \<lparr>principal_user_id = session_user_id session, principal_session_id = session_id session,
             principal_assurance_level = session_assurance_level session,
             principal_authenticated_at = session_authenticated_at session\<rparr>))))))"

section \<open>Recent authentication\<close>

definition maximum_age :: timedelta where
  "maximum_age = minutes 15"

definition RequireRecentAuthentication_check ::
  "datetime \<Rightarrow> BrowserSessionPrincipal \<Rightarrow> (console, unit) operation" where
  "RequireRecentAuthentication_check now who =
     (if principal_assurance_level who \<noteq> RECENT_AUTHENTICATION
         \<or> (case principal_authenticated_at who of
               None \<Rightarrow> True
             | Some at \<Rightarrow> dt_lt now at \<or> maximum_age < instant now - instant at)
      then raise (RecentAuthenticationRequiredError ''Recent authentication is required for this operation.'')
      else ret ())"

record ReauthenticateBrowserSessionCommand =
  ra_principal :: BrowserSessionPrincipal
  ra_current_password :: string
  ra_correlation_id :: uuid

definition ReauthenticateBrowserSession_execute ::
  "ports \<Rightarrow> io \<Rightarrow> ReauthenticateBrowserSessionCommand \<Rightarrow> (console, unit) operation" where
  "ReauthenticateBrowserSession_execute P io cmd =
     (let actor = principal_user_id (ra_principal cmd);
          sid = principal_session_id (ra_principal cmd);
          rejected = raise (BrowserSessionReauthenticationRejectedError ''Reauthentication failed.'')
      in
      bnd (get_status actor) (\<lambda>status.
      if status \<noteq> Some USER_ACTIVE then rejected else
      bnd (find_credential_for_user actor) (\<lambda>found.
      case found of
        None \<Rightarrow> rejected
      | Some credential \<Rightarrow>
          if \<not> verify_password P (credential_password_hash credential) (ra_current_password cmd)
          then rejected
          else
            bnd (construct (session_audit_event (new_id io 0) (ra_correlation_id cmd) actor
                   ''auth.session_reauthenticated'' sid)) (\<lambda>event.
            bnd (session_reauthenticate (db_now io 0) sid actor (clock io 0) event) (\<lambda>done.
            if \<not> done then rejected else ret ())))))"

section \<open>Revocation and listing\<close>

definition RevokeBrowserSession_execute ::
  "io \<Rightarrow> uuid \<Rightarrow> uuid \<Rightarrow> uuid \<Rightarrow> (console, unit) operation" where
  "RevokeBrowserSession_execute io sid uid correlation =
     bnd (construct (session_audit_event (new_id io 0) correlation uid ''auth.session_revoked'' sid)) (\<lambda>event.
     bnd (session_revoke (db_now io 0) sid uid (clock io 0) event) (\<lambda>revoked.
     if \<not> revoked then raise (PermissionError ''Current session could not be revoked.'') else ret ()))"

definition RevokeAllBrowserSessions_execute ::
  "io \<Rightarrow> BrowserSessionPrincipal \<Rightarrow> uuid \<Rightarrow> (console, nat) operation" where
  "RevokeAllBrowserSessions_execute io who correlation =
     bnd (RequireRecentAuthentication_check (clock io 0) who) (\<lambda>_.
     bnd (construct (session_audit_event (new_id io 0) correlation (principal_user_id who)
            ''auth.sessions_revoked'' (principal_session_id who))) (\<lambda>event.
     bnd (revoke_all_for_user (db_now io 0) (principal_user_id who) (clock io 1) event) (\<lambda>count.
     if count < 1
     then raise (BrowserSessionBulkRevocationRejectedError ''No active sessions were revoked.'')
     else ret count)))"

record BrowserSessionSecurityView =
  view_session :: AuthSession
  view_is_current :: bool

definition ListBrowserSessions_execute ::
  "io \<Rightarrow> uuid \<Rightarrow> uuid \<Rightarrow> (console, BrowserSessionSecurityView list) operation" where
  "ListBrowserSessions_execute io actor current =
     bnd (get_status actor) (\<lambda>status.
     if status \<noteq> Some USER_ACTIVE then raise (BrowserSessionListRejectedError ''Access denied.'')
     else
       bnd (list_active_for_user actor (clock io 0)) (\<lambda>sessions.
       ret (map (\<lambda>x. \<lparr>view_session = x, view_is_current = (session_id x = current)\<rparr>) sessions)))"

section \<open>Password sign-in\<close>

record AuthenticateEmailPasswordCommand =
  ae_email :: string
  ae_password :: string
  ae_correlation_id :: uuid
  ae_client_ip :: "string option"
  ae_user_agent :: "string option"

definition authentication_rejected :: "('s, 'a) operation" where
  "authentication_rejected =
     raise (AuthenticationRejectedError ''Authentication could not be completed.'')"

fun is_session_creation_rejected :: "error \<Rightarrow> bool" where
  "is_session_creation_rejected (SessionCreationRejectedError _) = True"
| "is_session_creation_rejected _ = False"

definition AuthenticateEmailPassword_execute ::
  "ports \<Rightarrow> io \<Rightarrow> AuthenticateEmailPasswordCommand \<Rightarrow> (console, IssuedBrowserSession) operation" where
  "AuthenticateEmailPassword_execute P io cmd =
     (case normalize P (ae_email cmd) of
        Inl _ \<Rightarrow> authentication_rejected
      | Inr email \<Rightarrow>
          bnd (find_account_by_email_lookup_hash (lookup_hash P email)) (\<lambda>found.
          case found of
            None \<Rightarrow> authentication_rejected
          | Some account \<Rightarrow>
              if \<not> verify_password P (account_password_hash account) (ae_password cmd)
                 \<or> account_status account \<noteq> USER_ACTIVE
              then authentication_rejected
              else
                catching
                  (CreateBrowserSession_execute P io
                     \<lparr>cs_user_id = account_user_id account, cs_correlation_id = ae_correlation_id cmd,
                      cs_assurance_level = RECENT_AUTHENTICATION, cs_client_ip = ae_client_ip cmd,
                      cs_user_agent = ae_user_agent cmd\<rparr>)
                  (\<lambda>e. if is_session_creation_rejected e then authentication_rejected else raise e)))"

lemmas session_use_cases =
  CreateBrowserSession_execute_def ResolveBrowserSession_execute_def touch_last_seen_of_def
  ReauthenticateBrowserSession_execute_def RevokeBrowserSession_execute_def
  RevokeAllBrowserSessions_execute_def ListBrowserSessions_execute_def
  AuthenticateEmailPassword_execute_def RequireRecentAuthentication_check_def authentication_rejected_def

section \<open>Laws\<close>

lemmas session_readers = silent_organization_readers silent_identity_readers silent_session_readers

lemma silent_session_checks [simp]:
  "silent (RequireRecentAuthentication_check d p)" "silent (ListBrowserSessions_execute io a c)"
  by (auto simp: session_use_cases intro!: silent_bnd)

lemma inv_session_use_cases:
  "obeys keeps_db_ok (CreateBrowserSession_execute P io c1)"
  "obeys keeps_db_ok (ResolveBrowserSession_execute P io b iv tk)"
  "obeys keeps_db_ok (ReauthenticateBrowserSession_execute P io c2)"
  "obeys keeps_db_ok (RevokeBrowserSession_execute io sid u c)"
  "obeys keeps_db_ok (RevokeAllBrowserSessions_execute io p c)"
  "obeys keeps_db_ok (AuthenticateEmailPassword_execute P io c3)"
  unfolding session_use_cases Let_def
  by (intro inv_steps inv_session_writers inv_readers session_readers)+

lemma his_session_use_cases:
  "obeys history (CreateBrowserSession_execute P io c1)"
  "obeys history (ResolveBrowserSession_execute P io b iv tk)"
  "obeys history (ReauthenticateBrowserSession_execute P io c2)"
  "obeys history (RevokeBrowserSession_execute io sid u c)"
  "obeys history (RevokeAllBrowserSessions_execute io p c)"
  "obeys history (AuthenticateEmailPassword_execute P io c3)"
  unfolding session_use_cases Let_def
  by (intro his_steps his_session_writers his_readers session_readers)+

lemma rev_session_use_cases:
  "obeys keeps_revoked (CreateBrowserSession_execute P io c1)"
  "obeys keeps_revoked (ResolveBrowserSession_execute P io b iv tk)"
  "obeys keeps_revoked (ReauthenticateBrowserSession_execute P io c2)"
  "obeys keeps_revoked (RevokeBrowserSession_execute io sid u c)"
  "obeys keeps_revoked (RevokeAllBrowserSessions_execute io p c)"
  "obeys keeps_revoked (AuthenticateEmailPassword_execute P io c3)"
  unfolding session_use_cases Let_def
  by (intro rev_steps rev_session_writers session_readers)+

lemma own_of_silent_tables:
  "obeys keeps_owners (session_create t x e)"
  "obeys keeps_owners (session_revoke t sid u d e)"
  "obeys keeps_owners (revoke_all_for_user t u d e)"
  "obeys keeps_owners (session_reauthenticate t sid u d e)"
  "obeys keeps_owners (touch_last_seen sid u d)"
  by (rule own_if_memberships_kept [OF inv_session_writers(1)]
      own_if_memberships_kept [OF inv_session_writers(2)] own_if_memberships_kept [OF inv_session_writers(3)]
      own_if_memberships_kept [OF inv_session_writers(4)] own_if_memberships_kept [OF inv_session_writers(5)],
      simp add: session_repository atomically_def effects inserts constrained_def update_sessions_def
        split: sum.splits if_splits)+

lemmas own_steps = own.rules
  construct_obeys [where R = keeps_owners, OF own.law_refl]
  silent_obeys [where R = keeps_owners, OF _ own.law_refl]

lemma own_session_use_cases:
  "obeys keeps_owners (CreateBrowserSession_execute P io c1)"
  "obeys keeps_owners (ResolveBrowserSession_execute P io b iv tk)"
  "obeys keeps_owners (ReauthenticateBrowserSession_execute P io c2)"
  "obeys keeps_owners (RevokeBrowserSession_execute io sid u c)"
  "obeys keeps_owners (RevokeAllBrowserSessions_execute io p c)"
  "obeys keeps_owners (AuthenticateEmailPassword_execute P io c3)"
  unfolding session_use_cases Let_def
  by (intro own_steps own_of_silent_tables session_readers)+

lemmas clean_session_writes = reports_session_writers [THEN clean_report]

lemma clean_session_use_cases:
  "clean (CreateBrowserSession_execute P io c1)"
  "clean (ReauthenticateBrowserSession_execute P io c2)"
  "clean (RevokeBrowserSession_execute io sid u c)"
  "clean (RevokeAllBrowserSessions_execute io p c)"
  unfolding session_use_cases Let_def
  by (rule clean_session_writes clean_steps | simp)+

section \<open>Outcomes\<close>

lemmas session_reader_outcomes = reader_outcomes silent_session_readers [THEN silent_outcome]

lemma session_audit_event_Inr:
  "session_audit_event i c a act sid = Inr e \<Longrightarrow>
     audit_action e = act \<and> audit_actor_id e = Some a \<and> audit_resource_id e = Some (uuid_str sid)"
  by (auto simp: session_audit_event_def AuditEvent_post_init_def split: if_splits)

lemma AuthSession_post_init_Inr: "AuthSession_post_init x = Inr y \<Longrightarrow> y = x"
  by (auto simp: AuthSession_post_init_def split: if_splits)

text \<open>The session that \<open>CreateBrowserSession\<close> stores.\<close>

definition created_session :: "ports \<Rightarrow> io \<Rightarrow> CreateBrowserSessionCommand \<Rightarrow> AuthSession" where
  "created_session P io cmd =
     \<lparr>session_id = new_id io 0, session_user_id = cs_user_id cmd,
      session_token_hash = token_hash P (new_token io 0),
      session_expires_at = dt_add (clock io 0) session_lifetime,
      session_assurance_level = cs_assurance_level cmd, session_revoked_at = None,
      session_authenticated_at = Some (clock io 0), session_last_seen_at = Some (clock io 0),
      session_ip_hash = fingerprint (hash_ip_address P) (cs_client_ip cmd),
      session_user_agent_hash = fingerprint (hash_user_agent P) (cs_user_agent cmd)\<rparr>"

lemma CreateBrowserSession_returns:
  assumes "CreateBrowserSession_execute P io cmd s = (Inr issued, t)"
  obtains event where
    "fst (get_status (cs_user_id cmd) s) = Inr (Some USER_ACTIVE)"
    "AuthSession_post_init (created_session P io cmd) = Inr (created_session P io cmd)"
    "t = s\<lparr>auth_sessions := auth_sessions s @ [session_record (db_now io 0) (created_session P io cmd)],
          audit_events := audit_events s @ [audit_record (db_now io 0) event]\<rparr>"
    "issued = \<lparr>issued_id = new_id io 0, issued_raw_token = new_token io 0,
       issued_raw_csrf_token = new_token io 1,
       issued_expires_at = dt_add (clock io 0) session_lifetime,
       issued_assurance_level = cs_assurance_level cmd\<rparr>"
    "audit_action event = ''auth.session_created''"
proof -
  from assms obtain x event where run:
    "fst (get_status (cs_user_id cmd) s) = Inr (Some USER_ACTIVE)"
    "AuthSession_post_init (created_session P io cmd) = Inr x"
    "session_audit_event (new_id io 1) (cs_correlation_id cmd) (cs_user_id cmd)
       ''auth.session_created'' (session_id x) = Inr event"
    "session_create (db_now io 0) x event s = (Inr True, t)"
    "issued = \<lparr>issued_id = session_id x, issued_raw_token = new_token io 0,
       issued_raw_csrf_token = new_token io 1, issued_expires_at = session_expires_at x,
       issued_assurance_level = session_assurance_level x\<rparr>"
    unfolding CreateBrowserSession_execute_def Let_def created_session_def [symmetric]
    by (auto simp: outcomes session_reader_outcomes)
  note x = AuthSession_post_init_Inr [OF run(2)]
  have "t = s\<lparr>auth_sessions := auth_sessions s @ [session_record (db_now io 0) x],
          audit_events := audit_events s @ [audit_record (db_now io 0) event]\<rparr>"
    using run(4) by (auto simp: session_create_def outcomes inserts)
  with run x session_audit_event_Inr [OF run(3)] show thesis
    by (intro that [of event]) (simp_all add: created_session_def)
qed

lemma session_record_roundtrip:
  assumes "AuthSession_post_init x = Inr x" and "session_authenticated_at x \<noteq> None"
  shows "session_from_record (session_record d x) = Some x"
proof -
  have "SessionAssuranceLevel_parse (SessionAssuranceLevel_value l) = Some l" for l
    by (rule SessionAssuranceLevel_parse_value)
  with assms show ?thesis
    by (cases x) (auto simp: session_from_record_def session_record_def
        simp del: SessionAssuranceLevel_value.simps)
qed

lemma find_by_token_hash_hit:
  assumes "db_ok s" and "r \<in> set (auth_sessions s)" and "s_token_hash r = h"
  shows "find_by_token_hash h s = (Inr (session_from_record r), s)"
proof -
  have "distinct (map s_token_hash (auth_sessions s))"
    using assms(1) by (simp add: db_ok_def sessions_ok_def)
  then show ?thesis
    using assms(2,3) by (simp add: find_by_token_hash_def tries_def find_one_hit [where k = s_token_hash])
qed

lemma session_from_record_fields:
  assumes "session_from_record r = Some x"
  shows "session_id x = s_id r" "session_user_id x = s_user_id r" "session_token_hash x = s_token_hash r"
    "session_expires_at x = s_expires_at r" "session_revoked_at x = s_revoked_at r"
    "session_authenticated_at x = Some (s_created_at r)" "session_last_seen_at x = s_last_seen_at r"
    "s_assurance_level r = SessionAssuranceLevel_value (session_assurance_level x)"
proof -
  from assms obtain level where level: "SessionAssuranceLevel_parse (s_assurance_level r) = Some level"
    and "AuthSession_post_init
      \<lparr>session_id = s_id r, session_user_id = s_user_id r, session_token_hash = s_token_hash r,
       session_expires_at = s_expires_at r, session_assurance_level = level,
       session_revoked_at = s_revoked_at r, session_authenticated_at = Some (s_created_at r),
       session_last_seen_at = s_last_seen_at r, session_ip_hash = s_ip_hash r,
       session_user_agent_hash = s_user_agent_hash r\<rparr> = Inr x"
    unfolding session_from_record_def by (simp split: option.splits)
  from AuthSession_post_init_Inr [OF this(2)] enum_parse_Some [OF level [unfolded SessionAssuranceLevel_parse_def]]
  show "session_id x = s_id r" "session_user_id x = s_user_id r" "session_token_hash x = s_token_hash r"
    "session_expires_at x = s_expires_at r" "session_revoked_at x = s_revoked_at r"
    "session_authenticated_at x = Some (s_created_at r)" "session_last_seen_at x = s_last_seen_at r"
    "s_assurance_level r = SessionAssuranceLevel_value (session_assurance_level x)"
    by simp_all
qed

lemma get_status_mono:
  assumes "users s = users t" shows "fst (get_status u s) = fst (get_status u t)"
  using assms by (simp add: get_status_def tries_def)

text \<open>The last-seen update of a resolved session touches nothing else.\<close>

lemma touch_last_seen_returns:
  "touch_last_seen sid uid at s = (Inr b, t) \<Longrightarrow>
     t = s\<lparr>auth_sessions := update_rows (\<lambda>r. s_id r = sid \<and> s_user_id r = uid \<and> s_revoked_at r = None
             \<and> dt_lt at (s_expires_at r)) (\<lambda>r. r\<lparr>s_last_seen_at := Some at\<rparr>) (auth_sessions s)\<rparr>"
  by (auto simp: touch_last_seen_def outcomes update_sessions_def)

lemma touch_last_seen_eq:
  "touch_last_seen sid uid at s =
     (Inr (rowcount (\<lambda>r. s_id r = sid \<and> s_user_id r = uid \<and> s_revoked_at r = None
             \<and> dt_lt at (s_expires_at r)) (auth_sessions s) = 1),
      s\<lparr>auth_sessions := update_rows (\<lambda>r. s_id r = sid \<and> s_user_id r = uid \<and> s_revoked_at r = None
             \<and> dt_lt at (s_expires_at r)) (\<lambda>r. r\<lparr>s_last_seen_at := Some at\<rparr>) (auth_sessions s)\<rparr>)"
  by (simp add: touch_last_seen_def update_sessions_def effects)

lemma touch_last_seen_of_returns:
  "0 < interval \<Longrightarrow> fst (touch_last_seen_of updater interval x now s) = Inr ()"
  by (simp add: touch_last_seen_of_def last_seen_requires_update_def construct_def effects
      touch_last_seen_eq)

lemma touch_last_seen_of_effect:
  "snd (touch_last_seen_of updater interval x now s) = s \<or>
   snd (touch_last_seen_of updater interval x now s) = snd (touch_last_seen (session_id x) (session_user_id x) now s)"
  by (simp add: touch_last_seen_of_def last_seen_requires_update_def construct_def effects
      touch_last_seen_eq)

lemma ResolveBrowserSession_Some:
  assumes "ResolveBrowserSession_execute P io upd iv tok s = (Inr (Some who), t)"
  obtains x where
    "is_usable_token tok" "fst (find_by_token_hash (token_hash P tok) s) = Inr (Some x)"
    "session_is_active_at x (clock io 0) = Inr True"
    "fst (get_status (session_user_id x) s) = Inr (Some USER_ACTIVE)"
    "t = snd (touch_last_seen_of upd iv x (clock io 0) s)"
    "who = \<lparr>principal_user_id = session_user_id x, principal_session_id = session_id x,
       principal_assurance_level = session_assurance_level x,
       principal_authenticated_at = session_authenticated_at x\<rparr>"
  using assms unfolding ResolveBrowserSession_execute_def
  by (auto simp: outcomes session_reader_outcomes intro: that)

lemma find_by_token_hash_row:
  assumes "fst (find_by_token_hash h s) = Inr (Some x)"
  obtains r where "r \<in> set (auth_sessions s)" "s_token_hash r = h" "session_from_record r = Some x"
  using assms by (auto simp: find_by_token_hash_def tries_def dest!: find_one_SomeD)

lemma session_is_active_iff:
  "session_is_active_at x now = Inr b \<longleftrightarrow>
     tz_aware now \<and> b = (session_revoked_at x = None \<and> dt_lt now (session_expires_at x))"
  by (auto simp: session_is_active_at_def)

lemma resolve_active_row:
  assumes ok: "db_ok s" and row: "r \<in> set (auth_sessions s)" "s_token_hash r = token_hash P tok"
    "session_from_record r = Some x"
    and tok: "is_usable_token tok" and iv: "0 < iv"
    and now: "tz_aware (clock io 0)" "s_revoked_at r = None" "dt_lt (clock io 0) (s_expires_at r)"
    and user: "fst (get_status (s_user_id r) s) = Inr (Some USER_ACTIVE)"
  shows "fst (ResolveBrowserSession_execute P io upd iv tok s) = Inr (Some
    \<lparr>principal_user_id = s_user_id r, principal_session_id = s_id r,
     principal_assurance_level = session_assurance_level x,
     principal_authenticated_at = Some (s_created_at r)\<rparr>)"
proof -
  note fields = session_from_record_fields [OF row(3)]
  have "find_by_token_hash (token_hash P tok) s = (Inr (Some x), s)"
    using find_by_token_hash_hit [OF ok row(1,2)] row(3) by simp
  moreover have "session_is_active_at x (clock io 0) = Inr True"
    using now fields by (simp add: session_is_active_iff)
  moreover have "get_status (session_user_id x) s = (Inr (Some USER_ACTIVE), s)"
    using user fields by (simp add: session_reader_outcomes)
  moreover have "fst (touch_last_seen_of upd iv x (clock io 0) s) = Inr ()"
    using iv by (rule touch_last_seen_of_returns)
  ultimately show ?thesis
    using tok fields by (simp add: ResolveBrowserSession_execute_def effects construct_def)
qed

lemma resolve_revoked_row:
  assumes ok: "db_ok s" and row: "r \<in> set (auth_sessions s)" "s_token_hash r = token_hash P tok"
    and "s_revoked_at r \<noteq> None" and "tz_aware (clock io 0)"
  shows "ResolveBrowserSession_execute P io upd iv tok s = (Inr None, s)"
proof (cases "session_from_record r")
  case None
  then show ?thesis
    using find_by_token_hash_hit [OF ok row]
    by (simp add: ResolveBrowserSession_execute_def effects)
next
  case (Some x)
  have "session_is_active_at x (clock io 0) = Inr False"
    using assms(4,5) session_from_record_fields(5) [OF Some] by (simp add: session_is_active_iff)
  then show ?thesis
    using find_by_token_hash_hit [OF ok row] Some
    by (simp add: ResolveBrowserSession_execute_def effects construct_def)
qed

lemma filter_update_rows:
  assumes "\<And>r. Q r \<Longrightarrow> \<not> K r" and "\<And>r. Q r \<Longrightarrow> \<not> K (f r)"
  shows "filter K (update_rows Q f rows) = filter K rows"
  using assms by (induction rows) (auto simp: update_rows_def)

text \<open>A join on keys has at most one row when every key is unique.\<close>

lemma length_concat_unique:
  assumes "distinct (map k xs)" and "\<And>x. x \<in> set xs \<Longrightarrow> length (f x) \<le> 1"
    and "\<And>x. x \<in> set xs \<Longrightarrow> f x \<noteq> [] \<Longrightarrow> k x = c"
  shows "length (concat (map f xs)) \<le> 1"
  using assms
proof (induction xs)
  case (Cons a xs)
  show ?case
  proof (cases "f a = []")
    case True
    with Cons show ?thesis by simp
  next
    case False
    then have "k a = c" using Cons.prems(3) by simp
    with distinct_key_Cons [OF Cons.prems(1)] Cons.prems(3) have "f x = []" if "x \<in> set xs" for x
      using that by (metis list.set_intros(2))
    then have none: "concat (map f xs) = []" by simp
    show ?thesis
      using Cons.prems(2) [of a] unfolding list.map concat.simps none by simp
  qed
qed simp

lemma find_one_short:
  assumes "length rows \<le> 1" shows "\<exists>a. find_one K f rows = Inr a"
proof -
  have "length (filter K rows) \<le> 1"
    using assms length_filter_le le_trans by blast
  then show ?thesis
    by (cases "filter K rows" rule: scalar_one_or_none.cases) (simp_all add: find_one_def)
qed

lemma find_account_returns:
  assumes "db_ok s"
  shows "\<exists>a. find_account_by_email_lookup_hash h s = (Inr a, s)"
proof -
  let ?rows = "[(u_id u, u_status u, pc_password_hash c).
          u \<leftarrow> users s, e \<leftarrow> user_emails s, c \<leftarrow> password_credentials s,
          ue_user_id e = u_id u \<and> pc_user_id c = u_id u \<and> ue_email_lookup_hash e = h]"
  from assms have keys: "distinct (map u_id (users s))" "distinct (map ue_email_lookup_hash (user_emails s))"
    "distinct (map pc_user_id (password_credentials s))"
    by (simp_all add: db_ok_def users_ok_def emails_ok_def credentials_ok_def)
  obtain uid where uid: "\<And>e. e \<in> set (user_emails s) \<Longrightarrow> ue_email_lookup_hash e = h \<Longrightarrow> ue_user_id e = uid"
    using keys(2) by (metis distinct_map inj_onD)
  have "length ?rows \<le> 1"
    by (rule length_concat_unique [OF keys(1), where c = uid]
        length_concat_unique [OF keys(2), where c = h] length_concat_unique [OF keys(3)]
      | (auto split: if_splits dest: uid; fail))+
  from find_one_short [OF this] show ?thesis
    unfolding find_account_by_email_lookup_hash_def tries_def by simp
qed

section \<open>Properties\<close>

lemmas session_evaluation = evaluation session_repository session_use_cases session_from_record_def
  session_record_def seen_desc_le_def fingerprint_def session_lifetime_def session_audit_event_def
  is_usable_token_def last_seen_requires_update_def maximum_age_def minutes_def days_def seconds_def

lemma created_session_resolves:
  assumes "db_ok s" and "CreateBrowserSession_execute P io cmd s = (Inr issued, t)"
    and "is_usable_token (issued_raw_token issued)" and "0 < interval"
    and "tz_aware (clock io2 0)" and "dt_lt (clock io2 0) (issued_expires_at issued)"
  shows "fst (ResolveBrowserSession_execute P io2 updater interval (issued_raw_token issued) t) = Inr (Some
    \<lparr>principal_user_id = cs_user_id cmd, principal_session_id = issued_id issued,
     principal_assurance_level = cs_assurance_level cmd,
     principal_authenticated_at = Some (clock io 0)\<rparr>)"
  using assms(2)
proof (elim CreateBrowserSession_returns, goal_cases)
  case (1 event)
  let ?x = "created_session P io cmd" and ?r = "session_record (db_now io 0) (created_session P io cmd)"
  have "db_ok t"
    using obeysD [OF inv_session_use_cases(1), of s P io cmd] assms(1,2) by simp
  moreover have "session_from_record ?r = Some ?x"
    by (rule session_record_roundtrip [OF 1(2)]) (simp add: created_session_def)
  moreover have "fst (get_status (cs_user_id cmd) t) = Inr (Some USER_ACTIVE)"
    using 1(1) get_status_mono [of s t] 1(3) by simp
  ultimately show ?case
    using resolve_active_row [of t ?r P "issued_raw_token issued" ?x] assms(3-6) 1(3,4)
    by (simp add: session_record_def created_session_def)
qed

text \<open>
  A freshly created session can be used: as long as it has not expired and its user is still
  active, resolving the issued raw token yields a principal with the user, the session, the assurance
  level and the authentication time of the creation, whether or not the last-seen time is updated.
\<close>

theorem session_token_roundtrip:
  assumes "db_ok s" and "CreateBrowserSession_execute P io cmd s = (Inr issued, t)"
    and "is_usable_token (issued_raw_token issued)" and "0 < interval"
    and "tz_aware (clock io2 0)" and "dt_lt (clock io2 0) (issued_expires_at issued)"
  shows "fst (ResolveBrowserSession_execute P io2 updater interval (issued_raw_token issued) t) = Inr (Some
    \<lparr>principal_user_id = cs_user_id cmd, principal_session_id = issued_id issued,
     principal_assurance_level = cs_assurance_level cmd,
     principal_authenticated_at = Some (clock io 0)\<rparr>)"
  by (rule created_session_resolves [OF assms])

theorem session_token_roundtrip_witness:
  "\<exists>issued t. CreateBrowserSession_execute sample_ports sample_io
     \<lparr>cs_user_id = 3, cs_correlation_id = 9, cs_assurance_level = ASSURANCE_PASSWORD,
      cs_client_ip = Some ''1'', cs_user_agent = None\<rparr> sample = (Inr issued, t)
     \<and> fst (ResolveBrowserSession_execute sample_ports sample_io True 300 (issued_raw_token issued) t) =
       Inr (Some \<lparr>principal_user_id = 3, principal_session_id = 500,
         principal_assurance_level = ASSURANCE_PASSWORD,
         principal_authenticated_at = Some (Aware 1000000000)\<rparr>)"
  (is "\<exists>issued t. ?exec sample = _ \<and> _")
proof -
  let ?issued = "\<lparr>issued_id = 500, issued_raw_token = ''tok-a'', issued_raw_csrf_token = ''tok-b'',
    issued_expires_at = Aware (1000000000 + 1209600000000), issued_assurance_level = ASSURANCE_PASSWORD\<rparr>"
  have "fst (?exec sample) = Inr ?issued"
    by (simp add: session_evaluation py_strip_def)
  then obtain t where run: "?exec sample = (Inr ?issued, t)"
    by (rule returns_value)
  have "fst (ResolveBrowserSession_execute sample_ports sample_io True 300 (issued_raw_token ?issued) t) =
       Inr (Some \<lparr>principal_user_id = 3, principal_session_id = 500,
         principal_assurance_level = ASSURANCE_PASSWORD,
         principal_authenticated_at = Some (Aware 1000000000)\<rparr>)"
    using session_token_roundtrip [OF sample_ok run, of 300 sample_io True]
    by (simp add: is_usable_token_def py_isspace_def sample_io_def)
  with run show ?thesis by blast
qed

text \<open>
  C12: Resolution is sound: a principal is returned only for a usable token whose digest belongs to a
  stored session that is neither revoked nor expired and whose user is active; the principal names
  that session and user, and at most the last-seen time of that one row changes.
\<close>

theorem resolve_session_sound:
  assumes "ResolveBrowserSession_execute P io updater interval tok s = (Inr (Some who), t)"
  shows "is_usable_token tok \<and> (\<exists>r \<in> set (auth_sessions s).
      s_token_hash r = token_hash P tok \<and> s_revoked_at r = None \<and> dt_lt (clock io 0) (s_expires_at r)
      \<and> s_id r = principal_session_id who \<and> s_user_id r = principal_user_id who
      \<and> fst (get_status (s_user_id r) s) = Inr (Some USER_ACTIVE)
      \<and> (t = s \<or> t = s\<lparr>auth_sessions := update_rows (\<lambda>q. s_id q = s_id r \<and> s_user_id q = s_user_id r
           \<and> s_revoked_at q = None \<and> dt_lt (clock io 0) (s_expires_at q))
           (\<lambda>q. q\<lparr>s_last_seen_at := Some (clock io 0)\<rparr>) (auth_sessions s)\<rparr>))"
  using assms
proof (elim ResolveBrowserSession_Some, goal_cases)
  case (1 x)
  from 1(2) obtain r where r: "r \<in> set (auth_sessions s)" "s_token_hash r = token_hash P tok"
    "session_from_record r = Some x" by (rule find_by_token_hash_row)
  note fields = session_from_record_fields [OF r(3)]
  have "t = s \<or> t = snd (touch_last_seen (s_id r) (s_user_id r) (clock io 0) s)"
    using touch_last_seen_of_effect [of updater interval x "clock io 0" s] 1(5) fields by simp
  then show ?case
    using 1 r fields by (intro conjI bexI [of _ r]) (auto simp: touch_last_seen_eq session_is_active_iff)
qed

theorem resolve_session_sound_witness:
  "\<exists>who t. ResolveBrowserSession_execute sample_ports sample_io True 300 ''token'' sample = (Inr (Some who), t)
     \<and> principal_user_id who = 1 \<and> is_usable_token ''token''"
  (is "\<exists>who t. ?exec sample = _ \<and> _")
proof -
  let ?who = "\<lparr>principal_user_id = 1, principal_session_id = 60,
    principal_assurance_level = RECENT_AUTHENTICATION, principal_authenticated_at = Some (Aware 999999999)\<rparr>"
  have "fst (?exec sample) = Inr (Some ?who)"
    by (simp add: session_evaluation)
  then obtain t where run: "?exec sample = (Inr (Some ?who), t)"
    by (rule returns_value)
  from resolve_session_sound [OF run] run show ?thesis by auto
qed

text \<open>
  Revoking all sessions needs a recent authentication, reports the number of sessions it revoked,
  leaves no session of that user that is active at or after the revocation time, does not touch any
  session of another user, and records exactly one audit event.
\<close>

theorem revoke_all_sessions_correct:
  assumes "RevokeAllBrowserSessions_execute io who correlation s = (Inr n, t)"
    and "instant (clock io 1) \<le> instant later"
  shows "principal_assurance_level who = RECENT_AUTHENTICATION \<and> 0 < n
    \<and> n = length (filter (\<lambda>r. s_user_id r = principal_user_id who \<and> s_revoked_at r = None
         \<and> dt_lt (clock io 1) (s_expires_at r)) (auth_sessions s))
    \<and> list_active_for_user (principal_user_id who) later t = (Inr [], t)
    \<and> filter (\<lambda>r. s_user_id r \<noteq> principal_user_id who) (auth_sessions t) =
       filter (\<lambda>r. s_user_id r \<noteq> principal_user_id who) (auth_sessions s)
    \<and> (\<exists>e. audit_events t = audit_events s @ [e] \<and> a_action e = ''auth.sessions_revoked'')"
proof -
  let ?P = "\<lambda>r. s_user_id r = principal_user_id who \<and> s_revoked_at r = None
    \<and> dt_lt (clock io 1) (s_expires_at r)"
  let ?f = "\<lambda>r. r\<lparr>s_revoked_at := Some (clock io 1)\<rparr>"
  from assms(1) obtain event where
    level: "principal_assurance_level who = RECENT_AUTHENTICATION"
    and event: "session_audit_event (new_id io 0) correlation (principal_user_id who)
      ''auth.sessions_revoked'' (principal_session_id who) = Inr event"
    and n: "n = rowcount ?P (auth_sessions s)" "0 < n"
    and t: "auth_sessions t = update_rows ?P ?f (auth_sessions s)"
      "audit_events t = audit_events s @ [audit_record (db_now io 0) event]"
    by (auto simp: RevokeAllBrowserSessions_execute_def RequireRecentAuthentication_check_def
        revoke_all_for_user_def outcomes update_sessions_def inserts)
  have "filter (\<lambda>r. s_user_id r = principal_user_id who \<and> s_revoked_at r = None
      \<and> dt_lt later (s_expires_at r)) (auth_sessions t) = []"
    using assms(2) by (auto simp: t update_rows_def filter_empty_conv)
  then have "list_active_for_user (principal_user_id who) later t = (Inr [], t)"
    by (simp add: list_active_for_user_def reads_def order_by_def List.map_filter_simps)
  moreover have "filter (\<lambda>r. s_user_id r \<noteq> principal_user_id who) (auth_sessions t) =
      filter (\<lambda>r. s_user_id r \<noteq> principal_user_id who) (auth_sessions s)"
    unfolding t(1) by (rule filter_update_rows) auto
  ultimately show ?thesis
    using level n t session_audit_event_Inr [OF event] by (simp add: rowcount_def audit_record_def)
qed

theorem revoke_all_sessions_correct_witness:
  "\<exists>t. RevokeAllBrowserSessions_execute sample_io
     \<lparr>principal_user_id = 1, principal_session_id = 60, principal_assurance_level = RECENT_AUTHENTICATION,
      principal_authenticated_at = Some (Aware 999999999)\<rparr> 9 sample = (Inr 1, t)
     \<and> list_active_for_user 1 (Aware 1000000001) t = (Inr [], t)"
  (is "\<exists>t. ?exec sample = _ \<and> _")
proof -
  have "fst (?exec sample) = Inr 1"
    by (simp add: session_evaluation)
  then obtain t where run: "?exec sample = (Inr 1, t)"
    by (rule returns_value)
  have "list_active_for_user 1 (Aware 1000000001) t = (Inr [], t)"
    using revoke_all_sessions_correct [OF run, of "Aware 1000000001"] by (simp add: sample_io_def)
  with run show ?thesis by blast
qed

text \<open>
  Re-authentication succeeds only for an active user whose stored password verifies; afterwards
  the same browser token resolves to a principal whose recent-authentication check passes exactly
  from the moment of re-authentication until fifteen minutes later.
\<close>

theorem reauthentication_elevates:
  assumes "db_ok s" and "ReauthenticateBrowserSession_execute P io cmd s = (Inr u, t)"
    and "ResolveBrowserSession_execute P io2 updater interval tok t = (Inr (Some who), t2)"
    and "principal_session_id who = principal_session_id (ra_principal cmd)"
  shows "(\<exists>c. fst (find_credential_for_user (principal_user_id (ra_principal cmd)) s) = Inr (Some c)
      \<and> verify_password P (credential_password_hash c) (ra_current_password cmd))
    \<and> principal_user_id who = principal_user_id (ra_principal cmd)
    \<and> (fst (RequireRecentAuthentication_check now who t2) = Inr () \<longleftrightarrow>
         instant (clock io 0) \<le> instant now \<and> instant now \<le> instant (clock io 0) + minutes 15)"
proof -
  let ?sid = "principal_session_id (ra_principal cmd)" and ?uid = "principal_user_id (ra_principal cmd)"
  let ?P = "\<lambda>r. s_id r = ?sid \<and> s_user_id r = ?uid \<and> s_revoked_at r = None
    \<and> dt_lt (clock io 0) (s_expires_at r)"
  let ?f = "\<lambda>r. r\<lparr>s_assurance_level := SessionAssuranceLevel_value RECENT_AUTHENTICATION,
    s_created_at := clock io 0, s_last_seen_at := Some (clock io 0)\<rparr>"
  from assms(2) obtain c where
    c: "fst (find_credential_for_user ?uid s) = Inr (Some c)"
      "verify_password P (credential_password_hash c) (ra_current_password cmd)"
    and one: "rowcount ?P (auth_sessions s) = 1"
    and t: "auth_sessions t = update_rows ?P ?f (auth_sessions s)"
    by (auto simp: ReauthenticateBrowserSession_execute_def Let_def outcomes session_reader_outcomes
        session_reauthenticate_def update_sessions_def inserts simp del: SessionAssuranceLevel_value.simps)
  from one obtain r0 where r0: "r0 \<in> set (auth_sessions s)" "?P r0"
    using rowcount_pos_iff [of ?P "auth_sessions s"] by auto
  from assms(3) obtain x where x: "fst (find_by_token_hash (token_hash P tok) t) = Inr (Some x)"
    "who = \<lparr>principal_user_id = session_user_id x, principal_session_id = session_id x,
       principal_assurance_level = session_assurance_level x,
       principal_authenticated_at = session_authenticated_at x\<rparr>"
    by (rule ResolveBrowserSession_Some)
  from x(1) obtain r where r: "r \<in> set (auth_sessions t)" "session_from_record r = Some x"
    by (rule find_by_token_hash_row)
  note fields = session_from_record_fields [OF r(2)]
  have ids: "distinct (map s_id (auth_sessions s))"
    using assms(1) by (simp add: db_ok_def sessions_ok_def)
  obtain q where q: "q \<in> set (auth_sessions s)" "r = (if ?P q then ?f q else q)"
    using r(1) unfolding t set_update_rows by blast
  then have "s_id q = ?sid"
    using fields(1) x(2) assms(4) by (auto split: if_splits)
  with q(1) r0 ids have "q = r0"
    by (metis distinct_map inj_onD)
  with q(2) r0(2) have r_eq: "r = ?f r0" by simp
  then have level: "session_assurance_level x = RECENT_AUTHENTICATION"
    using fields(8) by (cases "session_assurance_level x") auto
  have at: "session_authenticated_at x = Some (clock io 0)"
    using fields(6) r_eq by simp
  have user: "session_user_id x = ?uid"
    using fields(2) r_eq r0(2) by simp
  show ?thesis
    using c level at user
    by (auto simp: x(2) RequireRecentAuthentication_check_def maximum_age_def effects split: if_splits)
qed

theorem reauthentication_elevates_witness:
  "\<exists>t t2 who. ReauthenticateBrowserSession_execute sample_ports sample_io
     \<lparr>ra_principal = \<lparr>principal_user_id = 1, principal_session_id = 60,
        principal_assurance_level = RECENT_AUTHENTICATION, principal_authenticated_at = None\<rparr>,
      ra_current_password = ''old-password'', ra_correlation_id = 9\<rparr> sample = (Inr (), t)
     \<and> ResolveBrowserSession_execute sample_ports sample_io False 300 ''token'' t = (Inr (Some who), t2)
     \<and> fst (RequireRecentAuthentication_check (Aware (1000000000 + minutes 15)) who t2) = Inr ()"
  (is "\<exists>t t2 who. ?re sample = _ \<and> ?resolve t = _ \<and> _")
proof -
  let ?who = "\<lparr>principal_user_id = 1, principal_session_id = 60,
    principal_assurance_level = RECENT_AUTHENTICATION, principal_authenticated_at = Some (Aware 1000000000)\<rparr>"
  have "fst (?re sample) = Inr ()"
    by (simp add: session_evaluation)
  then obtain t where re: "?re sample = (Inr (), t)"
    by (rule returns_value)
  have "fst (?resolve (snd (?re sample))) = Inr (Some ?who)"
    by (simp add: session_evaluation)
  then have "fst (?resolve t) = Inr (Some ?who)" using re by simp
  then obtain t2 where res: "?resolve t = (Inr (Some ?who), t2)"
    by (rule returns_value)
  have "fst (RequireRecentAuthentication_check (Aware (1000000000 + minutes 15)) ?who t2) = Inr ()"
    using reauthentication_elevates [OF sample_ok re res, of "Aware (1000000000 + minutes 15)"]
    by (simp add: sample_io_def minutes_def seconds_def)
  with re res show ?thesis by blast
qed

lemma get_status_returns:
  assumes "db_ok s" shows "\<exists>st. get_status u s = (Inr st, s)"
proof -
  have "distinct (map u_id (users s))"
    using assms by (simp add: db_ok_def users_ok_def)
  then have "\<exists>st. find_one (\<lambda>x. u_id x = u) f (users s) = Inr st" for f :: "_ \<Rightarrow> UserStatus option"
    by (rule find_one_unique) simp
  then show ?thesis
    by (simp add: get_status_def tries_def)
qed

text \<open>The digests of the collaborators are SHA-256 hex digests: 64 characters.\<close>

definition digests_ok :: "ports \<Rightarrow> bool" where
  "digests_ok P \<longleftrightarrow> (\<forall>x. length (token_hash P x) = 64 \<and> length (hash_ip_address P x) = 64
     \<and> length (hash_user_agent P x) = 64 \<and> length (lookup_hash P x) = 64)"

lemma create_session_errors:
  assumes "db_ok s" and "digests_ok P" and "tz_aware (clock io 0)"
    and "CreateBrowserSession_execute P io cmd s = (Inl e, t)"
  shows "is_session_creation_rejected e \<and> t = s"
proof
  have "AuthSession_post_init (created_session P io cmd) = Inr (created_session P io cmd)"
    using assms(2,3) by (simp add: AuthSession_post_init_def created_session_def digests_ok_def
        opt_digest_def fingerprint_def Let_def split: option.split)
  moreover obtain st where "get_status (cs_user_id cmd) s = (Inr st, s)"
    using get_status_returns [OF assms(1)] by blast
  ultimately show "is_session_creation_rejected e"
    using assms(4) unfolding CreateBrowserSession_execute_def Let_def created_session_def [symmetric]
    by (auto simp: outcomes session_create_def session_audit_event_def AuditEvent_post_init_def inserts
        split: if_splits)
  show "t = s"
    using clean_session_use_cases(1) assms(1,4) unfolding clean_def by blast
qed

text \<open>
  C14: Every failed password sign-in looks the same: with digests of the documented size and an aware
  clock, whatever goes wrong (malformed address, unknown account, wrong password, inactive user, a
  conflict on storing the session) raises one and the same exception and changes nothing.
\<close>

theorem authentication_failures_uniform:
  assumes "db_ok s" and "digests_ok P" and "tz_aware (clock io 0)"
    and "AuthenticateEmailPassword_execute P io cmd s = (Inl e, t)"
  shows "e = AuthenticationRejectedError ''Authentication could not be completed.'' \<and> t = s"
proof (cases "normalize P (ae_email cmd)")
  case (Inl _)
  with assms(4) show ?thesis
    by (simp add: AuthenticateEmailPassword_execute_def authentication_rejected_def outcomes)
next
  case (Inr email)
  obtain a where "find_account_by_email_lookup_hash (lookup_hash P email) s = (Inr a, s)"
    using find_account_returns [OF assms(1)] by blast
  with Inr assms(4) show ?thesis
    by (auto simp: AuthenticateEmailPassword_execute_def authentication_rejected_def outcomes
        dest!: create_session_errors [OF assms(1-3)])
qed

theorem authentication_failures_uniform_witness:
  "digests_ok sample_ports \<and> fst (AuthenticateEmailPassword_execute sample_ports sample_io
     \<lparr>ae_email = ''b@x'', ae_password = ''wrong'', ae_correlation_id = 9, ae_client_ip = None,
      ae_user_agent = None\<rparr> sample)
     = Inl (AuthenticationRejectedError ''Authentication could not be completed.'')"
  (is "_ \<and> fst (?exec sample) = _")
proof
  show ok: "digests_ok sample_ports"
    by (simp add: digests_ok_def sample_ports_def pad64_def del: take_append)
  obtain e t where run: "?exec sample = (Inl e, t)"
    by (simp add: session_evaluation)
  from authentication_failures_uniform [OF sample_ok ok _ run] run
  show "fst (?exec sample) = Inl (AuthenticationRejectedError ''Authentication could not be completed.'')"
    by (simp add: sample_io_def)
qed

text \<open>
  A password sign-in succeeds only for an active account whose stored credential verifies the
  given password; it appends exactly one session for that account, with recent-authentication
  assurance and a lifetime of fourteen days, and one audit row.
\<close>

theorem authentication_success:
  assumes "AuthenticateEmailPassword_execute P io cmd s = (Inr issued, t)"
  shows "\<exists>email account r e. normalize P (ae_email cmd) = Inr email
    \<and> fst (find_account_by_email_lookup_hash (lookup_hash P email) s) = Inr (Some account)
    \<and> verify_password P (account_password_hash account) (ae_password cmd)
    \<and> account_status account = USER_ACTIVE
    \<and> t = s\<lparr>auth_sessions := auth_sessions s @ [r], audit_events := audit_events s @ [e]\<rparr>
    \<and> s_user_id r = account_user_id account \<and> s_token_hash r = token_hash P (issued_raw_token issued)
    \<and> s_assurance_level r = ''recent_authentication'' \<and> s_revoked_at r = None
    \<and> s_expires_at r = dt_add (clock io 0) (days 14) \<and> a_action e = ''auth.session_created''"
proof -
  from assms obtain email account where pre: "normalize P (ae_email cmd) = Inr email"
    "fst (find_account_by_email_lookup_hash (lookup_hash P email) s) = Inr (Some account)"
    "verify_password P (account_password_hash account) (ae_password cmd)"
    "account_status account = USER_ACTIVE"
    and run: "CreateBrowserSession_execute P io
                     \<lparr>cs_user_id = account_user_id account, cs_correlation_id = ae_correlation_id cmd,
                      cs_assurance_level = RECENT_AUTHENTICATION, cs_client_ip = ae_client_ip cmd,
                      cs_user_agent = ae_user_agent cmd\<rparr> s = (Inr issued, t)"
    by (auto simp: AuthenticateEmailPassword_execute_def authentication_rejected_def outcomes
        session_reader_outcomes)
  from run show ?thesis
  proof (elim CreateBrowserSession_returns, goal_cases)
    case (1 event)
    with pre show ?case
      by (intro exI [of _ email] exI [of _ account] exI conjI)
        (auto simp: session_record_def created_session_def session_lifetime_def audit_record_def)
  qed
qed

theorem authentication_success_witness:
  "\<exists>issued t. AuthenticateEmailPassword_execute sample_ports sample_io
     \<lparr>ae_email = ''b@x'', ae_password = ''secret'', ae_correlation_id = 9, ae_client_ip = None,
      ae_user_agent = None\<rparr> sample = (Inr issued, t) \<and> length (auth_sessions t) = 2"
  (is "\<exists>issued t. ?exec sample = _ \<and> _")
proof -
  have "\<exists>x. fst (?exec sample) = Inr x"
    by (simp add: session_evaluation py_strip_def)
  then obtain issued t where run: "?exec sample = (Inr issued, t)"
    by (rule returns)
  with authentication_success [OF run] show ?thesis
    by (auto simp: sample_def)
qed

end
