(* ===== verification/Repo_Connections.thy ===== *)
theory Repo_Connections
  imports Sessions
begin

text \<open>
  Persistence of platform connections, of the life-cycle idempotency results and of the audit trail
  (\<open>persistence/connection_repository.py\<close>, \<open>persistence/audit_repository.py\<close>).
\<close>

section \<open>Rows and objects\<close>

text \<open>A JSONB object keeps its keys ordered by length, then bytewise.\<close>

definition jsonb_key_le :: "string \<Rightarrow> string \<Rightarrow> bool" where
  "jsonb_key_le a b \<longleftrightarrow> length a < length b \<or>
     length a = length b \<and> lexordp_eq (map (of_char :: char \<Rightarrow> nat) a) (map of_char b)"

definition jsonb_object :: "(string \<times> 'v) list \<Rightarrow> (string \<times> 'v) list" where
  "jsonb_object kvs = order_by (\<lambda>x y. jsonb_key_le (fst x) (fst y)) kvs"

definition capability_keys_from_record :: "(string \<times> bool) list \<Rightarrow> string list" where
  "capability_keys_from_record value =
     map fst (filter (\<lambda>(key, enabled). py_strip key \<noteq> [] \<and> enabled) value)"

definition status_reason_parse :: "string option \<Rightarrow> ConnectionStatusReason option option" where
  "status_reason_parse v =
     (case v of None \<Rightarrow> Some None | Some x \<Rightarrow> map_option Some (ConnectionStatusReason_parse x))"

definition connection_from_record :: "PlatformConnectionRecord \<Rightarrow> PlatformConnection option" where
  "connection_from_record r =
     (case Platform_parse (c_platform r) of
        None \<Rightarrow> None
      | Some p \<Rightarrow>
          (case ConnectionStatus_parse (c_status r) of
             None \<Rightarrow> None
           | Some st \<Rightarrow>
               (case status_reason_parse (c_status_reason r) of
                  None \<Rightarrow> None
                | Some reason \<Rightarrow> fail_closed (PlatformConnection_post_init
                    \<lparr>connection_id = c_id r, connection_organization_id = c_organization_id r,
                     connection_platform = p, connection_external_resource_id = c_external_resource_id r,
                     connection_status = st, connection_status_reason = reason,
                     connection_granted_capabilities =
                       capability_keys_from_record (c_granted_capabilities r)\<rparr>))))"

definition connection_record :: "PlatformConnection \<Rightarrow> PlatformConnectionRecord" where
  "connection_record c =
     \<lparr>c_id = connection_id c, c_organization_id = connection_organization_id c,
      c_platform = Platform_value (connection_platform c),
      c_external_resource_id = connection_external_resource_id c,
      c_status = ConnectionStatus_value (connection_status c),
      c_status_reason = map_option ConnectionStatusReason_value (connection_status_reason c),
      c_granted_capabilities = jsonb_object (map (\<lambda>k. (k, True)) (connection_granted_capabilities c))\<rparr>"

section \<open>Writers\<close>

definition connection_create ::
  "datetime \<Rightarrow> PlatformConnection \<Rightarrow> AuditEvent \<Rightarrow> (console, bool) operation" where
  "connection_create t c event = atomically False
     (bnd (insert_platform_connection (connection_record c)) (\<lambda>_.
      bnd (record_audit t event) (\<lambda>_. ret True)))"

definition update_status ::
  "datetime \<Rightarrow> PlatformConnection \<Rightarrow> AuditEvent \<Rightarrow> string option \<Rightarrow> string option \<Rightarrow>
   (console, bool) operation" where
  "update_status t c event idempotency_key idempotency_action = atomically False
     (bnd (update_connections
             (\<lambda>r. c_id r = connection_id c \<and> c_organization_id r = connection_organization_id c)
             (ConnectionStatus_value (connection_status c))
             (map_option ConnectionStatusReason_value (connection_status_reason c))) (\<lambda>n.
      if n \<noteq> 1 then ret False else
      bnd (case (idempotency_key, idempotency_action) of
             (Some key, Some action) \<Rightarrow> insert_lifecycle_idempotency
               \<lparr>k_organization_id = connection_organization_id c, k_idempotency_key = key,
                k_connection_id = connection_id c, k_action = action,
                k_result_status = ConnectionStatus_value (connection_status c),
                k_result_reason = map_option ConnectionStatusReason_value (connection_status_reason c)\<rparr>
           | _ \<Rightarrow> ret ()) (\<lambda>_.
      bnd (record_audit t event) (\<lambda>_. ret True))))"

definition audit_writer_record :: "datetime \<Rightarrow> AuditEvent \<Rightarrow> (console, unit) operation" where
  "audit_writer_record t event = transaction (record_audit t event)"

section \<open>Readers\<close>

definition find_idempotent_lifecycle_result ::
  "uuid \<Rightarrow> string \<Rightarrow> (console, PlatformConnectionLifecycleIdempotencyResult option) operation" where
  "find_idempotent_lifecycle_result org key = tries (\<lambda>s.
     find_one (\<lambda>r. k_organization_id r = org \<and> k_idempotency_key r = key)
       (\<lambda>r. case ConnectionStatus_parse (k_result_status r) of
              None \<Rightarrow> None
            | Some st \<Rightarrow>
                (case status_reason_parse (k_result_reason r) of
                   None \<Rightarrow> None
                 | Some reason \<Rightarrow> fail_closed (PlatformConnectionLifecycleIdempotencyResult_post_init
                     \<lparr>idem_organization_id = k_organization_id r, idem_connection_id = k_connection_id r,
                      idem_action = k_action r, idem_result_status = st, idem_result_reason = reason\<rparr>)))
       (platform_connection_lifecycle_idempotency s))"

definition list_connections_for_organization ::
  "uuid \<Rightarrow> uuid option \<Rightarrow> nat \<Rightarrow> (console, PlatformConnection list) operation" where
  "list_connections_for_organization org after limit = reads (\<lambda>s.
     List.map_filter connection_from_record
       (take limit (order_by (\<lambda>x y. c_id x \<le> c_id y)
          (filter (\<lambda>r. c_organization_id r = org
                     \<and> (case after of None \<Rightarrow> True | Some a \<Rightarrow> a < c_id r))
             (platform_connections s)))))"

definition find_connection_for_organization ::
  "uuid \<Rightarrow> uuid \<Rightarrow> (console, PlatformConnection option) operation" where
  "find_connection_for_organization org cid = tries (\<lambda>s.
     find_one (\<lambda>r. c_organization_id r = org \<and> c_id r = cid) connection_from_record
       (platform_connections s))"

definition list_reconcilable :: "nat \<Rightarrow> (console, PlatformConnection list) operation" where
  "list_reconcilable limit = reads (\<lambda>s.
     List.map_filter connection_from_record
       (take limit (order_by (\<lambda>x y. c_id x \<le> c_id y)
          (filter (\<lambda>r. c_status r \<noteq> ConnectionStatus_value CONN_DISCONNECTED)
             (platform_connections s)))))"

definition entry_from_record :: "AuditEventRecord \<Rightarrow> error + AuditLogEntry" where
  "entry_from_record r = AuditLogEntry_post_init
     \<lparr>entry_id = a_id r, entry_correlation_id = a_correlation_id r, entry_actor_id = a_actor_id r,
      entry_action = a_action r, entry_resource_type = a_resource_type r,
      entry_resource_id = a_resource_id r, entry_result = a_result r, entry_created_at = a_created_at r\<rparr>"

fun entries_from_records :: "AuditEventRecord list \<Rightarrow> error + AuditLogEntry list" where
  "entries_from_records [] = Inr []"
| "entries_from_records (r # rs) =
     (case entry_from_record r of
        Inl e \<Rightarrow> Inl e
      | Inr x \<Rightarrow> (case entries_from_records rs of Inl e \<Rightarrow> Inl e | Inr xs \<Rightarrow> Inr (x # xs)))"

definition list_audit_for_organization ::
  "uuid \<Rightarrow> uuid option \<Rightarrow> nat \<Rightarrow> (console, AuditLogEntry list) operation" where
  "list_audit_for_organization org after limit = tries (\<lambda>s.
     entries_from_records
       (take limit (order_by (\<lambda>x y. a_id y \<le> a_id x)
          (filter (\<lambda>r. a_organization_id r = Some org
                     \<and> (case after of None \<Rightarrow> True | Some a \<Rightarrow> a_id r < a))
             (audit_events s)))))"

lemmas connection_repository =
  connection_create_def update_status_def audit_writer_record_def
  find_idempotent_lifecycle_result_def list_connections_for_organization_def
  find_connection_for_organization_def list_reconcilable_def list_audit_for_organization_def

section \<open>Laws\<close>

lemma silent_connection_readers [simp]:
  "silent (find_idempotent_lifecycle_result org key)"
  "silent (list_connections_for_organization org a n)"
  "silent (find_connection_for_organization org c)"
  "silent (list_reconcilable n)"
  "silent (list_audit_for_organization org a n)"
  by (simp_all add: connection_repository)

lemma inv_connection_writers:
  "obeys keeps_db_ok (connection_create t c e)"
  "obeys keeps_db_ok (update_status t c e k a)"
  "obeys keeps_db_ok (audit_writer_record t e)"
  unfolding connection_repository by (intro inv_steps)+

lemma his_connection_writers:
  "obeys history (connection_create t c e)"
  "obeys history (update_status t c e k a)"
  "obeys history (audit_writer_record t e)"
  unfolding connection_repository by (intro his_steps)+

lemma rev_connection_writers:
  "obeys keeps_revoked (connection_create t c e)"
  "obeys keeps_revoked (update_status t c e k a)"
  "obeys keeps_revoked (audit_writer_record t e)"
  unfolding connection_repository by (intro rev_steps)+

text \<open>Ownership: the operations that never touch the membership table.\<close>

lemma own_inserts:
  "obeys keeps_owners (insert_user r1)"
  "obeys keeps_owners (insert_login_identity r2)"
  "obeys keeps_owners (insert_identity_link_transaction r3)"
  "obeys keeps_owners (insert_oauth_login_transaction r4)"
  "obeys keeps_owners (insert_password_recovery_transaction r5)"
  "obeys keeps_owners (insert_user_email r6)"
  "obeys keeps_owners (insert_password_credential r7)"
  "obeys keeps_owners (insert_membership_scope r10)"
  "obeys keeps_owners (insert_invitation r11)"
  "obeys keeps_owners (insert_invitation_scope r12)"
  "obeys keeps_owners (insert_auth_session r13)"
  "obeys keeps_owners (insert_platform_connection r14)"
  "obeys keeps_owners (insert_lifecycle_idempotency r15)"
  "obeys keeps_owners (record_audit t e)"
  by (rule own_if_memberships_kept; (intro inv_rules)?; simp add: inserts constrained_def)+

lemma own_update_connections: "obeys keeps_owners (update_connections Q v w)"
  by (rule own_if_memberships_kept [OF inv_update_connections]) (simp add: update_connections_def)

lemma own_claims:
  "obeys keeps_owners (claim_link_transactions QL d)"
  "obeys keeps_owners (claim_login_transactions QO d)"
  "obeys keeps_owners (claim_recoveries QR d)"
  "obeys keeps_owners (delete_login_identities QI)"
  by (rule own_if_memberships_kept; (intro inv_rules)?; simp add: mutations)+

lemma own_insert_membership:
  assumes "m_role r \<noteq> OrganizationRole_value OWNER"
  shows "obeys keeps_owners (insert_membership r)"
  using obeysD [OF inv_membership_insert, of _ r] assms
  by (auto simp: obeys_def keeps_owners_def owner_rows_def insert_membership_def constrained_def
      simp del: OrganizationRole_value.simps)

lemma own_connection_writers:
  "obeys keeps_owners (connection_create t c e)"
  "obeys keeps_owners (update_status t c e k a)"
  "obeys keeps_owners (audit_writer_record t e)"
  unfolding connection_repository by (intro own_steps own_inserts own_update_connections)+

lemma reports_connection_writers:
  "reports Not (connection_create t c e)"
  "reports Not (update_status t c e k a)"
proof -
  show "reports Not (connection_create t c e)"
    unfolding connection_create_def by (rule reports_atomically) (simp add: outcomes)
  show "reports Not (update_status t c e k a)"
    unfolding update_status_def
  proof (rule reports_atomically)
    fix s x u
    let ?P = "\<lambda>r. c_id r = connection_id c \<and> c_organization_id r = connection_organization_id c"
    assume "db_ok s" and bad: "\<not> x"
      and run: "bnd (update_connections ?P (ConnectionStatus_value (connection_status c))
             (map_option ConnectionStatusReason_value (connection_status_reason c))) (\<lambda>n.
      if n \<noteq> 1 then ret False else
      bnd (case (k, a) of
             (Some key, Some action) \<Rightarrow> insert_lifecycle_idempotency
               \<lparr>k_organization_id = connection_organization_id c, k_idempotency_key = key,
                k_connection_id = connection_id c, k_action = action,
                k_result_status = ConnectionStatus_value (connection_status c),
                k_result_reason = map_option ConnectionStatusReason_value (connection_status_reason c)\<rparr>
           | _ \<Rightarrow> ret ()) (\<lambda>_.
      bnd (record_audit t e) (\<lambda>_. ret True))) s = (Inr x, u)"
    then have "distinct (map c_id (platform_connections s))"
      by (simp add: db_ok_def connections_ok_def)
    note no_row = rowcount_not_one(1) [where P = ?P and k = c_id and x = "connection_id c", OF this]
    show "u = s"
      using run bad by (auto simp: outcomes update_connections_def no_row split: if_splits)
  qed
qed

end
