(* ===== verification/Resp.thy ===== *)
theory Resp
  imports Console_Prelude
begin

text \<open>
  The Redis wire format, as \<open>redis_one_time_token_store.py\<close> and \<open>redis_fixed_window_counter.py\<close>
  write and read it: commands are arrays of bulk strings, replies are read from a byte stream. The
  two files hold the same code but for the exception they raise, which is a parameter.

  Text is a list of Unicode code points here, so that UTF-8 is the full codec. The stream is the list
  of the bytes that the server will still send before it closes the connection. The interpreter's
  recursion limit is the depth argument of the reader: a reply nested deeper raises RecursionError.
\<close>

type_synonym byte = "8 word"
type_synonym codes = "nat list"

definition ascii :: "string \<Rightarrow> codes" where
  "ascii s = map (of_char :: char \<Rightarrow> nat) s"

definition byte_of :: "nat \<Rightarrow> byte" where
  "byte_of n = word_of_nat n"

lemma unat_byte_of [simp]: "n < 256 \<Longrightarrow> unat (byte_of n) = n"
  by (simp add: byte_of_def unat_of_nat take_bit_nat_eq_self)

section \<open>UTF-8\<close>

definition encodable :: "nat \<Rightarrow> bool" where
  "encodable c \<longleftrightarrow> c < 0x110000 \<and> \<not> (0xD800 \<le> c \<and> c \<le> 0xDFFF)"

definition utf8_bytes :: "nat \<Rightarrow> byte list" where
  "utf8_bytes c =
     (if c < 0x80 then [byte_of c]
      else if c < 0x800 then [byte_of (0xC0 + c div 64), byte_of (0x80 + c mod 64)]
      else if c < 0x10000 then
        [byte_of (0xE0 + c div 4096), byte_of (0x80 + c div 64 mod 64), byte_of (0x80 + c mod 64)]
      else
        [byte_of (0xF0 + c div 262144), byte_of (0x80 + c div 4096 mod 64),
         byte_of (0x80 + c div 64 mod 64), byte_of (0x80 + c mod 64)])"

definition utf8_encode :: "codes \<Rightarrow> error + byte list" where
  "utf8_encode t =
     (if list_all encodable t then Inr (concat (map utf8_bytes t))
      else Inl (ValueError ''surrogates not allowed''))"

definition tail_byte :: "byte \<Rightarrow> bool" where
  "tail_byte b \<longleftrightarrow> 0x80 \<le> unat b \<and> unat b < 0xC0"

definition prepend :: "'a \<Rightarrow> error + 'a list \<Rightarrow> error + 'a list" where
  "prepend x r = (case r of Inl e \<Rightarrow> Inl e | Inr xs \<Rightarrow> Inr (x # xs))"

definition decode_error :: "error + codes" where
  "decode_error = Inl (ValueError ''invalid utf-8'')"

text \<open>The strict decoder: no overlong forms, no surrogates, nothing above U+10FFFF.\<close>

fun utf8_decode :: "byte list \<Rightarrow> error + codes" where
  "utf8_decode [] = Inr []"
| "utf8_decode (b # bs) =
     (if unat b < 0x80 then prepend (unat b) (utf8_decode bs)
      else if 0xC2 \<le> unat b \<and> unat b < 0xE0 then
        (case bs of
           b1 # rest \<Rightarrow>
             if tail_byte b1
             then prepend ((unat b - 0xC0) * 64 + (unat b1 - 0x80)) (utf8_decode rest)
             else decode_error
         | _ \<Rightarrow> decode_error)
      else if 0xE0 \<le> unat b \<and> unat b < 0xF0 then
        (case bs of
           b1 # b2 # rest \<Rightarrow>
             let c = (unat b - 0xE0) * 4096 + (unat b1 - 0x80) * 64 + (unat b2 - 0x80) in
             if tail_byte b1 \<and> tail_byte b2 \<and> 0x800 \<le> c \<and> encodable c
             then prepend c (utf8_decode rest)
             else decode_error
         | _ \<Rightarrow> decode_error)
      else if 0xF0 \<le> unat b \<and> unat b < 0xF5 then
        (case bs of
           b1 # b2 # b3 # rest \<Rightarrow>
             let c = (unat b - 0xF0) * 262144 + (unat b1 - 0x80) * 4096 + (unat b2 - 0x80) * 64
                     + (unat b3 - 0x80) in
             if tail_byte b1 \<and> tail_byte b2 \<and> tail_byte b3 \<and> 0x10000 \<le> c \<and> encodable c
             then prepend c (utf8_decode rest)
             else decode_error
         | _ \<Rightarrow> decode_error)
      else decode_error)"

lemma prepend_Inr [simp]: "prepend x (Inr xs) = Inr (x # xs)"
  by (simp add: prepend_def)

lemma sextets:
  "(c :: nat) div 4096 * 4096 + c div 64 mod 64 * 64 + c mod 64 = c"
  "(c :: nat) div 262144 * 262144 + c div 4096 mod 64 * 4096 + c div 64 mod 64 * 64 + c mod 64 = c"
proof -
  have step: "n div 64 * 64 + n mod 64 = n" for n :: nat
    by simp
  have "c div 4096 * 64 + c div 64 mod 64 = c div 64"
    using step [of "c div 64"] by (simp flip: div_mult2_eq)
  with step [of c] show three: "c div 4096 * 4096 + c div 64 mod 64 * 64 + c mod 64 = c"
    by linarith
  have "c div 262144 * 64 + c div 4096 mod 64 = c div 4096"
    using step [of "c div 4096"] by (simp flip: div_mult2_eq)
  with three show "c div 262144 * 262144 + c div 4096 mod 64 * 4096 + c div 64 mod 64 * 64 + c mod 64 = c"
    by linarith
qed

lemma utf8_decode_char:
  assumes "encodable c"
  shows "utf8_decode (utf8_bytes c @ bs) = prepend c (utf8_decode bs)"
proof -
  consider "c < 0x80" | "0x80 \<le> c" "c < 0x800" | "0x800 \<le> c" "c < 0x10000"
    | "0x10000 \<le> c" "c < 0x110000"
    using assms by (force simp: encodable_def)
  then show ?thesis
  proof cases
    case 1
    then show ?thesis by (simp add: utf8_bytes_def)
  next
    case 2
    then have "2 \<le> c div 64" "c div 64 < 32" by auto
    then show ?thesis using 2 by (simp add: utf8_bytes_def tail_byte_def)
  next
    case 3
    then have "c div 4096 < 16" by auto
    then show ?thesis using 3 assms sextets(1) [of c]
      by (simp add: utf8_bytes_def tail_byte_def Let_def)
  next
    case 4
    then have "c div 262144 < 5" by auto
    then show ?thesis using 4 assms sextets(2) [of c]
      by (simp add: utf8_bytes_def tail_byte_def Let_def)
  qed
qed

lemma utf8_roundtrip: "utf8_encode t = Inr bs \<Longrightarrow> utf8_decode bs = Inr t"
proof -
  have "list_all encodable t \<Longrightarrow> utf8_decode (concat (map utf8_bytes t)) = Inr t" for t
    by (induction t) (simp_all add: utf8_decode_char)
  then show "utf8_encode t = Inr bs \<Longrightarrow> utf8_decode bs = Inr t"
    by (auto simp: utf8_encode_def split: if_splits)
qed

section \<open>Decimal integers\<close>

fun decimal :: "nat \<Rightarrow> codes" where
  "decimal n = (if n < 10 then [48 + n] else decimal (n div 10) @ [48 + n mod 10])"

declare decimal.simps [simp del]

definition is_digit :: "nat \<Rightarrow> bool" where
  "is_digit c \<longleftrightarrow> 48 \<le> c \<and> c \<le> 57"

text \<open>Digits with single underscores between them, as \<open>int()\<close> accepts them.\<close>

fun digits_value :: "nat \<Rightarrow> codes \<Rightarrow> nat option" where
  "digits_value acc [] = Some acc"
| "digits_value acc (c # cs) =
     (if is_digit c then digits_value (acc * 10 + (c - 48)) cs
      else if c = 95 then
        (case cs of
           d # ds \<Rightarrow> if is_digit d then digits_value (acc * 10 + (d - 48)) ds else None
         | [] \<Rightarrow> None)
      else None)"

definition is_ascii_space :: "nat \<Rightarrow> bool" where
  "is_ascii_space c \<longleftrightarrow> 9 \<le> c \<and> c \<le> 13 \<or> c = 32"

definition strip_ascii :: "codes \<Rightarrow> codes" where
  "strip_ascii t = rev (dropWhile is_ascii_space (rev (dropWhile is_ascii_space t)))"

definition unsigned_value :: "codes \<Rightarrow> nat option" where
  "unsigned_value t =
     (case t of
        [] \<Rightarrow> None
      | c # cs \<Rightarrow>
          if is_digit c \<and> length (filter is_digit t) \<le> 4300 then digits_value 0 t else None)"

text \<open>
  \<open>int()\<close> of a byte string: surrounding white space, a sign, digits; at most 4300 digits.
\<close>

definition py_int :: "codes \<Rightarrow> error + int" where
  "py_int t =
     (let u = strip_ascii t;
          negative = (case u of c # _ \<Rightarrow> c = 45 | [] \<Rightarrow> False);
          body = (case u of c # cs \<Rightarrow> if c = 45 \<or> c = 43 then cs else u | [] \<Rightarrow> u) in
      case unsigned_value body of
        None \<Rightarrow> Inl (ValueError ''invalid literal for int()'')
      | Some n \<Rightarrow> Inr (if negative then - int n else int n))"

lemma set_decimal: "c \<in> set (decimal n) \<Longrightarrow> is_digit c"
proof (induction n rule: decimal.induct)
  case (1 n)
  then show ?case
    by (subst (asm) (2) decimal.simps) (auto simp: is_digit_def split: if_splits)
qed

lemma digits_value_append:
  "(\<And>c. c \<in> set xs \<Longrightarrow> is_digit c) \<Longrightarrow> digits_value acc xs = Some v \<Longrightarrow>
   digits_value acc (xs @ ys) = digits_value v ys"
  by (induction xs arbitrary: acc) auto

lemma digits_value_decimal: "digits_value 0 (decimal n) = Some n"
proof (induction n rule: decimal.induct)
  case (1 n)
  show ?case
  proof (cases "n < 10")
    case True
    then show ?thesis by (subst decimal.simps) (simp add: is_digit_def)
  next
    case False
    have "digits_value 0 (decimal (n div 10) @ [48 + n mod 10]) =
        digits_value (n div 10) [48 + n mod 10]"
      using 1 [OF False] set_decimal by (rule digits_value_append [rotated]) simp
    also have "\<dots> = Some n"
      by (simp add: is_digit_def)
    finally show ?thesis
      using False by (subst decimal.simps) simp
  qed
qed

lemma decimal_not_Nil: "decimal n \<noteq> []"
  by (subst decimal.simps) simp

lemma strip_digits:
  assumes "\<And>c. c \<in> set t \<Longrightarrow> \<not> is_ascii_space c" shows "strip_ascii t = t"
proof -
  have "dropWhile is_ascii_space xs = xs" if "\<And>c. c \<in> set xs \<Longrightarrow> \<not> is_ascii_space c" for xs
    using that by (cases xs) auto
  from this [of t] this [of "rev t"] assms show ?thesis by (simp add: strip_ascii_def)
qed

lemma py_int_decimal:
  assumes "length (decimal n) \<le> 4300" shows "py_int (decimal n) = Inr (int n)"
proof -
  have "strip_ascii (decimal n) = decimal n"
    by (rule strip_digits) (auto dest!: set_decimal simp: is_digit_def is_ascii_space_def)
  moreover obtain c cs where c: "decimal n = c # cs" "is_digit c"
    using decimal_not_Nil [of n] set_decimal [of _ n] by (metis list.exhaust list.set_intros(1))
  moreover have "length (filter is_digit (decimal n)) \<le> 4300"
    using assms length_filter_le order_trans by blast
  ultimately show ?thesis
    using digits_value_decimal [of n]
    by (auto simp: py_int_def Let_def unsigned_value_def is_digit_def)
qed


section \<open>Reading a reply\<close>

text \<open>\<open>StreamReader.readexactly\<close> and \<open>StreamReader.readline\<close> with the default limit of 64 KiB.\<close>

definition read_exactly :: "nat \<Rightarrow> (byte list, byte list) operation" where
  "read_exactly n = (\<lambda>s. if length s < n then (Inl IncompleteReadError, []) else (Inr (take n s), drop n s))"

definition line_limit :: nat where
  "line_limit = 65536"

definition read_line :: "(byte list, byte list) operation" where
  "read_line = (\<lambda>s.
     let n = length (takeWhile (\<lambda>b. unat b \<noteq> 10) s) in
     if line_limit < n
     then (Inl (ValueError ''Separator is found, but chunk is longer than limit''), drop (Suc n) s)
     else (Inr (take (Suc n) s), drop (Suc n) s))"

definition rstrip_crlf :: "byte list \<Rightarrow> byte list" where
  "rstrip_crlf l = rev (dropWhile (\<lambda>b. unat b = 13 \<or> unat b = 10) (rev l))"

definition read_text_line :: "(byte list, codes) operation" where
  "read_text_line = bnd read_line (\<lambda>l. tries (\<lambda>_. utf8_decode (rstrip_crlf l)))"

definition read_int_line :: "(byte list, int) operation" where
  "read_int_line = bnd read_line (\<lambda>l. tries (\<lambda>_. py_int (map unat (rstrip_crlf l))))"

datatype reply = Missing | Text codes | Number int | Items "reply list"

fun read_items :: "nat \<Rightarrow> (byte list, reply) operation \<Rightarrow> (byte list, reply list) operation" where
  "read_items 0 m = ret []"
| "read_items (Suc n) m = bnd m (\<lambda>v. bnd (read_items n m) (\<lambda>vs. ret (v # vs)))"

fun read_redis_value :: "(codes \<Rightarrow> error) \<Rightarrow> nat \<Rightarrow> (byte list, reply) operation" where
  "read_redis_value unavailable 0 = raise RecursionError"
| "read_redis_value unavailable (Suc depth) =
     bnd (read_exactly 1) (\<lambda>m.
     let marker = unat (hd m) in
     if marker = 43 then bnd read_text_line (\<lambda>t. ret (Text t))
     else if marker = 45 then bnd read_text_line (\<lambda>t. raise (unavailable t))
     else if marker = 58 then bnd read_int_line (\<lambda>i. ret (Number i))
     else if marker = 36 then
       bnd read_int_line (\<lambda>len.
       if len < 0 then ret Missing else
       bnd (read_exactly (nat len)) (\<lambda>payload.
       bnd (read_exactly 2) (\<lambda>_.
       bnd (tries (\<lambda>_. utf8_decode payload)) (\<lambda>t. ret (Text t)))))
     else if marker = 42 then
       bnd read_int_line (\<lambda>len.
       if len < 0 then ret Missing else
       bnd (read_items (nat len) (read_redis_value unavailable depth)) (\<lambda>vs. ret (Items vs)))
     else raise (unavailable (ascii ''Unsupported Redis response.'')))"

section \<open>Writing a command\<close>

definition crlf :: "byte list" where
  "crlf = [byte_of 13, byte_of 10]"

definition length_line :: "nat \<Rightarrow> nat \<Rightarrow> byte list" where
  "length_line marker n = byte_of marker # map byte_of (decimal n) @ crlf"

fun encode_parts :: "codes list \<Rightarrow> error + byte list" where
  "encode_parts [] = Inr []"
| "encode_parts (part # parts) =
     (case utf8_encode part of
        Inl e \<Rightarrow> Inl e
      | Inr value \<Rightarrow>
          (case encode_parts parts of
             Inl e \<Rightarrow> Inl e
           | Inr rest \<Rightarrow> Inr (length_line 36 (length value) @ value @ crlf @ rest)))"

definition encode_redis_command :: "codes list \<Rightarrow> error + byte list" where
  "encode_redis_command parts =
     (case encode_parts parts of
        Inl e \<Rightarrow> Inl e
      | Inr rest \<Rightarrow> Inr (length_line 42 (length parts) @ rest))"

section \<open>What is written can be read\<close>

text \<open>Lengths up to this bound have at most as many digits as \<open>int()\<close> accepts.\<close>

definition length_bound :: nat where
  "length_bound = 10 ^ 4300"

lemma length_decimal: "n < 10 ^ k \<Longrightarrow> 0 < k \<Longrightarrow> length (decimal n) \<le> k"
proof (induction n arbitrary: k rule: decimal.induct)
  case (1 n)
  show ?case
  proof (cases "n < 10")
    case False
    obtain j where "k = Suc j"
      using "1.prems"(2) by (cases k) auto
    moreover have "0 < j"
      using "1.prems"(1) False \<open>k = Suc j\<close> by (cases j) auto
    ultimately have k: "k = Suc j" "0 < j" by simp_all
    with "1.prems" have "n div 10 < 10 ^ j" by auto
    with 1(1) [OF False] k(2) have "length (decimal (n div 10)) \<le> j" by blast
    with False k show ?thesis by (subst decimal.simps) simp
  qed (use "1.prems" in \<open>subst decimal.simps, simp\<close>)
qed

lemma takeWhile_line:
  assumes "\<And>b. b \<in> set l \<Longrightarrow> unat b \<noteq> 10"
  shows "takeWhile (\<lambda>b. unat b \<noteq> 10) (l @ crlf @ rest) = l @ [byte_of 13]"
  using assms by (simp add: crlf_def)

lemma read_line_crlf:
  assumes "\<And>b. b \<in> set l \<Longrightarrow> unat b \<noteq> 10" and "length l < line_limit"
  shows "read_line (l @ crlf @ rest) = (Inr (l @ crlf), rest)"
  using assms(2) by (simp add: read_line_def takeWhile_line [OF assms(1)] Let_def) (simp add: crlf_def)

lemma rstrip_crlf_digits:
  assumes "\<And>b. b \<in> set l \<Longrightarrow> unat b \<noteq> 13 \<and> unat b \<noteq> 10"
  shows "rstrip_crlf (l @ crlf) = l"
proof -
  have "dropWhile (\<lambda>b. unat b = 13 \<or> unat b = 10) (rev l) = rev l"
    using assms by (cases "rev l") (auto dest!: arg_cong [of _ _ set])
  then show ?thesis by (simp add: rstrip_crlf_def crlf_def)
qed

lemma read_length:
  assumes "n < length_bound"
  shows "read_int_line (map byte_of (decimal n) @ crlf @ rest) = (Inr (int n), rest)"
proof -
  let ?l = "map byte_of (decimal n)"
  have digits: "48 \<le> c" "c \<le> 57" if "c \<in> set (decimal n)" for c
    using set_decimal [OF that] by (simp_all add: is_digit_def)
  have plain: "unat b \<noteq> 13 \<and> unat b \<noteq> 10" if "b \<in> set ?l" for b
  proof -
    obtain c where "c \<in> set (decimal n)" "b = byte_of c"
      using \<open>b \<in> set ?l\<close> by auto
    then show ?thesis
      using digits [of c] by simp
  qed
  have short: "length (decimal n) \<le> 4300"
    using assms unfolding length_bound_def by (rule length_decimal) simp
  have "unat (byte_of c) = c" if "c \<in> set (decimal n)" for c
    using digits [OF that] by simp
  then have "map unat ?l = decimal n"
    by (simp add: map_idI)
  moreover have "read_line (?l @ crlf @ rest) = (Inr (?l @ crlf), rest)"
    using plain short by (intro read_line_crlf) (auto simp: line_limit_def)
  ultimately show ?thesis
    using py_int_decimal [OF short] rstrip_crlf_digits [of ?l, OF plain]
    by (simp add: read_int_line_def effects)
qed

lemma read_exactly_append: "length v = n \<Longrightarrow> read_exactly n (v @ rest) = (Inr v, rest)"
  by (auto simp: read_exactly_def)

lemma read_exactly_one: "read_exactly 1 (b # rest) = (Inr [b], rest)"
  by (simp add: read_exactly_def)

lemma read_bulk:
  assumes "utf8_encode t = Inr v" and "length v < length_bound"
  shows "read_redis_value unav (Suc d) (length_line 36 (length v) @ v @ crlf @ rest) = (Inr (Text t), rest)"
proof -
  have two: "length crlf = 2" by (simp add: crlf_def)
  show ?thesis
    unfolding length_line_def
    by (simp add: bnd_apply read_exactly_one [simplified] Let_def read_length [OF assms(2)]
        read_exactly_append [OF refl] read_exactly_append [OF two] tries_def ret_def
        utf8_roundtrip [OF assms(1)])
qed

lemma read_parts:
  assumes "encode_parts parts = Inr bs" and "\<And>p. p \<in> set parts \<Longrightarrow> 4 * length p < length_bound"
  shows "read_items (length parts) (read_redis_value unav (Suc d)) (bs @ rest) = (Inr (map Text parts), rest)"
  using assms
proof (induction parts arbitrary: bs)
  case Nil
  then show ?case by (simp add: effects)
next
  case (Cons p ps)
  from Cons.prems(1) obtain v tl where v: "utf8_encode p = Inr v" "encode_parts ps = Inr tl"
    "bs = length_line 36 (length v) @ v @ crlf @ tl"
    by (auto split: sum.splits)
  have "length v \<le> 4 * length p"
  proof -
    have "length (concat (map utf8_bytes t)) \<le> 4 * length t" for t
      by (induction t) (auto simp: utf8_bytes_def)
    then show ?thesis using v(1) by (auto simp: utf8_encode_def split: if_splits)
  qed
  with Cons.prems(2) [of p] have "length v < length_bound"
    by (meson le_less_trans list.set_intros(1))
  from read_bulk [OF v(1) this, of unav d "tl @ rest"] Cons.IH [OF v(2)] Cons.prems(2)
  show ?case
    unfolding v(3) by (simp add: bnd_apply ret_def del: read_redis_value.simps)
qed

text \<open>
  Every command that the adapter writes is a well-formed array of bulk strings: the adapter's own
  reader gets back exactly the parts of the command and stops right behind it, whatever follows in
  the stream.
\<close>

theorem command_roundtrip:
  assumes "encode_redis_command parts = Inr bs"
    and "length parts < length_bound" and "\<And>p. p \<in> set parts \<Longrightarrow> 4 * length p < length_bound" and "2 \<le> depth"
  shows "read_redis_value unav depth (bs @ rest) = (Inr (Items (map Text parts)), rest)"
proof -
  from assms(4) obtain d where depth: "depth = Suc (Suc d)"
    by (cases depth; cases "depth - 1") auto
  from assms(1) obtain tl where tl: "encode_parts parts = Inr tl" "bs = length_line 42 (length parts) @ tl"
    by (auto simp: encode_redis_command_def split: sum.splits)
  show ?thesis
    unfolding depth tl(2) length_line_def
    by (subst read_redis_value.simps(2))
      (simp add: bnd_apply read_exactly_one [simplified] Let_def read_length [OF assms(2)] ret_def
        read_parts [OF tl(1) assms(3)] del: read_redis_value.simps)
qed

theorem command_roundtrip_witness:
  "\<exists>bs. encode_redis_command [ascii ''GET'', [0x42F, 0x20AC, 0x1F511]] = Inr bs
     \<and> read_redis_value (\<lambda>t. InvalidToken) 2 (bs @ [0]) =
         (Inr (Items [Text (ascii ''GET''), Text [0x42F, 0x20AC, 0x1F511]]), [0])"
proof -
  obtain bs where run: "encode_redis_command [ascii ''GET'', [0x42F, 0x20AC, 0x1F511]] = Inr bs"
    by (simp add: encode_redis_command_def utf8_encode_def encodable_def ascii_def)
  have big: "(12 :: nat) < length_bound"
    unfolding length_bound_def by (rule less_le_trans [of _ "10 ^ 2"]) (simp, rule power_increasing, simp_all)
  have "4 * length p < length_bound" if "p \<in> set [ascii ''GET'', [0x42F, 0x20AC, 0x1F511]]" for p
    using that big by (auto simp: ascii_def)
  with command_roundtrip [OF run, of 2 "\<lambda>t. InvalidToken" "[0]"] big run show ?thesis
    by simp
qed

section \<open>Reading ends\<close>

text \<open>A reader that takes at least one byte whenever it returns a value, and none back.\<close>

definition consumes :: "(byte list, 'a) operation \<Rightarrow> bool" where
  "consumes m \<longleftrightarrow> (\<forall>s. length (snd (m s)) \<le> length s)"

lemma consumes_simps:
  "consumes (ret x)" "consumes (raise e)" "consumes (tries f)" "consumes (read_exactly n)" "consumes read_line"
  by (simp_all add: consumes_def effects read_exactly_def read_line_def Let_def)

lemma consumes_bnd: "consumes m \<Longrightarrow> (\<And>x. consumes (f x)) \<Longrightarrow> consumes (bnd m f)"
  unfolding consumes_def by (auto simp: effects split: sum.split intro: order.trans)

lemma consumes_if: "consumes m \<Longrightarrow> consumes n \<Longrightarrow> consumes (if b then m else n)"
  by simp

lemma consumes_items: "consumes m \<Longrightarrow> consumes (read_items n m)"
  by (induction n) (auto intro!: consumes_simps consumes_bnd)

lemma consumes_lines: "consumes read_text_line" "consumes read_int_line"
  unfolding read_text_line_def read_int_line_def by (intro consumes_bnd consumes_simps)+

lemma consumes_value: "consumes (read_redis_value unav d)"
proof (induction d)
  case (Suc d)
  show ?case
    unfolding read_redis_value.simps Let_def
    by (intro consumes_bnd consumes_if consumes_simps consumes_lines consumes_items Suc)
qed (simp add: consumes_simps)

lemma read_items_cong:
  assumes "consumes m" and "\<And>s. length s \<le> L \<Longrightarrow> m s = m' s" and "length s \<le> L"
  shows "read_items n m s = read_items n m' s"
  using assms(3)
proof (induction n arbitrary: s)
  case (Suc n)
  have "length (snd (m s)) \<le> L"
    using assms(1) Suc.prems unfolding consumes_def by (meson order.trans)
  with Suc.IH assms(2) [OF Suc.prems] show ?case
    by (simp add: effects split: sum.split)
qed simp

lemma read_depth_irrelevant:
  "length s < d \<Longrightarrow> length s < d' \<Longrightarrow> read_redis_value unav d s = read_redis_value unav d' s"
proof (induction d arbitrary: d' s)
  case (Suc d)
  obtain e where d': "d' = Suc e" using Suc.prems(2) by (cases d') auto
  show ?case
  proof (cases s)
    case Nil
    then show ?thesis by (simp add: d' read_exactly_def bnd_apply)
  next
    case (Cons b bs)
    have items: "read_items n (read_redis_value unav d) u = read_items n (read_redis_value unav e) u"
      if "length u \<le> length bs" for n u
      using Suc.prems Cons d' that
      by (intro read_items_cong [OF consumes_value, of "length bs"] Suc.IH) auto
    have int: "length (snd (read_int_line bs)) \<le> length bs"
      using consumes_lines(2) by (simp add: consumes_def)
    show ?thesis
      unfolding d' Cons
      by (simp add: bnd_apply read_exactly_one [simplified] Let_def items [OF int] split: sum.split)
  qed
qed simp

text \<open>The exceptions a reader can leave with, other than running into the recursion limit.\<close>

definition raises_only :: "(error \<Rightarrow> bool) \<Rightarrow> ('s, 'a) operation \<Rightarrow> bool" where
  "raises_only E m \<longleftrightarrow> (\<forall>s e. fst (m s) = Inl e \<longrightarrow> E e)"

lemma raises_only_bnd: "raises_only E m \<Longrightarrow> (\<And>x. raises_only E (f x)) \<Longrightarrow> raises_only E (bnd m f)"
  unfolding raises_only_def by (auto simp: bnd_apply split: sum.splits)

lemma raises_only_if: "raises_only E m \<Longrightarrow> raises_only E n \<Longrightarrow> raises_only E (if b then m else n)"
  by simp

lemma raises_only_ret: "raises_only E (ret x)"
  by (simp add: raises_only_def ret_def)

lemma raises_only_items: "raises_only E m \<Longrightarrow> raises_only E (read_items n m)"
  by (induction n) (auto intro!: raises_only_bnd raises_only_ret)

definition reader_error :: "(codes \<Rightarrow> error) \<Rightarrow> error \<Rightarrow> bool" where
  "reader_error unavailable e \<longleftrightarrow>
     e = IncompleteReadError \<or> (\<exists>m. e = ValueError m) \<or> (\<exists>t. e = unavailable t) \<or> e = RecursionError"

lemma prepend_Inl: "prepend x r = Inl e \<longleftrightarrow> r = Inl e"
  by (simp add: prepend_def split: sum.split)

lemma utf8_decode_errors: "utf8_decode bs = Inl e \<Longrightarrow> \<exists>m. e = ValueError m"
proof (induction bs rule: measure_induct_rule [where f = length])
  case (less bs)
  show ?case
  proof (cases bs)
    case (Cons b cs)
    have IH: "length ds \<le> length cs \<Longrightarrow> utf8_decode ds = Inl e \<Longrightarrow> \<exists>m. e = ValueError m" for ds
      using Cons by (intro less.IH) auto
    from less.prems show ?thesis
      unfolding Cons
      by (subst (asm) utf8_decode.simps)
        (auto simp: decode_error_def prepend_Inl Let_def simp del: utf8_decode.simps
          dest: IH [rotated] split: if_splits list.splits)
  qed (use less.prems in simp)
qed

lemma reader_errors_basic:
  "raises_only (reader_error unav) (ret x)"
  "raises_only (reader_error unav) (raise (unav t))"
  "raises_only (reader_error unav) (raise RecursionError)"
  "raises_only (reader_error unav) (read_exactly n)"
  "raises_only (reader_error unav) read_line"
  "raises_only (reader_error unav) (tries (\<lambda>_. utf8_decode l))"
  "raises_only (reader_error unav) (tries (\<lambda>_. py_int l'))"
  by (auto simp: raises_only_def reader_error_def ret_def raise_def read_exactly_def read_line_def
      Let_def tries_def py_int_def dest!: utf8_decode_errors split: if_splits option.splits)

lemma reader_errors_lines:
  "raises_only (reader_error unav) read_text_line" "raises_only (reader_error unav) read_int_line"
  unfolding read_text_line_def read_int_line_def by (intro raises_only_bnd reader_errors_basic)+

lemma reader_errors: "raises_only (reader_error unav) (read_redis_value unav d)"
proof (induction d)
  case (Suc d)
  show ?case
    unfolding read_redis_value.simps Let_def
    by (intro raises_only_bnd raises_only_if reader_errors_basic reader_errors_lines raises_only_items Suc)
qed (simp add: reader_errors_basic)

definition never_recurses :: "nat \<Rightarrow> (byte list, 'a) operation \<Rightarrow> bool" where
  "never_recurses n m \<longleftrightarrow> (\<forall>s. length s \<le> n \<longrightarrow> fst (m s) \<noteq> Inl RecursionError)"

lemma items_never_recurse:
  assumes "never_recurses n m" and "consumes m" shows "never_recurses n (read_items k m)"
proof (induction k)
  case (Suc k)
  show ?case
    unfolding never_recurses_def
  proof (intro allI impI)
    fix s :: "byte list" assume s: "length s \<le> n"
    then have "length (snd (m s)) \<le> n"
      using assms(2) unfolding consumes_def by (meson order.trans)
    with s assms(1) Suc show "fst (read_items (Suc k) m s) \<noteq> Inl RecursionError"
      by (auto simp: never_recurses_def bnd_apply ret_def split: sum.splits)
  qed
qed (simp add: never_recurses_def ret_def)

lemma never_bnd:
  "fst (m s) \<noteq> Inl RecursionError \<Longrightarrow>
   (\<And>x. fst (f x (snd (m s))) \<noteq> Inl RecursionError) \<Longrightarrow> fst (bnd m f s) \<noteq> Inl RecursionError"
  by (auto simp: bnd_apply split: sum.split)

lemma never_if:
  "fst (m s) \<noteq> Inl RecursionError \<Longrightarrow> fst (n s) \<noteq> Inl RecursionError \<Longrightarrow>
   fst ((if b then m else n) s) \<noteq> Inl RecursionError"
  by simp

lemma never_basic:
  "fst (ret x s) \<noteq> Inl RecursionError"
  "fst (read_exactly n s') \<noteq> Inl RecursionError"
  "fst (read_line s') \<noteq> Inl RecursionError"
  "fst (tries (\<lambda>_. utf8_decode l) s') \<noteq> Inl RecursionError"
  "fst (tries (\<lambda>_. py_int l') s') \<noteq> Inl RecursionError"
  "(\<And>t. unav t \<noteq> RecursionError) \<Longrightarrow> fst (raise (unav u) s) \<noteq> Inl RecursionError"
  by (auto simp: ret_def raise_def read_exactly_def read_line_def Let_def tries_def py_int_def
      dest!: utf8_decode_errors split: option.splits)

lemma lines_never_recurse: "fst (read_text_line s) \<noteq> Inl RecursionError" "fst (read_int_line s) \<noteq> Inl RecursionError"
  unfolding read_text_line_def read_int_line_def by (intro never_bnd never_basic)+

lemma value_never_recurses:
  assumes "\<And>t. unav t \<noteq> RecursionError"
  shows "length s < d \<Longrightarrow> fst (read_redis_value unav d s) \<noteq> Inl RecursionError"
proof (induction d arbitrary: s)
  case (Suc d)
  show ?case
  proof (cases s)
    case Nil
    then show ?thesis by (simp add: read_exactly_def bnd_apply)
  next
    case (Cons b bs)
    have "never_recurses (length bs) (read_redis_value unav d)"
      using Suc Cons by (auto simp: never_recurses_def)
    from items_never_recurse [OF this consumes_value]
    have items: "fst (read_items n (read_redis_value unav d) (snd (read_int_line bs))) \<noteq> Inl RecursionError" for n
      using consumes_lines(2) by (simp add: never_recurses_def consumes_def)
    have one: "snd (read_exactly 1 s) = bs"
      by (simp add: Cons read_exactly_def)
    show ?thesis
      unfolding read_redis_value.simps Let_def
      by (rule never_bnd never_if never_basic lines_never_recurse items assms | simp only: one)+
  qed
qed simp

text \<open>
  C37: Reading a reply ends on every stream: a recursion depth above the length of the stream is never
  exhausted, more depth does not change the outcome, and the stream only gets shorter. The exceptions
  that can come out are an early end of the stream, a malformed value and the adapter's own one.
\<close>

theorem reply_reading_terminates:
  assumes "length s < depth" and "\<And>t. unav t \<noteq> RecursionError"
  shows "fst (read_redis_value unav depth s) \<noteq> Inl RecursionError
    \<and> (\<forall>more \<ge> depth. read_redis_value unav more s = read_redis_value unav depth s)
    \<and> length (snd (read_redis_value unav depth s)) \<le> length s
    \<and> (\<forall>e. fst (read_redis_value unav depth s) = Inl e \<longrightarrow>
         e = IncompleteReadError \<or> (\<exists>m. e = ValueError m) \<or> (\<exists>t. e = unav t))"
proof -
  have rec: "fst (read_redis_value unav depth s) \<noteq> Inl RecursionError"
    using assms(2,1) by (rule value_never_recurses)
  have "read_redis_value unav more s = read_redis_value unav depth s" if "depth \<le> more" for more
    using assms(1) that by (intro read_depth_irrelevant) simp_all
  moreover have "length (snd (read_redis_value unav depth s)) \<le> length s"
    using consumes_value by (simp add: consumes_def)
  ultimately show ?thesis
    using rec reader_errors [of unav depth] unfolding raises_only_def reader_error_def by metis
qed

theorem reply_reading_terminates_witness:
  "fst (read_redis_value (\<lambda>t. InvalidToken) 5 (map byte_of [42, 50, 13, 10])) \<noteq> Inl RecursionError"
  by (rule reply_reading_terminates [THEN conjunct1]) simp_all

end
