(* ===== verification/Json.thy ===== *)
theory Json
  imports Resp
begin

text \<open>
  The text formats that \<open>pending_email_password_registration.py\<close> uses: JSON as \<open>json.dumps\<close>
  writes it for a flat object and as \<open>json.loads\<close> reads it, URL-safe base64, and the text of a
  UUID. Strings inside a document are lists of code points, since an escape can name any of them.
  The readers answer None where the library raises. The interpreter's recursion limit is not part of
  the model: the reader's depth argument only makes it terminate; two calls per character are enough.
\<close>

section \<open>UUIDs\<close>

definition hex_value :: "nat \<Rightarrow> nat option" where
  "hex_value c =
     (if 48 \<le> c \<and> c \<le> 57 then Some (c - 48)
      else if 97 \<le> c \<and> c \<le> 102 then Some (c - 87)
      else if 65 \<le> c \<and> c \<le> 70 then Some (c - 55) else None)"

fun hex_digits :: "nat \<Rightarrow> codes \<Rightarrow> nat option" where
  "hex_digits acc [] = Some acc"
| "hex_digits acc (c # cs) =
     (case hex_value c of
        Some d \<Rightarrow> hex_digits (acc * 16 + d) cs
      | None \<Rightarrow>
          if c \<noteq> 95 then None else
          (case cs of
             e # es \<Rightarrow> (case hex_value e of Some d \<Rightarrow> hex_digits (acc * 16 + d) es | None \<Rightarrow> None)
           | [] \<Rightarrow> None))"

definition is_space_code :: "nat \<Rightarrow> bool" where
  "is_space_code n \<longleftrightarrow> 9 \<le> n \<and> n \<le> 13 \<or> 28 \<le> n \<and> n \<le> 32 \<or> n = 133 \<or> n = 160"

definition strip_codes :: "(nat \<Rightarrow> bool) \<Rightarrow> codes \<Rightarrow> codes" where
  "strip_codes p t = rev (dropWhile p (rev (dropWhile p t)))"

text \<open>\<open>int(t, 16)\<close>: white space, a sign, an optional 0x prefix, digits with single underscores.\<close>

definition hex_int :: "codes \<Rightarrow> nat option" where
  "hex_int t =
     (let u = strip_codes is_space_code t;
          unsigned = (case u of c # cs \<Rightarrow> if c = 43 then cs else u | [] \<Rightarrow> u);
          body = (case unsigned of
                    z # x # rest \<Rightarrow>
                      if z = 48 \<and> (x = 120 \<or> x = 88)
                      then (case rest of c # cs \<Rightarrow> if c = 95 then cs else rest | [] \<Rightarrow> rest)
                      else unsigned
                  | _ \<Rightarrow> unsigned) in
      case body of
        [] \<Rightarrow> None
      | c # _ \<Rightarrow> if hex_value c = None then None else hex_digits 0 body)"

text \<open>\<open>str.replace(p, '')\<close>; the number counts the code points of a match still to be dropped.\<close>

fun remove_all :: "codes \<Rightarrow> nat \<Rightarrow> codes \<Rightarrow> codes" where
  "remove_all p n [] = []"
| "remove_all p (Suc n) (c # cs) = remove_all p n cs"
| "remove_all p 0 (c # cs) =
     (if take (length p) (c # cs) = p then remove_all p (length p - 1) cs else c # remove_all p 0 cs)"

definition parse_uuid :: "codes \<Rightarrow> uuid option" where
  "parse_uuid t =
     (let h = remove_all (ascii ''-'') 0 (strip_codes (\<lambda>c. c = 123 \<or> c = 125)
                (remove_all (ascii ''uuid:'') 0 (remove_all (ascii ''urn:'') 0 t))) in
      if length h \<noteq> 32 then None else map_option word_of_nat (hex_int h))"

section \<open>Base64\<close>

definition base64_char :: "nat \<Rightarrow> nat" where
  "base64_char n =
     (if n < 26 then 65 + n else if n < 52 then 71 + n else if n < 62 then n - 4 else if n = 62 then 45 else 95)"

definition base64_value :: "nat \<Rightarrow> nat option" where
  "base64_value c =
     (if 65 \<le> c \<and> c \<le> 90 then Some (c - 65)
      else if 97 \<le> c \<and> c \<le> 122 then Some (c - 71)
      else if 48 \<le> c \<and> c \<le> 57 then Some (c + 4)
      else if c = 43 \<or> c = 45 then Some 62
      else if c = 47 \<or> c = 95 then Some 63 else None)"

fun base64_encode :: "nat list \<Rightarrow> codes" where
  "base64_encode [] = []"
| "base64_encode [a] = [base64_char (a div 4), base64_char (a mod 4 * 16), 61, 61]"
| "base64_encode [a, b] =
     [base64_char (a div 4), base64_char (a mod 4 * 16 + b div 16), base64_char (b mod 16 * 4), 61]"
| "base64_encode (a # b # c # rest) =
     base64_char (a div 4) # base64_char (a mod 4 * 16 + b div 16) #
     base64_char (b mod 16 * 4 + c div 64) # base64_char (c mod 64) # base64_encode rest"

text \<open>
  \<open>binascii.a2b_base64\<close> in its lenient mode: characters outside the alphabet are skipped, padding
  ends the data once the group is complete. The state is the position in the group of four, the bits
  left over, and the number of pad characters seen.
\<close>

fun base64_scan :: "nat \<Rightarrow> nat \<Rightarrow> nat \<Rightarrow> codes \<Rightarrow> nat list option" where
  "base64_scan quad left pads [] = (if quad = 0 then Some [] else None)"
| "base64_scan quad left pads (c # cs) =
     (if c = 61 then
        if 2 \<le> quad \<and> 4 \<le> quad + pads + 1 then Some []
        else base64_scan quad left (if 2 \<le> quad then pads + 1 else pads) cs
      else
        (case base64_value c of
           None \<Rightarrow> base64_scan quad left pads cs
         | Some v \<Rightarrow>
             if quad = 0 then base64_scan 1 v 0 cs
             else if quad = 1 then map_option (Cons (left * 4 + v div 16)) (base64_scan 2 (v mod 16) 0 cs)
             else if quad = 2 then map_option (Cons (left * 16 + v div 4)) (base64_scan 3 (v mod 4) 0 cs)
             else map_option (Cons (left * 64 + v)) (base64_scan 0 0 0 cs)))"

definition base64_decode :: "codes \<Rightarrow> nat list option" where
  "base64_decode t = (if \<exists>c \<in> set t. 128 \<le> c then None else base64_scan 0 0 0 t)"

lemma base64_value_char: "n < 64 \<Longrightarrow> base64_value (base64_char n) = Some n \<and> base64_char n \<noteq> 61 \<and> base64_char n < 128"
  by (auto simp: base64_value_def base64_char_def)

lemma sextet_joins:
  "(a :: nat) div 4 * 4 + (a mod 4 * 16 + b div 16) div 16 = a" if "b < 256" for a b
proof -
  have "b div 16 < 16" using that by auto
  then have "(a mod 4 * 16 + b div 16) div 16 = a mod 4" by simp
  then show ?thesis by simp
qed

lemma base64_scan_encode:
  "\<forall>b \<in> set bs. b < 256 \<Longrightarrow> base64_scan 0 0 0 (base64_encode bs) = Some bs"
proof (induction bs rule: base64_encode.induct)
  case (2 a)
  then have "a div 4 < 64" "a mod 4 * 16 < 64" "a mod 4 * 16 div 16 = a mod 4" by auto
  then show ?case by (simp add: base64_value_char)
next
  case (3 a b)
  then have "a div 4 < 64" "a mod 4 * 16 + b div 16 < 64" "b mod 16 * 4 < 64" "b div 16 < 16" by auto
  moreover from this have "(a mod 4 * 16 + b div 16) mod 16 = b div 16" "(a mod 4 * 16 + b div 16) div 16 = a mod 4"
    by simp_all
  moreover have "b div 16 * 16 + b mod 16 * 4 div 4 = b" by simp
  ultimately show ?case by (simp add: base64_value_char)
next
  case (4 a b c rest)
  then have "a div 4 < 64" "a mod 4 * 16 + b div 16 < 64" "b mod 16 * 4 + c div 64 < 64" "c mod 64 < 64"
    "b div 16 < 16" "c div 64 < 4" by auto
  moreover from this have "(a mod 4 * 16 + b div 16) mod 16 = b div 16" "(a mod 4 * 16 + b div 16) div 16 = a mod 4"
    "(b mod 16 * 4 + c div 64) mod 4 = c div 64" "(b mod 16 * 4 + c div 64) div 4 = b mod 16"
    by simp_all
  ultimately show ?case using 4 by (simp add: base64_value_char)
qed simp

lemma base64_encode_ascii: "\<forall>b \<in> set bs. b < 256 \<Longrightarrow> c \<in> set (base64_encode bs) \<Longrightarrow> c < 128"
proof (induction bs rule: base64_encode.induct)
  case (2 a)
  then have "a div 4 < 64" "a mod 4 * 16 < 64" by auto
  with 2 show ?case by (auto simp: base64_value_char)
next
  case (3 a b)
  then have "a div 4 < 64" "a mod 4 * 16 + b div 16 < 64" "b mod 16 * 4 < 64" by auto
  with 3 show ?case by (auto simp: base64_value_char)
next
  case (4 a b d rest)
  then have "a div 4 < 64" "a mod 4 * 16 + b div 16 < 64" "b mod 16 * 4 + d div 64 < 64" "d mod 64 < 64" by auto
  with 4 show ?case by (auto simp: base64_value_char)
qed simp

lemma base64_roundtrip: "\<forall>b \<in> set bs. b < 256 \<Longrightarrow> base64_decode (base64_encode bs) = Some bs"
  using base64_encode_ascii [of bs] base64_scan_encode [of bs] by (fastforce simp: base64_decode_def not_le)

section \<open>JSON texts\<close>

datatype json =
    JNull
  | JBool bool
  | JInt int
  | JFloat codes
  | JString codes
  | JList "json list"
  | JObject "(codes \<times> json) list"

definition hex4 :: "nat \<Rightarrow> codes" where
  "hex4 n = ascii (hex_fixed 4 n)"

definition escape_code :: "nat \<Rightarrow> codes" where
  "escape_code c =
     (if c = 34 then [92, 34]
      else if c = 92 then [92, 92]
      else if c = 10 then [92, 110]
      else if c = 13 then [92, 114]
      else if c = 9 then [92, 116]
      else if c = 12 then [92, 102]
      else if c = 8 then [92, 98]
      else if 32 \<le> c \<and> c \<le> 126 then [c]
      else [92, 117] @ hex4 c)"

definition quote :: "codes \<Rightarrow> codes" where
  "quote t = 34 # concat (map escape_code t) @ [34]"

definition hex4_value :: "codes \<Rightarrow> nat option" where
  "hex4_value t =
     (case map hex_value t of
        [Some a, Some b, Some c, Some d] \<Rightarrow> Some (((a * 16 + b) * 16 + c) * 16 + d)
      | _ \<Rightarrow> None)"

definition simple_escape :: "nat \<Rightarrow> nat option" where
  "simple_escape e =
     (if e = 34 \<or> e = 92 \<or> e = 47 then Some e
      else if e = 98 then Some 8 else if e = 102 then Some 12 else if e = 110 then Some 10
      else if e = 114 then Some 13 else if e = 116 then Some 9 else None)"

text \<open>
  The body of a string literal up to its closing quote; the flag of a code point says that it came
  from a \<open>\u\<close> escape, since only such pairs of surrogates are joined.
\<close>

fun string_body :: "codes \<Rightarrow> ((bool \<times> nat) list \<times> codes) option" where
  "string_body [] = None"
| "string_body (c # cs) =
     (if c = 34 then Some ([], cs)
      else if c = 92 then
        (case cs of
           [] \<Rightarrow> None
         | e # es \<Rightarrow>
             if e = 117 then
               (case es of
                  h1 # h2 # h3 # h4 # rest \<Rightarrow>
                    (case hex4_value [h1, h2, h3, h4] of
                       None \<Rightarrow> None
                     | Some u \<Rightarrow> map_option (\<lambda>(t, r). ((True, u) # t, r)) (string_body rest))
                | _ \<Rightarrow> None)
             else
               (case simple_escape e of
                  None \<Rightarrow> None
                | Some u \<Rightarrow> map_option (\<lambda>(t, r). ((False, u) # t, r)) (string_body es)))
      else if c < 32 then None
      else map_option (\<lambda>(t, r). ((False, c) # t, r)) (string_body cs))"

fun join_pairs :: "(bool \<times> nat) list \<Rightarrow> codes" where
  "join_pairs ((True, u) # (True, v) # rest) =
     (if 0xD800 \<le> u \<and> u \<le> 0xDBFF \<and> 0xDC00 \<le> v \<and> v \<le> 0xDFFF
      then (0x10000 + (u - 0xD800) * 1024 + (v - 0xDC00)) # join_pairs rest
      else u # join_pairs ((True, v) # rest))"
| "join_pairs ((b, u) # rest) = u # join_pairs rest"
| "join_pairs [] = []"

definition parse_string :: "codes \<Rightarrow> (codes \<times> codes) option" where
  "parse_string t = map_option (\<lambda>(cs, rest). (join_pairs cs, rest)) (string_body t)"

definition is_json_space :: "nat \<Rightarrow> bool" where
  "is_json_space c \<longleftrightarrow> c = 32 \<or> c = 9 \<or> c = 10 \<or> c = 13"

definition skip_space :: "codes \<Rightarrow> codes" where
  "skip_space t = dropWhile is_json_space t"

text \<open>\<open>-?(0|[1-9][0-9]*)(\.[0-9]+)?([eE][-+]?[0-9]+)?\<close>\<close>

definition integer_part :: "codes \<Rightarrow> (codes \<times> codes) option" where
  "integer_part t =
     (let (sign, u) = (case t of c # cs \<Rightarrow> if c = 45 then ([45], cs) else ([], t) | [] \<Rightarrow> ([], t)) in
      case u of
        [] \<Rightarrow> None
      | c # cs \<Rightarrow>
          if c = 48 then Some (sign @ [48], cs)
          else if is_digit c then Some (sign @ takeWhile is_digit u, dropWhile is_digit u)
          else None)"

definition fraction_part :: "codes \<Rightarrow> codes \<times> codes" where
  "fraction_part t =
     (case t of
        p # d # ds \<Rightarrow>
          if p = 46 \<and> is_digit d then (p # takeWhile is_digit (d # ds), dropWhile is_digit (d # ds)) else ([], t)
      | _ \<Rightarrow> ([], t))"

definition exponent_part :: "codes \<Rightarrow> codes \<times> codes" where
  "exponent_part t =
     (case t of
        e # ds \<Rightarrow>
          if e = 101 \<or> e = 69 then
            (let (sign, u) = (case ds of c # cs \<Rightarrow> if c = 43 \<or> c = 45 then ([c], cs) else ([], ds) | [] \<Rightarrow> ([], ds)) in
             if takeWhile is_digit u = [] then ([], t)
             else (e # sign @ takeWhile is_digit u, dropWhile is_digit u))
          else ([], t)
      | [] \<Rightarrow> ([], t))"

definition parse_number :: "codes \<Rightarrow> (json \<times> codes) option" where
  "parse_number t =
     (case integer_part t of
        None \<Rightarrow> None
      | Some (i, t1) \<Rightarrow>
          (let (f, t2) = fraction_part t1; (x, t3) = exponent_part t2 in
           if f = [] \<and> x = [] then
             (case py_int i of Inl _ \<Rightarrow> None | Inr v \<Rightarrow> Some (JInt v, t3))
           else Some (JFloat (i @ f @ x), t3)))"

definition parse_word :: "string \<Rightarrow> json \<Rightarrow> codes \<Rightarrow> (json \<times> codes) option" where
  "parse_word w v t =
     (if take (length w) t = ascii w then Some (v, drop (length w) t) else None)"

definition first_of :: "'a option list \<Rightarrow> 'a option" where
  "first_of xs = (case dropWhile (\<lambda>x. x = None) xs of [] \<Rightarrow> None | x # _ \<Rightarrow> x)"

text \<open>
  Values, the rest of a non-empty list, and the rest of a non-empty object. Each step of the depth is
  one call.
\<close>

fun parse_value :: "nat \<Rightarrow> codes \<Rightarrow> (json \<times> codes) option"
  and parse_elements :: "nat \<Rightarrow> codes \<Rightarrow> (json list \<times> codes) option"
  and parse_members :: "nat \<Rightarrow> codes \<Rightarrow> ((codes \<times> json) list \<times> codes) option" where
  "parse_value 0 t = None"
| "parse_value (Suc d) t =
     (case t of
        [] \<Rightarrow> None
      | c # cs \<Rightarrow>
          if c = 34 then map_option (\<lambda>(s, r). (JString s, r)) (parse_string cs)
          else if c = 123 then
            (let u = skip_space cs in
             case u of
               e # es \<Rightarrow>
                 if e = 125 then Some (JObject [], es)
                 else map_option (\<lambda>(ms, r). (JObject ms, r)) (parse_members d u)
             | [] \<Rightarrow> None)
          else if c = 91 then
            (let u = skip_space cs in
             case u of
               e # es \<Rightarrow>
                 if e = 93 then Some (JList [], es)
                 else map_option (\<lambda>(vs, r). (JList vs, r)) (parse_elements d u)
             | [] \<Rightarrow> None)
          else first_of [parse_word ''null'' JNull t, parse_word ''true'' (JBool True) t,
            parse_word ''false'' (JBool False) t, parse_number t, parse_word ''NaN'' (JFloat (ascii ''NaN'')) t,
            parse_word ''Infinity'' (JFloat (ascii ''Infinity'')) t,
            parse_word ''-Infinity'' (JFloat (ascii ''-Infinity'')) t])"
| "parse_elements 0 t = None"
| "parse_elements (Suc d) t =
     (case parse_value d t of
        None \<Rightarrow> None
      | Some (v, r) \<Rightarrow>
          (case skip_space r of
             [] \<Rightarrow> None
           | c # cs \<Rightarrow>
               if c = 93 then Some ([v], cs)
               else if c = 44 then map_option (\<lambda>(vs, r'). (v # vs, r')) (parse_elements d (skip_space cs))
               else None))"
| "parse_members 0 t = None"
| "parse_members (Suc d) t =
     (case t of
        [] \<Rightarrow> None
      | q # qs \<Rightarrow>
          if q \<noteq> 34 then None else
          (case parse_string qs of
             None \<Rightarrow> None
           | Some (key, r) \<Rightarrow>
               (case skip_space r of
                  [] \<Rightarrow> None
                | c # cs \<Rightarrow>
                    if c \<noteq> 58 then None else
                    (case parse_value d (skip_space cs) of
                       None \<Rightarrow> None
                     | Some (v, r') \<Rightarrow>
                         (case skip_space r' of
                            [] \<Rightarrow> None
                          | e # es \<Rightarrow>
                              if e = 125 then Some ([(key, v)], es)
                              else if e = 44
                              then map_option (\<lambda>(ms, r''). ((key, v) # ms, r'')) (parse_members d (skip_space es))
                              else None)))))"

definition json_loads :: "codes \<Rightarrow> json option" where
  "json_loads t =
     (case parse_value (2 * length t + 2) (skip_space t) of
        Some (v, r) \<Rightarrow> if skip_space r = [] then Some v else None
      | None \<Rightarrow> None)"

text \<open>\<open>payload[key]\<close> on the dict: the last of equal keys wins.\<close>

definition json_lookup :: "codes \<Rightarrow> (codes \<times> json) list \<Rightarrow> json option" where
  "json_lookup key ms = map_of (rev ms) key"

text \<open>\<open>json.dumps\<close> with separators (',', ':') for an object of strings and integers.\<close>

fun print_value :: "json \<Rightarrow> codes" where
  "print_value (JString t) = quote t"
| "print_value (JInt i) = (if i < 0 then 45 # decimal (nat (- i)) else decimal (nat i))"
| "print_value _ = []"

fun print_members :: "(codes \<times> json) list \<Rightarrow> codes" where
  "print_members [] = []"
| "print_members [(k, v)] = quote k @ 58 # print_value v"
| "print_members ((k, v) # m # ms) = quote k @ 58 # print_value v @ 44 # print_members (m # ms)"

definition json_dumps :: "(codes \<times> json) list \<Rightarrow> codes" where
  "json_dumps ms = 123 # print_members ms @ [125]"

section \<open>What is printed can be read\<close>

definition latin_codes :: "codes \<Rightarrow> bool" where
  "latin_codes t \<longleftrightarrow> (\<forall>c \<in> set t. c < 256)"

lemma latin_codes_ascii [simp]: "latin_codes (ascii s)"
  by (simp add: latin_codes_def ascii_def)

lemma hex_value_digit: "d < 16 \<Longrightarrow> hex_value (of_char (hex_digit d)) = Some d"
proof -
  assume "d < 16"
  moreover have "list_all (\<lambda>d. hex_value (of_char (hex_digit d)) = Some d) [0..<16]"
    by code_simp
  ultimately show ?thesis by (simp add: list_all_iff)
qed

lemma hex4_eq:
  "hex4 n = map of_char [hex_digit (n div 16 div 16 div 16 mod 16), hex_digit (n div 16 div 16 mod 16),
     hex_digit (n div 16 mod 16), hex_digit (n mod 16)]"
proof -
  have four: "4 = Suc (Suc (Suc (Suc 0)))" by simp
  show ?thesis unfolding hex4_def four by (simp add: ascii_def)
qed

lemma hex4_value_hex4: "n < 65536 \<Longrightarrow> hex4_value (hex4 n) = Some n"
proof -
  assume "n < 65536"
  then have "n div 16 div 16 div 16 mod 16 = n div 16 div 16 div 16"
    by (simp flip: div_mult2_eq)
  moreover have "m div 16 * 16 + m mod 16 = m" for m :: nat
    by simp
  ultimately have "((n div 16 div 16 div 16 mod 16 * 16 + n div 16 div 16 mod 16) * 16 + n div 16 mod 16) * 16 + n mod 16 = n"
    by metis
  then show ?thesis
    by (simp add: hex4_eq hex4_value_def hex_value_digit)
qed

lemma hex4_shape: "\<exists>a b c d. hex4 n = [a, b, c, d]"
  by (simp add: hex4_eq)

definition flagged :: "nat \<Rightarrow> bool \<times> nat" where
  "flagged c = (\<not> (32 \<le> c \<and> c \<le> 126) \<and> c \<notin> {8, 9, 10, 12, 13}, c)"

lemma string_body_escape:
  assumes "c < 256"
  shows "string_body (escape_code c @ t) = map_option (\<lambda>(u, r). (flagged c # u, r)) (string_body t)"
proof -
  obtain x y z w where h: "hex4 c = [x, y, z, w]"
    using hex4_shape by blast
  have v: "hex4_value [x, y, z, w] = Some c"
    using hex4_value_hex4 [of c] assms by (simp add: h)
  consider "c \<in> {34, 92, 10, 13, 9, 12, 8}" | "32 \<le> c" "c \<le> 126" "c \<notin> {34, 92}"
    | "\<not> (32 \<le> c \<and> c \<le> 126)" "c \<notin> {10, 13, 9, 12, 8}" by auto
  then show ?thesis
  proof cases
    case 1
    then show ?thesis by (auto simp: escape_code_def simple_escape_def flagged_def)
  next
    case 2
    then have "escape_code c = [c]" by (simp add: escape_code_def)
    with 2 show ?thesis by (simp add: flagged_def)
  next
    case 3
    then have "escape_code c = [92, 117, x, y, z, w]" by (auto simp: escape_code_def h)
    with 3 show ?thesis by (simp add: v flagged_def)
  qed
qed

lemma string_body_quoted:
  "latin_codes t \<Longrightarrow> string_body (concat (map escape_code t) @ 34 # rest) = Some (map flagged t, rest)"
  by (induction t) (simp_all add: latin_codes_def string_body_escape)

lemma join_pairs_small: "\<forall>x \<in> set xs. snd x < 0xD800 \<Longrightarrow> join_pairs xs = map snd xs"
  by (induction xs rule: join_pairs.induct) auto

lemma parse_quoted:
  assumes "latin_codes t" shows "parse_string (concat (map escape_code t) @ 34 # rest) = Some (t, rest)"
proof -
  have "\<forall>x \<in> set (map flagged t). snd x < 0xD800"
    using assms by (force simp: latin_codes_def flagged_def)
  from join_pairs_small [OF this] have "join_pairs (map flagged t) = t"
    by (simp add: comp_def flagged_def)
  then show ?thesis
    by (simp add: parse_string_def string_body_quoted [OF assms])
qed

lemma quote_Cons: "quote t @ rest = 34 # concat (map escape_code t) @ 34 # rest"
  by (simp add: quote_def)

definition flat_value :: "json \<Rightarrow> bool" where
  "flat_value v \<longleftrightarrow> (case v of JString t \<Rightarrow> latin_codes t | JInt i \<Rightarrow> 0 \<le> i \<and> i < 10 ^ 15 | _ \<Rightarrow> False)"

lemma decimal_head: "decimal n = c # cs \<Longrightarrow> is_digit c \<and> (c = 48 \<longrightarrow> cs = [])"
proof (induction n arbitrary: c cs rule: decimal.induct)
  case (1 n)
  show ?case
  proof (cases "n < 10")
    case True
    with "1.prems" show ?thesis by (subst (asm) decimal.simps) (auto simp: is_digit_def)
  next
    case False
    obtain d ds where head: "decimal (n div 10) = d # ds"
      using decimal_not_Nil by (metis list.exhaust)
    with 1(1) [OF False head] "1.prems" False have "is_digit c" "c = d"
      by (subst (asm) (2) decimal.simps; simp)+
    moreover have False if "d = 48"
    proof -
      from that 1(1) [OF False head] head have "decimal (n div 10) = [48]" by simp
      then have "digits_value 0 [48] = Some (n div 10)" using digits_value_decimal by metis
      with False show False by (simp add: is_digit_def)
    qed
    ultimately show ?thesis by blast
  qed
qed

lemma integer_part_decimal:
  assumes "\<not> is_digit sep"
  shows "integer_part (decimal n @ sep # rest) = Some (decimal n, sep # rest)"
proof -
  obtain c cs where c: "decimal n = c # cs" using decimal_not_Nil by (metis list.exhaust)
  note head = decimal_head [OF c]
  have digits: "\<forall>x \<in> set (c # cs). is_digit x" using set_decimal [of _ n] by (simp add: c)
  have "takeWhile is_digit ((c # cs) @ sep # rest) = c # cs" "dropWhile is_digit ((c # cs) @ sep # rest) = sep # rest"
    using digits assms by (auto simp: takeWhile_append dropWhile_append)
  with head show ?thesis
    by (auto simp: c integer_part_def is_digit_def)
qed

lemma parse_flat_value:
  assumes "flat_value v" and "sep = 44 \<or> sep = 125"
  shows "parse_value (Suc d) (print_value v @ sep # rest) = Some (v, sep # rest)"
proof (cases v)
  case (JString t)
  with assms(1) show ?thesis
    by (simp add: flat_value_def quote_Cons parse_quoted)
next
  case (JInt i)
  then obtain n where n: "i = int n" "n < 10 ^ 15"
    using assms(1) by (auto simp: flat_value_def intro: that [of "nat i"])
  obtain c cs where c: "decimal n = c # cs" using decimal_not_Nil by (metis list.exhaust)
  have digit: "48 \<le> c" "c \<le> 57" using decimal_head [OF c] by (simp_all add: is_digit_def)
  have print: "print_value v = decimal n"
    using n by (simp add: JInt)
  have num: "integer_part (decimal n @ sep # rest) = Some (decimal n, sep # rest)"
    using assms(2) by (intro integer_part_decimal) (auto simp: is_digit_def)
  have "fraction_part (sep # rest) = ([], sep # rest)" "exponent_part (sep # rest) = ([], sep # rest)"
    using assms(2) by (auto simp: fraction_part_def exponent_part_def split: list.split)
  moreover have "py_int (decimal n) = Inr i"
    using length_decimal [of n 15] n by (simp add: py_int_decimal)
  ultimately have "parse_number (decimal n @ sep # rest) = Some (v, sep # rest)"
    by (simp add: parse_number_def num JInt)
  moreover have "parse_word w x (c # t) = None" if "w \<in> {''null'', ''true'', ''false''}" for w x t
    using that digit by (auto simp: parse_word_def ascii_def)
  ultimately show ?thesis
    using digit by (simp add: print c first_of_def)
qed (use assms in \<open>simp_all add: flat_value_def\<close>)

lemma skip_space_stop: "\<not> is_json_space c \<Longrightarrow> skip_space (c # cs) = c # cs"
  by (simp add: skip_space_def)

lemma print_value_start:
  assumes "flat_value v" shows "skip_space (print_value v @ rest) = print_value v @ rest"
proof -
  obtain c cs where "print_value v = c # cs" "\<not> is_json_space c"
  proof (cases v)
    case (JInt i)
    obtain d ds where d: "decimal (nat i) = d # ds" using decimal_not_Nil by (metis list.exhaust)
    with decimal_head [OF d] assms JInt show thesis
      by (intro that [of d ds]) (auto simp: flat_value_def is_json_space_def is_digit_def)
  qed (use assms in \<open>auto simp: flat_value_def quote_def is_json_space_def intro: that\<close>)
  then show ?thesis by (simp add: skip_space_stop)
qed

lemma parse_flat_members:
  assumes "ms \<noteq> []" and "length ms < d" and "\<And>k v. (k, v) \<in> set ms \<Longrightarrow> latin_codes k \<and> flat_value v"
  shows "parse_members d (print_members ms @ 125 # rest) = Some (ms, rest)"
  using assms
proof (induction ms arbitrary: d rule: print_members.induct)
  case (2 k v)
  then obtain e where d: "d = Suc (Suc e)"
    by (cases d; cases "d - 1") auto
  have kv: "latin_codes k" "flat_value v" using "2.prems"(3) by auto
  have shape: "print_members [(k, v)] @ 125 # rest = quote k @ 58 # print_value v @ 125 # rest"
    by simp
  show ?case
    unfolding d shape quote_Cons
    by (subst parse_members.simps)
      (simp add: parse_quoted [OF kv(1)] skip_space_stop is_json_space_def print_value_start [OF kv(2)]
        parse_flat_value [OF kv(2)] del: parse_value.simps parse_members.simps)
next
  case (3 k v m ms)
  then obtain e where d: "d = Suc (Suc e)"
    by (cases d; cases "d - 1") auto
  have kv: "latin_codes k" "flat_value v" using "3.prems"(3) by auto
  have shape: "print_members ((k, v) # m # ms) @ 125 # rest =
      quote k @ 58 # print_value v @ 44 # print_members (m # ms) @ 125 # rest"
    by simp
  obtain k' v' where m: "m = (k', v')" by (cases m)
  have start: "skip_space (print_members (m # ms) @ 125 # rest) = print_members (m # ms) @ 125 # rest"
    unfolding m by (cases ms) (simp_all add: quote_Cons skip_space_stop is_json_space_def)
  have IH: "parse_members (Suc e) (print_members (m # ms) @ 125 # rest) = Some (m # ms, rest)"
    using "3.prems" d by (intro "3.IH") auto
  show ?case
    unfolding d shape quote_Cons
    by (subst parse_members.simps)
      (simp add: parse_quoted [OF kv(1)] skip_space_stop is_json_space_def print_value_start [OF kv(2)]
        parse_flat_value [OF kv(2)] start IH del: parse_value.simps parse_members.simps print_members.simps)
qed simp

lemma json_roundtrip:
  assumes "ms \<noteq> []" and "\<And>k v. (k, v) \<in> set ms \<Longrightarrow> latin_codes k \<and> flat_value v"
  shows "json_loads (json_dumps ms) = Some (JObject ms)"
proof -
  have len: "length ms \<le> length (print_members ms)"
    by (induction ms rule: print_members.induct) (auto simp: quote_def)
  obtain k v ms' where ms: "ms = (k, v) # ms'" using assms(1) by (cases ms) auto
  have start: "\<exists>cs. print_members ms @ [125] = 34 # cs"
    unfolding ms by (cases ms') (simp_all add: quote_def)
  have members: "parse_members (2 * length (json_dumps ms) + 1) (print_members ms @ [125]) = Some (ms, [])"
    using len assms by (intro parse_flat_members) (auto simp: json_dumps_def)
  from start obtain cs where cs: "print_members ms @ [125] = 34 # cs" ..
  have "parse_value (Suc (2 * length (json_dumps ms) + 1)) (json_dumps ms) = Some (JObject ms, [])"
    using members unfolding json_dumps_def append_Cons cs
    by (subst parse_value.simps)
      (simp add: skip_space_stop is_json_space_def del: parse_value.simps parse_members.simps)
  then show ?thesis
    by (simp add: json_loads_def json_dumps_def skip_space_stop is_json_space_def
        del: parse_value.simps parse_members.simps) (simp add: skip_space_def)
qed

end
