(* ===== verification/Control_Values.thy ===== *)
theory Control_Values
  imports Json Domain_Connections
begin

text \<open>
  What the bot services report about a connected platform (\<open>domain/activity.py\<close>, \<open>health.py\<close>,
  \<open>dashboard.py\<close>, \<open>server_statistics.py\<close>, \<open>audit_timeline.py\<close>, \<open>bot_settings.py\<close>,
  \<open>channels.py\<close>, \<open>channel_purposes.py\<close>, \<open>welcome.py\<close>). These values come from JSON documents, so
  their texts are lists of Unicode code points.
\<close>

section \<open>Texts\<close>

text \<open>\<open>str.isspace\<close> on one code point.\<close>

definition is_unicode_space :: "nat \<Rightarrow> bool" where
  "is_unicode_space n \<longleftrightarrow> 9 \<le> n \<and> n \<le> 13 \<or> 28 \<le> n \<and> n \<le> 32 \<or> 0x2000 \<le> n \<and> n \<le> 0x200A
     \<or> n \<in> {0x85, 0xA0, 0x1680, 0x2028, 0x2029, 0x202F, 0x205F, 0x3000}"

text \<open>\<open>not text.strip()\<close>\<close>

definition blank :: "codes \<Rightarrow> bool" where
  "blank t \<longleftrightarrow> list_all is_unicode_space t"

text \<open>\<open>E(value)\<close> of a string enumeration on a text.\<close>

definition text_enum :: "('e \<Rightarrow> string) \<Rightarrow> 'e list \<Rightarrow> codes \<Rightarrow> error + 'e" where
  "text_enum val members t =
     (case find (\<lambda>e. ascii (val e) = t) members of
        None \<Rightarrow> Inl (ValueError ''not a valid value'')
      | Some e \<Rightarrow> Inr e)"

lemma text_enum_value:
  assumes "\<And>a b. a \<in> set members \<Longrightarrow> b \<in> set members \<Longrightarrow> val a = val b \<Longrightarrow> a = b" and "e \<in> set members"
  shows "text_enum val members (ascii (val e)) = Inr e"
proof -
  have "inj ascii"
    by (intro injI) (simp add: ascii_def inj_map_eq_map inj_of_char)
  then have eq: "ascii (val a) = ascii (val e) \<longleftrightarrow> a = e" if "a \<in> set members" for a
    using assms that by (metis injD)
  have "find (\<lambda>a. ascii (val a) = ascii (val e)) members = Some e"
    using assms(2) eq
  proof (induction members)
    case (Cons a ms)
    then show ?case by (cases "a = e") auto
  qed simp
  then show ?thesis by (simp add: text_enum_def)
qed

section \<open>Modules\<close>

datatype ModuleCapability = CAPABILITY_VIEW | CAPABILITY_MANAGE

primrec ModuleCapability_value :: "ModuleCapability \<Rightarrow> string" where
  "ModuleCapability_value CAPABILITY_VIEW = ''view''"
| "ModuleCapability_value CAPABILITY_MANAGE = ''manage''"

datatype ModuleStatus = MODULE_AVAILABLE | MODULE_UNAVAILABLE | MODULE_REQUIRES_REAUTHORIZATION

primrec ModuleStatus_value :: "ModuleStatus \<Rightarrow> string" where
  "ModuleStatus_value MODULE_AVAILABLE = ''available''"
| "ModuleStatus_value MODULE_UNAVAILABLE = ''unavailable''"
| "ModuleStatus_value MODULE_REQUIRES_REAUTHORIZATION = ''requires_reauthorization''"

record ControlModule =
  module_key :: codes
  module_display_name :: codes
  module_platform :: Platform
  module_capability :: ModuleCapability
  module_status :: ModuleStatus

definition ControlModule_post_init :: "ControlModule \<Rightarrow> error + ControlModule" where
  "ControlModule_post_init m = checked
     [(module_key m = [] \<or> 46 \<notin> set (module_key m), ''Module key must be a namespaced, non-empty identifier.''),
      (blank (module_display_name m), ''Module display name must not be blank.'')] m"

section \<open>Health\<close>

datatype HealthStatus = HEALTH_OPERATIONAL | HEALTH_DEGRADED

primrec HealthStatus_value :: "HealthStatus \<Rightarrow> string" where
  "HealthStatus_value HEALTH_OPERATIONAL = ''operational''"
| "HealthStatus_value HEALTH_DEGRADED = ''degraded''"

record HealthSignal =
  signal_key :: codes
  signal_display_name :: codes
  signal_value :: codes
  signal_status :: HealthStatus
  signal_latency_ms :: "int option"

definition HealthSignal_post_init :: "HealthSignal \<Rightarrow> error + HealthSignal" where
  "HealthSignal_post_init s = checked
     [(signal_key s = [] \<or> blank (signal_display_name s) \<or> blank (signal_value s),
       ''Health signal fields must be non-empty.''),
      (case signal_latency_ms s of None \<Rightarrow> False | Some n \<Rightarrow> n < 0, ''Health signal latency must not be negative.'')] s"

record PlatformHealth =
  health_platform :: Platform
  health_signals :: "HealthSignal list"

section \<open>Counters\<close>

record PlatformDashboardSummary =
  dashboard_platform :: Platform
  messages_today :: int
  ai_flagged_today :: int
  creator_sources :: int
  bot_latency_ms :: "int option"

definition PlatformDashboardSummary_post_init :: "PlatformDashboardSummary \<Rightarrow> error + PlatformDashboardSummary" where
  "PlatformDashboardSummary_post_init d = checked
     [(list_ex (\<lambda>n. n < 0) [messages_today d, ai_flagged_today d, creator_sources d],
       ''Dashboard counters must not be negative.''),
      (case bot_latency_ms d of None \<Rightarrow> False | Some n \<Rightarrow> n < 0, ''Bot latency must not be negative.'')] d"

record PlatformServerStatistics =
  statistics_platform :: Platform
  period_days :: int
  total_messages :: int
  active_users :: int
  active_channels :: int
  current_member_count :: int
  total_voice_minutes :: int
  joins :: int
  leaves :: int
  moderation_events :: int

definition PlatformServerStatistics_post_init :: "PlatformServerStatistics \<Rightarrow> error + PlatformServerStatistics" where
  "PlatformServerStatistics_post_init s = checked
     [(period_days s < 1 \<or> list_ex (\<lambda>n. n < 0) [total_messages s, active_users s, active_channels s,
         current_member_count s, total_voice_minutes s, joins s, leaves s, moderation_events s],
       ''Server statistics must contain non-negative aggregate counts.'')] s"

section \<open>Timeline\<close>

record PlatformAuditTimelineEvent =
  timeline_event_type :: codes
  timeline_occurred_at :: codes

record PlatformAuditTimeline =
  timeline_platform :: Platform
  timeline_events :: "PlatformAuditTimelineEvent list"
  timeline_limit :: int

definition PlatformAuditTimeline_post_init :: "PlatformAuditTimeline \<Rightarrow> error + PlatformAuditTimeline" where
  "PlatformAuditTimeline_post_init t = checked
     [(\<not> (1 \<le> timeline_limit t \<and> timeline_limit t \<le> 100) \<or> timeline_limit t < int (length (timeline_events t)),
       ''Audit timeline limit is invalid.'')] t"

section \<open>Settings\<close>

record PlatformBotSettings =
  settings_platform :: Platform
  subscription_tier :: codes
  activity_rotation_enabled :: bool
  activity_rotation_interval_seconds :: int
  retention_days :: "(codes \<times> int) list"

definition PlatformBotSettings_post_init :: "PlatformBotSettings \<Rightarrow> error + PlatformBotSettings" where
  "PlatformBotSettings_post_init s = checked
     [(blank (subscription_tier s), ''Subscription tier must not be blank.''),
      (activity_rotation_interval_seconds s < 1, ''Activity rotation interval must be positive.''),
      (list_ex (\<lambda>(key, n). blank key \<or> n < 0) (retention_days s),
       ''Retention settings must have non-blank keys and non-negative days.'')] s"

record PlatformWelcomeSettings =
  welcome_platform :: Platform
  welcome_title :: codes
  welcome_description :: codes
  welcome_thumbnail_url :: "codes option"
  welcome_footer_text :: "codes option"
  welcome_footer_icon_url :: "codes option"
  welcome_color :: int
  welcome_is_enabled :: bool
  welcome_rules_channel_id :: "codes option"
  welcome_roles_channel_id :: "codes option"

definition PlatformWelcomeSettings_post_init :: "PlatformWelcomeSettings \<Rightarrow> error + PlatformWelcomeSettings" where
  "PlatformWelcomeSettings_post_init w = checked
     [(blank (welcome_title w) \<or> blank (welcome_description w), ''Welcome title and description must be non-empty.''),
      (\<not> (0 \<le> welcome_color w \<and> welcome_color w \<le> 0xFFFFFF), ''Welcome color must be a 24-bit RGB value.'')] w"

section \<open>Channels\<close>

datatype ChannelKind = CHANNEL_TEXT | CHANNEL_VOICE | CHANNEL_ANNOUNCEMENT

primrec ChannelKind_value :: "ChannelKind \<Rightarrow> string" where
  "ChannelKind_value CHANNEL_TEXT = ''text''"
| "ChannelKind_value CHANNEL_VOICE = ''voice''"
| "ChannelKind_value CHANNEL_ANNOUNCEMENT = ''announcement''"

record PlatformChannel =
  channel_id :: codes
  channel_name :: codes
  channel_kind :: ChannelKind

record PlatformChannelCatalog =
  channels_platform :: Platform
  channels_items :: "PlatformChannel list"

datatype ChannelPurpose =
    PURPOSE_WELCOME | PURPOSE_MEMBER_LOG | PURPOSE_MOD_LOG | PURPOSE_MESSAGE_LOG | PURPOSE_CHANNEL_LOG
  | PURPOSE_STREAM_ANNOUNCE | PURPOSE_DEV_BLOG | PURPOSE_AI_MODERATION_LOG

primrec ChannelPurpose_value :: "ChannelPurpose \<Rightarrow> string" where
  "ChannelPurpose_value PURPOSE_WELCOME = ''welcome''"
| "ChannelPurpose_value PURPOSE_MEMBER_LOG = ''member_log''"
| "ChannelPurpose_value PURPOSE_MOD_LOG = ''mod_log''"
| "ChannelPurpose_value PURPOSE_MESSAGE_LOG = ''message_log''"
| "ChannelPurpose_value PURPOSE_CHANNEL_LOG = ''channel_log''"
| "ChannelPurpose_value PURPOSE_STREAM_ANNOUNCE = ''stream_announce''"
| "ChannelPurpose_value PURPOSE_DEV_BLOG = ''dev_blog''"
| "ChannelPurpose_value PURPOSE_AI_MODERATION_LOG = ''ai_moderation_log''"

definition all_purposes :: "ChannelPurpose list" where
  "all_purposes = [PURPOSE_WELCOME, PURPOSE_MEMBER_LOG, PURPOSE_MOD_LOG, PURPOSE_MESSAGE_LOG, PURPOSE_CHANNEL_LOG,
     PURPOSE_STREAM_ANNOUNCE, PURPOSE_DEV_BLOG, PURPOSE_AI_MODERATION_LOG]"

record PlatformChannelPurposes =
  purposes_platform :: Platform
  purposes_assignments :: "(ChannelPurpose \<times> codes) list"

definition PlatformChannelPurposes_post_init :: "PlatformChannelPurposes \<Rightarrow> error + PlatformChannelPurposes" where
  "PlatformChannelPurposes_post_init p = checked
     [(list_ex (\<lambda>(_, channel). blank channel) (purposes_assignments p),
       ''Channel purpose assignments must have non-empty channel IDs.'')] p"

lemmas control_post_inits = ControlModule_post_init_def HealthSignal_post_init_def
  PlatformDashboardSummary_post_init_def PlatformServerStatistics_post_init_def
  PlatformAuditTimeline_post_init_def PlatformBotSettings_post_init_def
  PlatformWelcomeSettings_post_init_def PlatformChannelPurposes_post_init_def

end
