(* ===== verification/Connections.thy ===== *)
theory Connections
  imports Repo_Connections Control_Values
begin

text \<open>
  The platform-connection use cases: connecting a verified resource
  (\<open>connect_platform_connection_use_case.py\<close>, \<open>platform_connection_verifier_router.py\<close>), the
  life cycle with its idempotency keys (\<open>manage_platform_connection_lifecycle_use_case.py\<close>), the
  reconciliation pass and its health probe (\<open>reconcile_platform_connections_use_case.py\<close>,
  \<open>infrastructure/reconciliation_probe.py\<close>, \<open>domain/health.py\<close>) and the paginated
  listings (\<open>list_platform_connections_use_case.py\<close>,
  \<open>list_organization_audit_events_use_case.py\<close>). Ownership verifiers, probes and health readers
  are arguments.

  The law \<open>life\<close> says that the stored connections only move along the life cycle.
\<close>

definition authorization_request ::
  "uuid \<Rightarrow> uuid \<Rightarrow> AuthorizationResource \<Rightarrow> AuthorizationAction \<Rightarrow> AuthorizationRequest" where
  "authorization_request actor org res act =
     \<lparr>request_actor_id = actor, request_organization_id = org, request_resource = res,
      request_action = act\<rparr>"

section \<open>Connecting\<close>

type_synonym verifier = "uuid \<Rightarrow> uuid \<Rightarrow> Platform \<Rightarrow> string \<Rightarrow> uuid \<Rightarrow> error + bool"

definition verify_connection :: "(Platform \<Rightarrow> verifier option) \<Rightarrow> verifier" where
  "verify_connection verifiers actor org platform external correlation =
     (case verifiers platform of
        None \<Rightarrow> Inr False
      | Some verifier \<Rightarrow> verifier actor org platform external correlation)"

record ConnectPlatformConnectionCommand =
  cc_actor_id :: uuid
  cc_organization_id :: uuid
  cc_platform :: Platform
  cc_external_resource_id :: string
  cc_correlation_id :: uuid

definition connection_audit_event ::
  "uuid \<Rightarrow> uuid \<Rightarrow> uuid \<Rightarrow> uuid \<Rightarrow> string \<Rightarrow> uuid \<Rightarrow> error + AuditEvent" where
  "connection_audit_event eid correlation actor org action cid = AuditEvent_post_init
     \<lparr>audit_id = eid, audit_correlation_id = correlation, audit_actor_id = Some actor,
      audit_organization_id = Some org, audit_action = action,
      audit_resource_type = ''platform_connection'', audit_resource_id = Some (uuid_str cid),
      audit_result = ''succeeded''\<rparr>"

definition ConnectPlatformConnection_execute ::
  "verifier \<Rightarrow> io \<Rightarrow> ConnectPlatformConnectionCommand \<Rightarrow> (console, PlatformConnection) operation" where
  "ConnectPlatformConnection_execute verifier io cmd =
     (let external = py_strip (cc_external_resource_id cmd) in
      bnd (authorize get_membership (authorization_request (cc_actor_id cmd) (cc_organization_id cmd)
             PLATFORM_CONNECTIONS ACTION_MANAGE)) (\<lambda>decision.
      if \<not> allowed decision
      then raise (PlatformConnectionConnectRejectedError ''Connection was denied.'')
      else
        bnd (construct (verifier (cc_actor_id cmd) (cc_organization_id cmd) (cc_platform cmd) external
               (cc_correlation_id cmd))) (\<lambda>verified.
        if \<not> verified
        then raise (PlatformConnectionConnectRejectedError ''Connection was not verified.'')
        else
          bnd (construct (PlatformConnection_post_init
                 \<lparr>connection_id = new_id io 0, connection_organization_id = cc_organization_id cmd,
                  connection_platform = cc_platform cmd, connection_external_resource_id = external,
                  connection_status = CONN_PENDING, connection_status_reason = Some INITIAL_PENDING,
                  connection_granted_capabilities = capability_keys_for_platform (cc_platform cmd)\<rparr>))
            (\<lambda>connection.
          bnd (construct (connection_audit_event (new_id io 1) (cc_correlation_id cmd) (cc_actor_id cmd)
                 (cc_organization_id cmd) ''platform_connection.connect'' (connection_id connection))) (\<lambda>event.
          bnd (connection_create (db_now io 0) connection event) (\<lambda>created.
          if \<not> created
          then raise (PlatformConnectionConnectRejectedError ''Connection could not be created.'')
          else ret connection))))))"

section \<open>Life cycle\<close>

record ManagePlatformConnectionLifecycleCommand =
  ml_actor_id :: uuid
  ml_organization_id :: uuid
  ml_connection_id :: uuid
  ml_action :: PlatformConnectionLifecycleAction
  ml_correlation_id :: uuid
  ml_idempotency_key :: "string option"

definition normalized_idempotency_key :: "string option \<Rightarrow> error + string option" where
  "normalized_idempotency_key value =
     (case value of
        None \<Rightarrow> Inr None
      | Some v \<Rightarrow>
          (let normalized = py_strip v in
           if normalized = [] then Inr None
           else if length normalized > 128
           then Inl (PlatformConnectionLifecycleRejectedError ''Idempotency key is too long.'')
           else Inr (Some normalized)))"

definition lifecycle_rejected :: "string \<Rightarrow> ('s, 'a) operation" where
  "lifecycle_rejected msg = raise (PlatformConnectionLifecycleRejectedError msg)"

text \<open>The transition itself, after authorization and the idempotency lookup.\<close>

definition lifecycle_transition ::
  "io \<Rightarrow> ManagePlatformConnectionLifecycleCommand \<Rightarrow> string option \<Rightarrow> (console, PlatformConnection) operation" where
  "lifecycle_transition io cmd key =
     bnd (find_connection_for_organization (ml_organization_id cmd) (ml_connection_id cmd)) (\<lambda>found.
     case found of
       None \<Rightarrow> lifecycle_rejected ''Connection is unavailable.''
     | Some current \<Rightarrow>
         if connection_status current = target_status (ml_action cmd) then ret current
         else
           (case transition_to current (target_status (ml_action cmd)) (Some (status_reason (ml_action cmd))) of
              Inl _ \<Rightarrow> lifecycle_rejected ''Connection lifecycle transition is invalid.''
            | Inr updated \<Rightarrow>
                bnd (construct (connection_audit_event (new_id io 0) (ml_correlation_id cmd)
                       (ml_actor_id cmd) (ml_organization_id cmd) (audit_action_name (ml_action cmd))
                       (ml_connection_id cmd))) (\<lambda>event.
                bnd (update_status (db_now io 0) updated event key
                       (case key of None \<Rightarrow> None | Some _ \<Rightarrow> Some (lifecycle_action_value (ml_action cmd))))
                  (\<lambda>saved.
                if \<not> saved
                then lifecycle_rejected ''Connection lifecycle transition could not be saved.''
                else ret updated))))"

definition lifecycle_replay ::
  "ManagePlatformConnectionLifecycleCommand \<Rightarrow> PlatformConnectionLifecycleIdempotencyResult \<Rightarrow>
   (console, PlatformConnection) operation" where
  "lifecycle_replay cmd result =
     bnd (find_connection_for_organization (ml_organization_id cmd) (ml_connection_id cmd)) (\<lambda>found.
     case found of
       None \<Rightarrow> lifecycle_rejected ''Lifecycle idempotency key conflicts with another request.''
     | Some current \<Rightarrow>
         if idem_connection_id result \<noteq> ml_connection_id cmd
            \<or> idem_action result \<noteq> lifecycle_action_value (ml_action cmd)
         then lifecycle_rejected ''Lifecycle idempotency key conflicts with another request.''
         else construct (PlatformConnection_post_init
           \<lparr>connection_id = connection_id current,
            connection_organization_id = connection_organization_id current,
            connection_platform = connection_platform current,
            connection_external_resource_id = connection_external_resource_id current,
            connection_status = idem_result_status result,
            connection_status_reason = idem_result_reason result,
            connection_granted_capabilities = []\<rparr>))"

definition ManagePlatformConnectionLifecycle_execute ::
  "io \<Rightarrow> ManagePlatformConnectionLifecycleCommand \<Rightarrow> (console, PlatformConnection) operation" where
  "ManagePlatformConnectionLifecycle_execute io cmd =
     bnd (authorize get_membership (authorization_request (ml_actor_id cmd) (ml_organization_id cmd)
            PLATFORM_CONNECTIONS ACTION_MANAGE)) (\<lambda>decision.
     if \<not> allowed decision then lifecycle_rejected ''Lifecycle action denied.''
     else
       bnd (construct (normalized_idempotency_key (ml_idempotency_key cmd))) (\<lambda>key.
       case key of
         None \<Rightarrow> lifecycle_transition io cmd key
       | Some k \<Rightarrow>
           bnd (find_idempotent_lifecycle_result (ml_organization_id cmd) k) (\<lambda>previous.
           case previous of
             Some result \<Rightarrow> lifecycle_replay cmd result
           | None \<Rightarrow> lifecycle_transition io cmd key)))"

section \<open>Reconciliation\<close>

type_synonym probe = "PlatformConnection \<Rightarrow> uuid \<Rightarrow> error + ConnectionReconciliationDecision"

fun is_control_unavailable :: "error \<Rightarrow> bool" where
  "is_control_unavailable (PlatformControlUnavailableError _) = True"
| "is_control_unavailable _ = False"

definition unreachable_decision :: "error + ConnectionReconciliationDecision" where
  "unreachable_decision = ConnectionReconciliationDecision_post_init
     \<lparr>decision_target_status = DEGRADED, decision_reason = PLATFORM_UNREACHABLE\<rparr>"

definition inspect_connection ::
  "(uuid \<Rightarrow> uuid \<Rightarrow> uuid \<Rightarrow> error + PlatformHealth) \<Rightarrow> uuid \<Rightarrow> probe" where
  "inspect_connection health_reader system_actor connection correlation =
     (case health_reader (connection_organization_id connection) system_actor correlation of
        Inl e \<Rightarrow> if is_control_unavailable e then unreachable_decision else Inl e
      | Inr health \<Rightarrow>
          if list_ex (\<lambda>signal. signal_status signal = HEALTH_DEGRADED) (health_signals health)
          then ConnectionReconciliationDecision_post_init
            \<lparr>decision_target_status = DEGRADED, decision_reason = PREFLIGHT_FAILED\<rparr>
          else ConnectionReconciliationDecision_post_init
            \<lparr>decision_target_status = CONN_ACTIVE, decision_reason = HEALTHY\<rparr>)"

record ReconcilePlatformConnectionsCommand =
  rc_system_actor_id :: uuid
  rc_correlation_id :: uuid
  rc_limit :: nat

record ReconcilePlatformConnectionsResult =
  inspected :: nat
  changed :: nat
  skipped :: nat

text \<open>
  \<open>_apply_decision\<close>; the number \<open>n\<close> of identifiers drawn so far is passed along and returned.
\<close>

definition apply_decision ::
  "io \<Rightarrow> nat \<Rightarrow> uuid \<Rightarrow> uuid \<Rightarrow> PlatformConnection \<Rightarrow> ConnectionReconciliationDecision \<Rightarrow>
   (console, bool \<times> nat) operation" where
  "apply_decision io n system_actor correlation connection decision =
     (if connection_status connection = CONN_DISCONNECTED then ret (False, n)
      else if connection_status connection = decision_target_status decision then ret (False, n)
      else
        (case ConnectionStatusReason_parse (ConnectionReconciliationReason_value (decision_reason decision)) of
           None \<Rightarrow> ret (False, n)
         | Some reason \<Rightarrow>
             (case transition_to connection (decision_target_status decision) (Some reason) of
                Inl _ \<Rightarrow> ret (False, n)
              | Inr updated \<Rightarrow>
                  bnd (construct (connection_audit_event (new_id io n) correlation system_actor
                         (connection_organization_id connection) ''platform_connection.reconciled''
                         (connection_id connection))) (\<lambda>event.
                  bnd (update_status (db_now io n) updated event None None) (\<lambda>saved.
                  ret (saved, Suc n))))))"

definition decide ::
  "probe \<Rightarrow> PlatformConnection \<Rightarrow> uuid \<Rightarrow> error + ConnectionReconciliationDecision" where
  "decide probe connection correlation =
     (case probe connection correlation of
        Inl e \<Rightarrow> if is_control_unavailable e then unreachable_decision else Inl e
      | Inr d \<Rightarrow> Inr d)"

fun reconcile_loop ::
  "(string \<Rightarrow> probe option) \<Rightarrow> io \<Rightarrow> ReconcilePlatformConnectionsCommand \<Rightarrow> nat \<Rightarrow>
   ReconcilePlatformConnectionsResult \<Rightarrow> PlatformConnection list \<Rightarrow>
   (console, ReconcilePlatformConnectionsResult) operation" where
  "reconcile_loop probes io cmd n res [] = ret res"
| "reconcile_loop probes io cmd n res (connection # rest) =
     (let res' = res\<lparr>inspected := inspected res + 1\<rparr> in
      case probes (Platform_value (connection_platform connection)) of
        None \<Rightarrow> reconcile_loop probes io cmd n (res'\<lparr>skipped := skipped res' + 1\<rparr>) rest
      | Some probe \<Rightarrow>
          bnd (construct (decide probe connection (rc_correlation_id cmd))) (\<lambda>decision.
          bnd (apply_decision io n (rc_system_actor_id cmd) (rc_correlation_id cmd) connection decision) (\<lambda>x.
          reconcile_loop probes io cmd (snd x)
            (if fst x then res'\<lparr>changed := changed res' + 1\<rparr> else res'\<lparr>skipped := skipped res' + 1\<rparr>) rest)))"

definition ReconcilePlatformConnections_execute ::
  "(string \<Rightarrow> probe option) \<Rightarrow> io \<Rightarrow> ReconcilePlatformConnectionsCommand \<Rightarrow>
   (console, ReconcilePlatformConnectionsResult) operation" where
  "ReconcilePlatformConnections_execute probes io cmd =
     bnd (list_reconcilable (rc_limit cmd)) (\<lambda>connections.
     reconcile_loop probes io cmd 0 \<lparr>inspected = 0, changed = 0, skipped = 0\<rparr> connections)"

section \<open>Listings\<close>

record PlatformConnectionPage =
  page_items :: "PlatformConnection list"
  page_next_cursor :: "uuid option"

definition ListPlatformConnections_execute ::
  "uuid \<Rightarrow> uuid \<Rightarrow> uuid option \<Rightarrow> int \<Rightarrow> (console, PlatformConnectionPage) operation" where
  "ListPlatformConnections_execute actor org after limit =
     (if \<not> (1 \<le> limit \<and> limit \<le> 100)
      then raise (ValueError ''Connection list limit must be between 1 and 100.'')
      else
        bnd (authorize get_membership (authorization_request actor org PLATFORM_CONNECTIONS ACTION_READ)) (\<lambda>decision.
        if \<not> allowed decision
        then raise (AccessDeniedError ''The actor is not allowed to view platform connections.'')
        else
          bnd (list_connections_for_organization org after (nat (limit + 1))) (\<lambda>results.
          let has_next_page = int (length results) > limit; items = take (nat limit) results in
          ret \<lparr>page_items = items,
               page_next_cursor =
                 (if has_next_page \<and> items \<noteq> [] then Some (connection_id (last items)) else None)\<rparr>)))"

record AuditEventPage =
  audit_page_items :: "AuditLogEntry list"
  audit_page_next_cursor :: "uuid option"

definition ListOrganizationAuditEvents_execute ::
  "uuid \<Rightarrow> uuid \<Rightarrow> uuid option \<Rightarrow> int \<Rightarrow> (console, AuditEventPage) operation" where
  "ListOrganizationAuditEvents_execute actor org after limit =
     (if \<not> (1 \<le> limit \<and> limit \<le> 100)
      then raise (ValueError ''Audit event page size must be between 1 and 100.'')
      else
        bnd (authorize get_membership (authorization_request actor org AUDIT_EVENTS ACTION_READ)) (\<lambda>decision.
        if \<not> allowed decision
        then raise (AccessDeniedError ''The actor is not allowed to view organization audit events.'')
        else
          bnd (list_audit_for_organization org after (nat (limit + 1))) (\<lambda>entries.
          let items = take (nat limit) entries in
          ret \<lparr>audit_page_items = items,
               audit_page_next_cursor =
                 (if int (length entries) > limit \<and> items \<noteq> []
                  then Some (entry_id (last items)) else None)\<rparr>)))"

lemmas connection_use_cases =
  ConnectPlatformConnection_execute_def ManagePlatformConnectionLifecycle_execute_def
  lifecycle_transition_def lifecycle_replay_def lifecycle_rejected_def
  ReconcilePlatformConnections_execute_def apply_decision_def
  ListPlatformConnections_execute_def ListOrganizationAuditEvents_execute_def

section \<open>Laws\<close>

lemma silent_authorize [simp]: "silent (authorize get_membership req)"
  unfolding authorize_def by (intro silent_bnd silent_organization_readers silent_option silent_simps)

lemma silent_connection_listings [simp]:
  "silent (ListPlatformConnections_execute a org after n)"
  "silent (ListOrganizationAuditEvents_execute a org after n)"
  unfolding connection_use_cases Let_def
  by (intro silent_if silent_bnd silent_authorize silent_connection_readers silent_simps)+

lemmas connection_readers = silent_authorize silent_connection_readers

lemma inv_reconcile_loop: "obeys keeps_db_ok (reconcile_loop probes io cmd n res cs)"
  by (induction cs arbitrary: n res)
    (auto simp: Let_def apply_decision_def intro!: inv_steps inv_connection_writers split: option.split)

lemma his_reconcile_loop: "obeys history (reconcile_loop probes io cmd n res cs)"
  by (induction cs arbitrary: n res)
    (auto simp: Let_def apply_decision_def intro!: his_steps his_connection_writers split: option.split)

lemma rev_reconcile_loop: "obeys keeps_revoked (reconcile_loop probes io cmd n res cs)"
  by (induction cs arbitrary: n res)
    (auto simp: Let_def apply_decision_def intro!: rev.rules rev_connection_writers
      construct_obeys [where R = keeps_revoked, OF rev.law_refl] split: option.split)

lemma own_reconcile_loop: "obeys keeps_owners (reconcile_loop probes io cmd n res cs)"
  by (induction cs arbitrary: n res)
    (auto simp: Let_def apply_decision_def intro!: own.rules own_connection_writers
      construct_obeys [where R = keeps_owners, OF own.law_refl] split: option.split)

lemma inv_connection_use_cases:
  "obeys keeps_db_ok (ConnectPlatformConnection_execute v io c1)"
  "obeys keeps_db_ok (ManagePlatformConnectionLifecycle_execute io c2)"
  "obeys keeps_db_ok (ReconcilePlatformConnections_execute pr io c3)"
  unfolding connection_use_cases Let_def
  by (intro inv_steps inv_connection_writers inv_reconcile_loop inv_readers connection_readers)+

lemma his_connection_use_cases:
  "obeys history (ConnectPlatformConnection_execute v io c1)"
  "obeys history (ManagePlatformConnectionLifecycle_execute io c2)"
  "obeys history (ReconcilePlatformConnections_execute pr io c3)"
  unfolding connection_use_cases Let_def
  by (intro his_steps his_connection_writers his_reconcile_loop his_readers connection_readers)+

lemma rev_connection_use_cases:
  "obeys keeps_revoked (ConnectPlatformConnection_execute v io c1)"
  "obeys keeps_revoked (ManagePlatformConnectionLifecycle_execute io c2)"
  "obeys keeps_revoked (ReconcilePlatformConnections_execute pr io c3)"
  unfolding connection_use_cases Let_def
  by (intro rev_steps rev_connection_writers rev_reconcile_loop connection_readers)+

lemma own_connection_use_cases:
  "obeys keeps_owners (ConnectPlatformConnection_execute v io c1)"
  "obeys keeps_owners (ManagePlatformConnectionLifecycle_execute io c2)"
  "obeys keeps_owners (ReconcilePlatformConnections_execute pr io c3)"
  unfolding connection_use_cases Let_def
  by (intro own_steps own_connection_writers own_reconcile_loop connection_readers)+

lemmas clean_connection_writes = reports_connection_writers [THEN clean_report]

lemma clean_connection_use_cases:
  "clean (ConnectPlatformConnection_execute v io c1)"
  "clean (ManagePlatformConnectionLifecycle_execute io c2)"
  unfolding connection_use_cases Let_def
  by (rule clean_connection_writes clean_steps silent_clean silent_simps | simp)+

end
