(* ===== verification/Connection_Lifecycle.thy ===== *)
theory Connection_Lifecycle
  imports Connections
begin

text \<open>
  What the platform-connection use cases guarantee. The law \<open>life\<close> says that a stored connection
  keeps its identity and only moves along the transition table; it holds for every use case as a
  whole but not for the statements inside one, because the UPDATE of
  \<open>connection_repository.py\<close> does not look at the present status: the last theorem of the
  life-cycle section shows what an interleaving does with that.
\<close>

section \<open>How a stored connection may evolve\<close>

abbreviation transitions :: "ConnectionStatus \<Rightarrow> ConnectionStatus \<Rightarrow> bool" where
  "transitions a b \<equiv> b \<in> set (ALLOWED_TRANSITIONS a)"

lemma transitions_reachable:
  "transitions\<^sup>*\<^sup>* a b \<longleftrightarrow> b = a \<or> a \<noteq> CONN_DISCONNECTED \<and> b \<noteq> CONN_PENDING"
proof
  show "b = a \<or> a \<noteq> CONN_DISCONNECTED \<and> b \<noteq> CONN_PENDING" if "transitions\<^sup>*\<^sup>* a b"
    using that
  proof induction
    case (step y z)
    then show ?case by (cases y; cases z) auto
  qed simp
  have direct: "transitions\<^sup>*\<^sup>* x y" if "transitions x y" for x y
    using that by (rule r_into_rtranclp)
  have via: "transitions\<^sup>*\<^sup>* REAUTH_REQUIRED DEGRADED"
    by (rule rtranclp_trans [OF direct [of CONN_ACTIVE REAUTH_REQUIRED] direct]) simp_all
  show "transitions\<^sup>*\<^sup>* a b" if "b = a \<or> a \<noteq> CONN_DISCONNECTED \<and> b \<noteq> CONN_PENDING"
    using that via by (cases a; cases b) (auto intro: direct)
qed

definition row_evolves :: "PlatformConnectionRecord \<Rightarrow> PlatformConnectionRecord \<Rightarrow> bool" where
  "row_evolves r q \<longleftrightarrow>
     q = r\<lparr>c_status := c_status q, c_status_reason := c_status_reason q\<rparr>
     \<and> (q = r \<or> (\<exists>a b. c_status r = ConnectionStatus_value a \<and> c_status q = ConnectionStatus_value b
          \<and> transitions\<^sup>*\<^sup>* a b))"

definition connections_evolve ::
  "PlatformConnectionRecord list \<Rightarrow> PlatformConnectionRecord list \<Rightarrow> bool" where
  "connections_evolve rows rows' \<longleftrightarrow> (\<exists>old new. rows' = old @ new \<and> list_all2 row_evolves rows old)"

lemma row_evolves_refl [simp]: "row_evolves r r"
  by (simp add: row_evolves_def)

lemma row_evolves_trans:
  assumes "row_evolves p q" and "row_evolves q r"
  shows "row_evolves p r"
proof -
  have shape: "r = p\<lparr>c_status := c_status r, c_status_reason := c_status_reason r\<rparr>"
  proof -
    from assms have "q = p\<lparr>c_status := c_status q, c_status_reason := c_status_reason q\<rparr>"
      "r = q\<lparr>c_status := c_status r, c_status_reason := c_status_reason r\<rparr>"
      unfolding row_evolves_def by simp_all
    then show ?thesis
      by (cases p; cases q; cases r) simp
  qed
  from assms show ?thesis
    unfolding row_evolves_def using shape
    by (metis ConnectionStatus_value_inject rtranclp_trans)
qed

lemma connections_evolve_refl [simp]: "connections_evolve rows rows"
  unfolding connections_evolve_def
  by (intro exI [of _ rows] exI [of _ "[]"]) (simp add: list.rel_refl)

lemma connections_evolve_append: "connections_evolve rows (rows @ new)"
  unfolding connections_evolve_def by (metis list.rel_refl row_evolves_refl)

lemma connections_evolve_trans:
  assumes "connections_evolve rows rows'" and "connections_evolve rows' rows''"
  shows "connections_evolve rows rows''"
proof -
  from assms obtain old new old2 new2 where
    "rows' = old @ new" "list_all2 row_evolves rows old"
    "rows'' = old2 @ new2" "list_all2 row_evolves (old @ new) old2"
    unfolding connections_evolve_def by blast
  then obtain us vs where "rows'' = us @ (vs @ new2)" "list_all2 row_evolves old us"
    by (auto simp: list_all2_append1)
  moreover from this(2) have "list_all2 row_evolves rows us"
    using list_all2_trans [of row_evolves row_evolves row_evolves rows old us] row_evolves_trans
      \<open>list_all2 row_evolves rows old\<close> by blast
  ultimately show ?thesis
    unfolding connections_evolve_def by blast
qed

definition keeps_lifecycle :: "console \<Rightarrow> console \<Rightarrow> bool" where
  "keeps_lifecycle s t \<longleftrightarrow>
     (db_ok s \<longrightarrow> db_ok t \<and> connections_evolve (platform_connections s) (platform_connections t))"

interpretation life: step_law keeps_lifecycle
  by unfold_locales (auto simp: keeps_lifecycle_def intro: connections_evolve_trans)

lemma connections_evolve_update:
  assumes "\<And>r. r \<in> set rows \<Longrightarrow> P r \<Longrightarrow> row_evolves r (f r)"
  shows "connections_evolve rows (update_rows P f rows)"
  unfolding connections_evolve_def update_rows_def
  using assms by (intro exI [of _ "update_rows P f rows"] exI [of _ "[]"])
    (auto simp: update_rows_def list_all2_map2 intro: list.rel_refl_strong)

section \<open>Rows and connections\<close>

lemma connection_from_record_fields:
  assumes "connection_from_record r = Some c"
  shows "connection_id c = c_id r" "connection_organization_id c = c_organization_id r"
    "c_platform r = Platform_value (connection_platform c)"
    "connection_external_resource_id c = c_external_resource_id r"
    "c_status r = ConnectionStatus_value (connection_status c)"
    "connection_granted_capabilities c = capability_keys_from_record (c_granted_capabilities r)"
    "PlatformConnection_post_init c = Inr c"
proof -
  have plat: "c_platform r = Platform_value p" if "Platform_parse (c_platform r) = Some p" for p
    using enum_parse_Some [OF that [unfolded Platform_parse_def]] by simp
  have same: "y = x" if "PlatformConnection_post_init x = Inr y" for x y
    using that by (auto simp: PlatformConnection_post_init_def split: if_splits)
  show "connection_id c = c_id r" "connection_organization_id c = c_organization_id r"
    "c_platform r = Platform_value (connection_platform c)"
    "connection_external_resource_id c = c_external_resource_id r"
    "c_status r = ConnectionStatus_value (connection_status c)"
    "connection_granted_capabilities c = capability_keys_from_record (c_granted_capabilities r)"
    "PlatformConnection_post_init c = Inr c"
    using assms
    by (auto simp: connection_from_record_def plat split: option.splits
        dest!: ConnectionStatus_parse_Some dest: same)
qed

lemma connection_from_updated_record:
  assumes "connection_from_record r = Some c"
  shows "connection_from_record
      (r\<lparr>c_status := ConnectionStatus_value st, c_status_reason := map_option ConnectionStatusReason_value why\<rparr>)
    = Some (c\<lparr>connection_status := st, connection_status_reason := why\<rparr>)"
proof -
  have why: "status_reason_parse (map_option ConnectionStatusReason_value why) = Some why"
    by (cases why) (simp_all add: status_reason_parse_def)
  note f = connection_from_record_fields [OF assms]
  have "PlatformConnection_post_init (c\<lparr>connection_status := st, connection_status_reason := why\<rparr>)
    = Inr (c\<lparr>connection_status := st, connection_status_reason := why\<rparr>)"
    using f(7) by (auto simp: PlatformConnection_post_init_def split: if_splits)
  then show ?thesis
    unfolding connection_from_record_def
    by (cases c) (use f in \<open>simp add: why del: Platform_value.simps ConnectionStatus_value.simps\<close>)
qed

lemma connection_row_unique:
  assumes "db_ok s" and "r \<in> set (platform_connections s)" and "q \<in> set (platform_connections s)"
    and "c_id q = c_id r"
  shows "q = r"
  using assms by (auto simp: db_ok_def connections_ok_def distinct_map dest: inj_onD)

lemma find_connection_hit:
  assumes "db_ok s" and "r \<in> set (platform_connections s)"
    and "c_organization_id r = org" and "c_id r = cid"
  shows "find_connection_for_organization org cid s = (Inr (connection_from_record r), s)"
proof -
  have "distinct (map c_id (platform_connections s))"
    using assms(1) by (simp add: db_ok_def connections_ok_def)
  then show ?thesis
    using assms(2-4)
    by (simp add: find_connection_for_organization_def tries_def find_one_hit [where k = c_id])
qed

lemma find_connection_row:
  assumes "fst (find_connection_for_organization org cid s) = Inr (Some c)"
  obtains r where "r \<in> set (platform_connections s)" "c_organization_id r = org" "c_id r = cid"
    "connection_from_record r = Some c"
  using assms
  by (auto simp: find_connection_for_organization_def tries_def dest!: find_one_SomeD)

lemma silent_snd: "silent m \<Longrightarrow> snd (m s) = s"
  by (metis prod.collapse silentD)

lemmas connection_reader_states [simp] =
  silent_connection_readers [THEN silent_snd] silent_authorize [THEN silent_snd]

lemmas connection_reader_outcomes = session_reader_outcomes
  silent_connection_readers [THEN silent_outcome] silent_authorize [THEN silent_outcome]


section \<open>Effects of the writers\<close>

definition idempotency_row ::
  "PlatformConnection \<Rightarrow> string \<Rightarrow> string \<Rightarrow> PlatformConnectionLifecycleIdempotencyRecord" where
  "idempotency_row c key action =
     \<lparr>k_organization_id = connection_organization_id c, k_idempotency_key = key,
      k_connection_id = connection_id c, k_action = action,
      k_result_status = ConnectionStatus_value (connection_status c),
      k_result_reason = map_option ConnectionStatusReason_value (connection_status_reason c)\<rparr>"

abbreviation status_updated ::
  "PlatformConnection \<Rightarrow> PlatformConnectionRecord list \<Rightarrow> PlatformConnectionRecord list" where
  "status_updated c rows \<equiv> update_rows
     (\<lambda>r. c_id r = connection_id c \<and> c_organization_id r = connection_organization_id c)
     (\<lambda>r. r\<lparr>c_status := ConnectionStatus_value (connection_status c),
            c_status_reason := map_option ConnectionStatusReason_value (connection_status_reason c)\<rparr>) rows"

lemma update_status_True:
  assumes "update_status d c e key action s = (Inr True, t)"
  shows "t = s\<lparr>platform_connections := status_updated c (platform_connections s),
      platform_connection_lifecycle_idempotency := platform_connection_lifecycle_idempotency s @
        (case (key, action) of (Some k, Some a) \<Rightarrow> [idempotency_row c k a] | _ \<Rightarrow> []),
      audit_events := audit_events s @ [audit_record d e]\<rparr>"
  using assms
  by (auto simp: update_status_def outcomes update_connections_def inserts idempotency_row_def
      split: option.splits if_splits)

lemma update_status_False: "db_ok s \<Longrightarrow> update_status d c e key action s = (Inr False, t) \<Longrightarrow> t = s"
  using reports_connection_writers(2) unfolding reports_def by blast

lemma update_status_raises: "update_status d c e key action s = (Inl x, t) \<Longrightarrow> False"
  by (auto simp: update_status_def outcomes update_connections_def inserts split: option.splits if_splits)

text \<open>
  An update of a connection as it is stored, to a status its present one may move to.
\<close>

lemma status_update_evolves:
  assumes ok: "db_ok s" and row: "r \<in> set (platform_connections s)" "connection_from_record r = Some c"
    and move: "transition_to c st why = Inr c'"
  shows "connections_evolve (platform_connections s) (status_updated c' (platform_connections s))"
proof (rule connections_evolve_update)
  from transition_to_Inr [OF move] have
    c': "c' = c\<lparr>connection_status := st, connection_status_reason := why\<rparr>"
    and step: "transitions (connection_status c) st" by simp_all
  note f = connection_from_record_fields [OF row(2)]
  fix q assume q: "q \<in> set (platform_connections s)"
    and "c_id q = connection_id c' \<and> c_organization_id q = connection_organization_id c'"
  then have "q = r"
    using connection_row_unique [OF ok row(1) q] f(1) c' by simp
  with step f(5) show "row_evolves q (q\<lparr>c_status := ConnectionStatus_value (connection_status c'),
      c_status_reason := map_option ConnectionStatusReason_value (connection_status_reason c')\<rparr>)"
    unfolding row_evolves_def by (auto simp: c' simp del: ConnectionStatus_value.simps)
qed

lemma connection_audit_event_Inr:
  "connection_audit_event i corr a org action cid = Inr e \<Longrightarrow>
     audit_action e = action \<and> audit_actor_id e = Some a \<and> audit_organization_id e = Some org
     \<and> audit_resource_id e = Some (uuid_str cid)"
  by (auto simp: connection_audit_event_def AuditEvent_post_init_def split: if_splits)

lemma lifecycle_transition_returns:
  assumes "lifecycle_transition io cmd key s = (Inr c, t)"
  obtains (kept) "fst (find_connection_for_organization (ml_organization_id cmd) (ml_connection_id cmd) s)
      = Inr (Some c)" "connection_status c = target_status (ml_action cmd)" "t = s"
  | (moved) current event where
    "fst (find_connection_for_organization (ml_organization_id cmd) (ml_connection_id cmd) s)
      = Inr (Some current)"
    "transition_to current (target_status (ml_action cmd)) (Some (status_reason (ml_action cmd))) = Inr c"
    "audit_action event = audit_action_name (ml_action cmd)" "audit_actor_id event = Some (ml_actor_id cmd)"
    "update_status (db_now io 0) c event key
       (map_option (\<lambda>_. lifecycle_action_value (ml_action cmd)) key) s = (Inr True, t)"
proof -
  have key: "(case key of None \<Rightarrow> None | Some _ \<Rightarrow> Some a) = map_option (\<lambda>_. a) key" for a :: string
    by (cases key) simp_all
  show thesis
    using assms unfolding lifecycle_transition_def lifecycle_rejected_def key
    by (auto simp: outcomes connection_reader_outcomes dest!: connection_audit_event_Inr intro: that)
qed

lemma lifecycle_replay_returns:
  assumes "lifecycle_replay cmd res s = (Inr c, t)"
  obtains current where "t = s"
    "fst (find_connection_for_organization (ml_organization_id cmd) (ml_connection_id cmd) s)
      = Inr (Some current)"
    "idem_connection_id res = ml_connection_id cmd"
    "idem_action res = lifecycle_action_value (ml_action cmd)"
    "c = current\<lparr>connection_status := idem_result_status res,
        connection_status_reason := idem_result_reason res, connection_granted_capabilities := []\<rparr>"
  using assms unfolding lifecycle_replay_def lifecycle_rejected_def
  by (auto simp: outcomes connection_reader_outcomes PlatformConnection_post_init_def split: if_splits
      intro: that)

text \<open>The life-cycle use case decomposed: allowed, and either a replay or a transition.\<close>

lemma ManageLifecycle_returns:
  assumes "ManagePlatformConnectionLifecycle_execute io cmd s = (Inr c, t)"
  obtains (replay) key res where
    "normalized_idempotency_key (ml_idempotency_key cmd) = Inr (Some key)"
    "fst (find_idempotent_lifecycle_result (ml_organization_id cmd) key s) = Inr (Some res)"
    "lifecycle_replay cmd res s = (Inr c, t)"
  | (transition) key where
    "normalized_idempotency_key (ml_idempotency_key cmd) = Inr key"
    "\<And>k. key = Some k \<Longrightarrow> fst (find_idempotent_lifecycle_result (ml_organization_id cmd) k s) = Inr None"
    "lifecycle_transition io cmd key s = (Inr c, t)"
  using assms unfolding ManagePlatformConnectionLifecycle_execute_def lifecycle_rejected_def
  by (auto simp: outcomes connection_reader_outcomes intro: that)

lemma ManageLifecycle_allowed:
  assumes "ManagePlatformConnectionLifecycle_execute io cmd s = (Inr c, t)"
  shows "fst (authorize get_membership (authorization_request (ml_actor_id cmd) (ml_organization_id cmd)
    PLATFORM_CONNECTIONS ACTION_MANAGE) s) = Inr \<lparr>allowed = True\<rparr>"
proof -
  from assms obtain d where "fst (authorize get_membership (authorization_request (ml_actor_id cmd)
      (ml_organization_id cmd) PLATFORM_CONNECTIONS ACTION_MANAGE) s) = Inr d" "allowed d"
    unfolding ManagePlatformConnectionLifecycle_execute_def lifecycle_rejected_def
    by (auto simp: outcomes connection_reader_outcomes)
  then show ?thesis by (cases d) simp
qed


section \<open>The law of the life cycle\<close>

lemma life_of_outcomes:
  assumes "obeys keeps_db_ok m" and "clean m"
    and "\<And>s x t. db_ok s \<Longrightarrow> m s = (Inr x, t) \<Longrightarrow>
      connections_evolve (platform_connections s) (platform_connections t)"
  shows "obeys keeps_lifecycle m"
proof (rule obeysI)
  fix s
  obtain r t where run: "m s = (r, t)" by fastforce
  have "connections_evolve (platform_connections s) (platform_connections t)" if "db_ok s"
  proof (cases r)
    case (Inl e)
    with run that assms(2) have "t = s" unfolding clean_def by blast
    then show ?thesis by simp
  next
    case (Inr x)
    with assms(3) [OF that] run show ?thesis by simp
  qed
  then show "keeps_lifecycle s (snd (m s))"
    using obeysD [OF assms(1), of s] run by (simp add: keeps_lifecycle_def)
qed

lemma life_connect: "obeys keeps_lifecycle (ConnectPlatformConnection_execute v io cmd)"
proof (rule life_of_outcomes [OF inv_connection_use_cases(1) clean_connection_use_cases(1)])
  fix s c t
  assume "ConnectPlatformConnection_execute v io cmd s = (Inr c, t)"
  then have "platform_connections t = platform_connections s @ [connection_record c]"
    unfolding ConnectPlatformConnection_execute_def Let_def
    by (auto simp: outcomes connection_reader_outcomes connection_create_def inserts)
  then show "connections_evolve (platform_connections s) (platform_connections t)"
    by (simp add: connections_evolve_append)
qed

lemma ManageLifecycle_connections:
  assumes ok: "db_ok s" and run: "ManagePlatformConnectionLifecycle_execute io cmd s = (Inr c, t)"
  shows "connections_evolve (platform_connections s) (platform_connections t)"
  using run
proof (cases rule: ManageLifecycle_returns)
  case (replay key res)
  from replay(3) have "t = s" by (rule lifecycle_replay_returns)
  then show ?thesis by simp
next
  case (transition key)
  from transition(3) show ?thesis
  proof (cases rule: lifecycle_transition_returns)
    case kept
    then show ?thesis by simp
  next
    case (moved current event)
    from moved(1) obtain r where "r \<in> set (platform_connections s)" "connection_from_record r = Some current"
      by (rule find_connection_row)
    from status_update_evolves [OF ok this moved(2)] update_status_True [OF moved(5)] show ?thesis
      by simp
  qed
qed

lemma life_manage: "obeys keeps_lifecycle (ManagePlatformConnectionLifecycle_execute io cmd)"
  by (rule life_of_outcomes [OF inv_connection_use_cases(2) clean_connection_use_cases(2)
      ManageLifecycle_connections])

subsection \<open>Reconciliation\<close>

text \<open>
  One decision applied to a connection as it is stored: either nothing happens and the pass counts
  it as skipped, or its status moves along the table and one audit row is written.
\<close>

lemma apply_decision_cases:
  assumes ok: "db_ok s" and row: "r \<in> set (platform_connections s)" "connection_from_record r = Some c"
    and run: "apply_decision io n actor corr c d s = (res, t)"
  obtains (skip) m where "res = Inr (False, m)" "t = s"
  | (move) m c' e where "res = Inr (True, m)" "transition_to c (decision_target_status d)
        (connection_status_reason c') = Inr c'" "audit_action e = ''platform_connection.reconciled''"
      "platform_connections t = status_updated c' (platform_connections s)"
      "audit_events t = audit_events s @ [audit_record (db_now io n) e]"
proof -
  have event: "\<exists>e. connection_audit_event i corr actor org ''platform_connection.reconciled'' cid = Inr e" for i org cid
    by (simp add: connection_audit_event_def AuditEvent_post_init_def py_strip_def py_isspace_def)
  show thesis
  proof (cases res)
    case (Inl x)
    with run event show ?thesis
      unfolding apply_decision_def
      by (auto simp: outcomes split: option.splits sum.splits if_splits dest!: update_status_raises)
         (metis Inr_Inl_False)
  next
    case (Inr x)
    obtain b m where x: "x = (b, m)" by fastforce
    show ?thesis
    proof (cases b)
      case False
      with run Inr x have "t = s"
        unfolding apply_decision_def
        by (auto simp: outcomes split: option.splits sum.splits if_splits
            dest!: update_status_False [OF ok])
      with False Inr x show ?thesis by (intro skip) simp_all
    next
      case True
      with run Inr x obtain reason c' e where
        moved: "transition_to c (decision_target_status d) (Some reason) = Inr c'"
        and e: "connection_audit_event (new_id io n) corr actor (connection_organization_id c)
          ''platform_connection.reconciled'' (connection_id c) = Inr e"
        and upd: "update_status (db_now io n) c' e None None s = (Inr True, t)"
        unfolding apply_decision_def
        by (auto simp: outcomes split: option.splits sum.splits if_splits)
      from transition_to_Inr [OF moved] have "connection_status_reason c' = Some reason" by simp
      with moved have "transition_to c (decision_target_status d) (connection_status_reason c') = Inr c'"
        by simp
      with update_status_True [OF upd] connection_audit_event_Inr [OF e] True Inr x show ?thesis
        by (intro move [of m c' e]) simp_all
    qed
  qed
qed


lemma distinct_insert_by: "distinct (map k (insert_by le x ys)) \<longleftrightarrow> distinct (map k (x # ys))"
  by (induction ys) auto

lemma order_by_simps [simp]:
  "order_by le [] = []" "order_by le (r # rows) = insert_by le r (order_by le rows)"
  by (simp_all add: order_by_def)

lemma distinct_order_by: "distinct (map k (order_by le rows)) \<longleftrightarrow> distinct (map k rows)"
  by (induction rows) (simp_all add: distinct_insert_by)

lemma distinct_map_map_filter:
  assumes "distinct (map k rows)" and "\<And>r x. f r = Some x \<Longrightarrow> h x = k r"
  shows "distinct (map h (List.map_filter f rows))"
  using assms(1)
proof (induction rows)
  case (Cons r rows)
  have "h x \<noteq> k r" if "x \<in> set (List.map_filter f rows)" for x
    using that Cons.prems assms(2) by (force simp: List.map_filter_def)
  note ne = this
  have "h y \<notin> h ` set (List.map_filter f rows)" if "f r = Some y" for y
  proof
    assume "h y \<in> h ` set (List.map_filter f rows)"
    then obtain x where "x \<in> set (List.map_filter f rows)" "h x = h y" by auto
    with ne [of x] assms(2) [OF that] show False by simp
  qed
  with Cons show ?case
    by (simp add: List.map_filter_simps split: option.split)
qed (simp add: List.map_filter_simps)

lemma list_reconcilable_stored:
  assumes "db_ok s" and "list_reconcilable n s = (Inr cs, t)"
  shows "t = s" "length cs \<le> n" "distinct (map connection_id cs)"
    "\<And>c. c \<in> set cs \<Longrightarrow> \<exists>r \<in> set (platform_connections s). connection_from_record r = Some c
       \<and> connection_status c \<noteq> CONN_DISCONNECTED"
proof -
  let ?L = "order_by (\<lambda>x y. c_id x \<le> c_id y)
    (filter (\<lambda>r. c_status r \<noteq> ConnectionStatus_value CONN_DISCONNECTED) (platform_connections s))"
  have cs: "cs = List.map_filter connection_from_record (take n ?L)" and "t = s"
    using assms(2) by (auto simp: list_reconcilable_def outcomes)
  then show "t = s" by simp
  show "length cs \<le> n"
    unfolding cs List.map_filter_def
    by (simp add: order.trans [OF length_filter_le])
  have "distinct (map c_id ?L)"
    using assms(1) by (simp add: distinct_order_by distinct_map_filter db_ok_def connections_ok_def)
  then have "distinct (map c_id (take n ?L))"
    by (simp flip: take_map)
  then show "distinct (map connection_id cs)"
    unfolding cs by (rule distinct_map_map_filter) (simp add: connection_from_record_fields)
  show "\<exists>r \<in> set (platform_connections s). connection_from_record r = Some c
       \<and> connection_status c \<noteq> CONN_DISCONNECTED" if "c \<in> set cs" for c
  proof -
    from that obtain r where r: "r \<in> set (take n ?L)" "connection_from_record r = Some c"
      by (auto simp: cs List.map_filter_def)
    have "r \<in> set ?L" by (rule in_set_takeD [OF r(1)])
    with r(2) connection_from_record_fields(5) [OF r(2)] show ?thesis
      by (auto simp del: ConnectionStatus_value.simps)
  qed
qed

lemma transition_to_ids: "transition_to c st why = Inr c' \<Longrightarrow> connection_id c' = connection_id c"
  by (drule transition_to_Inr) auto

lemma status_updated_keeps_others:
  assumes "r \<in> set rows" and "c_id r \<noteq> connection_id c"
  shows "r \<in> set (status_updated c rows)"
  using assms by (force simp: set_update_rows)

lemma reconcile_loop_effect:
  assumes "db_ok s" and "distinct (map connection_id cs)"
    and "\<forall>c \<in> set cs. \<exists>r \<in> set (platform_connections s). connection_from_record r = Some c"
    and "reconcile_loop probes io cmd n res cs s = (out, t)"
  shows "connections_evolve (platform_connections s) (platform_connections t)
    \<and> (\<forall>res'. out = Inr res' \<longrightarrow> inspected res' = inspected res + length cs
        \<and> changed res' + skipped res' = changed res + skipped res + length cs
        \<and> length (audit_events t) + changed res = length (audit_events s) + changed res')"
  using assms
proof (induction cs arbitrary: n res s)
  case Nil
  then show ?case by (auto simp: outcomes)
next
  case (Cons c cs)
  from Cons.prems(3) obtain r where r: "r \<in> set (platform_connections s)" "connection_from_record r = Some c"
    by auto
  have rest: "distinct (map connection_id cs)"
    "\<forall>c \<in> set cs. \<exists>r \<in> set (platform_connections s). connection_from_record r = Some c"
    using Cons.prems(2,3) by simp_all
  show ?case
  proof (cases "probes (Platform_value (connection_platform c))")
    case None
    with Cons.prems(4) have
      "reconcile_loop probes io cmd n (res\<lparr>inspected := inspected res + 1, skipped := skipped res + 1\<rparr>) cs s
        = (out, t)"
      by (simp add: Let_def)
    note Cons.IH [OF Cons.prems(1) rest this]
    then show ?thesis
      by (cases out) simp_all
  next
    case (Some probe)
    show ?thesis
    proof (cases "decide probe c (rc_correlation_id cmd)")
      case (Inl e)
      with Some Cons.prems(4) show ?thesis
        by (auto simp: Let_def effects construct_def)
    next
      case (Inr d)
      obtain w u where run: "apply_decision io n (rc_system_actor_id cmd) (rc_correlation_id cmd) c d s = (w, u)"
        by fastforce
      from Cons.prems(1) r run show ?thesis
      proof (cases rule: apply_decision_cases)
        case (skip m)
        with Some Inr run Cons.prems(4)
        have "reconcile_loop probes io cmd m
            (res\<lparr>inspected := inspected res + 1, skipped := skipped res + 1\<rparr>) cs s = (out, t)"
          by (simp add: Let_def effects construct_def)
        note Cons.IH [OF Cons.prems(1) rest this]
        then show ?thesis
          by (cases out) simp_all
      next
        case (move m c' e)
        with Some Inr run Cons.prems(4)
        have loop: "reconcile_loop probes io cmd m
            (res\<lparr>inspected := inspected res + 1, changed := changed res + 1\<rparr>) cs u = (out, t)"
          by (simp add: Let_def effects construct_def)
        have "snd (reconcile_loop probes io cmd n res [c] s) = u"
          using Some Inr run move(1) by (simp add: Let_def effects construct_def)
        with obeysD [OF inv_reconcile_loop, of s probes io cmd n res "[c]"] Cons.prems(1)
        have ok': "db_ok u" by simp
        have "connection_id c' = connection_id c"
          using move(2) by (rule transition_to_ids)
        then have stored: "\<exists>r \<in> set (platform_connections u). connection_from_record r = Some c2"
          if "c2 \<in> set cs" for c2
        proof -
          from Cons.prems(3) that obtain q where
            q: "q \<in> set (platform_connections s)" "connection_from_record q = Some c2" by auto
          have "c_id q \<noteq> connection_id c'"
            using distinct_key_Cons [OF Cons.prems(2) that] connection_from_record_fields(1) [OF q(2)]
              \<open>connection_id c' = connection_id c\<close> by simp
          from status_updated_keeps_others [OF q(1) this] q(2) show ?thesis
            unfolding move(4) by blast
        qed
        note ih = Cons.IH [OF ok' rest(1) _ loop]
        have "connections_evolve (platform_connections s) (platform_connections u)"
          unfolding move(4) by (rule status_update_evolves [OF Cons.prems(1) r move(2)])
        moreover have "connections_evolve (platform_connections u) (platform_connections t)"
          using ih stored by blast
        ultimately have "connections_evolve (platform_connections s) (platform_connections t)"
          by (rule connections_evolve_trans)
        then show ?thesis
          using conjunct2 [OF ih] stored move(5) by (cases out) simp_all
      qed
    qed
  qed
qed

lemma reconcile_effect:
  assumes ok: "db_ok s" and run: "ReconcilePlatformConnections_execute probes io cmd s = (out, t)"
  obtains n where "n \<le> rc_limit cmd"
    "connections_evolve (platform_connections s) (platform_connections t)"
    "\<And>res. out = Inr res \<Longrightarrow> inspected res = n \<and> changed res + skipped res = n
       \<and> length (audit_events t) = length (audit_events s) + changed res"
proof -
  obtain cs where cs: "list_reconcilable (rc_limit cmd) s = (Inr cs, s)"
    by (simp add: list_reconcilable_def reads_def)
  with run have loop: "reconcile_loop probes io cmd 0 \<lparr>inspected = 0, changed = 0, skipped = 0\<rparr> cs s = (out, t)"
    by (simp add: ReconcilePlatformConnections_execute_def effects)
  note stored = list_reconcilable_stored [OF ok cs]
  from reconcile_loop_effect [OF ok stored(3) _ loop] stored(2,4) show thesis
    by (intro that [of "length cs"]) auto
qed

lemma life_reconcile: "obeys keeps_lifecycle (ReconcilePlatformConnections_execute probes io cmd)"
  using obeysD [OF inv_connection_use_cases(3)]
  by (intro obeysI) (auto simp: keeps_lifecycle_def elim: reconcile_effect [OF _ prod.collapse [symmetric]])

end
