(* ===== verification/Connection_Properties.thy ===== *)
theory Connection_Properties
  imports Connection_Lifecycle
begin

text \<open>
  The properties of connecting, the life cycle, reconciliation and the paginated listings.
\<close>

lemmas connection_evaluation = session_evaluation connection_repository connection_use_cases
  authorization_request_def authorize_def deny_def membership_allows_def
  role_supports_pair_def role_supports_def scope_allows_def
  connection_audit_event_def connection_record_def connection_from_record_def status_reason_parse_def
  capability_keys_from_record_def jsonb_object_def transition_to_def normalized_idempotency_key_def
  audit_action_name_def PlatformConnectionLifecycleIdempotencyResult_post_init_def

section \<open>Connecting\<close>

lemma jsonb_capabilities:
  "jsonb_object (map (\<lambda>k. (k, True)) (capability_keys_for_platform p)) =
     map (\<lambda>k. (k, True)) (capability_keys_for_platform p)"
  by (cases p) (simp_all add: jsonb_object_def order_by_def jsonb_key_le_def)

lemma capability_keys_roundtrip:
  "capability_keys_from_record (map (\<lambda>k. (k, True)) (capability_keys_for_platform p)) =
     capability_keys_for_platform p"
  by (cases p) (simp_all add: capability_keys_from_record_def py_strip_eq_Nil_iff py_isspace_def)

lemma new_connection_roundtrip:
  assumes "PlatformConnection_post_init c = Inr c"
    and "connection_granted_capabilities c = capability_keys_for_platform (connection_platform c)"
  shows "connection_from_record (connection_record c) = Some c"
proof -
  have "status_reason_parse (map_option ConnectionStatusReason_value why) = Some why" for why
    by (cases why) (simp_all add: status_reason_parse_def)
  then show ?thesis
    using assms by (cases c) (simp add: connection_from_record_def connection_record_def
        jsonb_capabilities capability_keys_roundtrip
        del: Platform_value.simps ConnectionStatus_value.simps capability_keys_for_platform.simps)
qed

text \<open>
  C15: A connection is created only for an actor whom the authorizer allows to manage platform
  connections and after the platform's verifier confirmed the resource; it starts pending with the
  capabilities of its platform, exactly one connection row and one audit row are appended, and it
  reads back as returned.
\<close>

theorem connect_correct:
  assumes "db_ok s" and "ConnectPlatformConnection_execute verifier io cmd s = (Inr c, t)"
  shows "fst (authorize get_membership (authorization_request (cc_actor_id cmd) (cc_organization_id cmd)
        PLATFORM_CONNECTIONS ACTION_MANAGE) s) = Inr \<lparr>allowed = True\<rparr>
    \<and> verifier (cc_actor_id cmd) (cc_organization_id cmd) (cc_platform cmd)
        (py_strip (cc_external_resource_id cmd)) (cc_correlation_id cmd) = Inr True
    \<and> connection_status c = CONN_PENDING
    \<and> platform_connections t = platform_connections s @ [connection_record c]
    \<and> (\<exists>e. audit_events t = audit_events s @ [e] \<and> a_action e = ''platform_connection.connect''
         \<and> a_actor_id e = Some (cc_actor_id cmd) \<and> a_resource_id e = Some (uuid_str (connection_id c)))
    \<and> find_connection_for_organization (cc_organization_id cmd) (connection_id c) t = (Inr (Some c), t)"
proof -
  have same: "y = x" if "PlatformConnection_post_init x = Inr y" for x y
    using that by (auto simp: PlatformConnection_post_init_def split: if_splits)
  from assms(2) obtain d event where
    d: "fst (authorize get_membership (authorization_request (cc_actor_id cmd) (cc_organization_id cmd)
        PLATFORM_CONNECTIONS ACTION_MANAGE) s) = Inr d" "allowed d"
    and verified: "verifier (cc_actor_id cmd) (cc_organization_id cmd) (cc_platform cmd)
        (py_strip (cc_external_resource_id cmd)) (cc_correlation_id cmd) = Inr True"
    and c: "PlatformConnection_post_init
        \<lparr>connection_id = new_id io 0, connection_organization_id = cc_organization_id cmd,
         connection_platform = cc_platform cmd,
         connection_external_resource_id = py_strip (cc_external_resource_id cmd),
         connection_status = CONN_PENDING, connection_status_reason = Some INITIAL_PENDING,
         connection_granted_capabilities = capability_keys_for_platform (cc_platform cmd)\<rparr> = Inr c"
    and event: "connection_audit_event (new_id io 1) (cc_correlation_id cmd) (cc_actor_id cmd)
        (cc_organization_id cmd) ''platform_connection.connect'' (connection_id c) = Inr event"
    and t: "platform_connections t = platform_connections s @ [connection_record c]"
      "audit_events t = audit_events s @ [audit_record (db_now io 0) event]"
    unfolding ConnectPlatformConnection_execute_def Let_def
    by (auto simp: outcomes connection_reader_outcomes connection_create_def inserts)
  note c_eq = same [OF c]
  have "connection_from_record (connection_record c) = Some c"
    using c by (intro new_connection_roundtrip) (simp_all add: c_eq)
  moreover have "db_ok t"
    using obeysD [OF inv_connection_use_cases(1), of s verifier io cmd] assms by simp
  ultimately have "find_connection_for_organization (cc_organization_id cmd) (connection_id c) t = (Inr (Some c), t)"
    using find_connection_hit [of t "connection_record c"] by (simp add: t connection_record_def c_eq)
  moreover have "d = \<lparr>allowed = True\<rparr>"
    using d(2) by (cases d) simp
  ultimately show ?thesis
    using d verified t connection_audit_event_Inr [OF event] by (simp add: audit_record_def c_eq)
qed

theorem connect_correct_witness:
  "\<exists>c t. ConnectPlatformConnection_execute (\<lambda>_ _ _ _ _. Inr True) sample_io
     \<lparr>cc_actor_id = 2, cc_organization_id = 100, cc_platform = TWITCH,
      cc_external_resource_id = '' channel '', cc_correlation_id = 9\<rparr> sample = (Inr c, t)
     \<and> length (platform_connections t) = 2 \<and> connection_status c = CONN_PENDING"
  (is "\<exists>c t. ?exec sample = _ \<and> _")
proof -
  have "\<exists>x. fst (?exec sample) = Inr x"
    by (simp add: connection_evaluation py_strip_def)
  then obtain c t where run: "?exec sample = (Inr c, t)"
    by (rule returns)
  from connect_correct [OF sample_ok run] run show ?thesis
    by (intro exI [of _ c] exI [of _ t]) (simp add: sample_def)
qed

section \<open>The life cycle\<close>

lemma ManageLifecycle_effect:
  assumes "db_ok s" and "ManagePlatformConnectionLifecycle_execute io cmd s = (Inr c, t)"
    and "\<And>k. normalized_idempotency_key (ml_idempotency_key cmd) = Inr (Some k) \<Longrightarrow>
      fst (find_idempotent_lifecycle_result (ml_organization_id cmd) k s) = Inr None"
  shows "fst (authorize get_membership (authorization_request (ml_actor_id cmd) (ml_organization_id cmd)
      PLATFORM_CONNECTIONS ACTION_MANAGE) s) = Inr \<lparr>allowed = True\<rparr>
    \<and> connection_status c = target_status (ml_action cmd)
    \<and> find_connection_for_organization (ml_organization_id cmd) (ml_connection_id cmd) t = (Inr (Some c), t)
    \<and> (t = s \<or>
       (\<exists>current e. fst (find_connection_for_organization (ml_organization_id cmd) (ml_connection_id cmd) s)
          = Inr (Some current)
        \<and> target_status (ml_action cmd) \<in> set (ALLOWED_TRANSITIONS (connection_status current))
        \<and> filter (\<lambda>r. c_id r \<noteq> ml_connection_id cmd) (platform_connections t) =
           filter (\<lambda>r. c_id r \<noteq> ml_connection_id cmd) (platform_connections s)
        \<and> audit_events t = audit_events s @ [e] \<and> a_action e = audit_action_name (ml_action cmd)
        \<and> a_actor_id e = Some (ml_actor_id cmd)))"
proof -
  note allowed = ManageLifecycle_allowed [OF assms(2)]
  have ok: "db_ok t"
    using obeysD [OF inv_connection_use_cases(2), of s io cmd] assms(1,2) by simp
  from assms(2) show ?thesis
  proof (cases rule: ManageLifecycle_returns)
    case (replay key res)
    with assms(3) [of key] show ?thesis by simp
  next
    case (transition key)
    from transition(3) show ?thesis
    proof (cases rule: lifecycle_transition_returns)
      case kept
      with allowed show ?thesis by (simp add: connection_reader_outcomes)
    next
      case (moved current event)
      from moved(1) obtain r where r: "r \<in> set (platform_connections s)"
        "c_organization_id r = ml_organization_id cmd" "c_id r = ml_connection_id cmd"
        "connection_from_record r = Some current" by (rule find_connection_row)
      note f = connection_from_record_fields [OF r(4)]
      from transition_to_Inr [OF moved(2)] have
        c: "c = current\<lparr>connection_status := target_status (ml_action cmd),
          connection_status_reason := Some (status_reason (ml_action cmd))\<rparr>"
        and allowed_move: "target_status (ml_action cmd) \<in> set (ALLOWED_TRANSITIONS (connection_status current))"
        by simp_all
      note t = update_status_True [OF moved(5)]
      let ?q = "r\<lparr>c_status := ConnectionStatus_value (connection_status c),
        c_status_reason := map_option ConnectionStatusReason_value (connection_status_reason c)\<rparr>"
      have "?q \<in> set (platform_connections t)"
        using r(1) f(1,2) by (auto simp: t c set_update_rows intro!: bexI [of _ r])
      from find_connection_hit [OF ok this] r(2,3)
        connection_from_updated_record [OF r(4), where st = "connection_status c" and why = "connection_status_reason c"]
      have found: "find_connection_for_organization (ml_organization_id cmd) (ml_connection_id cmd) t = (Inr (Some c), t)"
        by (simp add: c)
      have "filter (\<lambda>r. c_id r \<noteq> ml_connection_id cmd) (platform_connections t) =
           filter (\<lambda>r. c_id r \<noteq> ml_connection_id cmd) (platform_connections s)"
        using r(3) f(1) by (simp add: t) (rule filter_update_rows; simp add: c)
      with allowed allowed_move found moved show ?thesis
        by (auto simp: t c audit_record_def)
    qed
  qed
qed


text \<open>
  C16: A life-cycle action needs the permission to manage platform connections. When it is not the
  replay of a recorded key, the returned connection is in the action's target status; either it
  was already and nothing is written, or the transition table allows the move, only that
  connection's row changes, one audit row is appended, and the connection reads back as returned.
\<close>

theorem lifecycle_correct:
  assumes "db_ok s" and "ManagePlatformConnectionLifecycle_execute io cmd s = (Inr c, t)"
    and "\<And>k. normalized_idempotency_key (ml_idempotency_key cmd) = Inr (Some k) \<Longrightarrow>
      fst (find_idempotent_lifecycle_result (ml_organization_id cmd) k s) = Inr None"
  shows "fst (authorize get_membership (authorization_request (ml_actor_id cmd) (ml_organization_id cmd)
      PLATFORM_CONNECTIONS ACTION_MANAGE) s) = Inr \<lparr>allowed = True\<rparr>
    \<and> connection_status c = target_status (ml_action cmd)
    \<and> find_connection_for_organization (ml_organization_id cmd) (ml_connection_id cmd) t = (Inr (Some c), t)
    \<and> (t = s \<or>
       (\<exists>current e. fst (find_connection_for_organization (ml_organization_id cmd) (ml_connection_id cmd) s)
          = Inr (Some current)
        \<and> target_status (ml_action cmd) \<in> set (ALLOWED_TRANSITIONS (connection_status current))
        \<and> filter (\<lambda>r. c_id r \<noteq> ml_connection_id cmd) (platform_connections t) =
           filter (\<lambda>r. c_id r \<noteq> ml_connection_id cmd) (platform_connections s)
        \<and> audit_events t = audit_events s @ [e] \<and> a_action e = audit_action_name (ml_action cmd)
        \<and> a_actor_id e = Some (ml_actor_id cmd)))"
  using assms by (rule ManageLifecycle_effect)

theorem lifecycle_correct_witness:
  "\<exists>c t. ManagePlatformConnectionLifecycle_execute sample_io
     \<lparr>ml_actor_id = 2, ml_organization_id = 100, ml_connection_id = 70, ml_action = DISCONNECT,
      ml_correlation_id = 9, ml_idempotency_key = Some '' key-1 ''\<rparr> sample = (Inr c, t)
     \<and> find_connection_for_organization 100 70 t = (Inr (Some c), t)
     \<and> connection_status c = CONN_DISCONNECTED"
  (is "\<exists>c t. ?exec sample = _ \<and> _")
proof -
  have "\<exists>x. fst (?exec sample) = Inr x"
    by (simp add: connection_evaluation py_strip_def)
  then obtain c t where run: "?exec sample = (Inr c, t)"
    by (rule returns)
  have "fst (find_idempotent_lifecycle_result 100 k sample) = Inr None" for k
    by (simp add: find_idempotent_lifecycle_result_def tries_def find_one_def sample_defs)
  with lifecycle_correct [OF sample_ok run] run show ?thesis
    by (intro exI [of _ c] exI [of _ t]) simp
qed

text \<open>A recorded key is found again, with the status it was recorded with.\<close>

lemma recorded_key_found:
  assumes ok: "db_ok s" and row: "idempotency_row c k a \<in> set (platform_connection_lifecycle_idempotency s)"
    and org: "connection_organization_id c = org" and action: "py_strip a \<noteq> []"
  shows "find_idempotent_lifecycle_result org k s = (Inr (Some
    \<lparr>idem_organization_id = org, idem_connection_id = connection_id c, idem_action = a,
     idem_result_status = connection_status c, idem_result_reason = connection_status_reason c\<rparr>), s)"
proof -
  let ?k = "\<lambda>r. (k_organization_id r, k_idempotency_key r)"
  have "distinct (map ?k (platform_connection_lifecycle_idempotency s))"
    using ok by (simp add: db_ok_def idempotency_ok_def)
  moreover have "status_reason_parse (map_option ConnectionStatusReason_value why) = Some why" for why
    by (cases why) (simp_all add: status_reason_parse_def)
  ultimately show ?thesis
    unfolding find_idempotent_lifecycle_result_def tries_def
    using row org action
    by (subst find_one_hit [where k = ?k and r = "idempotency_row c k a"])
      (simp_all add: idempotency_row_def PlatformConnectionLifecycleIdempotencyResult_post_init_def
        del: ConnectionStatus_value.simps)
qed

lemma lifecycle_action_value_not_blank [simp]: "py_strip (lifecycle_action_value a) \<noteq> []"
  by (cases a) (simp_all add: py_strip_eq_Nil_iff py_isspace_def)

lemma authorize_cong:
  assumes "organization_memberships t = organization_memberships s"
    and "membership_resource_scopes t = membership_resource_scopes s"
  shows "fst (authorize get_membership req t) = fst (authorize get_membership req s)"
proof -
  have "fst (get_membership a org t) = fst (get_membership a org s)" for a org
  proof -
    have "scopes_of t = scopes_of s"
      using assms(2) by (simp add: scopes_of_def fun_eq_iff)
    then show ?thesis
      using assms(1) by (simp add: get_membership_def tries_def)
  qed
  then show ?thesis
    by (simp add: authorize_def get_membership_def effects split: sum.split option.split)
qed


lemma lifecycle_retry_moved:
  assumes ok: "db_ok s" and run: "ManagePlatformConnectionLifecycle_execute io cmd s = (Inr c, t)"
    and moved: "lifecycle_transition io cmd key s = (Inr c, t)" "t \<noteq> s"
    and key: "normalized_idempotency_key (ml_idempotency_key cmd) = Inr key"
    and found: "find_connection_for_organization (ml_organization_id cmd) (ml_connection_id cmd) t = (Inr (Some c), t)"
    and allowed: "fst (authorize get_membership (authorization_request (ml_actor_id cmd)
      (ml_organization_id cmd) PLATFORM_CONNECTIONS ACTION_MANAGE) t) = Inr \<lparr>allowed = True\<rparr>"
    and target: "connection_status c = target_status (ml_action cmd)"
  shows "ManagePlatformConnectionLifecycle_execute io2 cmd t =
    (Inr (if key = None then c else c\<lparr>connection_granted_capabilities := []\<rparr>), t)"
proof -
  have auth: "authorize get_membership (authorization_request (ml_actor_id cmd)
      (ml_organization_id cmd) PLATFORM_CONNECTIONS ACTION_MANAGE) t = (Inr \<lparr>allowed = True\<rparr>, t)"
    using allowed by (simp add: connection_reader_outcomes)
  from moved(1) show ?thesis
  proof (cases rule: lifecycle_transition_returns)
    case kept
    with moved(2) show ?thesis by simp
  next
    case (moved current event)
    show ?thesis
    proof (cases key)
      case None
      then show ?thesis
        using auth key found target
        by (simp add: ManagePlatformConnectionLifecycle_execute_def lifecycle_transition_def effects construct_def)
    next
      case (Some k)
      from found obtain r where "c_organization_id r = ml_organization_id cmd" "c_id r = ml_connection_id cmd"
        "connection_from_record r = Some c"
        using find_connection_row [of "ml_organization_id cmd" "ml_connection_id cmd" t c] by auto
      with connection_from_record_fields have
        ids: "connection_organization_id c = ml_organization_id cmd" "connection_id c = ml_connection_id cmd"
        and valid: "PlatformConnection_post_init c = Inr c" by metis+
      have "db_ok t"
        using obeysD [OF inv_connection_use_cases(2), of s io cmd] ok run by simp
      moreover have "idempotency_row c k (lifecycle_action_value (ml_action cmd))
          \<in> set (platform_connection_lifecycle_idempotency t)"
        using update_status_True [OF moved(5)] Some by simp
      ultimately have "find_idempotent_lifecycle_result (ml_organization_id cmd) k t = (Inr (Some
        \<lparr>idem_organization_id = ml_organization_id cmd, idem_connection_id = connection_id c,
         idem_action = lifecycle_action_value (ml_action cmd),
         idem_result_status = connection_status c, idem_result_reason = connection_status_reason c\<rparr>), t)"
        using ids by (intro recorded_key_found) simp_all
      moreover have "PlatformConnection_post_init (c\<lparr>connection_granted_capabilities := []\<rparr>)
          = Inr (c\<lparr>connection_granted_capabilities := []\<rparr>)"
        using valid by (auto simp: PlatformConnection_post_init_def split: if_splits)
      ultimately show ?thesis
        using auth key found Some ids
        by (cases c) (simp add: ManagePlatformConnectionLifecycle_execute_def lifecycle_replay_def effects construct_def)
    qed
  qed
qed


text \<open>
  C17: Repeating a life-cycle request is harmless: when a request returned a connection, the same
  request sent again succeeds, writes nothing and returns the same connection, except that the
  replay of a recorded key returns it without its granted capabilities.
\<close>

theorem lifecycle_retry:
  assumes "db_ok s" and "ManagePlatformConnectionLifecycle_execute io cmd s = (Inr c, t)"
  shows "\<exists>c'. ManagePlatformConnectionLifecycle_execute io2 cmd t = (Inr c', t)
    \<and> c' \<in> {c, c\<lparr>connection_granted_capabilities := []\<rparr>}"
  using assms(2)
proof (cases rule: ManageLifecycle_returns)
  case (replay key res)
  from replay(3) have "t = s" by (rule lifecycle_replay_returns)
  with replay ManageLifecycle_allowed [OF assms(2)] show ?thesis
    by (simp add: ManagePlatformConnectionLifecycle_execute_def effects construct_def)
next
  case (transition key)
  have new: "\<And>k. normalized_idempotency_key (ml_idempotency_key cmd) = Inr (Some k) \<Longrightarrow>
      fst (find_idempotent_lifecycle_result (ml_organization_id cmd) k s) = Inr None"
    using transition(1,2) by simp
  note eff = ManageLifecycle_effect [OF assms new]
  from transition(3) show ?thesis
  proof (cases rule: lifecycle_transition_returns)
    case kept
    have "ManagePlatformConnectionLifecycle_execute io2 cmd s = (Inr c, s)"
      using kept(1,2) transition(1,2) ManageLifecycle_allowed [OF assms(2)]
      by (cases key) (simp_all add: ManagePlatformConnectionLifecycle_execute_def lifecycle_transition_def
          effects construct_def)
    with kept(3) show ?thesis by simp
  next
    case (moved current event)
    note t = update_status_True [OF moved(5)]
    then have "audit_events t = audit_events s @ [audit_record (db_now io 0) event]" by simp
    then have "t \<noteq> s" by auto
    moreover have "fst (authorize get_membership req t) = fst (authorize get_membership req s)" for req
      by (rule authorize_cong) (simp_all add: t)
    ultimately show ?thesis
      using lifecycle_retry_moved [OF assms transition(3) _ transition(1)] eff ManageLifecycle_allowed [OF assms(2)]
      by simp
  qed
qed

theorem lifecycle_retry_witness:
  "\<exists>c t. ManagePlatformConnectionLifecycle_execute sample_io
     \<lparr>ml_actor_id = 2, ml_organization_id = 100, ml_connection_id = 70, ml_action = REVOKE,
      ml_correlation_id = 9, ml_idempotency_key = Some ''key-1''\<rparr> sample = (Inr c, t)
     \<and> snd (ManagePlatformConnectionLifecycle_execute sample_io
     \<lparr>ml_actor_id = 2, ml_organization_id = 100, ml_connection_id = 70, ml_action = REVOKE,
      ml_correlation_id = 9, ml_idempotency_key = Some ''key-1''\<rparr> t) = t"
  (is "\<exists>c t. ?exec sample = _ \<and> _")
proof -
  have "\<exists>x. fst (?exec sample) = Inr x"
    by (simp add: connection_evaluation py_strip_def)
  then obtain c t where run: "?exec sample = (Inr c, t)"
    by (rule returns)
  from lifecycle_retry [OF sample_ok run, of sample_io] run show ?thesis
    by (intro exI [of _ c] exI [of _ t]) auto
qed

text \<open>
  The status update of reconciliation overwrites whatever is stored: when a pass read a
  connection before it was disconnected and applies a decision afterwards, the disconnected
  connection is set back to the decided status, although the transition table allows no way out of
  disconnected.
\<close>

theorem stale_reconciliation_revives:
  assumes "db_ok s" and "r \<in> set (platform_connections s)" and "c_status r = ''disconnected''"
    and "connection_id c = c_id r" and "connection_organization_id c = c_organization_id r"
    and "PlatformConnection_post_init c = Inr c"
    and "decision_target_status d \<in> set (ALLOWED_TRANSITIONS (connection_status c))"
    and "decision_target_status d \<noteq> connection_status c"
    and "\<not> has_key a_id (new_id io n) (audit_events s)"
  shows "\<exists>t q. apply_decision io n actor correlation c d s = (Inr (True, Suc n), t)
    \<and> q \<in> set (platform_connections t) \<and> c_id q = c_id r
    \<and> c_status q = ConnectionStatus_value (decision_target_status d)"
proof -
  obtain reason where reason:
    "ConnectionStatusReason_parse (ConnectionReconciliationReason_value (decision_reason d)) = Some reason"
    using reconciliation_reason_is_status_reason by blast
  let ?c = "c\<lparr>connection_status := decision_target_status d, connection_status_reason := Some reason\<rparr>"
  let ?P = "\<lambda>q. c_id q = c_id r \<and> c_organization_id q = c_organization_id r"
  have moved: "transition_to c (decision_target_status d) (Some reason) = Inr ?c"
    using assms(6,7) by (rule transition_to_valid)
  have alive: "connection_status c \<noteq> CONN_DISCONNECTED"
    using assms(7) by auto
  obtain e where e: "connection_audit_event (new_id io n) correlation actor
      (connection_organization_id c) ''platform_connection.reconciled'' (connection_id c) = Inr e"
    "audit_id e = new_id io n" "audit_result e = ''succeeded''"
    by (simp add: connection_audit_event_def AuditEvent_post_init_def py_strip_eq_Nil_iff py_isspace_def)
  have ids: "distinct (map c_id (platform_connections s))"
    using assms(1) by (simp add: db_ok_def connections_ok_def)
  have one: "rowcount ?P (platform_connections s) = 1"
    using filter_distinct_key [OF ids assms(2), of ?P] by (simp add: rowcount_def)
  have ck: "ck_connection_status (ConnectionStatus_value st)" for st
    by (cases st) (simp_all add: ck_connection_status_def)
  obtain t where upd: "update_status (db_now io n) ?c e None None s = (Inr True, t)"
    using one ck [of "decision_target_status d"] assms(4,5,9) e
    by (simp add: update_status_def update_connections_def atomically_def effects inserts constrained_def
        audit_record_def ck_audit_events_result_def)
  have run: "apply_decision io n actor correlation c d s = (Inr (True, Suc n), t)"
    using alive assms(8) reason moved e(1) upd by (simp add: apply_decision_def effects construct_def)
  have "r\<lparr>c_status := ConnectionStatus_value (decision_target_status d),
      c_status_reason := Some (ConnectionStatusReason_value reason)\<rparr> \<in> set (platform_connections t)"
    using update_status_True [OF upd] assms(2,4,5) by (auto simp: set_update_rows intro!: bexI [of _ r])
  with run show ?thesis
    by (intro exI conjI) (assumption | simp)+
qed


theorem stale_reconciliation_revives_witness:
  "\<exists>c t u q. find_connection_for_organization 100 70 sample = (Inr (Some c), sample)
     \<and> snd (ManagePlatformConnectionLifecycle_execute sample_io
         \<lparr>ml_actor_id = 1, ml_organization_id = 100, ml_connection_id = 70, ml_action = DISCONNECT,
          ml_correlation_id = 9, ml_idempotency_key = None\<rparr> sample) = t
     \<and> map c_status (platform_connections t) = [''disconnected'']
     \<and> apply_decision sample_io 7 0 9 c
         \<lparr>decision_target_status = DEGRADED, decision_reason = PLATFORM_UNREACHABLE\<rparr> t = (Inr (True, 8), u)
     \<and> q \<in> set (platform_connections u) \<and> c_status q = ''degraded''"
proof -
  let ?c = "\<lparr>connection_id = 70, connection_organization_id = 100, connection_platform = DISCORD,
    connection_external_resource_id = ''guild-1'', connection_status = CONN_ACTIVE,
    connection_status_reason = Some REASON_HEALTHY,
    connection_granted_capabilities = [''discord.guild.read'']\<rparr>"
  let ?cmd = "\<lparr>ml_actor_id = 1, ml_organization_id = 100, ml_connection_id = 70, ml_action = DISCONNECT,
          ml_correlation_id = 9, ml_idempotency_key = None\<rparr>"
  let ?d = "\<lparr>decision_target_status = DEGRADED, decision_reason = PLATFORM_UNREACHABLE\<rparr>"
  let ?r = "sample_connection\<lparr>c_status := ''disconnected'', c_status_reason := Some ''disconnected''\<rparr>"
  let ?t = "snd (ManagePlatformConnectionLifecycle_execute sample_io ?cmd sample)"
  have read: "find_connection_for_organization 100 70 sample = (Inr (Some ?c), sample)"
    by (simp add: connection_evaluation)
  have ok: "db_ok ?t"
    using obeysD [OF inv_connection_use_cases(2), of sample sample_io ?cmd] sample_ok by simp
  have row: "platform_connections ?t = [?r]"
    by (simp add: connection_evaluation)
  have fresh: "\<not> has_key a_id (new_id sample_io 7) (audit_events ?t)"
    by (simp add: connection_evaluation)
  have valid: "PlatformConnection_post_init ?c = Inr ?c"
    by (simp add: connection_evaluation)
  from row obtain u q where "apply_decision sample_io 7 0 9 ?c ?d ?t = (Inr (True, Suc 7), u)"
      "q \<in> set (platform_connections u)" "c_status q = ConnectionStatus_value DEGRADED"
    using stale_reconciliation_revives [OF ok _ _ _ _ valid _ _ fresh, of ?r ?d 0 9]
    by (auto simp: sample_connection_def)
  with read row show ?thesis
    by (intro exI [of _ ?c] exI [of _ ?t] exI [of _ u] exI [of _ q]) simp
qed

section \<open>Reconciliation\<close>

text \<open>
  A reconciliation pass accounts for every connection it inspects: at most the limit are
  inspected, each is either changed or skipped, the audit trail grows by exactly the number of
  changes, and every stored connection keeps its identity and moves only along the transition table.
\<close>

theorem reconcile_accounts:
  assumes "db_ok s" and "ReconcilePlatformConnections_execute probes io cmd s = (Inr res, t)"
  shows "inspected res \<le> rc_limit cmd \<and> inspected res = changed res + skipped res
    \<and> length (audit_events t) = length (audit_events s) + changed res
    \<and> connections_evolve (platform_connections s) (platform_connections t)"
  using assms(1,2)
proof (rule reconcile_effect, goal_cases)
  case (1 n)
  from 1(1,2) 1(3) [of res] show ?case by simp
qed

theorem reconcile_accounts_witness:
  "\<exists>res t. ReconcilePlatformConnections_execute
       (\<lambda>p. if p = ''discord'' then Some (inspect_connection (\<lambda>_ _ _. Inl (PlatformControlUnavailableError ''down'')) 0)
            else None)
       sample_io \<lparr>rc_system_actor_id = 0, rc_correlation_id = 9, rc_limit = 50\<rparr> sample = (Inr res, t)
     \<and> changed res = 1 \<and> length (audit_events t) = 1"
  (is "\<exists>res t. ?exec sample = _ \<and> _")
proof -
  have "fst (?exec sample) = Inr \<lparr>inspected = 1, changed = 1, skipped = 0\<rparr>"
    by (simp add: connection_evaluation inspect_connection_def decide_def unreachable_decision_def
        ConnectionReconciliationDecision_post_init_def)
  then obtain t where run: "?exec sample = (Inr \<lparr>inspected = 1, changed = 1, skipped = 0\<rparr>, t)"
    by (rule returns_value)
  from reconcile_accounts [OF sample_ok run] run show ?thesis
    by (intro exI exI [of _ t]) (auto simp: sample_defs)
qed

end
