(* ===== verification/Pagination.thy ===== *)
theory Pagination
  imports Connection_Properties
begin

text \<open>
  Keyset pagination: the listings of connections (by ascending id) and of audit events (by descending
  id) return pages whose cursors, followed from page to page, enumerate every row exactly once.
\<close>

section \<open>Ordering and filtering\<close>

lemma insert_by_first: "(\<And>z. z \<in> set ys \<Longrightarrow> le x z) \<Longrightarrow> insert_by le x ys = x # ys"
  by (cases ys) auto

text \<open>
  The contract of an ORDER BY on a unique key: a total order that identifies rows only when their
  keys agree. A page is a prefix of the ordered rows, and the rows beyond its last one are the rest.
\<close>

locale keyset =
  fixes le :: "'r \<Rightarrow> 'r \<Rightarrow> bool" and key :: "'r \<Rightarrow> 'k"
  assumes total: "le x y \<or> le y x"
    and trans: "le x y \<Longrightarrow> le y z \<Longrightarrow> le x z"
    and antisym: "le x y \<Longrightarrow> le y x \<Longrightarrow> key x = key y"
begin

lemma ordered: "sorted_wrt le (order_by le rows)"
  using total trans by (rule sorted_order_by)

lemma filter_insert_by:
  "sorted_wrt le ys \<Longrightarrow>
     filter P (insert_by le x ys) = (if P x then insert_by le x (filter P ys) else filter P ys)"
proof (induction ys)
  case (Cons y ys)
  show ?case
  proof (cases "le x y")
    case True
    then have "le x z" if "z \<in> set (filter P (y # ys))" for z
      using that Cons.prems by (auto split: if_splits intro: trans)
    with True show ?thesis
      by (simp add: insert_by_first)
  next
    case False
    with Cons show ?thesis by simp
  qed
qed simp

lemma filter_order_by: "filter P (order_by le rows) = order_by le (filter P rows)"
  by (induction rows) (simp_all add: filter_insert_by ordered)

lemma strict:
  assumes "distinct (map key rows)"
  shows "sorted_wrt (\<lambda>x y. \<not> le y x) (order_by le rows)"
proof -
  have "sorted_wrt (\<lambda>x y. key x \<noteq> key y) (order_by le rows)"
    using assms distinct_order_by [of key le rows]
    by (simp add: sorted_wrt_iff_nth_less distinct_conv_nth)
  moreover have "sorted_wrt (\<lambda>x y. le x y) (order_by le rows)"
    using ordered by simp
  ultimately have "sorted_wrt (\<lambda>x y. le x y \<and> key x \<noteq> key y) (order_by le rows)"
    by (simp add: sorted_wrt_iff_nth_less)
  then show ?thesis
    by (rule sorted_wrt_mono_rel [rotated]) (use antisym in blast)
qed

lemma beyond_cursor:
  assumes "distinct (map key rows)" and "0 < n" and "n \<le> length rows"
  shows "order_by le (filter (\<lambda>r. \<not> le r (order_by le rows ! (n - 1))) rows) = drop n (order_by le rows)"
proof -
  let ?L = "order_by le rows"
  let ?P = "\<lambda>r. \<not> le r (?L ! (n - 1))"
  have len: "n \<le> length ?L" using assms(3) by simp
  have front: "\<not> ?P x" if "x \<in> set (take n ?L)" for x
  proof -
    from that obtain i where i: "i < n" "x = ?L ! i"
      using len by (auto simp: in_set_conv_nth)
    show ?thesis
    proof (cases "i = n - 1")
      case True
      with i total show ?thesis by auto
    next
      case False
      with i len ordered [of rows] show ?thesis
        by (simp add: sorted_wrt_iff_nth_less)
    qed
  qed
  have rear: "?P x" if "x \<in> set (drop n ?L)" for x
  proof -
    from that obtain i where "i < length ?L - n" "x = ?L ! (n + i)"
      using len by (auto simp: in_set_conv_nth)
    with strict [OF assms(1)] assms(2) show ?thesis
      by (simp add: sorted_wrt_iff_nth_less)
  qed
  have "filter ?P ?L = filter ?P (take n ?L) @ filter ?P (drop n ?L)"
    by (metis append_take_drop_id filter_append)
  also have "\<dots> = drop n ?L"
    using front rear by (simp add: filter_empty_conv filter_id_conv)
  finally show ?thesis
    by (simp add: filter_order_by)
qed

end

interpretation by_connection_id: keyset "\<lambda>x y. c_id x \<le> c_id y" c_id
  by unfold_locales auto

interpretation by_audit_id_desc: keyset "\<lambda>x y. a_id y \<le> a_id x" a_id
  by unfold_locales auto


section \<open>Pages of connections\<close>

text \<open>Everything a caller has not seen yet: the organization's rows beyond a cursor, in order.\<close>

definition connection_rows_after :: "uuid \<Rightarrow> uuid option \<Rightarrow> console \<Rightarrow> PlatformConnectionRecord list" where
  "connection_rows_after org after s = order_by (\<lambda>x y. c_id x \<le> c_id y)
     (filter (\<lambda>r. c_organization_id r = org \<and> (case after of None \<Rightarrow> True | Some a \<Rightarrow> a < c_id r))
        (platform_connections s))"

definition audit_rows_before :: "uuid \<Rightarrow> uuid option \<Rightarrow> console \<Rightarrow> AuditEventRecord list" where
  "audit_rows_before org before s = order_by (\<lambda>x y. a_id y \<le> a_id x)
     (filter (\<lambda>r. a_organization_id r = Some org \<and> (case before of None \<Rightarrow> True | Some a \<Rightarrow> a_id r < a))
        (audit_events s))"

lemma connection_rows_beyond:
  assumes ok: "db_ok s" and n: "0 < n" "n \<le> length (connection_rows_after org after s)"
  shows "connection_rows_after org (Some (c_id (connection_rows_after org after s ! (n - 1)))) s =
    drop n (connection_rows_after org after s)"
proof -
  let ?P = "\<lambda>r. c_organization_id r = org \<and> (case after of None \<Rightarrow> True | Some a \<Rightarrow> a < c_id r)"
  let ?last = "connection_rows_after org after s ! (n - 1)"
  have "?P r" if "r \<in> set (connection_rows_after org after s)" for r
    using that by (simp add: connection_rows_after_def)
  moreover have "?last \<in> set (connection_rows_after org after s)"
    using n by (intro nth_mem) simp
  ultimately have "?P ?last" .
  then have "filter (\<lambda>r. c_organization_id r = org \<and> c_id ?last < c_id r) (platform_connections s) =
      filter (\<lambda>r. \<not> c_id r \<le> c_id ?last) (filter ?P (platform_connections s))"
    by (auto simp: not_le conj_commute conj_left_commute split: option.splits intro!: filter_cong)
  moreover have "distinct (map c_id (filter ?P (platform_connections s)))"
    using ok by (simp add: db_ok_def connections_ok_def distinct_map_filter)
  ultimately show ?thesis
    using by_connection_id.beyond_cursor [of "filter ?P (platform_connections s)" n] n
    by (simp add: connection_rows_after_def)
qed

lemma audit_rows_beyond:
  assumes ok: "db_ok s" and n: "0 < n" "n \<le> length (audit_rows_before org before s)"
  shows "audit_rows_before org (Some (a_id (audit_rows_before org before s ! (n - 1)))) s =
    drop n (audit_rows_before org before s)"
proof -
  let ?P = "\<lambda>r. a_organization_id r = Some org \<and> (case before of None \<Rightarrow> True | Some a \<Rightarrow> a_id r < a)"
  let ?last = "audit_rows_before org before s ! (n - 1)"
  have "?P r" if "r \<in> set (audit_rows_before org before s)" for r
    using that by (simp add: audit_rows_before_def)
  moreover have "?last \<in> set (audit_rows_before org before s)"
    using n by (intro nth_mem) simp
  ultimately have "?P ?last" .
  then have "filter (\<lambda>r. a_organization_id r = Some org \<and> a_id r < a_id ?last) (audit_events s) =
      filter (\<lambda>r. \<not> a_id ?last \<le> a_id r) (filter ?P (audit_events s))"
    by (auto simp: not_le conj_commute conj_left_commute split: option.splits intro!: filter_cong)
  moreover have "distinct (map a_id (filter ?P (audit_events s)))"
    using ok by (simp add: db_ok_def audit_ok_def distinct_map_filter)
  ultimately show ?thesis
    using by_audit_id_desc.beyond_cursor [of "filter ?P (audit_events s)" n] n
    by (simp add: audit_rows_before_def)
qed

lemma last_of_take: "0 < n \<Longrightarrow> n < length xs \<Longrightarrow> last (take n xs) = xs ! (n - Suc 0)"
  by (subst last_conv_nth) (auto simp: min_def)

lemma map_filter_all: "(\<And>r. r \<in> set rows \<Longrightarrow> f r \<noteq> None) \<Longrightarrow> List.map_filter f rows = map (the \<circ> f) rows"
  by (induction rows) (auto simp: List.map_filter_simps split: option.split)

text \<open>
  C18: A page of connections is given only for a limit between 1 and 100 and to an actor allowed to
  read platform connections. When the stored rows are well formed it holds the first connections
  beyond the cursor, at most the limit, in ascending order; its next cursor is missing exactly when
  nothing is left, and continuing from it yields exactly the remaining rows.
\<close>

theorem connection_pages:
  assumes "db_ok s" and "ListPlatformConnections_execute actor org after limit s = (Inr page, t)"
    and "\<And>r. r \<in> set (platform_connections s) \<Longrightarrow> c_organization_id r = org \<Longrightarrow> connection_from_record r \<noteq> None"
  shows "t = s \<and> 1 \<le> limit \<and> limit \<le> 100
    \<and> fst (authorize get_membership (authorization_request actor org PLATFORM_CONNECTIONS ACTION_READ) s)
        = Inr \<lparr>allowed = True\<rparr>
    \<and> map Some (page_items page) = map connection_from_record (take (nat limit) (connection_rows_after org after s))
    \<and> (page_next_cursor page = None \<longleftrightarrow> length (connection_rows_after org after s) \<le> nat limit)
    \<and> (\<forall>a. page_next_cursor page = Some a \<longrightarrow>
         connection_rows_after org (Some a) s = drop (nat limit) (connection_rows_after org after s))"
proof -
  let ?L = "connection_rows_after org after s" and ?f = "the \<circ> connection_from_record"
  have valid: "connection_from_record r \<noteq> None" if "r \<in> set ?L" for r
    using that assms(3) by (auto simp: connection_rows_after_def)
  have results: "list_connections_for_organization org after n s = (Inr (map ?f (take n ?L)), s)" for n
  proof -
    have "List.map_filter connection_from_record (take n ?L) = map ?f (take n ?L)"
      by (rule map_filter_all) (rule valid [OF in_set_takeD])
    then show ?thesis
      unfolding list_connections_for_organization_def reads_def connection_rows_after_def [symmetric] by simp
  qed
  from assms(2) obtain d where
    lim: "1 \<le> limit" "limit \<le> 100" and t: "t = s"
    and d: "fst (authorize get_membership (authorization_request actor org PLATFORM_CONNECTIONS ACTION_READ) s) = Inr d"
      "allowed d"
    and items: "page_items page = take (nat limit) (map ?f (take (nat (limit + 1)) ?L))"
    and nxt: "page_next_cursor page =
      (if int (length (map ?f (take (nat (limit + 1)) ?L))) > limit \<and> page_items page \<noteq> []
       then Some (connection_id (last (page_items page))) else None)"
    unfolding ListPlatformConnections_execute_def Let_def
    by (auto simp: outcomes connection_reader_outcomes results split: if_splits)
  define n where "n = nat limit"
  have n: "0 < n" "nat (limit + 1) = Suc n" "limit = int n"
    using lim by (simp_all add: n_def nat_add_distrib)
  have items': "page_items page = map ?f (take n ?L)"
    using items n by (simp add: take_map min_def)
  have more: "int (length (map ?f (take (nat (limit + 1)) ?L))) > limit \<longleftrightarrow> n < length ?L"
    using n by (simp add: min_def)
  have cursor: "page_next_cursor page = (if n < length ?L then Some (c_id (?L ! (n - 1))) else None)"
  proof (cases "n < length ?L")
    case True
    then have "last (take n ?L) = ?L ! (n - 1)" "take n ?L \<noteq> []"
      using n by (auto simp: last_of_take)
    moreover have "connection_id (?f (?L ! (n - 1))) = c_id (?L ! (n - 1))"
      using valid [of "?L ! (n - 1)"] True connection_from_record_fields(1) by fastforce
    ultimately show ?thesis
      using nxt more True items' by (simp add: last_map del: take_eq_Nil)
  next
    case False
    with nxt more show ?thesis by simp
  qed
  moreover have "connection_rows_after org (Some (c_id (?L ! (n - 1)))) s = drop n ?L" if "n < length ?L"
    using connection_rows_beyond [OF assms(1), of n org after] n that by simp
  moreover have "map Some (page_items page) = map connection_from_record (take n ?L)"
    unfolding items' using valid [OF in_set_takeD] by simp
  moreover have "d = \<lparr>allowed = True\<rparr>"
    using d(2) by (cases d) simp
  ultimately show ?thesis
    using t lim d(1) by (auto simp: n_def)
qed

theorem connection_pages_witness:
  "\<exists>page. ListPlatformConnections_execute 1 100 None 10 sample = (Inr page, sample)
     \<and> page_next_cursor page = None \<and> map connection_id (page_items page) = [70]"
proof -
  have "\<exists>x. fst (ListPlatformConnections_execute 1 100 None 10 sample) = Inr x"
    by (simp add: connection_evaluation)
  then obtain page t where run: "ListPlatformConnections_execute 1 100 None 10 sample = (Inr page, t)"
    by (rule returns)
  have valid: "connection_from_record r \<noteq> None" if "r \<in> set (platform_connections sample)" for r
    using that by (simp add: connection_evaluation)
  have rows: "connection_rows_after 100 None sample = [sample_connection]"
    by (simp add: connection_rows_after_def sample_defs)
  obtain c where c: "connection_from_record sample_connection = Some c" "connection_id c = 70"
    by (simp add: connection_evaluation)
  from connection_pages [OF sample_ok run valid] run c show ?thesis
    by (cases "page_items page") (auto simp: rows)
qed


section \<open>Pages of the audit trail\<close>

definition entry_of_row :: "AuditEventRecord \<Rightarrow> AuditLogEntry" where
  "entry_of_row r =
     \<lparr>entry_id = a_id r, entry_correlation_id = a_correlation_id r, entry_actor_id = a_actor_id r,
      entry_action = a_action r, entry_resource_type = a_resource_type r,
      entry_resource_id = a_resource_id r, entry_result = a_result r, entry_created_at = a_created_at r\<rparr>"

lemma entries_from_records_Inr: "entries_from_records rows = Inr xs \<Longrightarrow> xs = map entry_of_row rows"
  by (induction rows arbitrary: xs)
    (auto simp: entry_from_record_def entry_of_row_def AuditLogEntry_post_init_def split: if_splits sum.splits)

text \<open>
  A page of the audit trail is given only for a limit between 1 and 100 and to an actor allowed
  to read audit events. It holds the newest entries before the cursor, at most the limit; its next
  cursor is missing exactly when nothing older is left, and continuing from it yields exactly the
  remaining entries.
\<close>

theorem audit_pages:
  assumes "db_ok s" and "ListOrganizationAuditEvents_execute actor org before limit s = (Inr page, t)"
  shows "t = s \<and> 1 \<le> limit \<and> limit \<le> 100
    \<and> fst (authorize get_membership (authorization_request actor org AUDIT_EVENTS ACTION_READ) s)
        = Inr \<lparr>allowed = True\<rparr>
    \<and> audit_page_items page = map entry_of_row (take (nat limit) (audit_rows_before org before s))
    \<and> (audit_page_next_cursor page = None \<longleftrightarrow> length (audit_rows_before org before s) \<le> nat limit)
    \<and> (\<forall>a. audit_page_next_cursor page = Some a \<longrightarrow>
         audit_rows_before org (Some a) s = drop (nat limit) (audit_rows_before org before s))"
proof -
  let ?L = "audit_rows_before org before s"
  from assms(2) obtain d xs where
    lim: "1 \<le> limit" "limit \<le> 100" and t: "t = s"
    and d: "fst (authorize get_membership (authorization_request actor org AUDIT_EVENTS ACTION_READ) s) = Inr d"
      "allowed d"
    and xs: "entries_from_records (take (nat (limit + 1)) ?L) = Inr xs"
    and items: "audit_page_items page = take (nat limit) xs"
    and nxt: "audit_page_next_cursor page =
      (if int (length xs) > limit \<and> audit_page_items page \<noteq> []
       then Some (entry_id (last (audit_page_items page))) else None)"
    unfolding ListOrganizationAuditEvents_execute_def Let_def list_audit_for_organization_def
      audit_rows_before_def
    by (auto simp: outcomes connection_reader_outcomes split: if_splits)
  define n where "n = nat limit"
  have n: "0 < n" "nat (limit + 1) = Suc n" "limit = int n"
    using lim by (simp_all add: n_def nat_add_distrib)
  note xs' = entries_from_records_Inr [OF xs]
  have items': "audit_page_items page = map entry_of_row (take n ?L)"
    using items n by (simp add: xs' take_map min_def)
  have cursor: "audit_page_next_cursor page = (if n < length ?L then Some (a_id (?L ! (n - 1))) else None)"
  proof (cases "n < length ?L")
    case True
    then have "last (take n ?L) = ?L ! (n - 1)" "take n ?L \<noteq> []"
      using n by (auto simp: last_of_take)
    then show ?thesis
      using nxt n True items' by (simp add: xs' last_map entry_of_row_def min_def del: take_eq_Nil)
  next
    case False
    with nxt n show ?thesis by (simp add: xs' min_def)
  qed
  moreover have "audit_rows_before org (Some (a_id (?L ! (n - 1)))) s = drop n ?L" if "n < length ?L"
    using audit_rows_beyond [OF assms(1), of n org before] n that by simp
  moreover have "d = \<lparr>allowed = True\<rparr>"
    using d(2) by (cases d) simp
  ultimately show ?thesis
    using t lim d(1) items' by (auto simp: n_def)
qed

theorem audit_pages_witness:
  "\<exists>page. ListOrganizationAuditEvents_execute 1 100 None 10 sample = (Inr page, sample)
     \<and> audit_page_next_cursor page = None \<and> audit_page_items page = []"
proof -
  have "\<exists>x. fst (ListOrganizationAuditEvents_execute 1 100 None 10 sample) = Inr x"
    by (simp add: connection_evaluation)
  then obtain page t where run: "ListOrganizationAuditEvents_execute 1 100 None 10 sample = (Inr page, t)"
    by (rule returns)
  have rows: "audit_rows_before 100 None sample = []"
    by (simp add: audit_rows_before_def sample_defs)
  from audit_pages [OF sample_ok run] run show ?thesis
    by (simp add: rows)
qed

end
