(* ===== verification/Repo_Invitations.thy ===== *)
theory Repo_Invitations
  imports Pagination
begin

text \<open>
  Persistence of organization invitations: the mapping of rows
  (\<open>persistence/organization_invitation_mapping.py\<close>), the reader
  (\<open>organization_invitation_reader.py\<close>) and the writer, which accepts an invitation and
  creates the membership in one transaction (\<open>organization_invitation_writer.py\<close>).
\<close>

section \<open>Rows and objects\<close>

definition invitation_scope_from_record ::
  "OrganizationInvitationScopeRecord \<Rightarrow> MembershipResourceScope option" where
  "invitation_scope_from_record r =
     (case AuthorizationResource_parse (is_resource r) of
        None \<Rightarrow> None
      | Some res \<Rightarrow>
          (case AuthorizationAction_parse (is_action r) of
             None \<Rightarrow> None
           | Some act \<Rightarrow> Some \<lparr>scope_resource = res, scope_action = act, scope_id = Some (is_id r)\<rparr>))"

fun all_or_none :: "'a option list \<Rightarrow> 'a list option" where
  "all_or_none [] = Some []"
| "all_or_none (None # xs) = None"
| "all_or_none (Some x # xs) = map_option (\<lambda>ys. x # ys) (all_or_none xs)"

definition delivery_status_parse ::
  "string option \<Rightarrow> OrganizationInvitationDeliveryStatus option option" where
  "delivery_status_parse v =
     (case v of None \<Rightarrow> Some None | Some x \<Rightarrow> map_option Some (OrganizationInvitationDeliveryStatus_parse x))"

definition invitation_from_records ::
  "OrganizationInvitationRecord \<Rightarrow> OrganizationInvitationScopeRecord list \<Rightarrow> OrganizationInvitation option" where
  "invitation_from_records r scopes =
     (case oi_invited_by_user_id r of
        None \<Rightarrow> None
      | Some inviter \<Rightarrow>
          (case OrganizationRole_parse (oi_role r) of
             None \<Rightarrow> None
           | Some role \<Rightarrow>
               (case all_or_none (map invitation_scope_from_record scopes) of
                  None \<Rightarrow> None
                | Some scs \<Rightarrow>
                    (case delivery_status_parse (oi_delivery_status r) of
                       None \<Rightarrow> None
                     | Some delivery \<Rightarrow> fail_closed (OrganizationInvitation_post_init
                         \<lparr>invitation_id = oi_id r, invitation_organization_id = oi_organization_id r,
                          invitation_invited_by_user_id = inviter,
                          invitation_email_lookup_hash = oi_email_lookup_hash r,
                          invitation_email_hint = oi_email_hint r,
                          invitation_email_ciphertext = oi_email_ciphertext r,
                          invitation_token_hash = oi_token_hash r, invitation_role = role,
                          invitation_resource_scopes = remdups scs,
                          invitation_expires_at = oi_expires_at r,
                          invitation_created_at = oi_created_at r,
                          invitation_accepted_at = oi_accepted_at r,
                          invitation_revoked_at = oi_revoked_at r,
                          invitation_delivery_status = delivery\<rparr>)))))"

definition scopes_for_invitation :: "console \<Rightarrow> uuid \<Rightarrow> OrganizationInvitationScopeRecord list" where
  "scopes_for_invitation s i = filter (\<lambda>r. is_invitation_id r = i) (organization_invitation_scopes s)"

section \<open>Reader\<close>

definition list_invitations_for_organization ::
  "uuid \<Rightarrow> (console, OrganizationInvitation list) operation" where
  "list_invitations_for_organization org = reads (\<lambda>s.
     List.map_filter (\<lambda>r. invitation_from_records r (scopes_for_invitation s (oi_id r)))
       (order_by
          (then_by (\<lambda>x y. dt_le (oi_created_at y) (oi_created_at x)) (\<lambda>x y. oi_id x \<le> oi_id y))
          (filter (\<lambda>r. oi_organization_id r = org) (organization_invitations s))))"

definition find_invitation_for_organization ::
  "uuid \<Rightarrow> uuid \<Rightarrow> (console, OrganizationInvitation option) operation" where
  "find_invitation_for_organization org i = tries (\<lambda>s.
     find_one (\<lambda>r. oi_organization_id r = org \<and> oi_id r = i)
       (\<lambda>r. invitation_from_records r (scopes_for_invitation s (oi_id r)))
       (organization_invitations s))"

definition find_pending_by_token_hash ::
  "string \<Rightarrow> datetime \<Rightarrow> (console, OrganizationInvitation option) operation" where
  "find_pending_by_token_hash h now = tries (\<lambda>s.
     find_one (\<lambda>r. oi_token_hash r = h \<and> oi_accepted_at r = None \<and> oi_revoked_at r = None
          \<and> dt_lt now (oi_expires_at r))
       (\<lambda>r. invitation_from_records r (scopes_for_invitation s (oi_id r)))
       (organization_invitations s))"

section \<open>Writer\<close>

text \<open>The tuple of rows is built before any of them is added, so the first missing id raises.\<close>

fun collect :: "('a \<Rightarrow> error + 'b) \<Rightarrow> 'a list \<Rightarrow> error + 'b list" where
  "collect f [] = Inr []"
| "collect f (x # xs) =
     (case f x of
        Inl e \<Rightarrow> Inl e
      | Inr y \<Rightarrow> (case collect f xs of Inl e \<Rightarrow> Inl e | Inr ys \<Rightarrow> Inr (y # ys)))"

definition invitation_scope_record ::
  "uuid \<Rightarrow> MembershipResourceScope \<Rightarrow> error + OrganizationInvitationScopeRecord" where
  "invitation_scope_record i scope =
     (case scope_id scope of
        None \<Rightarrow> Inl (ValueError ''Invitation resource scopes require server-generated identifiers.'')
      | Some sid \<Rightarrow> Inr \<lparr>is_id = sid, is_invitation_id = i,
                      is_resource = AuthorizationResource_value (scope_resource scope),
                      is_action = AuthorizationAction_value (scope_action scope)\<rparr>)"

definition accepted_scope_record ::
  "uuid \<Rightarrow> MembershipResourceScope \<Rightarrow> error + MembershipResourceScopeRecord" where
  "accepted_scope_record mid scope =
     (case scope_id scope of
        None \<Rightarrow> Inl (ValueError ''Membership resource scopes require server-generated identifiers.'')
      | Some sid \<Rightarrow> Inr \<lparr>ms_id = sid, ms_membership_id = mid,
                      ms_resource = AuthorizationResource_value (scope_resource scope),
                      ms_action = AuthorizationAction_value (scope_action scope)\<rparr>)"

definition invitation_record :: "OrganizationInvitation \<Rightarrow> OrganizationInvitationRecord" where
  "invitation_record i =
     \<lparr>oi_id = invitation_id i, oi_organization_id = invitation_organization_id i,
      oi_invited_by_user_id = Some (invitation_invited_by_user_id i),
      oi_email_ciphertext = invitation_email_ciphertext i,
      oi_email_lookup_hash = invitation_email_lookup_hash i, oi_email_hint = invitation_email_hint i,
      oi_token_hash = invitation_token_hash i, oi_role = OrganizationRole_value (invitation_role i),
      oi_delivery_status =
        map_option OrganizationInvitationDeliveryStatus_value (invitation_delivery_status i),
      oi_expires_at = invitation_expires_at i, oi_accepted_at = None, oi_revoked_at = None,
      oi_created_at = invitation_created_at i\<rparr>"

definition invitation_create ::
  "datetime \<Rightarrow> OrganizationInvitation \<Rightarrow> AuditEvent \<Rightarrow> (console, bool) operation" where
  "invitation_create t i event = atomically False
     (bnd (insert_invitation (invitation_record i)) (\<lambda>_.
      bnd (construct (collect (invitation_scope_record (invitation_id i)) (invitation_resource_scopes i))) (\<lambda>rows.
      bnd (each insert_invitation_scope rows) (\<lambda>_.
      bnd (record_audit t event) (\<lambda>_. ret True)))))"

definition update_delivery_status ::
  "uuid \<Rightarrow> uuid \<Rightarrow> OrganizationInvitationDeliveryStatus \<Rightarrow> (console, bool) operation" where
  "update_delivery_status i org status = transaction
     (bnd (update_invitations (\<lambda>r. oi_id r = i \<and> oi_organization_id r = org)
             (\<lambda>r. r\<lparr>oi_delivery_status := Some (OrganizationInvitationDeliveryStatus_value status)\<rparr>)) (\<lambda>n.
      ret (n = 1)))"

definition open_invitation :: "uuid \<Rightarrow> uuid \<Rightarrow> datetime \<Rightarrow> OrganizationInvitationRecord \<Rightarrow> bool" where
  "open_invitation i org now r \<longleftrightarrow> oi_id r = i \<and> oi_organization_id r = org
     \<and> oi_accepted_at r = None \<and> oi_revoked_at r = None \<and> dt_lt now (oi_expires_at r)"

definition invitation_accept ::
  "datetime \<Rightarrow> OrganizationInvitation \<Rightarrow> OrganizationMembership \<Rightarrow> datetime \<Rightarrow> AuditEvent \<Rightarrow>
   (console, bool) operation" where
  "invitation_accept t i m accepted_at event =
     (case member_id m of
        None \<Rightarrow> raise (ValueError ''Invitation acceptance requires a membership identifier.'')
      | Some mid \<Rightarrow> atomically False
          (bnd (update_invitations
                  (open_invitation (invitation_id i) (invitation_organization_id i) accepted_at)
                  (\<lambda>r. r\<lparr>oi_accepted_at := Some accepted_at\<rparr>)) (\<lambda>n.
           if n \<noteq> 1 then ret False else
           bnd (insert_membership (membership_record mid m)) (\<lambda>_.
           bnd (construct (collect (accepted_scope_record mid) (member_resource_scopes m))) (\<lambda>rows.
           bnd (each insert_membership_scope rows) (\<lambda>_.
           bnd (record_audit t event) (\<lambda>_. ret True)))))))"

definition invitation_revoke ::
  "datetime \<Rightarrow> uuid \<Rightarrow> uuid \<Rightarrow> datetime \<Rightarrow> AuditEvent \<Rightarrow> (console, bool) operation" where
  "invitation_revoke t i org revoked_at event = atomically False
     (bnd (update_invitations (open_invitation i org revoked_at)
             (\<lambda>r. r\<lparr>oi_revoked_at := Some revoked_at\<rparr>)) (\<lambda>n.
      if n \<noteq> 1 then ret False else
      bnd (record_audit t event) (\<lambda>_. ret True)))"

lemmas invitation_readers = list_invitations_for_organization_def find_invitation_for_organization_def
  find_pending_by_token_hash_def

lemmas invitation_writers = invitation_create_def update_delivery_status_def invitation_accept_def
  invitation_revoke_def

section \<open>Laws\<close>

lemma silent_invitation_readers [simp]:
  "silent (list_invitations_for_organization org)"
  "silent (find_invitation_for_organization org i)"
  "silent (find_pending_by_token_hash h d)"
  by (simp_all add: invitation_readers)

lemma inv_invitation_updates:
  "obeys keeps_db_ok (update_invitations Q (\<lambda>r. r\<lparr>oi_accepted_at := v\<rparr>))"
  "obeys keeps_db_ok (update_invitations Q (\<lambda>r. r\<lparr>oi_revoked_at := v\<rparr>))"
  "obeys keeps_db_ok (update_invitations Q
     (\<lambda>r. r\<lparr>oi_delivery_status := Some (OrganizationInvitationDeliveryStatus_value st)\<rparr>))"
proof -
  have "ck_organization_invitations_delivery_status (Some (OrganizationInvitationDeliveryStatus_value st))"
    by (cases st) (simp_all add: ck_organization_invitations_delivery_status_def)
  then show "obeys keeps_db_ok (update_invitations Q
     (\<lambda>r. r\<lparr>oi_delivery_status := Some (OrganizationInvitationDeliveryStatus_value st)\<rparr>))"
    by (intro inv_update_invitations) simp_all
qed (simp_all add: inv_update_invitations)

lemma inv_invitation_writers:
  "obeys keeps_db_ok (invitation_create t i e)"
  "obeys keeps_db_ok (update_delivery_status iid org st)"
  "obeys keeps_db_ok (invitation_accept t i m d e)"
  "obeys keeps_db_ok (invitation_revoke t iid org d e)"
  unfolding invitation_writers by (intro inv_steps inv_invitation_updates)+

lemma his_invitation_updates:
  "obeys history (update_invitations Q (\<lambda>r. r\<lparr>oi_accepted_at := Some v\<rparr>))"
  "obeys history (update_invitations Q (\<lambda>r. r\<lparr>oi_revoked_at := Some v\<rparr>))"
  "obeys history (update_invitations Q (\<lambda>r. r\<lparr>oi_delivery_status := w\<rparr>))"
  by (simp_all add: his_update_invitations)

lemma his_invitation_writers:
  "obeys history (invitation_create t i e)"
  "obeys history (update_delivery_status iid org st)"
  "obeys history (invitation_accept t i m d e)"
  "obeys history (invitation_revoke t iid org d e)"
  unfolding invitation_writers by (intro his_steps his_invitation_updates)+

lemma rev_invitation_writers:
  "obeys keeps_revoked (invitation_create t i e)"
  "obeys keeps_revoked (update_delivery_status iid org st)"
  "obeys keeps_revoked (invitation_accept t i m d e)"
  "obeys keeps_revoked (invitation_revoke t iid org d e)"
  unfolding invitation_writers by (intro rev_steps)+

lemma own_update_invitations:
  assumes "obeys keeps_db_ok (update_invitations Q f)"
  shows "obeys keeps_owners (update_invitations Q f)"
  using assms by (rule own_if_memberships_kept) (simp add: update_invitations_def)

lemma own_invitation_writers:
  "obeys keeps_owners (invitation_create t i e)"
  "obeys keeps_owners (update_delivery_status iid org st)"
  "obeys keeps_owners (invitation_revoke t iid org d e)"
  "member_role m \<noteq> OWNER \<Longrightarrow> obeys keeps_owners (invitation_accept t i m d e)"
  unfolding invitation_writers
  by (intro own_steps own_inserts own_update_invitations inv_invitation_updates own_insert_membership;
      simp add: membership_record_def del: OrganizationRole_value.simps)+

lemma reports_invitation_writers:
  "reports Not (invitation_create t i e)"
  "reports Not (invitation_accept t i m d e)"
  "reports Not (invitation_revoke t iid org d e)"
proof -
  have none: "rowcount (open_invitation iid org d) (organization_invitations s) \<noteq> 1 \<Longrightarrow>
      update_rows (open_invitation iid org d) f (organization_invitations s) = organization_invitations s"
    if "db_ok s" for s iid org d f
  proof -
    from that have "distinct (map oi_id (organization_invitations s))"
      by (simp add: db_ok_def invitations_ok_def)
    from rowcount_not_one(1) [where P = "open_invitation iid org d" and x = iid, OF this]
    show "rowcount (open_invitation iid org d) (organization_invitations s) \<noteq> 1 \<Longrightarrow> ?thesis"
      by (simp add: open_invitation_def)
  qed
  show "reports Not (invitation_create t i e)"
    unfolding invitation_create_def by (rule reports_atomically) (simp add: outcomes)
  show "reports Not (invitation_revoke t iid org d e)"
    unfolding invitation_revoke_def
    by (rule reports_atomically) (auto simp: outcomes update_invitations_def none split: if_splits)
  show "reports Not (invitation_accept t i m d e)"
    unfolding invitation_accept_def
    by (intro reports_option reports_raise reports_atomically)
      (auto simp: outcomes update_invitations_def none split: if_splits)
qed

end
