(* ===== verification/Invitations.thy ===== *)
theory Invitations
  imports Repo_Invitations
begin

text \<open>
  The invitation use cases: inviting (\<open>invite_organization_member_use_case.py\<close>), accepting
  (\<open>accept_organization_invitation_use_case.py\<close>), revoking
  (\<open>revoke_organization_invitation_use_case.py\<close>) and listing
  (\<open>list_organization_invitations_use_case.py\<close>). The notifier is an argument; what it answers
  or raises decides the delivery status.
\<close>

section \<open>Inviting\<close>

record InviteOrganizationMemberCommand =
  iv_actor_id :: uuid
  iv_organization_id :: uuid
  iv_email :: string
  iv_role :: OrganizationRole
  iv_resource_scopes :: "MembershipResourceScope list"
  iv_correlation_id :: uuid

record OrganizationInvitationCreationResult =
  creation_invitation :: OrganizationInvitation
  creation_delivery_status :: string

definition masked_email_hint :: "string \<Rightarrow> error + string" where
  "masked_email_hint e =
     (let local_part = takeWhile (\<lambda>c. c \<noteq> CHR ''@'') e; rest = dropWhile (\<lambda>c. c \<noteq> CHR ''@'') e in
      if rest = [] then Inl (ValueError ''Normalized invitation email must contain a domain.'')
      else if local_part = [] then Inl (IndexError ''string index out of range'')
      else Inr (hd local_part # replicate (max 1 (min 3 (length local_part - 1))) (CHR ''*'')
                 @ ''@'' @ tl rest))"

definition invitation_audit_event ::
  "uuid \<Rightarrow> uuid \<Rightarrow> uuid \<Rightarrow> uuid \<Rightarrow> string \<Rightarrow> uuid \<Rightarrow> error + AuditEvent" where
  "invitation_audit_event eid correlation actor org action i = AuditEvent_post_init
     \<lparr>audit_id = eid, audit_correlation_id = correlation, audit_actor_id = Some actor,
      audit_organization_id = Some org, audit_action = action,
      audit_resource_type = ''organization_invitation'', audit_resource_id = Some (uuid_str i),
      audit_result = ''succeeded''\<rparr>"

definition invitation_lifetime :: timedelta where
  "invitation_lifetime = days 7"

type_synonym invitation_notifier =
  "uuid \<Rightarrow> string \<Rightarrow> string \<Rightarrow> string \<Rightarrow> string \<Rightarrow> datetime \<Rightarrow> uuid \<Rightarrow> error + bool"

definition delivery_of :: "error + bool \<Rightarrow> OrganizationInvitationDeliveryStatus" where
  "delivery_of answer =
     (case answer of Inl _ \<Rightarrow> FAILED | Inr delivered \<Rightarrow> if delivered then SENT else UNAVAILABLE)"

definition InviteOrganizationMember_execute ::
  "ports \<Rightarrow> io \<Rightarrow> invitation_notifier \<Rightarrow> InviteOrganizationMemberCommand \<Rightarrow>
   (console, OrganizationInvitationCreationResult) operation" where
  "InviteOrganizationMember_execute P io notify cmd =
     bnd (construct (normalize P (iv_email cmd))) (\<lambda>email.
     bnd (find_organization_by_id (iv_organization_id cmd)) (\<lambda>organization.
     bnd (get_membership (iv_actor_id cmd) (iv_organization_id cmd)) (\<lambda>actor.
     case (organization, actor) of
       (Some org, Some a) \<Rightarrow>
         if \<not> can_manage_organization_members (member_role a) \<or> \<not> may_assign (member_role a) (iv_role cmd)
         then raise (OrganizationInvitationRejectedError ''Invitation creation denied.'')
         else if filter (\<lambda>scope. \<not> supports_scope (iv_role cmd) scope) (iv_resource_scopes cmd) \<noteq> []
         then raise (OrganizationInvitationRejectedError ''Role does not support requested invitation scopes.'')
         else
           let raw_token = new_token io 0; now = clock io 0;
               (scopes, n) = assign_scope_ids (new_id io) 1 (iv_resource_scopes cmd) in
           bnd (construct (masked_email_hint email)) (\<lambda>hint.
           bnd (construct (OrganizationInvitation_post_init
                  \<lparr>invitation_id = new_id io 0, invitation_organization_id = iv_organization_id cmd,
                   invitation_invited_by_user_id = iv_actor_id cmd,
                   invitation_email_lookup_hash = lookup_hash P email, invitation_email_hint = hint,
                   invitation_email_ciphertext = encrypt io email,
                   invitation_token_hash = token_hash P raw_token, invitation_role = iv_role cmd,
                   invitation_resource_scopes = remdups scopes,
                   invitation_expires_at = dt_add now invitation_lifetime,
                   invitation_created_at = now, invitation_accepted_at = None,
                   invitation_revoked_at = None, invitation_delivery_status = None\<rparr>)) (\<lambda>invitation.
           bnd (construct (invitation_audit_event (new_id io n) (iv_correlation_id cmd) (iv_actor_id cmd)
                  (iv_organization_id cmd) ''organization.member.invitation.created''
                  (invitation_id invitation))) (\<lambda>event.
           bnd (invitation_create (db_now io 0) invitation event) (\<lambda>created.
           if \<not> created
           then raise (OrganizationInvitationRejectedError ''Invitation could not be created.'')
           else
             let delivery = delivery_of (notify (invitation_id invitation) (organization_name org) email
                   (OrganizationRole_value (invitation_role invitation)) raw_token
                   (invitation_expires_at invitation) (iv_correlation_id cmd)) in
             bnd (catching (bnd (update_delivery_status (invitation_id invitation)
                    (invitation_organization_id invitation) delivery) (\<lambda>_. ret ())) (\<lambda>_. ret ())) (\<lambda>_.
             bnd (construct (OrganizationInvitation_post_init
                    (invitation\<lparr>invitation_delivery_status := Some delivery\<rparr>))) (\<lambda>result.
             ret \<lparr>creation_invitation = result,
                  creation_delivery_status = OrganizationInvitationDeliveryStatus_value delivery\<rparr>))))))
     | _ \<Rightarrow> raise (OrganizationInvitationRejectedError ''Invitation creation denied.''))))"

section \<open>Accepting\<close>

record AcceptOrganizationInvitationCommand =
  ac_actor_id :: uuid
  ac_raw_token :: string
  ac_correlation_id :: uuid

definition acceptance_failed :: "('s, 'a) operation" where
  "acceptance_failed = raise (OrganizationInvitationAcceptanceRejectedError ''Invitation acceptance failed.'')"

fun fresh_scope_ids ::
  "(nat \<Rightarrow> uuid) \<Rightarrow> nat \<Rightarrow> MembershipResourceScope list \<Rightarrow> MembershipResourceScope list" where
  "fresh_scope_ids new n [] = []"
| "fresh_scope_ids new n (sc # scs) = sc\<lparr>scope_id := Some (new n)\<rparr> # fresh_scope_ids new (Suc n) scs"

definition AcceptOrganizationInvitation_execute ::
  "ports \<Rightarrow> io \<Rightarrow> AcceptOrganizationInvitationCommand \<Rightarrow> (console, OrganizationMembership) operation" where
  "AcceptOrganizationInvitation_execute P io cmd =
     (if \<not> is_usable_token (ac_raw_token cmd) then acceptance_failed
      else
        let now = clock io 0 in
        bnd (find_pending_by_token_hash (token_hash P (ac_raw_token cmd)) now) (\<lambda>found.
        case found of
          None \<Rightarrow> acceptance_failed
        | Some invitation \<Rightarrow>
            bnd (construct (status_at invitation now)) (\<lambda>status.
            if status \<noteq> INVITATION_PENDING then acceptance_failed
            else
              bnd (find_active_user_id_by_email_lookup_hash (invitation_email_lookup_hash invitation)) (\<lambda>invited.
              if invited \<noteq> Some (ac_actor_id cmd) then acceptance_failed
              else
                bnd (get_status (ac_actor_id cmd)) (\<lambda>user_status.
                if user_status \<noteq> Some USER_ACTIVE then acceptance_failed
                else
                  bnd (get_membership (ac_actor_id cmd) (invitation_organization_id invitation)) (\<lambda>existing.
                  if existing \<noteq> None then acceptance_failed
                  else
                    let scopes = fresh_scope_ids (new_id io) 1 (invitation_resource_scopes invitation);
                        membership =
                          \<lparr>member_actor_id = ac_actor_id cmd,
                           member_organization_id = invitation_organization_id invitation,
                           member_role = invitation_role invitation,
                           member_resource_scopes = remdups scopes, member_id = Some (new_id io 0)\<rparr> in
                    bnd (construct (invitation_audit_event (new_id io (1 + length scopes))
                           (ac_correlation_id cmd) (ac_actor_id cmd) (invitation_organization_id invitation)
                           ''organization.member.invitation.accepted'' (invitation_id invitation))) (\<lambda>event.
                    bnd (invitation_accept (db_now io 0) invitation membership now event) (\<lambda>accepted.
                    if \<not> accepted then acceptance_failed else ret membership))))))))"

section \<open>Revoking and listing\<close>

record RevokeOrganizationInvitationCommand =
  ri_actor_id :: uuid
  ri_organization_id :: uuid
  ri_invitation_id :: uuid
  ri_correlation_id :: uuid

definition revocation_denied :: "('s, 'a) operation" where
  "revocation_denied = raise (OrganizationInvitationRevocationRejectedError ''Invitation revocation denied.'')"

definition RevokeOrganizationInvitation_execute ::
  "io \<Rightarrow> RevokeOrganizationInvitationCommand \<Rightarrow> (console, unit) operation" where
  "RevokeOrganizationInvitation_execute io cmd =
     bnd (get_membership (ri_actor_id cmd) (ri_organization_id cmd)) (\<lambda>actor.
     bnd (find_invitation_for_organization (ri_organization_id cmd) (ri_invitation_id cmd)) (\<lambda>found.
     case (actor, found) of
       (Some a, Some invitation) \<Rightarrow>
         if \<not> can_manage_organization_members (member_role a)
            \<or> \<not> may_assign (member_role a) (invitation_role invitation)
         then revocation_denied
         else
           bnd (construct (status_at invitation (clock io 0))) (\<lambda>status.
           if status \<noteq> INVITATION_PENDING then revocation_denied
           else
             bnd (construct (invitation_audit_event (new_id io 0) (ri_correlation_id cmd) (ri_actor_id cmd)
                    (ri_organization_id cmd) ''organization.member.invitation.revoked''
                    (invitation_id invitation))) (\<lambda>event.
             bnd (invitation_revoke (db_now io 0) (invitation_id invitation)
                    (invitation_organization_id invitation) (clock io 1) event) (\<lambda>revoked.
             if \<not> revoked
             then raise (OrganizationInvitationRevocationRejectedError ''Invitation revocation failed.'')
             else ret ())))
     | _ \<Rightarrow> revocation_denied))"

definition ListOrganizationInvitations_execute ::
  "uuid \<Rightarrow> uuid \<Rightarrow> (console, OrganizationInvitation list) operation" where
  "ListOrganizationInvitations_execute actor org =
     bnd (get_membership actor org) (\<lambda>m.
     case m of
       None \<Rightarrow> raise (OrganizationInvitationListingRejectedError ''Access denied.'')
     | Some a \<Rightarrow>
         if member_role a \<notin> {OWNER, ADMIN}
         then raise (OrganizationInvitationListingRejectedError ''Access denied.'')
         else list_invitations_for_organization org)"

lemmas invitation_use_cases = InviteOrganizationMember_execute_def AcceptOrganizationInvitation_execute_def
  RevokeOrganizationInvitation_execute_def ListOrganizationInvitations_execute_def
  acceptance_failed_def revocation_denied_def

section \<open>Laws\<close>

lemmas invitation_use_case_readers = session_readers silent_invitation_readers

lemma silent_list_invitations [simp]: "silent (ListOrganizationInvitations_execute a org)"
  unfolding invitation_use_cases
  by (intro silent_bnd silent_option silent_if invitation_use_case_readers silent_simps)

lemma inv_invitation_use_cases:
  "obeys keeps_db_ok (InviteOrganizationMember_execute P io nt c1)"
  "obeys keeps_db_ok (AcceptOrganizationInvitation_execute P io c2)"
  "obeys keeps_db_ok (RevokeOrganizationInvitation_execute io c3)"
  unfolding invitation_use_cases Let_def
  by (intro inv_steps inv_invitation_writers inv_readers invitation_use_case_readers)+

lemma his_invitation_use_cases:
  "obeys history (InviteOrganizationMember_execute P io nt c1)"
  "obeys history (AcceptOrganizationInvitation_execute P io c2)"
  "obeys history (RevokeOrganizationInvitation_execute io c3)"
  unfolding invitation_use_cases Let_def
  by (intro his_steps his_invitation_writers his_readers invitation_use_case_readers)+

lemma rev_invitation_use_cases:
  "obeys keeps_revoked (InviteOrganizationMember_execute P io nt c1)"
  "obeys keeps_revoked (AcceptOrganizationInvitation_execute P io c2)"
  "obeys keeps_revoked (RevokeOrganizationInvitation_execute io c3)"
  unfolding invitation_use_cases Let_def
  by (intro rev_steps rev_invitation_writers invitation_use_case_readers)+

lemmas clean_invitation_writes = reports_invitation_writers [THEN clean_report]

lemma clean_invitation_use_cases:
  "clean (AcceptOrganizationInvitation_execute P io c2)"
  "clean (RevokeOrganizationInvitation_execute io c3)"
  unfolding invitation_use_cases Let_def
  by (rule clean_invitation_writes clean_steps silent_simps | simp)+

lemmas invitation_reader_outcomes = connection_reader_outcomes
  silent_invitation_readers [THEN silent_outcome]

end
