(* ===== verification/Invitation_Properties.thy ===== *)
theory Invitation_Properties
  imports Invitations
begin

text \<open>
  What invitations guarantee: who may invite and revoke, who can accept, and that an invitation
  that was accepted or revoked is of no use any more.
\<close>

lemmas invitation_evaluation = connection_evaluation invitation_readers invitation_writers
  invitation_use_cases invitation_audit_event_def masked_email_hint_def invitation_lifetime_def
  delivery_of_def invitation_record_def invitation_scope_record_def accepted_scope_record_def
  invitation_from_records_def invitation_scope_from_record_def scopes_for_invitation_def
  delivery_status_parse_def open_invitation_def can_manage_organization_members_def may_assign_def
  supports_scope_def days_def seconds_def is_usable_token_def

section \<open>Effects of the writers\<close>

lemma bnd_construct_Inr [simp]: "bnd (construct (Inr x)) f = f x"
  by (simp add: fun_eq_iff effects construct_def)

lemma accepted_scope_record_eq: "accepted_scope_record mid sc = Inr r \<Longrightarrow> scope_record mid sc = Inr r"
  by (simp add: accepted_scope_record_def scope_record_def split: option.splits)

lemma each_collected:
  "collect (accepted_scope_record mid) scs = Inr rows \<Longrightarrow>
     each insert_membership_scope rows = insert_scopes mid scs"
  by (induction scs arbitrary: rows)
    (auto simp: insert_scopes_def dest!: accepted_scope_record_eq split: sum.splits)

lemma insert_invitation_scope_effect:
  "insert_invitation_scope r s = (Inr u, t) \<Longrightarrow>
     t = s\<lparr>organization_invitation_scopes := organization_invitation_scopes s @ [r]\<rparr>"
  by (simp add: insert_invitation_scope_def outcomes)

lemma insert_invitation_scopes_effect:
  "each insert_invitation_scope rows s = (Inr u, t) \<Longrightarrow>
     t = s\<lparr>organization_invitation_scopes := organization_invitation_scopes s @ rows\<rparr>"
proof (induction rows arbitrary: s)
  case (Cons r rows)
  then obtain s' where "insert_invitation_scope r s = (Inr (), s')"
    and rest: "each insert_invitation_scope rows s' = (Inr u, t)"
    by (auto simp: outcomes)
  with insert_invitation_scope_effect Cons.IH [OF rest] show ?case by fastforce
qed (simp add: outcomes)

lemma invitation_create_effect:
  assumes "invitation_create d i e s = (Inr True, t)"
  obtains rows where
    "t = s\<lparr>organization_invitations := organization_invitations s @ [invitation_record i],
        organization_invitation_scopes := organization_invitation_scopes s @ rows,
        audit_events := audit_events s @ [audit_record d e]\<rparr>"
    "\<not> has_key oi_id (invitation_id i) (organization_invitations s)"
proof -
  from assms obtain rows s1 s2 where
    s1: "insert_invitation (invitation_record i) s = (Inr (), s1)"
    and s2: "each insert_invitation_scope rows s1 = (Inr (), s2)"
    and t: "record_audit d e s2 = (Inr (), t)"
    by (auto simp: invitation_create_def outcomes)
  from s1 insert_invitation_scopes_effect [OF s2] t show thesis
    by (intro that [of rows]) (auto simp: inserts outcomes invitation_record_def)
qed

text \<open>Accepting is: mark the open invitation, then add the member.\<close>

lemma invitation_accept_effect:
  assumes "invitation_accept d i m now e s = (Inr True, t)"
  obtains u where
    "u = s\<lparr>organization_invitations :=
        update_rows (open_invitation (invitation_id i) (invitation_organization_id i) now)
          (\<lambda>r. r\<lparr>oi_accepted_at := Some now\<rparr>) (organization_invitations s)\<rparr>"
    "rowcount (open_invitation (invitation_id i) (invitation_organization_id i) now)
       (organization_invitations s) = 1"
    "add_member d m e u = (Inr True, t)" "organization_invitations t = organization_invitations u"
proof -
  from assms obtain mid rows u s1 s2 where
    u: "u = s\<lparr>organization_invitations :=
        update_rows (open_invitation (invitation_id i) (invitation_organization_id i) now)
          (\<lambda>r. r\<lparr>oi_accepted_at := Some now\<rparr>) (organization_invitations s)\<rparr>"
    and one: "rowcount (open_invitation (invitation_id i) (invitation_organization_id i) now)
       (organization_invitations s) = 1"
    and mid: "member_id m = Some mid"
    and s1: "insert_membership (membership_record mid m) u = (Inr (), s1)"
    and rows: "collect (accepted_scope_record mid) (member_resource_scopes m) = Inr rows"
    and s2: "each insert_membership_scope rows s1 = (Inr (), s2)"
    and t: "record_audit d e s2 = (Inr (), t)"
    by (auto simp: invitation_accept_def outcomes update_invitations_def split: if_splits)
  have s2': "insert_scopes mid (member_resource_scopes m) s1 = (Inr (), s2)"
    using s2 each_collected [OF rows] by simp
  from insert_scopes_returns [OF s2'] s1 t have "organization_invitations t = organization_invitations u"
    by (auto simp: inserts outcomes)
  moreover have "add_member d m e u = (Inr True, t)"
    using mid s1 s2' t by (auto simp: add_member_def outcomes)
  ultimately show thesis
    using u one by (intro that)
qed

lemma invitation_from_records_fields:
  assumes "invitation_from_records r scopes = Some i"
  shows "invitation_id i = oi_id r" "invitation_organization_id i = oi_organization_id r"
    "invitation_email_lookup_hash i = oi_email_lookup_hash r" "invitation_token_hash i = oi_token_hash r"
    "oi_role r = OrganizationRole_value (invitation_role i)"
    "invitation_accepted_at i = oi_accepted_at r" "invitation_revoked_at i = oi_revoked_at r"
    "invitation_expires_at i = oi_expires_at r" "distinct (invitation_resource_scopes i)"
proof -
  have same: "y = x" if "OrganizationInvitation_post_init x = Inr y" for x y
    using that by (auto simp: OrganizationInvitation_post_init_def split: if_splits)
  show "invitation_id i = oi_id r" "invitation_organization_id i = oi_organization_id r"
    "invitation_email_lookup_hash i = oi_email_lookup_hash r" "invitation_token_hash i = oi_token_hash r"
    "oi_role r = OrganizationRole_value (invitation_role i)"
    "invitation_accepted_at i = oi_accepted_at r" "invitation_revoked_at i = oi_revoked_at r"
    "invitation_expires_at i = oi_expires_at r" "distinct (invitation_resource_scopes i)"
    using assms
    by (auto simp: invitation_from_records_def split: option.splits
        dest!: same OrganizationRole_parse_Some)
qed

lemma invitation_role_not_owner:
  assumes "db_ok s" and "r \<in> set (organization_invitations s)" and "invitation_from_records r scopes = Some i"
  shows "invitation_role i \<noteq> OWNER"
proof -
  have "ck_organization_invitations_role (oi_role r)"
    using assms(1,2) by (simp add: db_ok_def invitations_ok_def)
  with invitation_from_records_fields(5) [OF assms(3)] show ?thesis
    by (auto simp: ck_organization_invitations_role_def)
qed

lemma find_pending_row:
  assumes "fst (find_pending_by_token_hash h now s) = Inr (Some i)"
  obtains r where "r \<in> set (organization_invitations s)" "oi_token_hash r = h" "oi_accepted_at r = None"
    "oi_revoked_at r = None" "dt_lt now (oi_expires_at r)"
    "invitation_from_records r (scopes_for_invitation s (oi_id r)) = Some i"
  using assms by (auto simp: find_pending_by_token_hash_def tries_def dest!: find_one_SomeD)

lemma invitation_audit_event_Inr:
  "invitation_audit_event i c a org action iid = Inr e \<Longrightarrow>
     audit_action e = action \<and> audit_actor_id e = Some a \<and> audit_organization_id e = Some org
     \<and> audit_resource_id e = Some (uuid_str iid)"
  by (auto simp: invitation_audit_event_def AuditEvent_post_init_def split: if_splits)

lemma distinct_fresh_scope_ids [simp]: "length (fresh_scope_ids new n scs) = length scs"
  by (induction scs arbitrary: n) simp_all

lemma AcceptInvitation_returns:
  assumes "AcceptOrganizationInvitation_execute P io cmd s = (Inr m, t)"
  obtains i event where
    "is_usable_token (ac_raw_token cmd)"
    "fst (find_pending_by_token_hash (token_hash P (ac_raw_token cmd)) (clock io 0) s) = Inr (Some i)"
    "fst (find_active_user_id_by_email_lookup_hash (invitation_email_lookup_hash i) s) = Inr (Some (ac_actor_id cmd))"
    "fst (get_status (ac_actor_id cmd) s) = Inr (Some USER_ACTIVE)"
    "fst (get_membership (ac_actor_id cmd) (invitation_organization_id i) s) = Inr None"
    "m = \<lparr>member_actor_id = ac_actor_id cmd, member_organization_id = invitation_organization_id i,
          member_role = invitation_role i,
          member_resource_scopes = remdups (fresh_scope_ids (new_id io) 1 (invitation_resource_scopes i)),
          member_id = Some (new_id io 0)\<rparr>"
    "audit_action event = ''organization.member.invitation.accepted''"
    "audit_actor_id event = Some (ac_actor_id cmd)" "audit_resource_id event = Some (uuid_str (invitation_id i))"
    "invitation_accept (db_now io 0) i m (clock io 0) event s = (Inr True, t)"
  using assms unfolding AcceptOrganizationInvitation_execute_def Let_def acceptance_failed_def
  by (auto simp: outcomes invitation_reader_outcomes dest!: invitation_audit_event_Inr
      intro: that split: if_splits)


lemma not_has_key: "\<not> has_key f k rows \<longleftrightarrow> (\<forall>r \<in> set rows. f r \<noteq> k)"
  by (auto simp: has_key_def)

text \<open>The delivery update changes nothing but the delivery status.\<close>

definition delivered_rows ::
  "uuid \<Rightarrow> uuid \<Rightarrow> OrganizationInvitationDeliveryStatus \<Rightarrow> OrganizationInvitationRecord list \<Rightarrow>
   OrganizationInvitationRecord list" where
  "delivered_rows i org st = update_rows (\<lambda>r. oi_id r = i \<and> oi_organization_id r = org)
     (\<lambda>r. r\<lparr>oi_delivery_status := Some (OrganizationInvitationDeliveryStatus_value st)\<rparr>)"

lemma update_delivery_status_eq:
  "update_delivery_status i org st s =
     (Inr (rowcount (\<lambda>r. oi_id r = i \<and> oi_organization_id r = org) (organization_invitations s) = 1),
      s\<lparr>organization_invitations := delivered_rows i org st (organization_invitations s)\<rparr>)"
  by (simp add: update_delivery_status_def update_invitations_def effects delivered_rows_def)

lemma InviteMember_returns:
  assumes "InviteOrganizationMember_execute P io notify cmd s = (Inr res, t)"
  obtains email org actor hint i event u where
    "normalize P (iv_email cmd) = Inr email"
    "fst (find_organization_by_id (iv_organization_id cmd) s) = Inr (Some org)"
    "fst (get_membership (iv_actor_id cmd) (iv_organization_id cmd) s) = Inr (Some actor)"
    "can_manage_organization_members (member_role actor)" "may_assign (member_role actor) (iv_role cmd)"
    "list_all (supports_scope (iv_role cmd)) (iv_resource_scopes cmd)"
    "i = \<lparr>invitation_id = new_id io 0, invitation_organization_id = iv_organization_id cmd,
          invitation_invited_by_user_id = iv_actor_id cmd,
          invitation_email_lookup_hash = lookup_hash P email, invitation_email_hint = hint,
          invitation_email_ciphertext = encrypt io email,
          invitation_token_hash = token_hash P (new_token io 0), invitation_role = iv_role cmd,
          invitation_resource_scopes = remdups (fst (assign_scope_ids (new_id io) 1 (iv_resource_scopes cmd))),
          invitation_expires_at = dt_add (clock io 0) invitation_lifetime,
          invitation_created_at = clock io 0, invitation_accepted_at = None,
          invitation_revoked_at = None, invitation_delivery_status = None\<rparr>"
    "audit_action event = ''organization.member.invitation.created''"
    "audit_actor_id event = Some (iv_actor_id cmd)"
    "invitation_create (db_now io 0) i event s = (Inr True, u)"
    "t = u\<lparr>organization_invitations := delivered_rows (new_id io 0) (iv_organization_id cmd)
        (delivery_of (notify (new_id io 0) (organization_name org) email
           (OrganizationRole_value (iv_role cmd)) (new_token io 0)
           (dt_add (clock io 0) invitation_lifetime) (iv_correlation_id cmd)))
        (organization_invitations u)\<rparr>"
    "creation_delivery_status res = OrganizationInvitationDeliveryStatus_value
        (delivery_of (notify (new_id io 0) (organization_name org) email
           (OrganizationRole_value (iv_role cmd)) (new_token io 0)
           (dt_add (clock io 0) invitation_lifetime) (iv_correlation_id cmd)))"
proof -
  obtain scopes n where scopes: "assign_scope_ids (new_id io) (Suc 0) (iv_resource_scopes cmd) = (scopes, n)"
    by fastforce
  have same: "y = x" if "OrganizationInvitation_post_init x = Inr y" for x y
    using that by (auto simp: OrganizationInvitation_post_init_def split: if_splits)
  show thesis
    using assms unfolding InviteOrganizationMember_execute_def Let_def
    by (auto simp: outcomes invitation_reader_outcomes scopes update_delivery_status_eq
        filter_empty_conv list_all_iff split: option.splits dest!: invitation_audit_event_Inr same
        intro!: that)
qed


section \<open>Properties\<close>

text \<open>
  C19: An invitation is created only by an owner or administrator who outranks the offered role and
  only with scopes that role supports. Exactly one invitation row is appended: open, valid for seven
  days, holding the digest of the token that the notifier was given, and marked with what became of
  the delivery; one audit row is appended and no membership changes.
\<close>

theorem invite_correct:
  assumes "InviteOrganizationMember_execute P io notify cmd s = (Inr res, t)"
  shows "\<exists>email org actor r e. normalize P (iv_email cmd) = Inr email
    \<and> fst (find_organization_by_id (iv_organization_id cmd) s) = Inr (Some org)
    \<and> fst (get_membership (iv_actor_id cmd) (iv_organization_id cmd) s) = Inr (Some actor)
    \<and> member_role actor \<in> {OWNER, ADMIN} \<and> member_role actor < iv_role cmd
    \<and> list_all (supports_scope (iv_role cmd)) (iv_resource_scopes cmd)
    \<and> organization_invitations t = organization_invitations s @ [r]
    \<and> oi_organization_id r = iv_organization_id cmd \<and> oi_role r = OrganizationRole_value (iv_role cmd)
    \<and> oi_email_lookup_hash r = lookup_hash P email \<and> oi_token_hash r = token_hash P (new_token io 0)
    \<and> oi_accepted_at r = None \<and> oi_revoked_at r = None
    \<and> oi_expires_at r = dt_add (clock io 0) (days 7)
    \<and> oi_delivery_status r = Some (OrganizationInvitationDeliveryStatus_value
         (case notify (oi_id r) (organization_name org) email (oi_role r) (new_token io 0)
                 (oi_expires_at r) (iv_correlation_id cmd) of
            Inl _ \<Rightarrow> FAILED | Inr True \<Rightarrow> SENT | Inr False \<Rightarrow> UNAVAILABLE))
    \<and> creation_delivery_status res = the (oi_delivery_status r)
    \<and> organization_memberships t = organization_memberships s
    \<and> audit_events t = audit_events s @ [e] \<and> a_action e = ''organization.member.invitation.created''
    \<and> a_actor_id e = Some (iv_actor_id cmd)"
  using assms
proof (elim InviteMember_returns, goal_cases)
  case (1 email org actor hint i event u)
  let ?st = "delivery_of (notify (new_id io 0) (organization_name org) email
     (OrganizationRole_value (iv_role cmd)) (new_token io 0)
     (dt_add (clock io 0) invitation_lifetime) (iv_correlation_id cmd))"
  let ?r = "(invitation_record i)\<lparr>oi_delivery_status := Some (OrganizationInvitationDeliveryStatus_value ?st)\<rparr>"
  from 1(10) obtain rows where
    u: "u = s\<lparr>organization_invitations := organization_invitations s @ [invitation_record i],
        organization_invitation_scopes := organization_invitation_scopes s @ rows,
        audit_events := audit_events s @ [audit_record (db_now io 0) event]\<rparr>"
    and fresh: "\<not> has_key oi_id (invitation_id i) (organization_invitations s)"
    by (rule invitation_create_effect)
  have "delivered_rows (new_id io 0) (iv_organization_id cmd) st (organization_invitations s) =
      organization_invitations s" for st
    using fresh [unfolded not_has_key] 1(7) unfolding delivered_rows_def
    by (intro no_match_update) (simp add: filter_empty_conv)
  then have invs: "organization_invitations t = organization_invitations s @ [?r]"
    by (simp add: 1(11) u) (simp add: delivered_rows_def update_rows_def 1(7) invitation_record_def)
  have st: "?st = (case notify (oi_id ?r) (organization_name org) email (oi_role ?r) (new_token io 0)
                 (oi_expires_at ?r) (iv_correlation_id cmd) of
            Inl _ \<Rightarrow> FAILED | Inr True \<Rightarrow> SENT | Inr False \<Rightarrow> UNAVAILABLE)"
    by (simp add: delivery_of_def 1(7) invitation_record_def split: sum.split bool.split)
  show ?case
    by (rule exI [of _ email], rule exI [of _ org], rule exI [of _ actor], rule exI [of _ ?r],
        rule exI [of _ "audit_record (db_now io 0) event"])
      (use 1(1-6,8,9,12) invs st in \<open>simp add: u 1(11) audit_record_def can_manage_organization_members_def
        may_assign_less; simp add: 1(7) invitation_record_def invitation_lifetime_def\<close>)
qed

theorem invite_correct_witness:
  "\<exists>res t. InviteOrganizationMember_execute sample_ports sample_io (\<lambda>_ _ _ _ _ _ _. Inr True)
     \<lparr>iv_actor_id = 2, iv_organization_id = 100, iv_email = ''new@x'', iv_role = ANALYST,
      iv_resource_scopes = [\<lparr>scope_resource = AUDIT_EVENTS, scope_action = ACTION_READ, scope_id = None\<rparr>],
      iv_correlation_id = 9\<rparr> sample = (Inr res, t)
     \<and> length (organization_invitations t) = 2 \<and> creation_delivery_status res = ''sent''"
  (is "\<exists>res t. ?exec sample = _ \<and> _")
proof -
  have "\<exists>x. fst (?exec sample) = Inr x"
    by (simp add: invitation_evaluation)
  then obtain res t where run: "?exec sample = (Inr res, t)"
    by (rule returns)
  from invite_correct [OF run] run show ?thesis
    by (intro exI [of _ res] exI [of _ t]) (auto simp: sample_defs)
qed


section \<open>Accepting and revoking\<close>

lemma open_invitation_spends:
  assumes "rowcount (open_invitation i org now) (organization_invitations s) = 1"
    and rows: "organization_invitations t = update_rows (open_invitation i org now) f (organization_invitations s)"
    and f: "\<And>r. oi_token_hash (f r) = oi_token_hash r"
      "\<And>r. oi_accepted_at (f r) \<noteq> None \<or> oi_revoked_at (f r) \<noteq> None"
    and r: "db_ok s" "r \<in> set (organization_invitations s)" "oi_id r = i" "oi_token_hash r = k"
  shows "invitation_spent k t"
proof -
  from assms(1) obtain q where q: "q \<in> set (organization_invitations s)" "open_invitation i org now q"
    using rowcount_pos_iff [of "open_invitation i org now" "organization_invitations s"] by auto
  have "distinct (map oi_id (organization_invitations s))"
    using r(1) by (simp add: db_ok_def invitations_ok_def)
  then have "q = r"
    using q r(2,3) unfolding open_invitation_def by (metis distinct_map inj_onD)
  with q rows have "f r \<in> set (organization_invitations t)"
    by (auto simp: set_update_rows)
  with f r(4) show ?thesis
    unfolding invitation_spent_def by (intro bexI [of _ "f r"]) simp_all
qed

text \<open>
  C20: An invitation is accepted only by the active user who owns the invited e-mail address and is
  not yet a member, with the token of an open, unexpired invitation. The new member gets exactly the
  offered role, which is never owner, and a lookup afterwards returns the membership; one membership
  row and one audit row are appended and the invitation is used up.
\<close>

theorem accept_correct:
  assumes "db_ok s" and "AcceptOrganizationInvitation_execute P io cmd s = (Inr m, t)"
  shows "\<exists>r e. r \<in> set (organization_invitations s) \<and> oi_token_hash r = token_hash P (ac_raw_token cmd)
    \<and> oi_accepted_at r = None \<and> oi_revoked_at r = None \<and> dt_lt (clock io 0) (oi_expires_at r)
    \<and> fst (find_active_user_id_by_email_lookup_hash (oi_email_lookup_hash r) s) = Inr (Some (ac_actor_id cmd))
    \<and> fst (get_membership (ac_actor_id cmd) (oi_organization_id r) s) = Inr None
    \<and> member_actor_id m = ac_actor_id cmd \<and> member_organization_id m = oi_organization_id r
    \<and> OrganizationRole_value (member_role m) = oi_role r \<and> member_role m \<noteq> OWNER
    \<and> organization_memberships t = organization_memberships s @ [membership_record (new_id io 0) m]
    \<and> get_membership (ac_actor_id cmd) (oi_organization_id r) t = (Inr (Some m), t)
    \<and> audit_events t = audit_events s @ [e] \<and> a_action e = ''organization.member.invitation.accepted''
    \<and> a_actor_id e = Some (ac_actor_id cmd)
    \<and> invitation_spent (token_hash P (ac_raw_token cmd)) t"
  using assms(2)
proof (elim AcceptInvitation_returns, goal_cases)
  case (1 i event)
  from 1(2) obtain r where r: "r \<in> set (organization_invitations s)"
    "oi_token_hash r = token_hash P (ac_raw_token cmd)" "oi_accepted_at r = None" "oi_revoked_at r = None"
    "dt_lt (clock io 0) (oi_expires_at r)"
    "invitation_from_records r (scopes_for_invitation s (oi_id r)) = Some i" by (rule find_pending_row)
  note f = invitation_from_records_fields [OF r(6)]
  from 1(10) obtain u where u: "u = s\<lparr>organization_invitations :=
        update_rows (open_invitation (invitation_id i) (invitation_organization_id i) (clock io 0))
          (\<lambda>r. r\<lparr>oi_accepted_at := Some (clock io 0)\<rparr>) (organization_invitations s)\<rparr>"
    and one: "rowcount (open_invitation (invitation_id i) (invitation_organization_id i) (clock io 0))
       (organization_invitations s) = 1"
    and add: "add_member (db_now io 0) m event u = (Inr True, t)"
    and inv: "organization_invitations t = organization_invitations u"
    by (rule invitation_accept_effect)
  have "db_ok u"
    using obeysD [OF inv_invitation_updates(1), of s _ "Some (clock io 0)"] assms(1)
    by (simp add: u update_invitations_def)
  from add_member_effect [OF this add] 1(6) obtain mid where eff: "member_id m = Some mid"
    "organization_memberships t = organization_memberships u @ [membership_record mid m]"
    "audit_events t = audit_events u @ [audit_record (db_now io 0) event]"
    "get_membership (member_actor_id m) (member_organization_id m) t = (Inr (Some m), t)"
    by auto
  have "invitation_spent (token_hash P (ac_raw_token cmd)) t"
    by (rule open_invitation_spends [OF one, of t "\<lambda>r. r\<lparr>oi_accepted_at := Some (clock io 0)\<rparr>" r])
      (simp_all add: inv u assms(1) r f)
  with 1(3,5,7,8) r f eff invitation_role_not_owner [OF assms(1) r(1,6)] show ?case
    by (intro exI [of _ r] exI [of _ "audit_record (db_now io 0) event"])
      (simp add: 1(6) u audit_record_def)
qed

theorem accept_correct_witness:
  "\<exists>m t. AcceptOrganizationInvitation_execute sample_ports sample_io
     \<lparr>ac_actor_id = 4, ac_raw_token = ''invite'', ac_correlation_id = 9\<rparr> sample = (Inr m, t)
     \<and> member_role m = VIEWER \<and> length (organization_memberships t) = 4"
  (is "\<exists>m t. ?exec sample = _ \<and> _")
proof -
  have "\<exists>x. fst (?exec sample) = Inr x"
    by (simp add: invitation_evaluation)
  then obtain m t where run: "?exec sample = (Inr m, t)"
    by (rule returns)
  from accept_correct [OF sample_ok run] obtain r where
    "r \<in> set (organization_invitations sample)" "OrganizationRole_value (member_role m) = oi_role r"
    "organization_memberships t = organization_memberships sample @ [membership_record (new_id sample_io 0) m]"
    by blast
  then have "OrganizationRole_value (member_role m) = OrganizationRole_value VIEWER"
    "length (organization_memberships t) = 4"
    by (simp_all add: sample_defs)
  with run show ?thesis by (metis OrganizationRole_value_inject)
qed

lemma spent_not_pending:
  assumes "db_ok s" and "invitation_spent k s"
  shows "find_pending_by_token_hash k now s = (Inr None, s)"
proof -
  let ?P = "\<lambda>r. oi_token_hash r = k \<and> oi_accepted_at r = None \<and> oi_revoked_at r = None
    \<and> dt_lt now (oi_expires_at r)"
  obtain r where r: "r \<in> set (organization_invitations s)" "oi_token_hash r = k"
    "oi_accepted_at r \<noteq> None \<or> oi_revoked_at r \<noteq> None"
    using assms(2) unfolding invitation_spent_def by blast
  have "distinct (map oi_token_hash (organization_invitations s))"
    using assms(1) by (simp add: db_ok_def invitations_ok_def)
  from this r(1,2) have "filter ?P (organization_invitations s) = []"
    by (rule no_match_of_key) (use r(3) in auto)
  then show ?thesis
    by (simp add: find_pending_by_token_hash_def tries_def find_one_def)
qed

lemma accept_spent_refused:
  assumes "db_ok s" and "invitation_spent (token_hash P (ac_raw_token cmd)) s"
  shows "AcceptOrganizationInvitation_execute P io cmd s =
    (Inl (OrganizationInvitationAcceptanceRejectedError ''Invitation acceptance failed.''), s)"
  by (simp add: AcceptOrganizationInvitation_execute_def acceptance_failed_def raise_def bnd_apply Let_def
      spent_not_pending [OF assms])

text \<open>
  C21: An invitation is accepted at most once: after it was accepted, every later attempt with the
  same token is refused and changes nothing, by whomever and whatever else happened in between, as
  long as the database stays consistent and its history is kept.
\<close>

theorem accept_at_most_once:
  assumes "db_ok s" and "AcceptOrganizationInvitation_execute P io cmd s = (Inr m, t)"
    and "db_ok u" and "history t u" and "ac_raw_token cmd2 = ac_raw_token cmd"
  shows "AcceptOrganizationInvitation_execute P io2 cmd2 u =
    (Inl (OrganizationInvitationAcceptanceRejectedError ''Invitation acceptance failed.''), u)"
proof -
  from accept_correct [OF assms(1,2)] have "invitation_spent (token_hash P (ac_raw_token cmd)) t"
    by blast
  with assms(4,5) have "invitation_spent (token_hash P (ac_raw_token cmd2)) u"
    by (simp add: history_def)
  with assms(3) show ?thesis by (rule accept_spent_refused)
qed


theorem accept_at_most_once_witness:
  "\<exists>m t. AcceptOrganizationInvitation_execute sample_ports sample_io
     \<lparr>ac_actor_id = 4, ac_raw_token = ''invite'', ac_correlation_id = 9\<rparr> sample = (Inr m, t)
     \<and> snd (AcceptOrganizationInvitation_execute sample_ports sample_io
          \<lparr>ac_actor_id = 4, ac_raw_token = ''invite'', ac_correlation_id = 10\<rparr> t) = t"
  (is "\<exists>m t. ?exec sample = _ \<and> snd (?again t) = t")
proof -
  have "\<exists>x. fst (?exec sample) = Inr x"
    by (simp add: invitation_evaluation)
  then obtain m t where run: "?exec sample = (Inr m, t)"
    by (rule returns)
  have "db_ok t"
    by (rule db_ok_after [OF inv_invitation_use_cases(2) sample_ok run])
  from accept_at_most_once [OF sample_ok run this his.law_refl, of _ sample_io] run show ?thesis
    by (intro exI [of _ m] exI [of _ t]) simp
qed

text \<open>
  Revoking an invitation succeeds only for an owner or administrator who outranks the offered
  role, and only while the invitation is open; only that row changes, one audit row is appended, and
  from then on every attempt to accept with its token is refused.
\<close>

theorem revoke_invitation_correct:
  assumes "db_ok s" and "RevokeOrganizationInvitation_execute io cmd s = (Inr u, t)"
  shows "\<exists>actor r e. fst (get_membership (ri_actor_id cmd) (ri_organization_id cmd) s) = Inr (Some actor)
    \<and> r \<in> set (organization_invitations s) \<and> oi_id r = ri_invitation_id cmd
    \<and> oi_organization_id r = ri_organization_id cmd \<and> oi_accepted_at r = None \<and> oi_revoked_at r = None
    \<and> (\<exists>role. oi_role r = OrganizationRole_value role \<and> member_role actor < role)
    \<and> member_role actor \<in> {OWNER, ADMIN}
    \<and> filter (\<lambda>q. oi_id q \<noteq> ri_invitation_id cmd) (organization_invitations t) =
       filter (\<lambda>q. oi_id q \<noteq> ri_invitation_id cmd) (organization_invitations s)
    \<and> audit_events t = audit_events s @ [e] \<and> a_action e = ''organization.member.invitation.revoked''
    \<and> (\<forall>P io2 cmd2. token_hash P (ac_raw_token cmd2) = oi_token_hash r \<longrightarrow>
         AcceptOrganizationInvitation_execute P io2 cmd2 t =
           (Inl (OrganizationInvitationAcceptanceRejectedError ''Invitation acceptance failed.''), t))"
proof -
  from assms(2) obtain actor i event where
    actor: "fst (get_membership (ri_actor_id cmd) (ri_organization_id cmd) s) = Inr (Some actor)"
      "can_manage_organization_members (member_role actor)" "may_assign (member_role actor) (invitation_role i)"
    and i: "fst (find_invitation_for_organization (ri_organization_id cmd) (ri_invitation_id cmd) s) = Inr (Some i)"
    and pending: "status_at i (clock io 0) = Inr INVITATION_PENDING"
    and event: "audit_action event = ''organization.member.invitation.revoked''"
    and run: "invitation_revoke (db_now io 0) (invitation_id i) (invitation_organization_id i) (clock io 1) event s
      = (Inr True, t)"
    unfolding RevokeOrganizationInvitation_execute_def revocation_denied_def
    by (auto simp: outcomes invitation_reader_outcomes split: option.splits dest!: invitation_audit_event_Inr)
  from i obtain r where r: "r \<in> set (organization_invitations s)" "oi_organization_id r = ri_organization_id cmd"
    "oi_id r = ri_invitation_id cmd" "invitation_from_records r (scopes_for_invitation s (oi_id r)) = Some i"
    by (auto simp: find_invitation_for_organization_def tries_def dest!: find_one_SomeD)
  note f = invitation_from_records_fields [OF r(4)]
  let ?P = "open_invitation (invitation_id i) (invitation_organization_id i) (clock io 1)"
  let ?f = "\<lambda>r. r\<lparr>oi_revoked_at := Some (clock io 1)\<rparr>"
  from run have one: "rowcount ?P (organization_invitations s) = 1"
    and rows: "organization_invitations t = update_rows ?P ?f (organization_invitations s)"
    and audit: "audit_events t = audit_events s @ [audit_record (db_now io 0) event]"
    by (auto simp: invitation_revoke_def outcomes update_invitations_def inserts)
  have "invitation_spent (oi_token_hash r) t"
    by (rule open_invitation_spends [OF one rows _ _ assms(1) r(1)]) (simp_all add: f)
  moreover have "db_ok t"
    using obeysD [OF inv_invitation_use_cases(3), of s io cmd] assms by simp
  ultimately have refused: "token_hash P (ac_raw_token cmd2) = oi_token_hash r \<Longrightarrow>
      AcceptOrganizationInvitation_execute P io2 cmd2 t =
        (Inl (OrganizationInvitationAcceptanceRejectedError ''Invitation acceptance failed.''), t)" for P io2 cmd2
    using accept_spent_refused [of t P cmd2 io2] by simp
  have others: "filter (\<lambda>q. oi_id q \<noteq> ri_invitation_id cmd) (organization_invitations t) =
       filter (\<lambda>q. oi_id q \<noteq> ri_invitation_id cmd) (organization_invitations s)"
    unfolding rows by (rule filter_update_rows) (simp_all add: open_invitation_def f r)
  from pending have "invitation_accepted_at i = None" "invitation_revoked_at i = None"
    by (auto simp: status_at_def split: if_splits)
  with actor r f event audit others refused show ?thesis
    by (intro exI [of _ actor] exI [of _ r] exI [of _ "audit_record (db_now io 0) event"])
      (auto simp: can_manage_organization_members_def may_assign_less audit_record_def)
qed

theorem revoke_invitation_correct_witness:
  "\<exists>t. RevokeOrganizationInvitation_execute sample_io
     \<lparr>ri_actor_id = 2, ri_organization_id = 100, ri_invitation_id = 80, ri_correlation_id = 9\<rparr> sample = (Inr (), t)
     \<and> length (audit_events t) = 1"
  (is "\<exists>t. ?exec sample = _ \<and> _")
proof -
  have "fst (?exec sample) = Inr ()"
    by (simp add: invitation_evaluation)
  then obtain t where run: "?exec sample = (Inr (), t)"
    by (rule returns_value)
  from revoke_invitation_correct [OF sample_ok run] run show ?thesis
    by (intro exI [of _ t]) (auto simp: sample_defs)
qed

section \<open>Owners\<close>

lemma own_invitation_use_cases:
  "obeys keeps_owners (InviteOrganizationMember_execute P io nt c1)"
  "obeys keeps_owners (AcceptOrganizationInvitation_execute P io c2)"
  "obeys keeps_owners (RevokeOrganizationInvitation_execute io c3)"
proof -
  show "obeys keeps_owners (InviteOrganizationMember_execute P io nt c1)"
    "obeys keeps_owners (RevokeOrganizationInvitation_execute io c3)"
    unfolding invitation_use_cases Let_def
    by (intro own_steps own_invitation_writers(1-3) invitation_use_case_readers)+
  show "obeys keeps_owners (AcceptOrganizationInvitation_execute P io c2)"
  proof (rule own_of_outcomes [OF inv_invitation_use_cases(2) clean_invitation_use_cases(1)])
    fix s m t
    assume ok: "db_ok s" and run: "AcceptOrganizationInvitation_execute P io c2 s = (Inr m, t)"
    from run show "owner_rows t = owner_rows s"
    proof (elim AcceptInvitation_returns, goal_cases)
      case (1 i event)
      from 1(2) obtain r where "r \<in> set (organization_invitations s)"
        "invitation_from_records r (scopes_for_invitation s (oi_id r)) = Some i" by (rule find_pending_row)
      then have "member_role m \<noteq> OWNER"
        using invitation_role_not_owner [OF ok] 1(6) by simp
      from obeysD [OF own_invitation_writers(4) [OF this], of s "db_now io 0" i "clock io 0" event] 1(10) ok
      show ?case by (simp add: keeps_owners_def)
    qed
  qed
qed

end
