(* ===== verification/Identities.thy ===== *)
theory Identities
  imports Invitation_Properties
begin

text \<open>
  The use cases on login identities: listing and unlinking (\<open>list_login_identities.py\<close>,
  \<open>unlink_login_identity.py\<close>), linking through a one-time OAuth transaction
  (\<open>begin_identity_link_use_case.py\<close>, \<open>complete_identity_link_use_case.py\<close>,
  \<open>link_verified_identity_use_case.py\<close>) and OAuth login (\<open>begin_oauth_login_use_case.py\<close>,
  \<open>complete_oauth_login_use_case.py\<close>); further changing the password
  (\<open>change_email_password_use_case.py\<close>) and the retention clean-up
  (\<open>cleanup_security_records_use_case.py\<close>). The provider client, which exchanges an
  authorization code and a PKCE verifier for a subject, is an argument.
\<close>

section \<open>Listing and unlinking\<close>

definition ListLoginIdentities_execute :: "uuid \<Rightarrow> (console, LoginIdentityProfile list) operation" where
  "ListLoginIdentities_execute actor =
     bnd (get_status actor) (\<lambda>status.
     if status \<noteq> Some USER_ACTIVE then raise (LoginIdentityManagementRejectedError ''Access denied.'')
     else list_identities_for_user actor)"

record UnlinkLoginIdentityCommand =
  ul_principal :: BrowserSessionPrincipal
  ul_identity_id :: uuid
  ul_correlation_id :: uuid

definition identity_audit_event ::
  "uuid \<Rightarrow> uuid \<Rightarrow> uuid option \<Rightarrow> string \<Rightarrow> string \<Rightarrow> uuid \<Rightarrow> error + AuditEvent" where
  "identity_audit_event eid correlation actor action resource_type rid = AuditEvent_post_init
     \<lparr>audit_id = eid, audit_correlation_id = correlation, audit_actor_id = actor,
      audit_organization_id = None, audit_action = action, audit_resource_type = resource_type,
      audit_resource_id = Some (uuid_str rid), audit_result = ''succeeded''\<rparr>"

definition unlink_rejected :: "string \<Rightarrow> ('s, 'a) operation" where
  "unlink_rejected msg = raise (LoginIdentityManagementRejectedError msg)"

definition UnlinkLoginIdentity_execute ::
  "io \<Rightarrow> UnlinkLoginIdentityCommand \<Rightarrow> (console, LoginIdentityProfile) operation" where
  "UnlinkLoginIdentity_execute io cmd =
     (let actor = principal_user_id (ul_principal cmd) in
      bnd (RequireRecentAuthentication_check (clock io 0) (ul_principal cmd)) (\<lambda>_.
      bnd (get_status actor) (\<lambda>status.
      if status \<noteq> Some USER_ACTIVE then unlink_rejected ''Identity unlink denied.''
      else
        bnd (list_identities_for_user actor) (\<lambda>identities.
        case find (\<lambda>i. profile_id i = ul_identity_id cmd) identities of
          None \<Rightarrow> unlink_rejected ''Identity unlink denied.''
        | Some target \<Rightarrow>
            if profile_provider target = PROVIDER_EMAIL
            then unlink_rejected ''Email identity cannot be unlinked.''
            else if length identities \<le> 1
            then unlink_rejected ''Last usable identity cannot be removed.''
            else
              bnd (construct (identity_audit_event (new_id io 0) (ul_correlation_id cmd) (Some actor)
                     ''identity.unlink'' ''login_identity'' (profile_id target))) (\<lambda>event.
              bnd (unlink_identity (db_now io 0) (profile_id target) actor event) (\<lambda>unlinked.
              if \<not> unlinked then unlink_rejected ''Identity unlink failed.'' else ret target))))))"

section \<open>Linking\<close>

record LinkVerifiedIdentityCommand =
  lv_actor_id :: uuid
  lv_provider :: LoginIdentityProvider
  lv_verified_provider_subject :: string
  lv_correlation_id :: uuid

definition link_rejected :: "('s, 'a) operation" where
  "link_rejected = raise (IdentityLinkRejectedError ''Identity could not be linked.'')"

definition LinkVerifiedIdentity_execute ::
  "io \<Rightarrow> LinkVerifiedIdentityCommand \<Rightarrow> (console, LoginIdentity) operation" where
  "LinkVerifiedIdentity_execute io cmd =
     (if lv_provider cmd = PROVIDER_EMAIL then link_rejected
      else
        bnd (get_status (lv_actor_id cmd)) (\<lambda>status.
        if status \<noteq> Some USER_ACTIVE then link_rejected
        else
          (case LoginIdentity_post_init
                  \<lparr>identity_id = new_id io 0, identity_user_id = lv_actor_id cmd,
                   identity_provider = lv_provider cmd,
                   identity_provider_subject = lv_verified_provider_subject cmd\<rparr> of
             Inl _ \<Rightarrow> link_rejected
           | Inr identity \<Rightarrow>
               bnd (construct (identity_audit_event (new_id io 1) (lv_correlation_id cmd)
                      (Some (lv_actor_id cmd)) ''identity.link'' ''login_identity'' (identity_id identity))) (\<lambda>event.
               bnd (link_identity (db_now io 0) identity event) (\<lambda>linked.
               if \<not> linked then link_rejected else ret identity)))))"

record BeginIdentityLinkCommand =
  bl_actor_id :: uuid
  bl_provider :: LoginIdentityProvider
  bl_correlation_id :: uuid

record StartedIdentityLink =
  started_state :: string
  started_code_challenge :: string
  started_expires_in_seconds :: int

definition link_lifetime :: timedelta where
  "link_lifetime = minutes 10"

definition BeginIdentityLink_execute ::
  "ports \<Rightarrow> io \<Rightarrow> BeginIdentityLinkCommand \<Rightarrow> (console, StartedIdentityLink) operation" where
  "BeginIdentityLink_execute P io cmd =
     (let rejected = raise (IdentityLinkStartRejectedError ''Identity link could not be started.'') in
      if bl_provider cmd = PROVIDER_EMAIL then rejected
      else
        bnd (get_status (bl_actor_id cmd)) (\<lambda>status.
        if status \<noteq> Some USER_ACTIVE then rejected
        else
          let now = clock io 0; state = new_token io 0; code_verifier = new_token io 1 in
          bnd (construct (IdentityLinkTransaction_post_init
                 \<lparr>linktx_id = new_id io 0, linktx_user_id = bl_actor_id cmd,
                  linktx_provider = bl_provider cmd, linktx_state_hash = token_hash P state,
                  linktx_code_verifier_ciphertext = encrypt io code_verifier,
                  linktx_expires_at = dt_add now link_lifetime, linktx_consumed_at = None\<rparr>)) (\<lambda>tx.
          bnd (construct (identity_audit_event (new_id io 1) (bl_correlation_id cmd) (Some (bl_actor_id cmd))
                 ''identity.link_started'' ''identity_link_transaction'' (linktx_id tx))) (\<lambda>event.
          bnd (link_transaction_create (db_now io 0) tx event) (\<lambda>created.
          if \<not> created then rejected
          else ret \<lparr>started_state = state, started_code_challenge = pkce_challenge P code_verifier,
                    started_expires_in_seconds = link_lifetime div seconds 1\<rparr>)))))"

record CompleteIdentityLinkCommand =
  cl_provider :: LoginIdentityProvider
  cl_state :: string
  cl_authorization_code :: string
  cl_correlation_id :: uuid

text \<open>The exceptions that \<open>except (IdentityLinkRejectedError, ValueError)\<close> catches.\<close>

fun is_link_rejected_or_value_error :: "error \<Rightarrow> bool" where
  "is_link_rejected_or_value_error (IdentityLinkRejectedError _) = True"
| "is_link_rejected_or_value_error (ValueError _) = True"
| "is_link_rejected_or_value_error (EmailPasswordRegistrationRejectedError _) = True"
| "is_link_rejected_or_value_error (ConfigurationError _) = True"
| "is_link_rejected_or_value_error _ = False"

type_synonym provider_client = "string \<Rightarrow> string \<Rightarrow> error + string"

definition link_completion_rejected :: "('s, 'a) operation" where
  "link_completion_rejected =
     raise (IdentityLinkCompletionRejectedError ''Identity link could not be completed.'')"

definition CompleteIdentityLink_execute ::
  "ports \<Rightarrow> io \<Rightarrow> provider_client \<Rightarrow> CompleteIdentityLinkCommand \<Rightarrow> (console, LoginIdentity) operation" where
  "CompleteIdentityLink_execute P io resolve_subject cmd =
     (if cl_state cmd = [] \<or> cl_authorization_code cmd = [] then link_completion_rejected
      else
        bnd (consume_link_transaction (token_hash P (cl_state cmd)) (clock io 0)) (\<lambda>found.
        case found of
          None \<Rightarrow> link_completion_rejected
        | Some tx \<Rightarrow>
            if linktx_provider tx \<noteq> cl_provider cmd then link_completion_rejected
            else
              catching
                (bnd (construct (decrypt P (linktx_code_verifier_ciphertext tx))) (\<lambda>verifier.
                 bnd (construct (resolve_subject (cl_authorization_code cmd) verifier)) (\<lambda>subject.
                 LinkVerifiedIdentity_execute io
                   \<lparr>lv_actor_id = linktx_user_id tx, lv_provider = linktx_provider tx,
                    lv_verified_provider_subject = subject, lv_correlation_id = cl_correlation_id cmd\<rparr>)))
                (\<lambda>e. if is_link_rejected_or_value_error e then link_completion_rejected else raise e)))"

section \<open>OAuth login\<close>

definition login_lifetime :: timedelta where
  "login_lifetime = minutes 10"

definition BeginOAuthLogin_execute ::
  "ports \<Rightarrow> io \<Rightarrow> LoginIdentityProvider \<Rightarrow> uuid \<Rightarrow> (console, StartedIdentityLink) operation" where
  "BeginOAuthLogin_execute P io provider correlation =
     (let rejected = raise (OAuthLoginStartRejectedError ''OAuth login could not be started.'') in
      if provider = PROVIDER_EMAIL then rejected
      else
        let state = new_token io 0; code_verifier = new_token io 1 in
        bnd (construct (OAuthLoginTransaction_post_init
               \<lparr>logintx_id = new_id io 0, logintx_provider = provider,
                logintx_state_hash = token_hash P state,
                logintx_code_verifier_ciphertext = encrypt io code_verifier,
                logintx_expires_at = dt_add (clock io 0) login_lifetime\<rparr>)) (\<lambda>tx.
        bnd (construct (identity_audit_event (new_id io 1) correlation None
               ''auth.oauth_login_started'' ''oauth_login_transaction'' (logintx_id tx))) (\<lambda>event.
        bnd (login_transaction_create (db_now io 0) tx event) (\<lambda>created.
        if \<not> created then rejected
        else ret \<lparr>started_state = state, started_code_challenge = pkce_challenge P code_verifier,
                  started_expires_in_seconds = login_lifetime div seconds 1\<rparr>))))"

record CompleteOAuthLoginRequest =
  ol_provider :: LoginIdentityProvider
  ol_state :: string
  ol_authorization_code :: string
  ol_correlation_id :: uuid
  ol_client_ip :: "string option"
  ol_user_agent :: "string option"

definition oauth_login_rejected :: "('s, 'a) operation" where
  "oauth_login_rejected = raise (OAuthLoginCompletionRejectedError ''OAuth login could not be completed.'')"

text \<open>The session use case reads the clock after the consumption did, so its clock is one reading on.\<close>

definition later_clock :: "io \<Rightarrow> io" where
  "later_clock io = io\<lparr>clock := (\<lambda>n. clock io (Suc n))\<rparr>"

definition CompleteOAuthLogin_execute ::
  "ports \<Rightarrow> io \<Rightarrow> provider_client \<Rightarrow> CompleteOAuthLoginRequest \<Rightarrow>
   (console, IssuedBrowserSession) operation" where
  "CompleteOAuthLogin_execute P io resolve_subject req =
     (if ol_provider req = PROVIDER_EMAIL \<or> ol_state req = [] \<or> ol_authorization_code req = []
      then oauth_login_rejected
      else
        bnd (consume_login_transaction (token_hash P (ol_state req)) (clock io 0)) (\<lambda>found.
        case found of
          None \<Rightarrow> oauth_login_rejected
        | Some tx \<Rightarrow>
            if logintx_provider tx \<noteq> ol_provider req then oauth_login_rejected
            else
              catching
                (bnd (construct (decrypt P (logintx_code_verifier_ciphertext tx))) (\<lambda>verifier.
                 bnd (construct (resolve_subject (ol_authorization_code req) verifier)) (\<lambda>subject.
                 bnd (find_identity_user_id (ol_provider req) subject) (\<lambda>user.
                 case user of
                   None \<Rightarrow> raise (ValueError ''Provider identity is not linked.'')
                 | Some uid \<Rightarrow> CreateBrowserSession_execute P (later_clock io)
                     \<lparr>cs_user_id = uid, cs_correlation_id = ol_correlation_id req,
                      cs_assurance_level = RECENT_AUTHENTICATION, cs_client_ip = ol_client_ip req,
                      cs_user_agent = ol_user_agent req\<rparr>))))
                (\<lambda>_. oauth_login_rejected)))"

section \<open>Password change\<close>

record ChangeEmailPasswordCommand =
  cp_principal :: BrowserSessionPrincipal
  cp_current_password :: string
  cp_new_password :: string
  cp_correlation_id :: uuid

definition is_valid_new_password :: "string \<Rightarrow> bool" where
  "is_valid_new_password password \<longleftrightarrow> 12 \<le> length password \<and> length password \<le> 1024"

definition password_change_failed :: "('s, 'a) operation" where
  "password_change_failed = raise (PasswordChangeRejectedError ''Password change failed.'')"

definition ChangeEmailPassword_execute ::
  "ports \<Rightarrow> io \<Rightarrow> ChangeEmailPasswordCommand \<Rightarrow> (console, unit) operation" where
  "ChangeEmailPassword_execute P io cmd =
     (let actor = principal_user_id (cp_principal cmd) in
      bnd (RequireRecentAuthentication_check (clock io 0) (cp_principal cmd)) (\<lambda>_.
      bnd (get_status actor) (\<lambda>status.
      if status \<noteq> Some USER_ACTIVE then password_change_failed
      else if \<not> is_valid_new_password (cp_new_password cmd) then password_change_failed
      else
        bnd (find_credential_for_user actor) (\<lambda>credential.
        case credential of
          None \<Rightarrow> password_change_failed
        | Some c \<Rightarrow>
            if \<not> verify_password P (credential_password_hash c) (cp_current_password cmd)
            then password_change_failed
            else if cp_current_password cmd = cp_new_password cmd then password_change_failed
            else
              bnd (construct (identity_audit_event (new_id io 0) (cp_correlation_id cmd) (Some actor)
                     ''auth.password_changed'' ''user'' actor)) (\<lambda>event.
              bnd (change_password (db_now io 0) actor (hash_password io (cp_new_password cmd)) (clock io 1) event)
                (\<lambda>changed. if \<not> changed then password_change_failed else ret ()))))))"

section \<open>Retention clean-up\<close>

record CleanupSecurityRecordsCommand =
  cu_session_retention :: timedelta
  cu_password_recovery_retention :: timedelta

definition CleanupSecurityRecordsCommand_post_init ::
  "CleanupSecurityRecordsCommand \<Rightarrow> error + CleanupSecurityRecordsCommand" where
  "CleanupSecurityRecordsCommand_post_init c = checked
     [(cu_session_retention c \<le> 0, ''Session retention must be positive.''),
      (cu_password_recovery_retention c \<le> 0, ''Password recovery retention must be positive.'')] c"

record CleanupSecurityRecordsResult =
  deleted_sessions :: nat
  deleted_password_recovery_transactions :: nat

definition CleanupSecurityRecords_execute ::
  "io \<Rightarrow> CleanupSecurityRecordsCommand \<Rightarrow> (console, CleanupSecurityRecordsResult) operation" where
  "CleanupSecurityRecords_execute io cmd =
     (let now = clock io 0 in
      bnd (delete_expired_or_revoked_sessions (dt_add now (- cu_session_retention cmd))) (\<lambda>n.
      bnd (delete_consumed_or_expired_password_recovery_transactions
             (dt_add now (- cu_password_recovery_retention cmd))) (\<lambda>k.
      ret \<lparr>deleted_sessions = n, deleted_password_recovery_transactions = k\<rparr>)))"

lemmas identity_use_cases =
  UnlinkLoginIdentity_execute_def unlink_rejected_def LinkVerifiedIdentity_execute_def link_rejected_def
  BeginIdentityLink_execute_def CompleteIdentityLink_execute_def link_completion_rejected_def
  BeginOAuthLogin_execute_def CompleteOAuthLogin_execute_def oauth_login_rejected_def
  ChangeEmailPassword_execute_def password_change_failed_def CleanupSecurityRecords_execute_def


section \<open>Laws\<close>

lemmas identity_use_case_readers = invitation_use_case_readers silent_session_checks

lemma silent_list_identities [simp]: "silent (ListLoginIdentities_execute u)"
  unfolding ListLoginIdentities_execute_def
  by (intro silent_bnd silent_if session_readers silent_simps)

lemma inv_link_verified: "obeys keeps_db_ok (LinkVerifiedIdentity_execute io c)"
  unfolding identity_use_cases by (intro inv_steps inv_identity_writers inv_readers identity_use_case_readers)

lemma his_link_verified: "obeys history (LinkVerifiedIdentity_execute io c)"
  unfolding identity_use_cases by (intro his_steps his_identity_writers his_readers identity_use_case_readers)

lemma rev_link_verified: "obeys keeps_revoked (LinkVerifiedIdentity_execute io c)"
  unfolding identity_use_cases by (intro rev_steps rev_identity_writers identity_use_case_readers)

lemma inv_identity_use_cases:
  "obeys keeps_db_ok (UnlinkLoginIdentity_execute io c1)"
  "obeys keeps_db_ok (BeginIdentityLink_execute P io c2)"
  "obeys keeps_db_ok (CompleteIdentityLink_execute P io rs c3)"
  "obeys keeps_db_ok (BeginOAuthLogin_execute P io pr c)"
  "obeys keeps_db_ok (CompleteOAuthLogin_execute P io rs c4)"
  "obeys keeps_db_ok (ChangeEmailPassword_execute P io c5)"
  "obeys keeps_db_ok (CleanupSecurityRecords_execute io c6)"
  unfolding identity_use_cases(1,2,5-) Let_def
  by (intro inv_steps inv_identity_writers inv_link_verified inv_session_use_cases inv_readers identity_use_case_readers)+

lemma his_identity_use_cases:
  "obeys history (UnlinkLoginIdentity_execute io c1)"
  "obeys history (BeginIdentityLink_execute P io c2)"
  "obeys history (CompleteIdentityLink_execute P io rs c3)"
  "obeys history (BeginOAuthLogin_execute P io pr c)"
  "obeys history (CompleteOAuthLogin_execute P io rs c4)"
  "obeys history (ChangeEmailPassword_execute P io c5)"
  "obeys history (CleanupSecurityRecords_execute io c6)"
  unfolding identity_use_cases(1,2,5-) Let_def
  by (intro his_steps his_identity_writers his_link_verified his_session_use_cases his_readers identity_use_case_readers)+

lemma rev_identity_use_cases:
  "obeys keeps_revoked (UnlinkLoginIdentity_execute io c1)"
  "obeys keeps_revoked (BeginIdentityLink_execute P io c2)"
  "obeys keeps_revoked (CompleteIdentityLink_execute P io rs c3)"
  "obeys keeps_revoked (BeginOAuthLogin_execute P io pr c)"
  "obeys keeps_revoked (CompleteOAuthLogin_execute P io rs c4)"
  "obeys keeps_revoked (ChangeEmailPassword_execute P io c5)"
  unfolding identity_use_cases(1,2,5-) Let_def
  by (intro rev_steps rev_identity_writers rev_link_verified rev_session_use_cases identity_use_case_readers)+

lemma own_mutations:
  "obeys keeps_owners (update_sessions Q (\<lambda>x. x\<lparr>s_revoked_at := v\<rparr>))"
  "obeys keeps_owners (delete_sessions QS)"
  "obeys keeps_owners (delete_recoveries QD)"
  "obeys keeps_owners (update_credentials QC (credential_row_changed h d))"
  by (rule own_if_memberships_kept; (intro inv_rules inv_credential_updates)?; simp add: mutations)+

lemma own_identity_writers:
  "obeys keeps_owners (change_password t u h d e)"
  "obeys keeps_owners (link_identity t i e)"
  "obeys keeps_owners (unlink_identity t a u e)"
  "obeys keeps_owners (link_transaction_create t l e)"
  "obeys keeps_owners (login_transaction_create t ol e)"
  "obeys keeps_owners (recovery_create t rt e)"
  "obeys keeps_owners (register_email_password t rg e)"
  "obeys keeps_owners (consume_link_transaction h d)"
  "obeys keeps_owners (consume_login_transaction h d)"
  "obeys keeps_owners (recovery_complete t h pw d a c)"
  "obeys keeps_owners (delete_expired_or_revoked_sessions d)"
  "obeys keeps_owners (delete_consumed_or_expired_password_recovery_transactions d)"
  unfolding identity_writers by (intro own_steps own_inserts own_claims own_mutations silent_simps)+

lemma own_link_verified: "obeys keeps_owners (LinkVerifiedIdentity_execute io c)"
  unfolding identity_use_cases by (intro own_steps own_identity_writers identity_use_case_readers)

lemma own_identity_use_cases:
  "obeys keeps_owners (UnlinkLoginIdentity_execute io c1)"
  "obeys keeps_owners (BeginIdentityLink_execute P io c2)"
  "obeys keeps_owners (CompleteIdentityLink_execute P io rs c3)"
  "obeys keeps_owners (BeginOAuthLogin_execute P io pr c)"
  "obeys keeps_owners (CompleteOAuthLogin_execute P io rs c4)"
  "obeys keeps_owners (ChangeEmailPassword_execute P io c5)"
  "obeys keeps_owners (CleanupSecurityRecords_execute io c6)"
  unfolding identity_use_cases(1,2,5-) Let_def
  by (intro own_steps own_identity_writers own_link_verified own_session_use_cases identity_use_case_readers)+

lemmas clean_identity_writes = reports_identity_inserts [THEN clean_report]
  reports_change_password [THEN clean_report] reports_unlink_identity [THEN clean_report]

lemma clean_identity_use_cases:
  "clean (UnlinkLoginIdentity_execute io c1)"
  "clean (BeginIdentityLink_execute P io c2)"
  "clean (BeginOAuthLogin_execute P io pr c)"
  "clean (ChangeEmailPassword_execute P io c5)"
  unfolding identity_use_cases Let_def
  by (rule clean_identity_writes clean_steps silent_simps | simp)+

lemmas identity_reader_outcomes = invitation_reader_outcomes
  silent_session_checks [THEN silent_outcome]

end
