(* ===== verification/Identity_Properties.thy ===== *)
theory Identity_Properties
  imports Identities
begin

text \<open>
  What the identity use cases guarantee: unlinking leaves a usable login method, the OAuth round
  trip links exactly the authenticated user, an OAuth state works once, a password change takes
  effect, and the clean-up removes nothing that could still be used.
\<close>

lemmas identity_evaluation = invitation_evaluation identity_use_cases identity_audit_event_def
  link_lifetime_def login_lifetime_def minutes_def later_clock_def is_valid_new_password_def
  profile_from_record_def maximum_age_def created_session_def session_lifetime_def fingerprint_def
  session_audit_event_def session_record_def session_repository session_use_cases

section \<open>Unlinking\<close>

lemma identity_audit_event_Inr:
  "identity_audit_event i c a action rt rid = Inr e \<Longrightarrow>
     audit_action e = action \<and> audit_actor_id e = a \<and> audit_resource_id e = Some (uuid_str rid)"
  by (auto simp: identity_audit_event_def AuditEvent_post_init_def split: if_splits)

lemma profile_from_record_fields:
  assumes "profile_from_record r = Some p"
  shows "profile_id p = li_id r" "profile_user_id p = li_user_id r"
    "li_provider r = LoginIdentityProvider_value (profile_provider p)"
proof -
  have "li_provider r = LoginIdentityProvider_value q" if "LoginIdentityProvider_parse (li_provider r) = Some q" for q
    using enum_parse_Some [OF that [unfolded LoginIdentityProvider_parse_def]] by simp
  with assms show "profile_id p = li_id r" "profile_user_id p = li_user_id r"
    "li_provider r = LoginIdentityProvider_value (profile_provider p)"
    by (auto simp: profile_from_record_def LoginIdentityProfile_post_init_def split: option.splits if_splits)
qed

lemma list_identities_rows:
  assumes "fst (list_identities_for_user u s) = Inr ps" and "p \<in> set ps"
  obtains r where "r \<in> set (login_identities s)" "li_user_id r = u" "profile_from_record r = Some p"
  using assms by (auto simp: list_identities_for_user_def reads_def List.map_filter_def)

lemma listed_length:
  assumes "fst (list_identities_for_user u s) = Inr ps"
  shows "length ps \<le> length (filter (\<lambda>r. li_user_id r = u) (login_identities s))"
proof -
  have "length (List.map_filter f xs) \<le> length xs" for f :: "'a \<Rightarrow> 'b option" and xs
    by (simp add: List.map_filter_def)
  then show ?thesis
    using assms by (auto simp: list_identities_for_user_def reads_def
        intro: order.trans [OF _ eq_imp_le [OF length_order_by]])
qed




section \<open>Linking through OAuth\<close>

lemma IdentityLinkTransaction_post_init_Inr:
  "IdentityLinkTransaction_post_init x = Inr y \<Longrightarrow> y = x"
  by (auto simp: IdentityLinkTransaction_post_init_def split: if_splits)

definition begun_link :: "ports \<Rightarrow> io \<Rightarrow> BeginIdentityLinkCommand \<Rightarrow> IdentityLinkTransaction" where
  "begun_link P io cmd =
     \<lparr>linktx_id = new_id io 0, linktx_user_id = bl_actor_id cmd, linktx_provider = bl_provider cmd,
      linktx_state_hash = token_hash P (new_token io 0),
      linktx_code_verifier_ciphertext = encrypt io (new_token io 1),
      linktx_expires_at = dt_add (clock io 0) link_lifetime, linktx_consumed_at = None\<rparr>"

definition begun_link_row :: "ports \<Rightarrow> io \<Rightarrow> BeginIdentityLinkCommand \<Rightarrow> IdentityLinkTransactionRecord" where
  "begun_link_row P io cmd =
     \<lparr>lt_id = new_id io 0, lt_user_id = bl_actor_id cmd,
      lt_provider = LoginIdentityProvider_value (bl_provider cmd),
      lt_state_hash = token_hash P (new_token io 0),
      lt_code_verifier_ciphertext = encrypt io (new_token io 1),
      lt_expires_at = dt_add (clock io 0) link_lifetime, lt_consumed_at = None\<rparr>"

lemma BeginIdentityLink_returns:
  assumes "BeginIdentityLink_execute P io cmd s = (Inr st, t)"
  obtains event where
    "bl_provider cmd \<noteq> PROVIDER_EMAIL" "fst (get_status (bl_actor_id cmd) s) = Inr (Some USER_ACTIVE)"
    "IdentityLinkTransaction_post_init (begun_link P io cmd) = Inr (begun_link P io cmd)"
    "st = \<lparr>started_state = new_token io 0, started_code_challenge = pkce_challenge P (new_token io 1),
       started_expires_in_seconds = 600\<rparr>"
    "t = s\<lparr>identity_link_transactions := identity_link_transactions s @ [begun_link_row P io cmd],
        audit_events := audit_events s @ [audit_record (db_now io 0) event]\<rparr>"
    "identity_audit_event (new_id io 1) (bl_correlation_id cmd) (Some (bl_actor_id cmd))
        ''identity.link_started'' ''identity_link_transaction'' (new_id io 0) = Inr event"
proof -
  from assms obtain tx event where
    pre: "bl_provider cmd \<noteq> PROVIDER_EMAIL" "fst (get_status (bl_actor_id cmd) s) = Inr (Some USER_ACTIVE)"
    and tx: "IdentityLinkTransaction_post_init (begun_link P io cmd) = Inr tx"
    and event: "identity_audit_event (new_id io 1) (bl_correlation_id cmd) (Some (bl_actor_id cmd))
        ''identity.link_started'' ''identity_link_transaction'' (linktx_id tx) = Inr event"
    and run: "link_transaction_create (db_now io 0) tx event s = (Inr True, t)"
    and st: "st = \<lparr>started_state = new_token io 0, started_code_challenge = pkce_challenge P (new_token io 1),
       started_expires_in_seconds = 600\<rparr>"
    unfolding BeginIdentityLink_execute_def Let_def begun_link_def [symmetric]
    by (auto simp: outcomes identity_reader_outcomes link_lifetime_def minutes_def seconds_def)
  note same = IdentityLinkTransaction_post_init_Inr [OF tx]
  have "t = s\<lparr>identity_link_transactions := identity_link_transactions s @ [begun_link_row P io cmd],
        audit_events := audit_events s @ [audit_record (db_now io 0) (event\<lparr>audit_organization_id := None\<rparr>)]\<rparr>"
    using run by (auto simp: link_transaction_create_def outcomes inserts same begun_link_def begun_link_row_def)
  moreover have "event\<lparr>audit_organization_id := None\<rparr> = event"
    using event by (auto simp: identity_audit_event_def AuditEvent_post_init_def)
  ultimately show thesis using pre tx st same event
    by (intro that) (simp_all add: begun_link_def)
qed

lemma consume_begun_link:
  assumes ok: "db_ok t" and row: "begun_link_row P io cmd \<in> set (identity_link_transactions t)"
    and valid: "IdentityLinkTransaction_post_init (begun_link P io cmd) = Inr (begun_link P io cmd)"
    and now: "tz_aware now" "instant now < instant (clock io 0) + link_lifetime"
  shows "consume_link_transaction (token_hash P (new_token io 0)) now t =
    (Inr (Some ((begun_link P io cmd)\<lparr>linktx_consumed_at := Some now\<rparr>)),
     t\<lparr>identity_link_transactions := update_rows
         (\<lambda>r. lt_state_hash r = token_hash P (new_token io 0) \<and> lt_consumed_at r = None \<and> dt_lt now (lt_expires_at r))
         (\<lambda>r. r\<lparr>lt_consumed_at := Some now\<rparr>) (identity_link_transactions t)\<rparr>)"
proof -
  let ?P = "\<lambda>r. lt_state_hash r = token_hash P (new_token io 0) \<and> lt_consumed_at r = None \<and> dt_lt now (lt_expires_at r)"
  have "distinct (map lt_state_hash (identity_link_transactions t))"
    using ok by (simp add: db_ok_def links_ok_def)
  from filter_distinct_key [OF this row, of ?P] now(2)
  have one: "filter ?P (identity_link_transactions t) = [begun_link_row P io cmd]"
    by (simp add: begun_link_row_def)
  have "LoginIdentityProvider_parse (LoginIdentityProvider_value (bl_provider cmd)) = Some (bl_provider cmd)"
    by (rule LoginIdentityProvider_parse_value)
  then have "link_from_record ((begun_link_row P io cmd)\<lparr>lt_consumed_at := Some now\<rparr>) =
      Some ((begun_link P io cmd)\<lparr>linktx_consumed_at := Some now\<rparr>)"
    using valid now(1)
    by (simp add: link_from_record_def begun_link_row_def begun_link_def IdentityLinkTransaction_post_init_def
        split: if_splits)
  then show ?thesis
    by (simp add: consume_link_transaction_def claim_link_transactions_def effects construct_def one)
qed

text \<open>
  C23: The OAuth link flow completes: after an active user began to link a provider account, the
  callback with the same state within ten minutes links the subject that the provider vouches for to
  exactly that user, provided the protector decrypts what it encrypted, the subject is acceptable and
  not linked yet, and the drawn identifiers are fresh. The provider gets the verifier whose challenge
  was handed out, the subject then resolves to the user, and the state is spent.
\<close>

theorem link_flow_completes:
  assumes "db_ok s" and "BeginIdentityLink_execute P io cmd s = (Inr st, t)"
    and "\<And>v. decrypt P (encrypt io v) = Inr v"
    and "resolve_subject code (new_token io 1) = Inr subject"
    and "subject \<noteq> []" and "length subject \<le> 255" and "code \<noteq> []" and "started_state st \<noteq> []"
    and "tz_aware (clock io2 0)" and "instant (clock io2 0) < instant (clock io 0) + minutes 10"
    and "\<not> has_key (\<lambda>i. (li_provider i, li_provider_subject i))
           (LoginIdentityProvider_value (bl_provider cmd), subject) (login_identities s)"
    and "\<not> has_key li_id (new_id io2 0) (login_identities s)"
    and "\<not> has_key a_id (new_id io2 1) (audit_events t)"
  shows "\<exists>i u. CompleteIdentityLink_execute P io2 resolve_subject
      \<lparr>cl_provider = bl_provider cmd, cl_state = started_state st, cl_authorization_code = code,
       cl_correlation_id = correlation\<rparr> t = (Inr i, u)
    \<and> started_code_challenge st = pkce_challenge P (new_token io 1)
    \<and> identity_user_id i = bl_actor_id cmd \<and> identity_provider_subject i = subject
    \<and> find_identity_user_id (bl_provider cmd) subject u = (Inr (Some (bl_actor_id cmd)), u)
    \<and> link_spent (token_hash P (started_state st)) u"
  using assms(2)
proof (elim BeginIdentityLink_returns, goal_cases)
  case (1 event)
  let ?now = "clock io2 0"
  let ?i = "\<lparr>identity_id = new_id io2 0, identity_user_id = bl_actor_id cmd,
    identity_provider = bl_provider cmd, identity_provider_subject = subject\<rparr>"
  have ok: "db_ok t"
    by (rule db_ok_after [OF inv_identity_use_cases(2) assms(1,2)])
  obtain t2 where consume: "consume_link_transaction (token_hash P (new_token io 0)) ?now t =
      (Inr (Some ((begun_link P io cmd)\<lparr>linktx_consumed_at := Some ?now\<rparr>)), t2)"
    and t2: "t2 = t\<lparr>identity_link_transactions := update_rows
         (\<lambda>r. lt_state_hash r = token_hash P (new_token io 0) \<and> lt_consumed_at r = None \<and> dt_lt ?now (lt_expires_at r))
         (\<lambda>r. r\<lparr>lt_consumed_at := Some ?now\<rparr>) (identity_link_transactions t)\<rparr>"
    using consume_begun_link [OF ok _ 1(3), of ?now] assms(9,10) by (simp add: 1(5) link_lifetime_def)
  have ok2: "db_ok t2"
    by (rule db_ok_after [OF inv_identity_writers(8) ok consume])
  have status: "get_status (bl_actor_id cmd) t2 = (Inr (Some USER_ACTIVE), t2)"
    using 1(2) get_status_mono [of t2 s "bl_actor_id cmd"] by (simp add: t2 1(5) identity_reader_outcomes)
  have valid: "LoginIdentity_post_init ?i = Inr ?i"
    using assms(5,6) by (simp add: LoginIdentity_post_init_def)
  obtain e where e: "identity_audit_event (new_id io2 1) correlation (Some (bl_actor_id cmd)) ''identity.link''
      ''login_identity'' (new_id io2 0) = Inr e" "audit_id e = new_id io2 1" "audit_result e = ''succeeded''"
    by (simp add: identity_audit_event_def AuditEvent_post_init_def)
  have user: "has_key u_id (bl_actor_id cmd) (users t2)"
  proof (rule ccontr)
    assume "\<not> has_key u_id (bl_actor_id cmd) (users t2)"
    then show False
      using 1(2) by (auto simp: not_has_key t2 1(5) get_status_def tries_def dest!: find_one_SomeD)
  qed
  obtain u where link: "link_identity (db_now io2 0) ?i e t2 = (Inr True, u)"
    and u: "login_identities u = login_identities t2 @
      [\<lparr>li_id = new_id io2 0, li_user_id = bl_actor_id cmd,
        li_provider = LoginIdentityProvider_value (bl_provider cmd), li_provider_subject = subject,
        li_linked_at = db_now io2 0, li_last_used_at = None\<rparr>]"
      "identity_link_transactions u = identity_link_transactions t2"
    using assms(11-13) user e(2,3)
    by (simp add: link_identity_def atomically_def effects inserts constrained_def audit_record_def
        ck_audit_events_result_def t2 1(5) del: LoginIdentityProvider_value.simps)
  have linked: "LinkVerifiedIdentity_execute io2
      \<lparr>lv_actor_id = bl_actor_id cmd, lv_provider = bl_provider cmd,
       lv_verified_provider_subject = subject, lv_correlation_id = correlation\<rparr> t2 = (Inr ?i, u)"
    using 1(1) status valid e(1) link
    by (simp add: LinkVerifiedIdentity_execute_def effects construct_def)
  have run: "CompleteIdentityLink_execute P io2 resolve_subject
      \<lparr>cl_provider = bl_provider cmd, cl_state = started_state st, cl_authorization_code = code,
       cl_correlation_id = correlation\<rparr> t = (Inr ?i, u)"
    using consume assms(3,4,7,8) linked 1(4)
    by (simp add: CompleteIdentityLink_execute_def effects construct_def catching_apply begun_link_def)
  have "db_ok u"
    by (rule db_ok_after [OF inv_identity_writers(2) ok2 link])
  then have "distinct (map (\<lambda>i. (li_provider i, li_provider_subject i)) (login_identities u))"
    by (simp add: db_ok_def identities_ok_def)
  then have "find_identity_user_id (bl_provider cmd) subject u = (Inr (Some (bl_actor_id cmd)), u)"
    unfolding find_identity_user_id_def tries_def u(1)
    by (subst find_one_hit [where r = "last (login_identities u)"
          and k = "\<lambda>i. (li_provider i, li_provider_subject i)"])
      (simp_all add: u(1) del: LoginIdentityProvider_value.simps distinct_append_key)
  moreover have "link_spent (token_hash P (new_token io 0)) u"
    using consume_link_spends [OF consume] by (simp add: link_spent_def u(2))
  ultimately show ?case
    using run 1(4) by auto
qed

theorem link_flow_completes_witness:
  "\<exists>st t i u. BeginIdentityLink_execute sample_ports sample_io
       \<lparr>bl_actor_id = 4, bl_provider = PROVIDER_DISCORD, bl_correlation_id = 9\<rparr> sample = (Inr st, t)
     \<and> CompleteIdentityLink_execute sample_ports (sample_io\<lparr>new_id := \<lambda>n. word_of_nat (700 + n)\<rparr>)
         (\<lambda>code verifier. Inr ''901'')
         \<lparr>cl_provider = PROVIDER_DISCORD, cl_state = started_state st, cl_authorization_code = ''code'',
          cl_correlation_id = 9\<rparr> t = (Inr i, u)
     \<and> find_identity_user_id PROVIDER_DISCORD ''901'' u = (Inr (Some 4), u)"
  (is "\<exists>st t i u. ?exec sample = _ \<and> _")
proof -
  have "\<exists>x. fst (?exec sample) = Inr x"
    by (simp add: identity_evaluation)
  then obtain st t where run: "?exec sample = (Inr st, t)"
    by (rule returns)
  moreover from run have "started_state st = ''tok-a''" "login_identities t = login_identities sample"
    "\<not> has_key a_id 701 (audit_events t)"
    by (auto elim!: BeginIdentityLink_returns simp: sample_defs sample_io_def has_key_def audit_record_def
        identity_audit_event_def AuditEvent_post_init_def)
  ultimately show ?thesis
    using link_flow_completes [OF sample_ok run, of "\<lambda>code verifier. Inr ''901''" "''code''" "''901''"
        "sample_io\<lparr>new_id := \<lambda>n. word_of_nat (700 + n)\<rparr>" 9]
    by (auto simp: sample_ports_def sample_io_def sample_defs minutes_def seconds_def has_key_def)
qed


section \<open>Signing in through OAuth\<close>

lemma consume_login_outcome:
  assumes "consume_login_transaction h now s = (r, t)"
  shows "r = Inr None \<and> t = s \<or> login_spent h t \<or> r = Inl MultipleResultsFound \<and> t = s"
proof -
  let ?P = "\<lambda>r. ot_state_hash r = h \<and> ot_consumed_at r = None \<and> dt_lt now (ot_expires_at r)"
  let ?f = "\<lambda>r. r\<lparr>ot_consumed_at := Some now\<rparr>"
  let ?rows = "filter ?P (oauth_login_transactions s)"
  consider "?rows = []" | q where "?rows = [q]" | a b c where "?rows = a # b # c"
    by (metis list.exhaust)
  then show ?thesis
  proof cases
    case 1
    then have "update_rows ?P ?f (oauth_login_transactions s) = oauth_login_transactions s"
      by (rule no_match_update)
    with 1 assms show ?thesis
      by (simp add: consume_login_transaction_def claim_login_transactions_def effects construct_def)
  next
    case 2
    then have q: "q \<in> set (oauth_login_transactions s)" "?P q"
      by (auto simp: filter_eq_Cons_iff)
    have "t = s\<lparr>oauth_login_transactions := update_rows ?P ?f (oauth_login_transactions s)\<rparr>"
      using assms 2 by (auto simp: consume_login_transaction_def claim_login_transactions_def effects
          construct_def split: sum.splits)
    with q have "?f q \<in> set (oauth_login_transactions t)"
      by (simp add: set_update_rows) (rule bexI [of _ q], simp_all)
    with q have "login_spent h t"
      unfolding login_spent_def by (intro bexI [of _ "?f q"]) simp_all
    then show ?thesis by simp
  next
    case 3
    with assms show ?thesis
      by (simp add: consume_login_transaction_def claim_login_transactions_def effects construct_def)
  qed
qed

lemma consume_login_row:
  assumes "consume_login_transaction h now s = (Inr (Some tx), t)"
  obtains r where "r \<in> set (oauth_login_transactions s)" "ot_state_hash r = h" "ot_consumed_at r = None"
    "dt_lt now (ot_expires_at r)" "ot_provider r = LoginIdentityProvider_value (logintx_provider tx)"
    "ot_code_verifier_ciphertext r = logintx_code_verifier_ciphertext tx"
    "t = s\<lparr>oauth_login_transactions := oauth_login_transactions t\<rparr>"
proof -
  let ?P = "\<lambda>r. ot_state_hash r = h \<and> ot_consumed_at r = None \<and> dt_lt now (ot_expires_at r)"
  let ?f = "\<lambda>r. r\<lparr>ot_consumed_at := Some now\<rparr>"
  from assms obtain x where
    one: "scalar_one_or_none (map ?f (filter ?P (oauth_login_transactions s))) = Inr (Some x)"
    and tx: "login_from_record x = Inr tx"
    and t: "t = s\<lparr>oauth_login_transactions := update_rows ?P ?f (oauth_login_transactions s)\<rparr>"
    unfolding consume_login_transaction_def by (auto simp: outcomes claim_login_transactions_def)
  from claimed_row [OF one] obtain r where
    r: "r \<in> set (oauth_login_transactions s)" "?P r" "x = ?f r" by blast
  obtain p where p: "LoginIdentityProvider_parse (ot_provider r) = Some p" "logintx_provider tx = p"
    "logintx_code_verifier_ciphertext tx = ot_code_verifier_ciphertext r"
    using tx r(3) by (auto simp: login_from_record_def OAuthLoginTransaction_post_init_def
        split: option.splits if_splits)
  have "ot_provider r = LoginIdentityProvider_value p"
    using enum_parse_Some [OF p(1) [unfolded LoginIdentityProvider_parse_def]] by simp
  with r p t show thesis
    by (intro that [of r]) simp_all
qed

lemma his_oauth_login_tail:
  assumes "consume_login_transaction (token_hash P (ol_state req)) (clock io 0) s = (Inr (Some tx), s1)"
    and "CompleteOAuthLogin_execute P io rs req s = (r, t)" and "t \<noteq> s"
  shows "login_spent (token_hash P (ol_state req)) t"
proof -
  have "obeys history (if logintx_provider tx \<noteq> ol_provider req then oauth_login_rejected
            else
              catching
                (bnd (construct (decrypt P (logintx_code_verifier_ciphertext tx))) (\<lambda>verifier.
                 bnd (construct (rs (ol_authorization_code req) verifier)) (\<lambda>subject.
                 bnd (find_identity_user_id (ol_provider req) subject) (\<lambda>user.
                 case user of
                   None \<Rightarrow> raise (ValueError ''Provider identity is not linked.'')
                 | Some uid \<Rightarrow> CreateBrowserSession_execute P (later_clock io)
                     \<lparr>cs_user_id = uid, cs_correlation_id = ol_correlation_id req,
                      cs_assurance_level = RECENT_AUTHENTICATION, cs_client_ip = ol_client_ip req,
                      cs_user_agent = ol_user_agent req\<rparr>))))
                (\<lambda>_. oauth_login_rejected))"
    (is "obeys history ?tail")
    unfolding oauth_login_rejected_def
    by (intro his_steps his_session_use_cases his_readers identity_use_case_readers)
  from obeysD [OF this, of s1] have "history s1 (snd (?tail s1))" .
  moreover have "t = snd (?tail s1)"
    using assms by (auto simp: CompleteOAuthLogin_execute_def bnd_apply oauth_login_rejected_def raise_def
        split: if_splits)
  ultimately show ?thesis
    using consume_login_spends [OF assms(1)] by (simp add: history_def)
qed

end
