(* ===== verification/Account_Properties.thy ===== *)
theory Account_Properties
  imports Identity_Properties
begin

text \<open>
  What the remaining account operations guarantee: an OAuth login signs in exactly the user that the
  provider's subject is linked to, an OAuth state works once, a password change takes effect, and the
  clean-up removes nothing that could still be used.
\<close>

section \<open>OAuth login\<close>

lemma CompleteOAuthLogin_returns:
  assumes "CompleteOAuthLogin_execute P io rs req s = (Inr issued, t)"
  obtains tx s1 verifier subject uid where
    "consume_login_transaction (token_hash P (ol_state req)) (clock io 0) s = (Inr (Some tx), s1)"
    "logintx_provider tx = ol_provider req"
    "decrypt P (logintx_code_verifier_ciphertext tx) = Inr verifier"
    "rs (ol_authorization_code req) verifier = Inr subject"
    "fst (find_identity_user_id (ol_provider req) subject s1) = Inr (Some uid)"
    "CreateBrowserSession_execute P (later_clock io)
       \<lparr>cs_user_id = uid, cs_correlation_id = ol_correlation_id req,
        cs_assurance_level = RECENT_AUTHENTICATION, cs_client_ip = ol_client_ip req,
        cs_user_agent = ol_user_agent req\<rparr> s1 = (Inr issued, t)"
  using assms unfolding CompleteOAuthLogin_execute_def oauth_login_rejected_def
  by (auto simp: outcomes identity_reader_outcomes)

text \<open>
  C24: An OAuth login consumes an open, unexpired transaction of the same provider, gives the provider
  client the stored verifier, and opens one session with recent authentication for the active user
  to whom the returned subject is linked; nothing else but the audit trail changes.
\<close>

theorem oauth_login_correct:
  assumes "CompleteOAuthLogin_execute P io rs req s = (Inr issued, t)"
  shows "\<exists>r verifier subject x e. r \<in> set (oauth_login_transactions s)
    \<and> ot_state_hash r = token_hash P (ol_state req) \<and> ot_consumed_at r = None
    \<and> dt_lt (clock io 0) (ot_expires_at r)
    \<and> ot_provider r = LoginIdentityProvider_value (ol_provider req)
    \<and> decrypt P (ot_code_verifier_ciphertext r) = Inr verifier
    \<and> rs (ol_authorization_code req) verifier = Inr subject
    \<and> fst (find_identity_user_id (ol_provider req) subject s) = Inr (Some (s_user_id x))
    \<and> fst (get_status (s_user_id x) s) = Inr (Some USER_ACTIVE)
    \<and> s_token_hash x = token_hash P (issued_raw_token issued)
    \<and> s_assurance_level x = ''recent_authentication'' \<and> s_revoked_at x = None
    \<and> t = s\<lparr>oauth_login_transactions := oauth_login_transactions t,
           auth_sessions := auth_sessions s @ [x], audit_events := audit_events s @ [e]\<rparr>
    \<and> login_spent (token_hash P (ol_state req)) t"
  using assms
proof (elim CompleteOAuthLogin_returns, goal_cases)
  case (1 tx s1 verifier subject uid)
  note consume = 1(1)
  from consume show ?case
  proof (elim consume_login_row, goal_cases)
    case (1 r)
    note row = 1
    from \<open>CreateBrowserSession_execute P (later_clock io) _ s1 = _\<close> show ?case
    proof (elim CreateBrowserSession_returns, goal_cases)
      case (1 event)
      let ?cmd = "\<lparr>cs_user_id = uid, cs_correlation_id = ol_correlation_id req,
        cs_assurance_level = RECENT_AUTHENTICATION, cs_client_ip = ol_client_ip req,
        cs_user_agent = ol_user_agent req\<rparr>"
      let ?x = "session_record (db_now (later_clock io) 0) (created_session P (later_clock io) ?cmd)"
      let ?e = "audit_record (db_now (later_clock io) 0) event"
      obtain L where s1: "s1 = s\<lparr>oauth_login_transactions := L\<rparr>"
        using row(7) by blast
      then have same: "users s1 = users s" "login_identities s1 = login_identities s"
        by simp_all
      have t: "t = s\<lparr>oauth_login_transactions := oauth_login_transactions t,
           auth_sessions := auth_sessions s @ [?x], audit_events := audit_events s @ [?e]\<rparr>"
        unfolding 1(3) s1 by simp
      have x: "s_user_id ?x = uid" "s_token_hash ?x = token_hash P (issued_raw_token issued)"
        "s_assurance_level ?x = ''recent_authentication''" "s_revoked_at ?x = None"
        by (simp_all add: session_record_def created_session_def 1(4) later_clock_def)
      have "fst (find_identity_user_id (ol_provider req) subject s) = Inr (Some uid)"
        using \<open>fst (find_identity_user_id _ _ s1) = _\<close> by (simp add: find_identity_user_id_def tries_def same)
      moreover have "fst (get_status uid s) = Inr (Some USER_ACTIVE)"
        using 1(1) get_status_mono [OF same(1)] by simp
      moreover have "login_spent (token_hash P (ol_state req)) t"
        using consume_login_spends [OF consume] by (simp add: login_spent_def 1(3))
      ultimately show ?case
        using row(1-6) \<open>logintx_provider tx = _\<close> \<open>decrypt P _ = _\<close> \<open>rs _ _ = _\<close> x t
        by (intro exI [of _ r] exI [of _ verifier] exI [of _ subject] exI [of _ ?x] exI [of _ ?e] conjI)
          (simp_all del: LoginIdentityProvider_value.simps)
    qed
  qed
qed

lemma oauth_login_changes:
  assumes "CompleteOAuthLogin_execute P io rs req s = (Inr issued, t)" shows "t \<noteq> s"
  using assms
proof (elim CompleteOAuthLogin_returns CreateBrowserSession_returns, goal_cases)
  case (1 tx s1 verifier subject uid event)
  obtain L where "s1 = s\<lparr>oauth_login_transactions := L\<rparr>"
    using 1(1) by (rule consume_login_row) blast
  then have "length (audit_events t) = Suc (length (audit_events s))"
    unfolding 1(8) by simp
  then show ?case by auto
qed

definition sample_login :: CompleteOAuthLoginRequest where
  "sample_login = \<lparr>ol_provider = PROVIDER_DISCORD, ol_state = ''login-state'',
     ol_authorization_code = ''code'', ol_correlation_id = 9, ol_client_ip = None, ol_user_agent = None\<rparr>"

lemma sample_login_runs:
  obtains issued t where
    "CompleteOAuthLogin_execute sample_ports sample_io (\<lambda>code verifier. Inr ''900'') sample_login sample =
       (Inr issued, t)"
proof -
  have "\<exists>x. fst (CompleteOAuthLogin_execute sample_ports sample_io (\<lambda>code verifier. Inr ''900'')
      sample_login sample) = Inr x"
    by (simp add: sample_login_def identity_evaluation)
  with that show thesis by (metis returns)
qed

theorem oauth_login_correct_witness:
  "\<exists>issued t. CompleteOAuthLogin_execute sample_ports sample_io (\<lambda>code verifier. Inr ''900'')
     sample_login sample = (Inr issued, t) \<and> map s_user_id (auth_sessions t) = [1, 1]"
proof -
  obtain issued t where run: "CompleteOAuthLogin_execute sample_ports sample_io
      (\<lambda>code verifier. Inr ''900'') sample_login sample = (Inr issued, t)"
    by (rule sample_login_runs)
  from oauth_login_correct [OF run] obtain x e where
    "fst (find_identity_user_id PROVIDER_DISCORD ''900'' sample) = Inr (Some (s_user_id x))"
    and t: "t = sample\<lparr>oauth_login_transactions := oauth_login_transactions t,
           auth_sessions := auth_sessions sample @ [x], audit_events := audit_events sample @ [e]\<rparr>"
    by (auto simp: sample_login_def simp del: LoginIdentityProvider_value.simps)
  then have "s_user_id x = 1"
    by (simp add: identity_evaluation)
  moreover have "map s_user_id (auth_sessions t) = [1, s_user_id x]"
    by (subst t) (simp add: sample_defs)
  ultimately show ?thesis
    using run by auto
qed

text \<open>
  An OAuth state works once: whatever came of the first callback that changed anything, every
  later callback with that state is rejected and changes nothing, as long as the operations in
  between keep the history of the database.
\<close>

theorem oauth_state_once:
  assumes "db_ok s" and "CompleteOAuthLogin_execute P io rs req s = (r, t)" and "t \<noteq> s"
    and "history t u" and "db_ok u" and "ol_state req' = ol_state req"
  shows "CompleteOAuthLogin_execute P io' rs' req' u =
    (Inl (OAuthLoginCompletionRejectedError ''OAuth login could not be completed.''), u)"
proof -
  let ?h = "token_hash P (ol_state req)"
  obtain found s1 where consume: "consume_login_transaction ?h (clock io 0) s = (found, s1)"
    by (metis prod.exhaust)
  have "login_spent ?h t"
  proof (cases found)
    case (Inr tx)
    show ?thesis
    proof (cases tx)
      case None
      then have "t = s1"
        using consume Inr assms(2,3)
        by (auto simp: CompleteOAuthLogin_execute_def bnd_apply oauth_login_rejected_def raise_def
            split: if_splits)
      with consume_login_outcome [OF consume] Inr assms(3) show ?thesis by auto
    next
      case (Some x)
      with his_oauth_login_tail consume Inr assms(2,3) show ?thesis by blast
    qed
  next
    case (Inl e)
    then have "t = s1"
      using consume assms(2,3) by (auto simp: CompleteOAuthLogin_execute_def bnd_apply
          oauth_login_rejected_def raise_def split: if_splits)
    with consume_login_outcome [OF consume] Inl assms(3) show ?thesis by auto
  qed
  with assms(4) have "login_spent ?h u"
    by (simp add: history_def)
  from consume_login_refused [OF assms(5) this] assms(6) show ?thesis
    by (simp add: CompleteOAuthLogin_execute_def bnd_apply oauth_login_rejected_def raise_def)
qed

theorem oauth_state_once_witness:
  "\<exists>issued t. CompleteOAuthLogin_execute sample_ports sample_io (\<lambda>code verifier. Inr ''900'')
     sample_login sample = (Inr issued, t)
   \<and> snd (CompleteOAuthLogin_execute sample_ports sample_io (\<lambda>code verifier. Inr ''900'') sample_login t) = t"
proof -
  obtain issued t where run: "CompleteOAuthLogin_execute sample_ports sample_io
      (\<lambda>code verifier. Inr ''900'') sample_login sample = (Inr issued, t)"
    by (rule sample_login_runs)
  have ok: "db_ok t"
    by (rule db_ok_after [OF inv_identity_use_cases(5) sample_ok run])
  have "t \<noteq> sample"
    using run by (rule oauth_login_changes)
  from oauth_state_once [OF sample_ok run this his.law_refl ok refl] run show ?thesis
    by auto
qed

section \<open>Password change\<close>

lemma credential_after_change:
  assumes "distinct (map pc_user_id (password_credentials s))"
    and "c \<in> set (password_credentials s)" and "pc_user_id c = u"
    and "password_credentials t =
      update_rows (\<lambda>c. pc_user_id c = u) (credential_row_changed h d) (password_credentials s)"
  shows "find_credential_for_user u t = (Inr (if py_startswith h ''$argon2id$''
      then Some \<lparr>credential_user_id = u, credential_password_hash = h\<rparr> else None), t)"
proof -
  let ?c = "credential_row_changed h d c"
  have "?c \<in> set (password_credentials t)"
    using assms(2,3) by (auto simp: assms(4) set_update_rows)
  moreover have "distinct (map pc_user_id (password_credentials t))"
    using assms(1) by (simp add: assms(4) map_update_rows credential_row_changed_def)
  ultimately have "find_one (\<lambda>c. pc_user_id c = u)
      (\<lambda>c. fail_closed (PasswordCredential_post_init
          \<lparr>credential_user_id = u, credential_password_hash = pc_password_hash c\<rparr>))
      (password_credentials t) = Inr (fail_closed (PasswordCredential_post_init
          \<lparr>credential_user_id = u, credential_password_hash = pc_password_hash ?c\<rparr>))"
    using assms(3) by (intro find_one_hit [where k = pc_user_id]) (simp_all add: credential_row_changed_def)
  then show ?thesis
    by (simp add: find_credential_for_user_def tries_def PasswordCredential_post_init_def
        credential_row_changed_def fail_closed_def)
qed

lemma credential_row:
  assumes "fst (find_credential_for_user u s) = Inr (Some c)"
  obtains r where "r \<in> set (password_credentials s)" "pc_user_id r = u"
    "pc_password_hash r = credential_password_hash c"
  using assms by (auto simp: find_credential_for_user_def tries_def PasswordCredential_post_init_def
      dest!: find_one_SomeD split: if_splits)

text \<open>
  A password change needs recent authentication of an active user who proves the current
  password; the new one has 12 to 1024 characters and differs. Afterwards the user's credential
  is the new hash, no other credential and no session has changed, and one audit row is appended.
\<close>

theorem change_password_correct:
  assumes "db_ok s" and "ChangeEmailPassword_execute P io cmd s = (Inr (), t)"
  shows "principal_assurance_level (cp_principal cmd) = RECENT_AUTHENTICATION
    \<and> fst (get_status (principal_user_id (cp_principal cmd)) s) = Inr (Some USER_ACTIVE)
    \<and> 12 \<le> length (cp_new_password cmd) \<and> length (cp_new_password cmd) \<le> 1024
    \<and> cp_new_password cmd \<noteq> cp_current_password cmd
    \<and> (\<exists>c. fst (find_credential_for_user (principal_user_id (cp_principal cmd)) s) = Inr (Some c)
         \<and> verify_password P (credential_password_hash c) (cp_current_password cmd))
    \<and> find_credential_for_user (principal_user_id (cp_principal cmd)) t =
        (Inr (if py_startswith (hash_password io (cp_new_password cmd)) ''$argon2id$''
           then Some \<lparr>credential_user_id = principal_user_id (cp_principal cmd),
                      credential_password_hash = hash_password io (cp_new_password cmd)\<rparr>
           else None), t)
    \<and> filter (\<lambda>r. pc_user_id r \<noteq> principal_user_id (cp_principal cmd)) (password_credentials t) =
      filter (\<lambda>r. pc_user_id r \<noteq> principal_user_id (cp_principal cmd)) (password_credentials s)
    \<and> auth_sessions t = auth_sessions s
    \<and> (\<exists>e. audit_events t = audit_events s @ [e] \<and> a_action e = ''auth.password_changed'')"
proof -
  let ?u = "principal_user_id (cp_principal cmd)" and ?h = "hash_password io (cp_new_password cmd)"
  from assms(2) obtain c event where
    pre: "principal_assurance_level (cp_principal cmd) = RECENT_AUTHENTICATION"
      "fst (get_status ?u s) = Inr (Some USER_ACTIVE)" "is_valid_new_password (cp_new_password cmd)"
      "fst (find_credential_for_user ?u s) = Inr (Some c)"
      "verify_password P (credential_password_hash c) (cp_current_password cmd)"
      "cp_current_password cmd \<noteq> cp_new_password cmd"
    and event: "audit_action event = ''auth.password_changed''"
    and run: "change_password (db_now io 0) ?u ?h (clock io 1) event s = (Inr True, t)"
    unfolding ChangeEmailPassword_execute_def Let_def password_change_failed_def
    by (auto simp: outcomes identity_reader_outcomes RequireRecentAuthentication_check_def
        dest!: identity_audit_event_Inr)
  have t: "password_credentials t =
      update_rows (\<lambda>c. pc_user_id c = ?u) (credential_row_changed ?h (clock io 1)) (password_credentials s)"
    "auth_sessions t = auth_sessions s"
    "audit_events t = audit_events s @ [audit_record (db_now io 0) event]"
    using run by (auto simp: change_password_def outcomes update_credentials_def inserts split: if_splits)
  have keys: "distinct (map pc_user_id (password_credentials s))"
    using assms(1) by (simp add: db_ok_def credentials_ok_def)
  obtain r where "r \<in> set (password_credentials s)" "pc_user_id r = ?u"
    using pre(4) by (rule credential_row)
  from credential_after_change [OF keys this t(1)]
  have "find_credential_for_user ?u t =
      (Inr (if py_startswith ?h ''$argon2id$''
        then Some \<lparr>credential_user_id = ?u, credential_password_hash = ?h\<rparr> else None), t)" .
  moreover have "filter (\<lambda>r. pc_user_id r \<noteq> ?u) (password_credentials t) =
      filter (\<lambda>r. pc_user_id r \<noteq> ?u) (password_credentials s)"
    unfolding t(1) by (rule filter_update_rows) (auto simp: credential_row_changed_def)
  ultimately show ?thesis
    using pre event t by (auto simp: is_valid_new_password_def audit_record_def)
qed

theorem change_password_correct_witness:
  "\<exists>t. ChangeEmailPassword_execute sample_ports sample_io
     \<lparr>cp_principal = \<lparr>principal_user_id = 1, principal_session_id = 60,
        principal_assurance_level = RECENT_AUTHENTICATION,
        principal_authenticated_at = Some (Aware 999999999)\<rparr>,
      cp_current_password = ''old-password'', cp_new_password = ''new-password'',
      cp_correlation_id = 9\<rparr> sample = (Inr (), t)
   \<and> find_credential_for_user 1 t =
       (Inr (Some \<lparr>credential_user_id = 1, credential_password_hash = ''$argon2id$new-password''\<rparr>), t)"
  (is "\<exists>t. ?exec sample = _ \<and> _")
proof -
  have "\<exists>x. fst (?exec sample) = Inr x"
    by (simp add: identity_evaluation)
  then obtain x t where "?exec sample = (Inr x, t)"
    by (rule returns)
  then have run: "?exec sample = (Inr (), t)"
    by simp
  from change_password_correct [OF sample_ok run] run show ?thesis
    by (intro exI [of _ t]) (simp add: sample_io_def py_startswith_def)
qed

section \<open>Clean-up\<close>

lemma filter_delete_rows: "(\<And>r. K r \<Longrightarrow> \<not> Q r) \<Longrightarrow> filter K (delete_rows Q rows) = filter K rows"
  by (auto simp: delete_rows_def filter_filter intro!: filter_cong)

lemma length_delete_rows: "rowcount Q rows + length (delete_rows Q rows) = length rows"
  by (simp add: rowcount_def delete_rows_def sum_length_filter_compl)

lemma opt_before_not_None: "opt_before x d \<Longrightarrow> x \<noteq> None"
  by (auto simp: opt_before_def split: option.splits)

lemma CleanupSecurityRecords_returns:
  assumes "CleanupSecurityRecords_execute io cmd s = (Inr n, t)"
  defines "b \<equiv> dt_add (clock io 0) (- cu_session_retention cmd)"
    and "b' \<equiv> dt_add (clock io 0) (- cu_password_recovery_retention cmd)"
  shows "t = s\<lparr>auth_sessions := delete_rows (\<lambda>r. dt_lt (s_expires_at r) b \<or> opt_before (s_revoked_at r) b) (auth_sessions s),
      password_recovery_transactions := delete_rows (\<lambda>r. dt_lt (pr_expires_at r) b' \<or> opt_before (pr_consumed_at r) b')
        (password_recovery_transactions s)\<rparr>"
    "n = \<lparr>deleted_sessions = rowcount (\<lambda>r. dt_lt (s_expires_at r) b \<or> opt_before (s_revoked_at r) b) (auth_sessions s),
      deleted_password_recovery_transactions =
        rowcount (\<lambda>r. dt_lt (pr_expires_at r) b' \<or> opt_before (pr_consumed_at r) b') (password_recovery_transactions s)\<rparr>"
  using assms(1) unfolding b_def b'_def
  by (auto simp: CleanupSecurityRecords_execute_def Let_def outcomes delete_sessions_def delete_recoveries_def
      delete_expired_or_revoked_sessions_def delete_consumed_or_expired_password_recovery_transactions_def)

lemma touch_last_seen_of_fst:
  "fst (touch_last_seen_of upd iv x now s) = fst (touch_last_seen_of upd iv x now t)"
  by (simp add: touch_last_seen_of_def last_seen_requires_update_def construct_def effects touch_last_seen_eq)

lemmas session_reader_states = session_readers [THEN silent_snd]

lemma resolve_same_row:
  assumes "db_ok s" "db_ok t" "users t = users s"
    and "r \<in> set (auth_sessions s)" "r \<in> set (auth_sessions t)" "s_token_hash r = token_hash P tok"
  shows "fst (ResolveBrowserSession_execute P io upd iv tok t) =
    fst (ResolveBrowserSession_execute P io upd iv tok s)"
  using get_status_mono [OF assms(3)]
    touch_last_seen_of_fst [of upd iv _ "clock io 0" s t]
  by (auto simp: ResolveBrowserSession_execute_def effects construct_def find_by_token_hash_hit [OF assms(1,4,6)]
      find_by_token_hash_hit [OF assms(2,5,6)] session_reader_states split: option.split sum.split)

text \<open>A row that the clean-up removes could not be resolved any more.\<close>

lemma resolve_dead_row:
  assumes "db_ok s" and "r \<in> set (auth_sessions s)" "s_token_hash r = token_hash P tok"
    and "tz_aware (clock io 0)" and "s_revoked_at r \<noteq> None \<or> \<not> dt_lt (clock io 0) (s_expires_at r)"
  shows "fst (ResolveBrowserSession_execute P io upd iv tok s) = Inr None"
proof (cases "session_from_record r")
  case (Some x)
  have "session_is_active_at x (clock io 0) = Inr False"
    using assms(4,5) session_from_record_fields(4,5) [OF Some] by (auto simp: session_is_active_iff)
  then show ?thesis
    using find_by_token_hash_hit [OF assms(1-3)] Some
    by (simp add: ResolveBrowserSession_execute_def effects construct_def)
qed (use find_by_token_hash_hit [OF assms(1-3)] in \<open>simp add: ResolveBrowserSession_execute_def effects\<close>)

lemma resolve_no_row:
  assumes "\<And>r. r \<in> set (auth_sessions s) \<Longrightarrow> s_token_hash r \<noteq> token_hash P tok"
  shows "fst (ResolveBrowserSession_execute P io upd iv tok s) = Inr None"
proof -
  have "filter (\<lambda>r. s_token_hash r = token_hash P tok) (auth_sessions s) = []"
    using assms by (simp add: filter_empty_conv)
  then show ?thesis
    by (simp add: ResolveBrowserSession_execute_def effects find_by_token_hash_def find_one_def)
qed

text \<open>
  The clean-up is invisible to authentication: with positive retention periods, resolving any
  token and completing any password recovery at any later time answers exactly as without the
  clean-up. The counts it returns are the numbers of rows it removed, and no row is left whose
  expiry or end lies before the retention period.
\<close>

theorem cleanup_harmless:
  assumes "db_ok s" and "CleanupSecurityRecordsCommand_post_init cmd = Inr cmd"
    and "CleanupSecurityRecords_execute io cmd s = (Inr n, t)"
    and "tz_aware (clock io2 0)" and "dt_le (clock io 0) (clock io2 0)"
  shows "fst (ResolveBrowserSession_execute P io2 upd iv tok t) =
      fst (ResolveBrowserSession_execute P io2 upd iv tok s)
    \<and> fst (recovery_complete d h pw (clock io2 0) a c t) = fst (recovery_complete d h pw (clock io2 0) a c s)
    \<and> deleted_sessions n + length (auth_sessions t) = length (auth_sessions s)
    \<and> deleted_password_recovery_transactions n + length (password_recovery_transactions t) =
      length (password_recovery_transactions s)
    \<and> (\<forall>r \<in> set (auth_sessions t).
         instant (clock io 0) - cu_session_retention cmd \<le> instant (s_expires_at r))"
proof -
  let ?b = "dt_add (clock io 0) (- cu_session_retention cmd)"
    and ?b' = "dt_add (clock io 0) (- cu_password_recovery_retention cmd)"
  let ?Q = "\<lambda>r. dt_lt (s_expires_at r) ?b \<or> opt_before (s_revoked_at r) ?b"
    and ?Q' = "\<lambda>r. dt_lt (pr_expires_at r) ?b' \<or> opt_before (pr_consumed_at r) ?b'"
  note t = CleanupSecurityRecords_returns [OF assms(3)]
  have pos: "0 < cu_session_retention cmd" "0 < cu_password_recovery_retention cmd"
    using assms(2) by (auto simp: CleanupSecurityRecordsCommand_post_init_def split: if_splits)
  have ok: "db_ok t"
    by (rule db_ok_after [OF inv_identity_use_cases(7) assms(1,3)])
  have "fst (ResolveBrowserSession_execute P io2 upd iv tok t) =
      fst (ResolveBrowserSession_execute P io2 upd iv tok s)"
  proof (cases "\<exists>r \<in> set (auth_sessions s). s_token_hash r = token_hash P tok")
    case True
    then obtain r where r: "r \<in> set (auth_sessions s)" "s_token_hash r = token_hash P tok" by blast
    show ?thesis
    proof (cases "?Q r")
      case dead: True
      have "distinct (map s_token_hash (auth_sessions s))"
        using assms(1) by (simp add: db_ok_def sessions_ok_def)
      then have same: "q = r" if "q \<in> set (auth_sessions s)" "s_token_hash q = token_hash P tok" for q
        using that r by (metis distinct_map inj_onD)
      have "s_token_hash q \<noteq> token_hash P tok" if "q \<in> set (auth_sessions t)" for q
        using that dead same [of q] by (auto simp: t(1))
      then have "fst (ResolveBrowserSession_execute P io2 upd iv tok t) = Inr None"
        by (rule resolve_no_row)
      moreover have "fst (ResolveBrowserSession_execute P io2 upd iv tok s) = Inr None"
        using dead pos(1) assms(5) opt_before_not_None
        by (intro resolve_dead_row [OF assms(1) r assms(4)]) auto
      ultimately show ?thesis by simp
    next
      case False
      with r have "r \<in> set (auth_sessions t)"
        by (simp add: t(1))
      then show ?thesis
        by (intro resolve_same_row [OF assms(1) ok _ r(1) _ r(2)]) (simp_all add: t(1))
    qed
  next
    case False
    then show ?thesis
      by (subst (1 2) resolve_no_row) (auto simp: t(1))
  qed
  moreover have "fst (recovery_complete d h pw (clock io2 0) a c t) = fst (recovery_complete d h pw (clock io2 0) a c s)"
  proof -
    have "filter (\<lambda>r. pr_token_hash r = h \<and> pr_consumed_at r = None \<and> dt_lt (clock io2 0) (pr_expires_at r))
        (delete_rows ?Q' (password_recovery_transactions s)) =
      filter (\<lambda>r. pr_token_hash r = h \<and> pr_consumed_at r = None \<and> dt_lt (clock io2 0) (pr_expires_at r))
        (password_recovery_transactions s)"
      using pos(2) assms(5) by (intro filter_delete_rows) (auto simp: opt_before_def)
    then show ?thesis
      by (auto simp: recovery_complete_def atomically_cases bnd_apply claim_recoveries_def construct_def
          tries_def update_credentials_def update_sessions_def inserts constrained_def ret_def t(1)
          split: sum.split option.split)
  qed
  moreover have "instant (clock io 0) - cu_session_retention cmd \<le> instant (s_expires_at r)"
    if "r \<in> set (auth_sessions t)" for r
    using that by (auto simp: t(1))
  ultimately show ?thesis
    by (simp add: t length_delete_rows)
qed

theorem cleanup_harmless_witness:
  "\<exists>n t. CleanupSecurityRecords_execute (sample_io\<lparr>clock := \<lambda>n. Aware 3000000000\<rparr>)
       \<lparr>cu_session_retention = 10, cu_password_recovery_retention = 10\<rparr> sample = (Inr n, t)
     \<and> deleted_sessions n = 1 \<and> auth_sessions t = []
     \<and> fst (ResolveBrowserSession_execute sample_ports (sample_io\<lparr>clock := \<lambda>n. Aware 3000000000\<rparr>) True 300
         ''token'' t) =
       fst (ResolveBrowserSession_execute sample_ports (sample_io\<lparr>clock := \<lambda>n. Aware 3000000000\<rparr>) True 300
         ''token'' sample)"
  (is "\<exists>n t. ?exec sample = _ \<and> _")
proof -
  have "fst (?exec sample) = Inr \<lparr>deleted_sessions = 1, deleted_password_recovery_transactions = 1\<rparr>"
    by (simp add: identity_evaluation)
  then obtain t where run: "?exec sample =
      (Inr \<lparr>deleted_sessions = 1, deleted_password_recovery_transactions = 1\<rparr>, t)"
    by (rule returns_value)
  have valid: "CleanupSecurityRecordsCommand_post_init
      \<lparr>cu_session_retention = 10, cu_password_recovery_retention = 10\<rparr> =
      Inr \<lparr>cu_session_retention = 10, cu_password_recovery_retention = 10\<rparr>"
    by (simp add: CleanupSecurityRecordsCommand_post_init_def)
  from cleanup_harmless [OF sample_ok valid run, where P = sample_ports and upd = True and iv = 300
      and tok = "''token''" and ?io2.0 = "sample_io\<lparr>clock := \<lambda>n. Aware 3000000000\<rparr>"]
  show ?thesis
    using run by (intro exI [of _ t] exI) (auto simp: sample_defs)
qed

end
