(* ===== verification/Redis.thy ===== *)
theory Redis
  imports Resp
begin

text \<open>
  The two Redis adapters (\<open>redis_one_time_token_store.py\<close>, \<open>redis_fixed_window_counter.py\<close>): the
  exchange of commands and replies over one connection, the exceptions it maps, and the operations
  that the adapters build from it. The connection is the state: the bytes written so far and the
  bytes that are still to come; the faults of the socket calls are arguments.
\<close>

section \<open>One exchange\<close>

record wire =
  outgoing :: "byte list"
  incoming :: "byte list"

record redis_settings =
  redis_username :: "codes option"
  redis_password :: "codes option"
  redis_db :: int

text \<open>What \<open>open_connection\<close>, the n-th \<open>drain\<close>, the n-th read and \<open>wait_closed\<close> raise.\<close>

record network =
  open_fault :: "error option"
  drain_fault :: "nat \<Rightarrow> error option"
  read_fault :: "nat \<Rightarrow> error option"
  close_fault :: "error option"

definition fault :: "error option \<Rightarrow> ('s, unit) operation" where
  "fault f = (case f of None \<Rightarrow> ret () | Some e \<Rightarrow> raise e)"

definition finally_do :: "('s, 'a) operation \<Rightarrow> ('s, unit) operation \<Rightarrow> ('s, 'a) operation" where
  "finally_do m f = (\<lambda>s. case m s of (r, s') \<Rightarrow>
     (case f s' of (Inl e, s'') \<Rightarrow> (Inl e, s'') | (Inr _, s'') \<Rightarrow> (r, s'')))"

definition str_int :: "int \<Rightarrow> codes" where
  "str_int i = (if i < 0 then 45 # decimal (nat (- i)) else decimal (nat i))"

definition session_commands :: "redis_settings \<Rightarrow> codes list \<Rightarrow> codes list list" where
  "session_commands cfg parts =
     (case redis_password cfg of
        None \<Rightarrow> []
      | Some password \<Rightarrow>
          (case redis_username cfg of
             Some username \<Rightarrow> [[ascii ''AUTH'', username, password]]
           | None \<Rightarrow> [[ascii ''AUTH'', password]])) @
     (if redis_db cfg \<noteq> 0 then [[ascii ''SELECT'', str_int (redis_db cfg)]] else []) @
     [parts]"

definition send :: "byte list \<Rightarrow> (wire, unit) operation" where
  "send bs = (\<lambda>w. (Inr (), w\<lparr>outgoing := outgoing w @ bs\<rparr>))"

definition receive :: "(byte list, 'a) operation \<Rightarrow> (wire, 'a) operation" where
  "receive m = (\<lambda>w. case m (incoming w) of (r, rest) \<Rightarrow> (r, w\<lparr>incoming := rest\<rparr>))"

fun exchange ::
  "(codes \<Rightarrow> error) \<Rightarrow> nat \<Rightarrow> network \<Rightarrow> nat \<Rightarrow> codes list list \<Rightarrow> reply \<Rightarrow> (wire, reply) operation" where
  "exchange unavailable depth net n [] response = ret response"
| "exchange unavailable depth net n (command # commands) response =
     bnd (tries (\<lambda>_. encode_redis_command command)) (\<lambda>bytes.
     bnd (send bytes) (\<lambda>_.
     bnd (fault (drain_fault net n)) (\<lambda>_.
     bnd (fault (read_fault net n)) (\<lambda>_.
     bnd (receive (read_redis_value unavailable depth)) (\<lambda>reply.
     exchange unavailable depth net (Suc n) commands reply)))))"

fun is_os_error :: "error \<Rightarrow> bool" where
  "is_os_error (OSError _) = True"
| "is_os_error (ConnectionError _) = True"
| "is_os_error TimeoutError = True"
| "is_os_error (RedisOneTimeTokenStoreUnavailableError _) = True"
| "is_os_error (RedisRateLimitUnavailableError _) = True"
| "is_os_error _ = False"

fun is_value_error :: "error \<Rightarrow> bool" where
  "is_value_error (ValueError _) = True"
| "is_value_error _ = False"

definition latin :: "codes \<Rightarrow> string" where
  "latin t = map char_of t"

definition redis_session ::
  "(codes \<Rightarrow> error) \<Rightarrow> (error \<Rightarrow> bool) \<Rightarrow> error \<Rightarrow> redis_settings \<Rightarrow> nat \<Rightarrow> network \<Rightarrow> codes list \<Rightarrow>
   (wire, reply) operation" where
  "redis_session unavailable caught failure cfg depth net parts =
     catching
       (bnd (fault (open_fault net)) (\<lambda>_.
        finally_do (exchange unavailable depth net 0 (session_commands cfg parts) Missing)
          (fault (close_fault net))))
       (\<lambda>e. if caught e then raise failure else raise e)"

section \<open>The token store\<close>

definition token_store_error :: "codes \<Rightarrow> error" where
  "token_store_error t = RedisOneTimeTokenStoreUnavailableError (latin t)"

definition token_store_command ::
  "redis_settings \<Rightarrow> nat \<Rightarrow> network \<Rightarrow> codes list \<Rightarrow> (wire, reply) operation" where
  "token_store_command = redis_session token_store_error
     (\<lambda>e. e = IncompleteReadError \<or> is_os_error e \<or> is_value_error e)
     (RedisOneTimeTokenStoreUnavailableError ''Redis token store unavailable.'')"

text \<open>The operations over any way to run a command.\<close>

definition redis_put ::
  "(codes list \<Rightarrow> ('s, reply) operation) \<Rightarrow> codes \<Rightarrow> codes \<Rightarrow> int \<Rightarrow> ('s, bool) operation" where
  "redis_put command key value ttl_seconds =
     bnd (command [ascii ''SET'', key, value, ascii ''EX'', str_int (max 1 ttl_seconds), ascii ''NX''])
       (\<lambda>response. ret (response = Text (ascii ''OK'')))"

definition redis_get :: "(codes list \<Rightarrow> ('s, reply) operation) \<Rightarrow> codes \<Rightarrow> ('s, codes option) operation" where
  "redis_get command key =
     bnd (command [ascii ''GET'', key]) (\<lambda>response.
     case response of
       Missing \<Rightarrow> ret None
     | Text t \<Rightarrow> ret (Some t)
     | _ \<Rightarrow> raise (RedisOneTimeTokenStoreUnavailableError ''Redis token store returned invalid data.''))"

definition redis_replace ::
  "(codes list \<Rightarrow> ('s, reply) operation) \<Rightarrow> codes \<Rightarrow> codes \<Rightarrow> int \<Rightarrow> ('s, bool) operation" where
  "redis_replace command key value ttl_seconds =
     bnd (command [ascii ''SET'', key, value, ascii ''EX'', str_int (max 1 ttl_seconds)])
       (\<lambda>response. ret (response = Text (ascii ''OK'')))"

definition consume_script :: codes where
  "consume_script = ascii (''if redis.call('' @ CHR 0x27 # ''GET'' @ CHR 0x27 # '', KEYS[1]) == ARGV[1] then '' @
     ''return redis.call('' @ CHR 0x27 # ''DEL'' @ CHR 0x27 # '', KEYS[1]); else return 0; end;'')"

definition redis_consume ::
  "(codes list \<Rightarrow> ('s, reply) operation) \<Rightarrow> codes \<Rightarrow> codes \<Rightarrow> ('s, bool) operation" where
  "redis_consume command key value =
     bnd (command [ascii ''EVAL'', consume_script, ascii ''1'', key, value])
       (\<lambda>response. ret (response = Number 1))"

section \<open>The window counter\<close>

definition counter_error :: "codes \<Rightarrow> error" where
  "counter_error t = RedisRateLimitUnavailableError (latin t)"

definition counter_command ::
  "redis_settings \<Rightarrow> nat \<Rightarrow> network \<Rightarrow> codes list \<Rightarrow> (wire, reply) operation" where
  "counter_command = redis_session counter_error (\<lambda>e. is_os_error e \<or> is_value_error e)
     (RedisRateLimitUnavailableError ''Redis rate limit backend unavailable.'')"

definition window_script :: codes where
  "window_script = ascii (''local current = redis.call('' @ CHR 0x27 # ''INCR'' @ CHR 0x27 # '', KEYS[1]); '' @
     ''if current == 1 then redis.call('' @ CHR 0x27 # ''EXPIRE'' @ CHR 0x27 # '', KEYS[1], ARGV[1]); end; '' @
     ''local ttl = redis.call('' @ CHR 0x27 # ''TTL'' @ CHR 0x27 # '', KEYS[1]); '' @
     ''return {current, ttl};'')"

definition increment_windowed ::
  "(codes list \<Rightarrow> ('s, reply) operation) \<Rightarrow> codes \<Rightarrow> int \<Rightarrow> ('s, int \<times> int) operation" where
  "increment_windowed command key window_seconds =
     bnd (command [ascii ''EVAL'', window_script, ascii ''1'', key, str_int window_seconds]) (\<lambda>response.
     case response of
       Items [Number current, Number ttl] \<Rightarrow> ret (current, max 1 ttl)
     | _ \<Rightarrow> raise (RedisRateLimitUnavailableError ''Redis rate limit backend returned invalid data.''))"

section \<open>What can escape\<close>

definition fault_ok :: "network \<Rightarrow> bool" where
  "fault_ok net \<longleftrightarrow> (\<forall>e. open_fault net = Some e \<or> close_fault net = Some e
       \<or> (\<exists>n. drain_fault net n = Some e \<or> read_fault net n = Some e) \<longrightarrow> is_os_error e)"

definition session_error :: "(codes \<Rightarrow> error) \<Rightarrow> error \<Rightarrow> bool" where
  "session_error unavailable e \<longleftrightarrow> reader_error unavailable e \<or> is_os_error e"

lemma encode_error: "encode_redis_command c = Inl e \<Longrightarrow> \<exists>m. e = ValueError m"
proof -
  have "encode_parts ps = Inl e \<Longrightarrow> \<exists>m. e = ValueError m" for ps
    by (induction ps) (auto simp: utf8_encode_def split: sum.splits if_splits)
  then show "encode_redis_command c = Inl e \<Longrightarrow> \<exists>m. e = ValueError m"
    by (auto simp: encode_redis_command_def split: sum.splits)
qed

lemma raises_only_fault: "(\<And>e. f = Some e \<Longrightarrow> E e) \<Longrightarrow> raises_only E (fault f)"
  by (auto simp: raises_only_def fault_def ret_def raise_def split: option.split)

lemma raises_only_receive: "raises_only E m \<Longrightarrow> raises_only E (receive m)"
  unfolding raises_only_def receive_def by (auto split: prod.splits) (metis fst_conv)

lemma raises_only_mono: "raises_only E m \<Longrightarrow> (\<And>e. E e \<Longrightarrow> F e) \<Longrightarrow> raises_only F m"
  by (auto simp: raises_only_def)

lemma exchange_errors:
  assumes "fault_ok net"
  shows "raises_only (session_error unav) (exchange unav depth net n cs r)"
proof (induction cs arbitrary: n r)
  case (Cons c cs)
  have "raises_only (session_error unav) (tries (\<lambda>_. encode_redis_command c))"
    by (auto simp: raises_only_def tries_def session_error_def reader_error_def dest!: encode_error)
  moreover have "raises_only (session_error unav) (send bs)" for bs
    by (simp add: raises_only_def send_def)
  moreover have "raises_only (session_error unav) (fault (drain_fault net n))"
    "raises_only (session_error unav) (fault (read_fault net n))"
    using assms by (auto intro!: raises_only_fault simp: fault_ok_def session_error_def)
  moreover have "raises_only (session_error unav) (receive (read_redis_value unav depth))"
    by (rule raises_only_receive, rule raises_only_mono [OF reader_errors]) (simp add: session_error_def)
  ultimately show ?case
    unfolding exchange.simps by (intro raises_only_bnd Cons)
qed (simp add: raises_only_ret)

lemma finally_errors:
  "raises_only E m \<Longrightarrow> raises_only E f \<Longrightarrow> raises_only E (finally_do m f)"
  unfolding raises_only_def finally_do_def by (auto split: prod.splits sum.splits) (metis fst_conv)+

lemma raises_only_catching:
  "raises_only E m \<Longrightarrow> (\<And>e. E e \<Longrightarrow> raises_only F (h e)) \<Longrightarrow> raises_only F (catching m h)"
  unfolding raises_only_def by (auto simp: catching_apply split: sum.splits) blast

lemma raises_only_raise: "E e \<Longrightarrow> raises_only E (raise e)"
  by (simp add: raises_only_def raise_def)

lemma session_errors:
  assumes "fault_ok net" and "\<And>e. session_error unav e \<Longrightarrow> E (if caught e then failure else e)"
  shows "raises_only E (redis_session unav caught failure cfg depth net parts)"
proof -
  have "raises_only (session_error unav) (fault (open_fault net))"
    "raises_only (session_error unav) (fault (close_fault net))"
    using assms(1) by (auto intro!: raises_only_fault simp: fault_ok_def session_error_def)
  then have "raises_only (session_error unav)
      (bnd (fault (open_fault net)) (\<lambda>_.
        finally_do (exchange unav depth net 0 (session_commands cfg parts) Missing) (fault (close_fault net))))"
    by (intro raises_only_bnd finally_errors exchange_errors assms(1))
  then show ?thesis
    unfolding redis_session_def
  proof (rule raises_only_catching)
    fix e assume "session_error unav e"
    from assms(2) [OF this] show "raises_only E (if caught e then raise failure else raise e)"
      by (simp add: raises_only_raise split: if_splits)
  qed
qed

lemma token_store_command_errors:
  assumes "fault_ok net"
  shows "raises_only (\<lambda>e. (\<exists>m. e = RedisOneTimeTokenStoreUnavailableError m) \<or> e = RecursionError)
    (token_store_command cfg depth net parts)"
  unfolding token_store_command_def
  by (rule session_errors [OF assms]) (auto simp: session_error_def reader_error_def token_store_error_def)


definition quiet_network :: network where
  "quiet_network = \<lparr>open_fault = None, drain_fault = \<lambda>n. None, read_fault = \<lambda>n. None, close_fault = None\<rparr>"


lemma session_without_reply:
  assumes "encode_redis_command parts = Inr bs"
  shows "fst (redis_session unav caught failure
      \<lparr>redis_username = None, redis_password = None, redis_db = 0\<rparr> (Suc d) quiet_network parts
      \<lparr>outgoing = [], incoming = []\<rparr>) =
    Inl (if caught IncompleteReadError then failure else IncompleteReadError)"
  using assms
  by (simp add: redis_session_def session_commands_def quiet_network_def catching_apply bnd_apply
      fault_def ret_def raise_def finally_do_def tries_def send_def receive_def read_exactly_def)

lemma encodable_command:
  assumes "\<And>p c. p \<in> set parts \<Longrightarrow> c \<in> set p \<Longrightarrow> c < 256"
  shows "\<exists>bs. encode_redis_command parts = Inr bs"
proof -
  have "\<exists>bs. encode_parts ps = Inr bs" if "\<And>p c. p \<in> set ps \<Longrightarrow> c \<in> set p \<Longrightarrow> c < 256" for ps
    using that
  proof (induction ps)
    case (Cons p ps)
    have "list_all encodable p"
      using Cons.prems [of p] by (force simp: list_all_iff encodable_def)
    moreover obtain tl where "encode_parts ps = Inr tl"
      using Cons by (metis list.set_intros(2))
    ultimately show ?case
      by (simp add: utf8_encode_def)
  qed simp
  from this [of parts] assms show ?thesis
    by (auto simp: encode_redis_command_def)
qed

text \<open>
  The rate limit counter does not map every failure: when the server closes the connection before
  it replies, IncompleteReadError leaves the adapter, where the token store would raise its own
  exception.
\<close>

theorem counter_leaks_incomplete_read:
  "fst (increment_windowed (counter_command \<lparr>redis_username = None, redis_password = None, redis_db = 0\<rparr> 1
      quiet_network) [97] 60 \<lparr>outgoing = [], incoming = []\<rparr>) = Inl IncompleteReadError
   \<and> fst (redis_get (token_store_command \<lparr>redis_username = None, redis_password = None, redis_db = 0\<rparr> 1
      quiet_network) [97] \<lparr>outgoing = [], incoming = []\<rparr>) =
      Inl (RedisOneTimeTokenStoreUnavailableError ''Redis token store unavailable.'')"
proof -
  have small: "c < 256" if "c \<in> set (ascii x)" for c x
    using that by (auto simp: ascii_def)
  have digits: "str_int 60 = [54, 48]"
    by (simp add: str_int_def decimal.simps)
  have script: "c < 256" if "c \<in> set window_script" for c
    using that unfolding window_script_def by (rule small)
  have "\<exists>bs. encode_redis_command [ascii ''EVAL'', window_script, ascii ''1'', [97], str_int 60] = Inr bs"
    "\<exists>bs. encode_redis_command [ascii ''GET'', [97]] = Inr bs"
    unfolding digits by (rule encodable_command, auto dest: small script)+
  then obtain bs1 bs2 where
    1: "encode_redis_command [ascii ''EVAL'', window_script, ascii ''1'', [97], str_int 60] = Inr bs1"
    and 2: "encode_redis_command [ascii ''GET'', [97]] = Inr bs2"
    by blast
  show ?thesis
    using session_without_reply [OF 1] session_without_reply [OF 2]
    by (simp add: increment_windowed_def redis_get_def counter_command_def token_store_command_def
        bnd_apply)
qed

end
