(* ===== verification/Token_Store.thy ===== *)
theory Token_Store
  imports Redis Ports
begin

text \<open>
  The store of short-lived tokens behind password recovery and registration. The use cases see four
  operations (the record \<open>token_store\<close>, the port \<open>OneTimeTokenStore\<close>). Two adapters implement
  them: the process-local dictionary (\<open>in_memory_one_time_token_store.py\<close>) and Redis.

  The locale \<open>one_time_tokens\<close> is the contract the use cases rely on, with \<open>holds\<close> as the view
  of what is stored: values only appear by put and replace, anything may expire, and a value that was
  consumed is gone. The dictionary is shown to satisfy it, and the Redis adapter is for every server
  that executes the commands as documented.
\<close>

section \<open>The port\<close>

record 's token_store =
  ts_put :: "string \<Rightarrow> string \<Rightarrow> int \<Rightarrow> ('s, bool) operation"
  ts_get :: "string \<Rightarrow> ('s, string option) operation"
  ts_replace :: "string \<Rightarrow> string \<Rightarrow> int \<Rightarrow> ('s, bool) operation"
  ts_consume :: "string \<Rightarrow> string \<Rightarrow> ('s, bool) operation"

section \<open>The dictionary\<close>

text \<open>The state is the dictionary and the readings of the wall clock that are still to come.\<close>

record memory_store =
  ms_values :: "string \<rightharpoonup> string \<times> datetime"
  ms_wall :: "nat \<Rightarrow> datetime"

definition wall_now :: "(memory_store, datetime) operation" where
  "wall_now = (\<lambda>s. (Inr (ms_wall s 0), s\<lparr>ms_wall := \<lambda>n. ms_wall s (Suc n)\<rparr>))"

definition live :: "datetime \<Rightarrow> (string \<rightharpoonup> string \<times> datetime) \<Rightarrow> string \<rightharpoonup> string \<times> datetime" where
  "live now values = (\<lambda>k. case values k of
     None \<Rightarrow> None | Some stored \<Rightarrow> if dt_lt now (snd stored) then Some stored else None)"

definition purge_expired :: "(memory_store, unit) operation" where
  "purge_expired = bnd wall_now (\<lambda>now s. (Inr (), s\<lparr>ms_values := live now (ms_values s)\<rparr>))"

definition expires_at :: "int \<Rightarrow> (memory_store, datetime) operation" where
  "expires_at ttl_seconds = bnd wall_now (\<lambda>now. ret (dt_add now (seconds (max 1 ttl_seconds))))"

definition set_value :: "string \<Rightarrow> (string \<times> datetime) option \<Rightarrow> (memory_store, unit) operation" where
  "set_value key stored = (\<lambda>s. (Inr (), s\<lparr>ms_values := (ms_values s)(key := stored)\<rparr>))"

definition memory_put :: "string \<Rightarrow> string \<Rightarrow> int \<Rightarrow> (memory_store, bool) operation" where
  "memory_put key value ttl_seconds =
     bnd purge_expired (\<lambda>_.
     bnd (reads ms_values) (\<lambda>values.
     if values key \<noteq> None then ret False else
     bnd (expires_at ttl_seconds) (\<lambda>expiry.
     bnd (set_value key (Some (value, expiry))) (\<lambda>_. ret True))))"

definition memory_get :: "string \<Rightarrow> (memory_store, string option) operation" where
  "memory_get key =
     bnd purge_expired (\<lambda>_.
     bnd (reads ms_values) (\<lambda>values. ret (map_option fst (values key))))"

definition memory_replace :: "string \<Rightarrow> string \<Rightarrow> int \<Rightarrow> (memory_store, bool) operation" where
  "memory_replace key value ttl_seconds =
     bnd purge_expired (\<lambda>_.
     bnd (reads ms_values) (\<lambda>values.
     if values key = None then ret False else
     bnd (expires_at ttl_seconds) (\<lambda>expiry.
     bnd (set_value key (Some (value, expiry))) (\<lambda>_. ret True))))"

definition memory_consume :: "string \<Rightarrow> string \<Rightarrow> (memory_store, bool) operation" where
  "memory_consume key value =
     bnd purge_expired (\<lambda>_.
     bnd (reads ms_values) (\<lambda>values.
     case values key of
       None \<Rightarrow> ret False
     | Some stored \<Rightarrow>
         if fst stored \<noteq> value then ret False else
         bnd (set_value key None) (\<lambda>_. ret True)))"

definition memory_token_store :: "memory_store token_store" where
  "memory_token_store =
     \<lparr>ts_put = memory_put, ts_get = memory_get, ts_replace = memory_replace, ts_consume = memory_consume\<rparr>"

definition memory_holds :: "memory_store \<Rightarrow> string \<rightharpoonup> string" where
  "memory_holds s = (\<lambda>k. map_option fst (ms_values s k))"

lemmas memory_operations = memory_put_def memory_get_def memory_replace_def memory_consume_def
  purge_expired_def wall_now_def expires_at_def set_value_def

section \<open>The Redis adapter as a store of strings\<close>

definition redis_token_store :: "(codes list \<Rightarrow> ('s, reply) operation) \<Rightarrow> 's token_store" where
  "redis_token_store command =
     \<lparr>ts_put = (\<lambda>k v ttl. redis_put command (ascii k) (ascii v) ttl),
      ts_get = (\<lambda>k. bnd (redis_get command (ascii k)) (\<lambda>v. ret (map_option latin v))),
      ts_replace = (\<lambda>k v ttl. redis_replace command (ascii k) (ascii v) ttl),
      ts_consume = (\<lambda>k v. redis_consume command (ascii k) (ascii v))\<rparr>"

section \<open>The contract\<close>

definition fades :: "('k \<rightharpoonup> 'v) \<Rightarrow> ('k \<rightharpoonup> 'v) \<Rightarrow> bool" where
  "fades m m' \<longleftrightarrow> m' \<subseteq>\<^sub>m m"

text \<open>One key may have got the value, everything else may only have expired.\<close>

definition fades_but :: "'k \<Rightarrow> 'v \<Rightarrow> ('k \<rightharpoonup> 'v) \<Rightarrow> ('k \<rightharpoonup> 'v) \<Rightarrow> bool" where
  "fades_but k v m m' \<longleftrightarrow> m' \<subseteq>\<^sub>m m(k \<mapsto> v) \<or> m' \<subseteq>\<^sub>m m"

locale one_time_tokens =
  fixes store :: "'s token_store" and holds :: "'s \<Rightarrow> string \<rightharpoonup> string"
  assumes get_sound: "ts_get store k s = (Inr (Some v), t) \<Longrightarrow> holds s k = Some v"
    and get_fades: "ts_get store k s = (r, t) \<Longrightarrow> fades (holds s) (holds t)"
    and put_fades: "ts_put store k v n s = (r', t) \<Longrightarrow> fades_but k v (holds s) (holds t)"
    and put_new: "ts_put store k v n s = (Inr False, t) \<Longrightarrow> fades (holds s) (holds t)"
    and replace_fades: "ts_replace store k v n s = (r', t) \<Longrightarrow> fades_but k v (holds s) (holds t)"
    and consume_fades: "ts_consume store k v s = (r', t) \<Longrightarrow> fades (holds s) (holds t)"
    and consume_sound: "ts_consume store k v s = (Inr True, t) \<Longrightarrow> holds s k = Some v \<and> holds t k = None"
begin

lemma absent_stays: "fades (holds s) (holds t) \<Longrightarrow> holds s k = None \<Longrightarrow> holds t k = None"
  by (metis domIff fades_def map_le_def)

lemma get_absent: "holds s k = None \<Longrightarrow> ts_get store k s \<noteq> (Inr (Some v), t)"
  using get_sound by fastforce

lemma consumed_once:
  assumes "ts_consume store k v s = (Inr True, t)" and "fades (holds t) (holds u)"
  shows "ts_consume store k v' u \<noteq> (Inr True, w)" "ts_get store k u \<noteq> (Inr (Some v''), w')"
proof -
  have none: "holds u k = None"
    using consume_sound [OF assms(1)] assms(2) by (simp add: absent_stays)
  show "ts_consume store k v' u \<noteq> (Inr True, w)"
    using consume_sound none by fastforce
  show "ts_get store k u \<noteq> (Inr (Some v''), w')"
    using none by (rule get_absent)
qed

end

lemma live_le: "live now m \<subseteq>\<^sub>m m"
  by (auto simp: live_def map_le_def split: option.splits if_splits)

lemma fades_refl [simp]: "fades m m"
  by (simp add: fades_def)

lemma fades_trans: "fades a b \<Longrightarrow> fades b c \<Longrightarrow> fades a c"
  unfolding fades_def by (rule map_le_trans)

lemma live_fst: "map_option fst \<circ> live now m \<subseteq>\<^sub>m map_option fst \<circ> m"
  by (auto simp: live_def map_le_def split: option.splits if_splits)

lemma live_Some: "live now m k = Some x \<Longrightarrow> m k = Some x"
  by (auto simp: live_def split: option.splits if_splits)

interpretation memory: one_time_tokens memory_token_store memory_holds
proof
  fix k v v' s t n r r'
  note ops = memory_token_store_def memory_operations memory_holds_def fades_def fades_but_def effects
  note le = live_def map_le_def dom_def
  show "ts_get memory_token_store k s = (Inr (Some v), t) \<Longrightarrow> memory_holds s k = Some v"
    by (auto simp: ops live_def split: option.splits if_splits)
  show "ts_get memory_token_store k s = (r, t) \<Longrightarrow> fades (memory_holds s) (memory_holds t)"
    by (auto simp: ops le split: option.splits if_splits)
  show "ts_put memory_token_store k v n s = (r', t) \<Longrightarrow> fades_but k v (memory_holds s) (memory_holds t)"
    by (cases "live (ms_wall s 0) (ms_values s) k") (auto simp: ops le split: option.splits if_splits)
  show "ts_put memory_token_store k v n s = (Inr False, t) \<Longrightarrow> fades (memory_holds s) (memory_holds t)"
    by (auto simp: ops le split: option.splits if_splits)
  show "ts_replace memory_token_store k v n s = (r', t) \<Longrightarrow> fades_but k v (memory_holds s) (memory_holds t)"
    by (cases "live (ms_wall s 0) (ms_values s) k") (auto simp: ops le split: option.splits if_splits)
  show "ts_consume memory_token_store k v s = (r', t) \<Longrightarrow> fades (memory_holds s) (memory_holds t)"
    by (auto simp: ops le split: option.splits if_splits)
  show "ts_consume memory_token_store k v s = (Inr True, t) \<Longrightarrow>
      memory_holds s k = Some v \<and> memory_holds t k = None"
    by (auto simp: ops le split: option.splits if_splits)
qed

section \<open>The dictionary refines a map of values with deadlines\<close>

text \<open>What the dictionary holds at a time: the purge is invisible in it.\<close>

definition memory_view :: "datetime \<Rightarrow> memory_store \<Rightarrow> string \<rightharpoonup> string" where
  "memory_view now s = map_option fst \<circ> live now (ms_values s)"

lemma live_live: "dt_le now u \<Longrightarrow> live u (live now m) = live u m"
  by (auto simp: live_def fun_eq_iff split: option.splits)

lemma view_purged: "dt_le (ms_wall s 0) u \<Longrightarrow>
    memory_view u (s\<lparr>ms_wall := w, ms_values := live (ms_wall s 0) (ms_values s)\<rparr>) = memory_view u s"
  by (simp add: memory_view_def live_live)

text \<open>
  C36: The process-local store behaves like a map whose entries vanish at their deadline: get, put,
  replace and consume answer as on that map at the time of the call, and at every later time the map
  is the old one with exactly the entry changed that the operation set or removed. Removing expired
  entries on the way is never observable.
\<close>

theorem memory_store_refines:
  assumes "dt_le (ms_wall s 0) u"
  shows "(fst (memory_get k s) = Inr (memory_view (ms_wall s 0) s k)
      \<and> memory_view u (snd (memory_get k s)) = memory_view u s)
    \<and> (fst (memory_put k v ttl s) = Inr (memory_view (ms_wall s 0) s k = None)
      \<and> memory_view u (snd (memory_put k v ttl s)) =
        (if memory_view (ms_wall s 0) s k = None \<and> dt_lt u (dt_add (ms_wall s 1) (seconds (max 1 ttl)))
         then (memory_view u s)(k \<mapsto> v) else memory_view u s))
    \<and> (fst (memory_replace k v ttl s) = Inr (memory_view (ms_wall s 0) s k \<noteq> None)
      \<and> memory_view u (snd (memory_replace k v ttl s)) =
        (if memory_view (ms_wall s 0) s k = None then memory_view u s
         else (memory_view u s)
           (k := if dt_lt u (dt_add (ms_wall s 1) (seconds (max 1 ttl))) then Some v else None)))
    \<and> (fst (memory_consume k v s) = Inr (memory_view (ms_wall s 0) s k = Some v)
      \<and> memory_view u (snd (memory_consume k v s)) =
        (if memory_view (ms_wall s 0) s k = Some v then (memory_view u s)(k := None) else memory_view u s))"
  (is "?get \<and> ?put \<and> ?replace \<and> ?consume")
proof -
  note ops = memory_operations effects memory_view_def live_live [OF assms]
  have upd: "map_option fst \<circ> live u (f(k \<mapsto> (v, d))) =
      (map_option fst \<circ> live u f)(k := if dt_lt u d then Some v else None)" for f d
    by (auto simp: live_def fun_eq_iff)
  have del: "map_option fst \<circ> live u (f(k := None)) = (map_option fst \<circ> live u f)(k := None)" for f
    by (auto simp: live_def fun_eq_iff)
  have gone: "(map_option fst \<circ> live u (ms_values s))(k := None) = map_option fst \<circ> live u (ms_values s)"
    if "live (ms_wall s 0) (ms_values s) k = None"
    using that assms(1) by (auto simp: live_def fun_eq_iff split: option.splits if_splits)
  have again: "live u (live (ms_wall s 0) (ms_values s)) = live u (ms_values s)"
    by (rule live_live [OF assms(1)])
  have ?get
    by (simp add: ops)
  moreover have ?put
    using gone by (cases "live (ms_wall s 0) (ms_values s) k") (simp_all add: ops upd again)
  moreover have ?replace
    by (simp add: ops upd again)
  moreover have ?consume
    by (auto simp: ops del again split: option.splits)
  ultimately show ?thesis by blast
qed

theorem memory_store_refines_witness:
  "fst (memory_consume ''k'' ''v'' \<lparr>ms_values = [''k'' \<mapsto> (''v'', Aware 5)], ms_wall = (\<lambda>n. Aware 1)\<rparr>) = Inr True"
proof -
  let ?s = "\<lparr>ms_values = [''k'' \<mapsto> (''v'', Aware 5)], ms_wall = (\<lambda>n. Aware 1)\<rparr>"
  have "fst (memory_consume ''k'' ''v'' ?s) = Inr (memory_view (ms_wall ?s 0) ?s ''k'' = Some ''v'')"
    using memory_store_refines [of ?s "Aware 1" "''k''" "''v''" 1] by simp
  then show ?thesis
    by (simp add: memory_view_def live_def)
qed

section \<open>The contract of the Redis adapter\<close>

text \<open>
  What the Redis documentation says of the three commands: a \<open>SET\<close> stores the value or, with
  \<open>NX\<close> on an existing key, replies nil and stores nothing; \<open>GET\<close> replies the value; the script
  deletes the key and replies 1 exactly when the value matches. Anything may expire meanwhile.
\<close>

definition redis_server :: "(codes list \<Rightarrow> ('s, reply) operation) \<Rightarrow> ('s \<Rightarrow> string \<rightharpoonup> string) \<Rightarrow> bool" where
  "redis_server command holds \<longleftrightarrow>
     (\<forall>k v n s r t. command [ascii ''SET'', ascii k, ascii v, ascii ''EX'', n, ascii ''NX''] s = (r, t) \<longrightarrow>
        fades_but k v (holds s) (holds t)
        \<and> (\<forall>x. r = Inr x \<longrightarrow> x \<noteq> Text (ascii ''OK'') \<longrightarrow> fades (holds s) (holds t)))
   \<and> (\<forall>k v n s r t. command [ascii ''SET'', ascii k, ascii v, ascii ''EX'', n] s = (r, t) \<longrightarrow>
        fades_but k v (holds s) (holds t))
   \<and> (\<forall>k s r t. command [ascii ''GET'', ascii k] s = (r, t) \<longrightarrow> fades (holds s) (holds t)
        \<and> (\<forall>u. r = Inr (Text u) \<longrightarrow> holds s k = Some (latin u)))
   \<and> (\<forall>k v s r t. command [ascii ''EVAL'', consume_script, ascii ''1'', ascii k, ascii v] s = (r, t) \<longrightarrow>
        fades (holds s) (holds t)
        \<and> (r = Inr (Number 1) \<longrightarrow> holds s k = Some v \<and> holds t k = None))"

lemma redis_contract:
  assumes server: "redis_server command holds"
  shows "one_time_tokens (redis_token_store command) holds"
proof
  fix k v v' s t n r r'
  note set_nx = server [unfolded redis_server_def, THEN conjunct1, rule_format]
    and set_xx = server [unfolded redis_server_def, THEN conjunct2, THEN conjunct1, rule_format]
    and get = server [unfolded redis_server_def, THEN conjunct2, THEN conjunct2, THEN conjunct1, rule_format]
    and eval = server [unfolded redis_server_def, THEN conjunct2, THEN conjunct2, THEN conjunct2, rule_format]
  note ops = redis_token_store_def redis_put_def redis_get_def redis_replace_def redis_consume_def
  have reply: "\<exists>u. command [ascii ''GET'', ascii k] s = (Inr (Text u), t) \<and> v = latin u"
    if "ts_get (redis_token_store command) k s = (Inr (Some v), t)"
  proof -
    from that obtain x where run: "command [ascii ''GET'', ascii k] s = (Inr x, snd (command [ascii ''GET'', ascii k] s))"
      by (auto simp: ops bnd_apply prod_eq_iff split: sum.splits)
    with that show ?thesis
      by (cases x) (auto simp: ops bnd_apply ret_def raise_def prod_eq_iff)
  qed
  show "ts_get (redis_token_store command) k s = (Inr (Some v), t) \<Longrightarrow> holds s k = Some v"
    using get by (fastforce dest: reply)
  have state: "t = snd (command [ascii ''GET'', ascii k] s)" if "ts_get (redis_token_store command) k s = (r, t)"
    using that by (auto simp: ops bnd_apply ret_def raise_def split: sum.splits reply.splits)
  have "fades (holds s) (holds (snd (command [ascii ''GET'', ascii k] s)))"
    using get [of k s "fst (command [ascii ''GET'', ascii k] s)" "snd (command [ascii ''GET'', ascii k] s)"]
    by simp
  then show "ts_get (redis_token_store command) k s = (r, t) \<Longrightarrow> fades (holds s) (holds t)"
    using state by blast
  show "ts_put (redis_token_store command) k v n s = (r', t) \<Longrightarrow> fades_but k v (holds s) (holds t)"
    by (cases r') (auto simp: ops outcomes dest!: set_nx)
  show "ts_put (redis_token_store command) k v n s = (Inr False, t) \<Longrightarrow> fades (holds s) (holds t)"
    by (auto simp: ops outcomes dest!: set_nx)
  show "ts_replace (redis_token_store command) k v n s = (r', t) \<Longrightarrow> fades_but k v (holds s) (holds t)"
    by (cases r') (auto simp: ops outcomes dest!: set_xx)
  show "ts_consume (redis_token_store command) k v s = (r', t) \<Longrightarrow> fades (holds s) (holds t)"
    by (cases r') (auto simp: ops outcomes dest!: eval)
  show "ts_consume (redis_token_store command) k v s = (Inr True, t) \<Longrightarrow> holds s k = Some v \<and> holds t k = None"
    by (auto simp: ops outcomes dest!: eval)
qed

end
