(* ===== verification/Pending_Registration.thy ===== *)
theory Pending_Registration
  imports Json
begin

text \<open>
  The pending registration and its JSON form (\<open>pending_email_password_registration.py\<close>), which the
  token store keeps between the steps of a registration.

  Text fields of a document that contain code points above 255, and lookup or code hashes that are
  lists or objects of 64 elements, have no counterpart in the modelled record; such documents read as
  malformed.
\<close>

definition MAX_VERIFICATION_ATTEMPTS :: int where
  "MAX_VERIFICATION_ATTEMPTS = 5"

record PendingEmailPasswordRegistration =
  pending_registration_id :: uuid
  pending_email_ciphertext :: string
  pending_email_lookup_hash :: string
  pending_password_hash :: string
  pending_display_name :: string
  pending_verification_code_hash :: string
  pending_attempts :: int

definition PendingEmailPasswordRegistration_post_init ::
  "PendingEmailPasswordRegistration \<Rightarrow> error + PendingEmailPasswordRegistration" where
  "PendingEmailPasswordRegistration_post_init p = checked
     [(pending_email_ciphertext p = [], ''Pending registration email ciphertext must not be empty.''),
      (length (pending_email_lookup_hash p) \<noteq> 64, ''Pending registration email lookup hash is invalid.''),
      (\<not> py_startswith (pending_password_hash p) ''$argon2id$'', ''Pending registration password must use Argon2id.''),
      (py_strip (pending_display_name p) = [] \<or> 64 < length (pending_display_name p),
       ''Pending registration display name is invalid.''),
      (length (pending_verification_code_hash p) \<noteq> 64, ''Pending registration code hash is invalid.''),
      (\<not> (0 \<le> pending_attempts p \<and> pending_attempts p \<le> MAX_VERIFICATION_ATTEMPTS),
       ''Pending registration attempts are invalid.'')] p"

definition with_attempts ::
  "PendingEmailPasswordRegistration \<Rightarrow> int \<Rightarrow> error + PendingEmailPasswordRegistration" where
  "with_attempts p n = PendingEmailPasswordRegistration_post_init (p\<lparr>pending_attempts := n\<rparr>)"

definition as_string :: "codes \<Rightarrow> string" where
  "as_string t = map char_of t"

definition pending_document :: "PendingEmailPasswordRegistration \<Rightarrow> (codes \<times> json) list" where
  "pending_document p =
     [(ascii ''attempts'', JInt (pending_attempts p)),
      (ascii ''display_name'', JString (ascii (pending_display_name p))),
      (ascii ''email_ciphertext'', JString (base64_encode (ascii (pending_email_ciphertext p)))),
      (ascii ''email_lookup_hash'', JString (ascii (pending_email_lookup_hash p))),
      (ascii ''password_hash'', JString (ascii (pending_password_hash p))),
      (ascii ''registration_id'', JString (ascii (uuid_str (pending_registration_id p)))),
      (ascii ''verification_code_hash'', JString (ascii (pending_verification_code_hash p)))]"

definition to_json :: "PendingEmailPasswordRegistration \<Rightarrow> string" where
  "to_json p = as_string (json_dumps (pending_document p))"

fun attempts_field :: "json option \<Rightarrow> int option" where
  "attempts_field None = Some 0"
| "attempts_field (Some (JInt i)) = Some i"
| "attempts_field (Some (JBool b)) = Some (if b then 1 else 0)"
| "attempts_field (Some _) = None"

text \<open>The outer None: the value is malformed. \<open>UUID(value)\<close> of a non-string lets AttributeError out.\<close>

fun uuid_field :: "json option \<Rightarrow> error + uuid option" where
  "uuid_field None = Inr None"
| "uuid_field (Some (JString t)) = Inr (parse_uuid t)"
| "uuid_field (Some JNull) = Inr None"
| "uuid_field (Some _) = Inl (AttributeError ''object has no attribute replace'')"

fun sized_text :: "json \<Rightarrow> string option" where
  "sized_text (JString t) = (if latin_codes t then Some (as_string t) else None)"
| "sized_text _ = None"

text \<open>A method call on the value: only a string has the method.\<close>

fun text_or_attribute_error :: "json \<Rightarrow> error + string option" where
  "text_or_attribute_error (JString t) = Inr (if latin_codes t then Some (as_string t) else None)"
| "text_or_attribute_error _ = Inl (AttributeError ''object has no attribute'')"

definition pending_from_fields ::
  "uuid \<Rightarrow> nat list \<Rightarrow> json \<Rightarrow> json \<Rightarrow> json \<Rightarrow> json \<Rightarrow> int \<Rightarrow> error + PendingEmailPasswordRegistration option" where
  "pending_from_fields rid ciphertext lookup password name code attempts =
     (if ciphertext = [] then Inr None else
      case sized_text lookup of
        None \<Rightarrow> Inr None
      | Some lookup_hash \<Rightarrow>
          if length lookup_hash \<noteq> 64 then Inr None else
          (case text_or_attribute_error password of
             Inl e \<Rightarrow> Inl e
           | Inr None \<Rightarrow> Inr None
           | Inr (Some password_hash) \<Rightarrow>
               if \<not> py_startswith password_hash ''$argon2id$'' then Inr None else
               (case text_or_attribute_error name of
                  Inl e \<Rightarrow> Inl e
                | Inr None \<Rightarrow> Inr None
                | Inr (Some display_name) \<Rightarrow>
                    (case sized_text code of
                       None \<Rightarrow> Inr None
                     | Some code_hash \<Rightarrow>
                         (case PendingEmailPasswordRegistration_post_init
                                 \<lparr>pending_registration_id = rid, pending_email_ciphertext = as_string ciphertext,
                                  pending_email_lookup_hash = lookup_hash, pending_password_hash = password_hash,
                                  pending_display_name = display_name,
                                  pending_verification_code_hash = code_hash, pending_attempts = attempts\<rparr> of
                            Inl _ \<Rightarrow> Inr None
                          | Inr p \<Rightarrow> Inr (Some p))))))"

definition from_json :: "string \<Rightarrow> error + PendingEmailPasswordRegistration option" where
  "from_json value =
     (case json_loads (ascii value) of
        Some (JObject payload) \<Rightarrow>
          let field = (\<lambda>key. json_lookup (ascii key) payload) in
          (case field ''email_ciphertext'' of
             Some (JString text64) \<Rightarrow>
               (case base64_decode text64 of
                  None \<Rightarrow> Inr None
                | Some ciphertext \<Rightarrow>
                    (case attempts_field (field ''attempts'') of
                       None \<Rightarrow> Inr None
                     | Some attempts \<Rightarrow>
                         (case uuid_field (field ''registration_id'') of
                            Inl e \<Rightarrow> Inl e
                          | Inr None \<Rightarrow> Inr None
                          | Inr (Some rid) \<Rightarrow>
                              (case (field ''email_lookup_hash'', field ''password_hash'',
                                     field ''display_name'', field ''verification_code_hash'') of
                                 (Some lookup, Some password, Some name, Some code) \<Rightarrow>
                                   pending_from_fields rid ciphertext lookup password name code attempts
                               | _ \<Rightarrow> Inr None))))
           | _ \<Rightarrow> Inr None)
      | _ \<Rightarrow> Inr None)"

section \<open>Round trips\<close>

lemma as_string_ascii [simp]: "as_string (ascii s) = s"
  by (simp add: as_string_def ascii_def comp_def)

lemma ascii_as_string: "latin_codes t \<Longrightarrow> ascii (as_string t) = t"
  by (simp add: as_string_def ascii_def latin_codes_def map_idI of_char_of)

lemma remove_all_absent:
  assumes "p \<noteq> []" and "hd p \<notin> set t" shows "remove_all p 0 t = t"
proof -
  from assms(1) obtain q qs where p: "p = q # qs" by (cases p) auto
  from assms(2) show ?thesis
    unfolding p by (induction t) auto
qed

lemma remove_all_single: "remove_all [x] 0 t = filter (\<lambda>c. c \<noteq> x) t"
  by (induction t) auto

lemma strip_codes_id: "\<forall>c \<in> set t. \<not> p c \<Longrightarrow> strip_codes p t = t"
proof -
  have "dropWhile p u = u" if "\<forall>c \<in> set u. \<not> p c" for u
    using that by (cases u) auto
  from this [of t] this [of "rev t"] show "\<forall>c \<in> set t. \<not> p c \<Longrightarrow> strip_codes p t = t"
    by (simp add: strip_codes_def)
qed

definition hex_code :: "nat \<Rightarrow> bool" where
  "hex_code c \<longleftrightarrow> 48 \<le> c \<and> c \<le> 57 \<or> 97 \<le> c \<and> c \<le> 102"

lemma hex_digit_code: "d < 16 \<Longrightarrow> hex_code (of_char (hex_digit d))"
proof -
  assume "d < 16"
  moreover have "list_all (\<lambda>d. hex_code (of_char (hex_digit d))) [0..<16]"
    by code_simp
  ultimately show ?thesis by (simp add: list_all_iff)
qed

lemma hex_fixed_codes: "c \<in> set (ascii (hex_fixed k n)) \<Longrightarrow> hex_code c"
  by (induction k arbitrary: n) (auto simp: ascii_def hex_digit_code)

lemma length_hex_fixed [simp]: "length (hex_fixed k n) = k"
  by (induction k arbitrary: n) simp_all

lemma hex_digits_append:
  "\<forall>c \<in> set xs. hex_value c \<noteq> None \<Longrightarrow> hex_digits acc xs = Some v \<Longrightarrow> hex_digits acc (xs @ ys) = hex_digits v ys"
  by (induction xs arbitrary: acc) (auto split: option.splits)

lemma hex_code_value: "hex_code c \<Longrightarrow> hex_value c \<noteq> None"
  by (auto simp: hex_code_def hex_value_def)

lemma hex_digits_fixed: "hex_digits 0 (ascii (hex_fixed k n)) = Some (n mod 16 ^ k)"
proof (induction k arbitrary: n)
  case (Suc k)
  have "hex_digits 0 (ascii (hex_fixed k (n div 16)) @ [of_char (hex_digit (n mod 16))]) =
      hex_digits (n div 16 mod 16 ^ k) [of_char (hex_digit (n mod 16))]"
    using Suc by (intro hex_digits_append) (auto dest: hex_fixed_codes hex_code_value)
  also have "\<dots> = Some (n mod 16 ^ Suc k)"
    by (simp add: hex_value_digit mod_mult2_eq mult.commute)
  finally show ?case by (simp add: ascii_def)
qed (simp add: ascii_def)

lemma hex_int_fixed:
  assumes "0 < k" shows "hex_int (ascii (hex_fixed k n)) = Some (n mod 16 ^ k)"
proof -
  let ?t = "ascii (hex_fixed k n)"
  have codes: "hex_code c" if "c \<in> set ?t" for c
    using that by (rule hex_fixed_codes)
  then have "strip_codes is_space_code ?t = ?t"
    by (intro strip_codes_id) (force simp: is_space_code_def hex_code_def)
  moreover have "?t \<noteq> []"
    using assms by (cases k) (simp_all add: ascii_def)
  then obtain c cs where c: "?t = c # cs"
    by (cases ?t) auto
  ultimately show ?thesis
    using codes [of c] codes hex_digits_fixed [of k n] hex_code_value [of c]
    by (cases cs) (force simp: hex_int_def Let_def hex_code_def)+
qed

lemma uuid_text_roundtrip: "parse_uuid (ascii (uuid_str u)) = Some u"
proof -
  let ?h = "hex_fixed 32 (unat u)"
  have chars: "set (ascii (uuid_str u)) \<subseteq> insert 45 (set (ascii ?h))"
    by (auto simp: uuid_str_def Let_def ascii_def dest!: in_set_takeD in_set_dropD)
  then have codes: "c = 45 \<or> hex_code c" if "c \<in> set (ascii (uuid_str u))" for c
    using that hex_fixed_codes by blast
  have "remove_all (ascii ''urn:'') 0 (ascii (uuid_str u)) = ascii (uuid_str u)"
    "remove_all (ascii ''uuid:'') 0 (ascii (uuid_str u)) = ascii (uuid_str u)"
    using codes [of 117] by (auto intro!: remove_all_absent simp: ascii_def hex_code_def image_iff)
  moreover have "strip_codes (\<lambda>c. c = 123 \<or> c = 125) (ascii (uuid_str u)) = ascii (uuid_str u)"
    using codes by (intro strip_codes_id) (force simp: hex_code_def)
  moreover have "filter (\<lambda>c. c \<noteq> 45) (ascii (uuid_str u)) = ascii ?h"
  proof -
    have keep: "filter (\<lambda>c. c \<noteq> (45 :: nat)) (map of_char xs) = map of_char xs" if "set xs \<subseteq> set ?h" for xs
      using that hex_fixed_codes [of _ 32 "unat u"] by (force simp: filter_id_conv ascii_def hex_code_def)
    have sub: "set (take i (drop j ?h)) \<subseteq> set ?h" "set (take i ?h) \<subseteq> set ?h" "set (drop j ?h) \<subseteq> set ?h" for i j
      by (auto dest: in_set_takeD in_set_dropD)
    have whole: "take 8 ?h @ take 4 (drop 8 ?h) @ take 4 (drop 12 ?h) @ take 4 (drop 16 ?h) @ drop 20 ?h = ?h"
      by (simp flip: append_assoc take_add)
    have "filter (\<lambda>c. c \<noteq> 45) (ascii (uuid_str u)) =
        map of_char (take 8 ?h @ take 4 (drop 8 ?h) @ take 4 (drop 12 ?h) @ take 4 (drop 16 ?h) @ drop 20 ?h)"
      by (simp add: uuid_str_def Let_def ascii_def keep sub)
    then show ?thesis
      by (simp only: whole ascii_def)
  qed
  moreover have "unat u mod 340282366920938463463374607431768211456 = unat u"
    by (rule mod_less) (use unsigned_less [of u] in simp)
  ultimately show ?thesis
    by (simp add: parse_uuid_def Let_def remove_all_single ascii_def hex_int_fixed [unfolded ascii_def])
qed

lemma latin_simps: "latin_codes []" "latin_codes (c # cs) \<longleftrightarrow> c < 256 \<and> latin_codes cs"
  "latin_codes (xs @ ys) \<longleftrightarrow> latin_codes xs \<and> latin_codes ys"
  by (auto simp: latin_codes_def)

lemma latin_escape: "latin_codes (escape_code c)"
  by (simp add: escape_code_def hex4_def latin_simps)

lemma latin_quote: "latin_codes (quote t)"
proof -
  have "latin_codes (concat (map escape_code t))"
    by (induction t) (simp_all add: latin_simps latin_escape)
  then show ?thesis by (simp add: quote_def latin_simps)
qed

lemma latin_decimal: "latin_codes (decimal n)"
  by (auto simp: latin_codes_def is_digit_def dest!: set_decimal)

lemma ascii_Nil [simp]: "ascii s = [] \<longleftrightarrow> s = []"
  by (simp add: ascii_def)

lemma ascii_inject [simp]: "ascii a = ascii b \<longleftrightarrow> a = b"
  by (metis as_string_ascii)

lemma from_json_to_json:
  assumes "PendingEmailPasswordRegistration_post_init p = Inr p"
  shows "from_json (to_json p) = Inr (Some p)"
proof -
  from assms have valid: "pending_email_ciphertext p \<noteq> []" "length (pending_email_lookup_hash p) = 64"
    "py_startswith (pending_password_hash p) ''$argon2id$''" "length (pending_verification_code_hash p) = 64"
    "0 \<le> pending_attempts p" "pending_attempts p \<le> 5"
    by (auto simp: PendingEmailPasswordRegistration_post_init_def MAX_VERIFICATION_ATTEMPTS_def split: if_splits)
  have bytes: "\<forall>b \<in> set (ascii s). b < 256" for s
    by (simp add: ascii_def)
  have b64: "latin_codes (base64_encode (ascii s))" for s
    using base64_encode_ascii [OF bytes] unfolding latin_codes_def by fastforce
  have "json_loads (json_dumps (pending_document p)) = Some (JObject (pending_document p))"
    by (rule json_roundtrip) (use valid(5,6) in \<open>auto simp: pending_document_def flat_value_def b64\<close>)
  moreover have "latin_codes (json_dumps (pending_document p))"
    using valid(5) by (simp add: json_dumps_def pending_document_def latin_simps latin_quote latin_decimal)
  ultimately have "json_loads (ascii (to_json p)) = Some (JObject (pending_document p))"
    by (simp add: to_json_def ascii_as_string)
  then show ?thesis
    using assms valid
    by (cases p) (simp add: from_json_def Let_def base64_roundtrip [OF bytes] uuid_text_roundtrip pending_from_fields_def
        json_lookup_def pending_document_def ascii_as_string)
qed

text \<open>
  What the token store keeps can be read back: every valid pending registration survives its JSON
  form exactly, whatever the characters of its display name and the bytes of its ciphertext.
\<close>

theorem pending_registration_roundtrip:
  assumes "PendingEmailPasswordRegistration_post_init p = Inr p"
  shows "from_json (to_json p) = Inr (Some p)"
  using assms by (rule from_json_to_json)

theorem pending_registration_roundtrip_witness:
  "from_json (to_json
     \<lparr>pending_registration_id = 7, pending_email_ciphertext = ''enc'',
      pending_email_lookup_hash = replicate 64 CHR ''h'', pending_password_hash = ''$argon2id$x'',
      pending_display_name = ''A'' @ [CHR 0x22, CHR 0xE9], pending_verification_code_hash = replicate 64 CHR ''c'',
      pending_attempts = 2\<rparr>) = Inr (Some
     \<lparr>pending_registration_id = 7, pending_email_ciphertext = ''enc'',
      pending_email_lookup_hash = replicate 64 CHR ''h'', pending_password_hash = ''$argon2id$x'',
      pending_display_name = ''A'' @ [CHR 0x22, CHR 0xE9], pending_verification_code_hash = replicate 64 CHR ''c'',
      pending_attempts = 2\<rparr>)"
  by (rule pending_registration_roundtrip)
    (simp add: PendingEmailPasswordRegistration_post_init_def MAX_VERIFICATION_ATTEMPTS_def
      py_startswith_def py_strip_eq_Nil_iff py_isspace_def)

text \<open>A document whose identifier is a number makes the reader raise AttributeError.\<close>

lemma from_json_leaks_attribute_error:
  "from_json (as_string (json_dumps [(ascii ''email_ciphertext'', JString (ascii ''eA=='')),
     (ascii ''registration_id'', JInt 1)])) = Inl (AttributeError ''object has no attribute replace'')"
proof -
  let ?ms = "[(ascii ''email_ciphertext'', JString (ascii ''eA=='')), (ascii ''registration_id'', JInt 1)]"
  have "json_loads (json_dumps ?ms) = Some (JObject ?ms)"
    by (rule json_roundtrip) (auto simp: flat_value_def)
  moreover have "latin_codes (json_dumps ?ms)"
    by (simp add: json_dumps_def latin_simps latin_quote latin_decimal)
  moreover have "base64_decode (ascii ''eA=='') = Some [120]"
    by (simp add: base64_decode_def ascii_def base64_value_def)
  ultimately show ?thesis
    by (simp add: from_json_def Let_def ascii_as_string json_lookup_def)
qed

end
