(* ===== verification/Token_Flows.thy ===== *)
theory Token_Flows
  imports Account_Properties Token_Store Pending_Registration
begin

text \<open>
  The two flows that need the token store next to the database: registration with a verified e-mail
  address (\<open>start_email_password_registration.py\<close>, \<open>verify_email_password_registration.py\<close>,
  \<open>complete_email_password_registration.py\<close>) and password recovery
  (\<open>request_password_recovery_use_case.py\<close>, \<open>complete_password_recovery_use_case.py\<close>).

  Their state is a pair of the database and the store. The store is an argument, so everything here
  holds for the dictionary and for Redis alike. Notifiers are arguments that answer with the
  exception they raise, if any.
\<close>

section \<open>The database and the store side by side\<close>

definition on_db :: "(console, 'a) operation \<Rightarrow> (console \<times> 's, 'a) operation" where
  "on_db m = (\<lambda>(c, s). case m c of (r, c') \<Rightarrow> (r, (c', s)))"

definition on_store :: "('s, 'a) operation \<Rightarrow> (console \<times> 's, 'a) operation" where
  "on_store m = (\<lambda>(c, s). case m s of (r, s') \<Rightarrow> (r, (c, s')))"

lemma on_db_apply [effects]: "on_db m (c, s) = (fst (m c), (snd (m c), s))"
  by (simp add: on_db_def split: prod.split)

lemma on_store_apply [effects]: "on_store m (c, s) = (fst (m s), (c, snd (m s)))"
  by (simp add: on_store_def split: prod.split)

lemma on_db_outcome [outcomes]: "on_db m (c, s) = (r, (c', s')) \<longleftrightarrow> m c = (r, c') \<and> s' = s"
  by (auto simp: on_db_apply)

lemma on_store_outcome [outcomes]: "on_store m (c, s) = (r, (c', s')) \<longleftrightarrow> m s = (r, s') \<and> c' = c"
  by (auto simp: on_store_apply)

text \<open>A law of the database, read on the pair.\<close>

definition db_law :: "(console \<Rightarrow> console \<Rightarrow> bool) \<Rightarrow> console \<times> 's \<Rightarrow> console \<times> 's \<Rightarrow> bool" where
  "db_law R x y \<longleftrightarrow> R (fst x) (fst y)"

lemma obeys_on_db: "obeys R m \<Longrightarrow> obeys (db_law R) (on_db m)"
  by (auto simp: obeys_def db_law_def on_db_apply)

lemma obeys_on_store: "(\<And>c. R c c) \<Longrightarrow> obeys (db_law R) (on_store m)"
  by (auto simp: obeys_def db_law_def on_store_apply)

section \<open>Registration\<close>

record StartEmailPasswordRegistrationCommand =
  se_email :: string
  se_password :: string
  se_display_name :: string
  se_correlation_id :: uuid

record ResendEmailPasswordRegistrationCommand =
  re_token :: string
  re_correlation_id :: uuid

record VerifyEmailPasswordRegistrationCommand =
  ve_token :: string
  ve_code :: string
  ve_correlation_id :: uuid

record CompleteEmailPasswordRegistrationCommand =
  ce_normalized_email :: string
  ce_display_name :: string
  ce_password_hash :: string
  ce_correlation_id :: uuid

record EmailPasswordRegistrationVerificationResult =
  vr_raw_token :: "string option"
  vr_expires_in_seconds :: int

type_synonym verification_notifier = "uuid \<Rightarrow> string \<Rightarrow> string \<Rightarrow> datetime \<Rightarrow> uuid \<Rightarrow> error option"

definition registration_lifetime :: timedelta where
  "registration_lifetime = minutes 15"

definition registration_lifetime_seconds :: int where
  "registration_lifetime_seconds = max 60 (registration_lifetime div seconds 1)"

definition registration_key :: "ports \<Rightarrow> string \<Rightarrow> string" where
  "registration_key P raw_token = ''muxivo-console:registration-verification:'' @ token_hash P raw_token"

definition code_hash :: "ports \<Rightarrow> string \<Rightarrow> string \<Rightarrow> string" where
  "code_hash P raw_token code = token_hash P (''registration-code:'' @ raw_token @ '':'' @ code)"

definition registration_result :: "string option \<Rightarrow> EmailPasswordRegistrationVerificationResult" where
  "registration_result raw_token =
     \<lparr>vr_raw_token = raw_token, vr_expires_in_seconds = registration_lifetime_seconds\<rparr>"

definition discard_pending :: "'s token_store \<Rightarrow> string \<Rightarrow> string \<Rightarrow> (console \<times> 's, unit) operation" where
  "discard_pending store key value =
     catching (bnd (on_store (ts_consume store key value)) (\<lambda>_. ret ())) (\<lambda>_. ret ())"

fun is_connection_error :: "error \<Rightarrow> bool" where
  "is_connection_error (ConnectionError _) = True"
| "is_connection_error (RedisOneTimeTokenStoreUnavailableError _) = True"
| "is_connection_error (RedisRateLimitUnavailableError _) = True"
| "is_connection_error _ = False"

text \<open>Sending the code; a value that cannot be delivered is discarded.\<close>

definition deliver_code ::
  "'s token_store \<Rightarrow> string \<Rightarrow> string \<Rightarrow> error option \<Rightarrow> string \<Rightarrow>
   (console \<times> 's, EmailPasswordRegistrationVerificationResult) operation" where
  "deliver_code store key value delivery raw_token =
     (case delivery of
        None \<Rightarrow> ret (registration_result (Some raw_token))
      | Some e \<Rightarrow>
          bnd (discard_pending store key value) (\<lambda>_.
          if is_connection_error e then raise e
          else raise (ConnectionError ''Registration verification delivery failed.'')))"

definition StartEmailPasswordRegistration_execute ::
  "ports \<Rightarrow> io \<Rightarrow> 's token_store \<Rightarrow> verification_notifier \<Rightarrow> string \<Rightarrow>
   StartEmailPasswordRegistrationCommand \<Rightarrow>
   (console \<times> 's, EmailPasswordRegistrationVerificationResult) operation" where
  "StartEmailPasswordRegistration_execute P io store notify code cmd =
     bnd (construct (normalize P (se_email cmd))) (\<lambda>email.
     if py_strip (se_display_name cmd) = [] \<or> 64 < length (se_display_name cmd)
     then raise (ValueError ''Registration display name does not meet policy.'')
     else if \<not> (12 \<le> length (se_password cmd) \<and> length (se_password cmd) \<le> 1024)
     then raise (ValueError ''Registration password does not meet policy.'')
     else
       bnd (on_db (find_account_by_email_lookup_hash (lookup_hash P email))) (\<lambda>account.
       if account \<noteq> None then ret (registration_result None)
       else
         let raw_token = new_token io 0 in
         bnd (construct (PendingEmailPasswordRegistration_post_init
                \<lparr>pending_registration_id = new_id io 0, pending_email_ciphertext = encrypt io email,
                 pending_email_lookup_hash = lookup_hash P email,
                 pending_password_hash = hash_password io (se_password cmd),
                 pending_display_name = se_display_name cmd,
                 pending_verification_code_hash = code_hash P raw_token code, pending_attempts = 0\<rparr>)) (\<lambda>pending.
         let key = registration_key P raw_token; value = to_json pending in
         bnd (on_store (ts_put store key value registration_lifetime_seconds)) (\<lambda>stored.
         if \<not> stored then ret (registration_result None)
         else deliver_code store key value
                (notify (pending_registration_id pending) email code
                   (dt_add (clock io 0) registration_lifetime) (se_correlation_id cmd)) raw_token))))"

text \<open>\<open>from_json(current_value) if current_value else None\<close>\<close>

definition pending_of :: "string option \<Rightarrow> error + PendingEmailPasswordRegistration option" where
  "pending_of value = (case value of None \<Rightarrow> Inr None | Some v \<Rightarrow> if v = [] then Inr None else from_json v)"

fun is_decrypt_error :: "error \<Rightarrow> bool" where
  "is_decrypt_error InvalidToken = True"
| "is_decrypt_error (TypeError _) = True"
| "is_decrypt_error (ValueError _) = True"
| "is_decrypt_error _ = False"

definition StartEmailPasswordRegistration_resend ::
  "ports \<Rightarrow> io \<Rightarrow> 's token_store \<Rightarrow> verification_notifier \<Rightarrow> string \<Rightarrow>
   ResendEmailPasswordRegistrationCommand \<Rightarrow>
   (console \<times> 's, EmailPasswordRegistrationVerificationResult) operation" where
  "StartEmailPasswordRegistration_resend P io store notify code cmd =
     (let raw_token = re_token cmd; key = registration_key P raw_token in
      bnd (on_store (ts_get store key)) (\<lambda>current_value.
      bnd (construct (pending_of current_value)) (\<lambda>found.
      case found of
        None \<Rightarrow> ret (registration_result None)
      | Some pending \<Rightarrow>
          if MAX_VERIFICATION_ATTEMPTS \<le> pending_attempts pending then ret (registration_result None)
          else
            (case decrypt P (pending_email_ciphertext pending) of
               Inl e \<Rightarrow> if is_decrypt_error e then ret (registration_result None) else raise e
             | Inr email \<Rightarrow>
                 bnd (construct (PendingEmailPasswordRegistration_post_init
                        (pending\<lparr>pending_verification_code_hash := code_hash P raw_token code\<rparr>))) (\<lambda>rotated.
                 bnd (on_store (ts_replace store key (to_json rotated) registration_lifetime_seconds)) (\<lambda>replaced.
                 if \<not> replaced then ret (registration_result None)
                 else deliver_code store key (to_json rotated)
                        (notify (pending_registration_id rotated) email code
                           (dt_add (clock io 0) registration_lifetime) (re_correlation_id cmd)) raw_token))))))"

text \<open>The account projection that a verified registration writes.\<close>

definition email_password_registration ::
  "ports \<Rightarrow> io \<Rightarrow> CompleteEmailPasswordRegistrationCommand \<Rightarrow> string \<Rightarrow> error + EmailPasswordRegistration" where
  "email_password_registration P io cmd email =
     (let uid = new_id io 0; lookup = lookup_hash P email in
      case User_post_init \<lparr>user_id = uid, user_status = USER_ACTIVE, user_display_name = ce_display_name cmd\<rparr> of
        Inl e \<Rightarrow> Inl e
      | Inr u \<Rightarrow>
      (case LoginIdentity_post_init \<lparr>identity_id = new_id io 1, identity_user_id = uid,
              identity_provider = PROVIDER_EMAIL, identity_provider_subject = lookup\<rparr> of
        Inl e \<Rightarrow> Inl e
      | Inr i \<Rightarrow>
      (case UserEmail_post_init \<lparr>email_id = new_id io 2, email_user_id = uid,
              email_ciphertext = encrypt io email, email_lookup_hash = lookup, email_is_primary = True\<rparr> of
        Inl e \<Rightarrow> Inl e
      | Inr m \<Rightarrow>
      (case PasswordCredential_post_init \<lparr>credential_user_id = uid, credential_password_hash = ce_password_hash cmd\<rparr> of
        Inl e \<Rightarrow> Inl e
      | Inr c \<Rightarrow> EmailPasswordRegistration_post_init
          \<lparr>registration_user = u, registration_identity = i, registration_email = m,
           registration_password_credential = c\<rparr>))))"

definition registration_rejected :: "('s, 'a) operation" where
  "registration_rejected = raise (EmailPasswordRegistrationRejectedError ''Registration could not be completed.'')"

definition CompleteEmailPasswordRegistration_execute ::
  "ports \<Rightarrow> io \<Rightarrow> CompleteEmailPasswordRegistrationCommand \<Rightarrow> (console, uuid) operation" where
  "CompleteEmailPasswordRegistration_execute P io cmd =
     bnd (construct (normalize P (ce_normalized_email cmd))) (\<lambda>email.
     if \<not> py_startswith (ce_password_hash cmd) ''$argon2id$'' then registration_rejected
     else
       bnd (construct (email_password_registration P io cmd email)) (\<lambda>registration.
       bnd (construct (identity_audit_event (new_id io 3) (ce_correlation_id cmd) (Some (new_id io 0))
              ''auth.email_password_registration_verified'' ''user'' (new_id io 0))) (\<lambda>event.
       bnd (register_email_password (db_now io 0) registration event) (\<lambda>created.
       if \<not> created then registration_rejected else ret (new_id io 0)))))"

definition is_six_digit_code :: "string \<Rightarrow> bool" where
  "is_six_digit_code code \<longleftrightarrow> length code = 6 \<and> list_all (\<lambda>c. is_digit (of_char c)) code"

definition verification_failed :: "('s, 'a) operation" where
  "verification_failed =
     raise (EmailPasswordRegistrationVerificationRejectedError ''E-mail verification failed.'')"

fun is_registration_failure :: "error \<Rightarrow> bool" where
  "is_registration_failure (EmailPasswordRegistrationRejectedError _) = True"
| "is_registration_failure e = is_decrypt_error e"

definition register_pending ::
  "ports \<Rightarrow> io \<Rightarrow> VerifyEmailPasswordRegistrationCommand \<Rightarrow> PendingEmailPasswordRegistration \<Rightarrow>
   (console, unit) operation" where
  "register_pending P io cmd pending =
     catching
       (bnd (construct (decrypt P (pending_email_ciphertext pending))) (\<lambda>email.
        bnd (CompleteEmailPasswordRegistration_execute P io
               \<lparr>ce_normalized_email = email, ce_display_name = pending_display_name pending,
                ce_password_hash = pending_password_hash pending,
                ce_correlation_id = ve_correlation_id cmd\<rparr>) (\<lambda>_. ret ())))
       (\<lambda>e. if is_registration_failure e then verification_failed else raise e)"

definition VerifyEmailPasswordRegistration_execute ::
  "ports \<Rightarrow> io \<Rightarrow> 's token_store \<Rightarrow> VerifyEmailPasswordRegistrationCommand \<Rightarrow>
   (console \<times> 's, unit) operation" where
  "VerifyEmailPasswordRegistration_execute P io store cmd =
     (if \<not> is_usable_token (ve_token cmd) \<or> \<not> is_six_digit_code (ve_code cmd) then verification_failed
      else
        let key = registration_key P (ve_token cmd) in
        bnd (on_store (ts_get store key)) (\<lambda>current_value.
        bnd (construct (pending_of current_value)) (\<lambda>found.
        case found of
          None \<Rightarrow> verification_failed
        | Some pending \<Rightarrow>
            if MAX_VERIFICATION_ATTEMPTS \<le> pending_attempts pending then verification_failed
            else if code_hash P (ve_token cmd) (ve_code cmd) \<noteq> pending_verification_code_hash pending then
              bnd (construct (with_attempts pending
                     (min MAX_VERIFICATION_ATTEMPTS (pending_attempts pending + 1)))) (\<lambda>advanced.
              bnd (on_store (ts_replace store key (to_json advanced) registration_lifetime_seconds)) (\<lambda>_.
              verification_failed))
            else
              bnd (on_store (ts_consume store key (the current_value))) (\<lambda>consumed.
              if \<not> consumed then verification_failed
              else on_db (register_pending P io cmd pending)))))"

section \<open>Password recovery\<close>

record RequestPasswordRecoveryCommand =
  rr_email :: string
  rr_correlation_id :: uuid

record CompletePasswordRecoveryCommand =
  cr_token :: string
  cr_new_password :: string
  cr_correlation_id :: uuid

type_synonym recovery_notifier = "uuid \<Rightarrow> string \<Rightarrow> string \<Rightarrow> datetime \<Rightarrow> uuid \<Rightarrow> error option"
type_synonym completion_notifier = "uuid \<Rightarrow> string \<Rightarrow> datetime \<Rightarrow> uuid \<Rightarrow> error option"

definition recovery_lifetime :: timedelta where
  "recovery_lifetime = minutes 30"

definition recovery_lifetime_seconds :: int where
  "recovery_lifetime_seconds = max 60 (recovery_lifetime div seconds 1)"

definition recovery_key :: "string \<Rightarrow> string" where
  "recovery_key h = ''muxivo-console:password-recovery:'' @ h"

definition RequestPasswordRecovery_execute ::
  "ports \<Rightarrow> io \<Rightarrow> 's token_store \<Rightarrow> recovery_notifier \<Rightarrow> RequestPasswordRecoveryCommand \<Rightarrow>
   (console \<times> 's, unit) operation" where
  "RequestPasswordRecovery_execute P io store notify cmd =
     (let raw_token = new_token io 0; h = token_hash P raw_token in
      case normalize P (rr_email cmd) of
        Inl e \<Rightarrow> if is_value_error e then ret () else raise e
      | Inr email \<Rightarrow>
          bnd (on_db (find_account_by_email_lookup_hash (lookup_hash P email))) (\<lambda>found.
          case found of
            None \<Rightarrow> ret ()
          | Some account \<Rightarrow>
              if account_status account \<noteq> USER_ACTIVE then ret ()
              else
                bnd (construct (PasswordRecoveryTransaction_post_init
                       \<lparr>recovery_id = new_id io 0, recovery_user_id = account_user_id account,
                        recovery_token_hash = h,
                        recovery_expires_at = dt_add (clock io 0) recovery_lifetime,
                        recovery_consumed_at = None\<rparr>)) (\<lambda>tx.
                let key = recovery_key h; reference = uuid_str (recovery_id tx);
                    discard = discard_pending store key reference in
                bnd (on_store (ts_put store key reference recovery_lifetime_seconds)) (\<lambda>stored.
                if \<not> stored then ret ()
                else
                  bnd (catching
                    (bnd (construct (identity_audit_event (new_id io 1) (rr_correlation_id cmd)
                            (Some (account_user_id account)) ''auth.password_recovery_requested'' ''user''
                            (account_user_id account))) (\<lambda>event.
                     on_db (recovery_create (db_now io 0) tx event)))
                    (\<lambda>e. bnd discard (\<lambda>_. raise e))) (\<lambda>created.
                  if \<not> created then discard
                  else
                    (case notify (account_user_id account) email raw_token (recovery_expires_at tx)
                            (rr_correlation_id cmd) of
                       None \<Rightarrow> ret ()
                     | Some _ \<Rightarrow> discard))))))"

definition recovery_failed :: "('s, 'a) operation" where
  "recovery_failed = raise (PasswordRecoveryCompletionRejectedError ''Password recovery failed.'')"

definition is_valid_reference :: "string option \<Rightarrow> bool" where
  "is_valid_reference reference =
     (case reference of None \<Rightarrow> False | Some r \<Rightarrow> parse_uuid (ascii r) \<noteq> None)"

definition CompletePasswordRecovery_execute ::
  "ports \<Rightarrow> io \<Rightarrow> 's token_store \<Rightarrow> completion_notifier \<Rightarrow> CompletePasswordRecoveryCommand \<Rightarrow>
   (console \<times> 's, unit) operation" where
  "CompletePasswordRecovery_execute P io store notify cmd =
     (if \<not> is_usable_token (cr_token cmd) then recovery_failed
      else if \<not> is_valid_new_password (cr_new_password cmd) then recovery_failed
      else
        let h = token_hash P (cr_token cmd); key = recovery_key h in
        bnd (on_store (ts_get store key)) (\<lambda>reference.
        if \<not> is_valid_reference reference then recovery_failed
        else
          let completed_at = clock io 0 in
          bnd (on_db (recovery_complete (db_now io 0) h (hash_password io (cr_new_password cmd)) completed_at
                 (new_id io 0) (cr_correlation_id cmd))) (\<lambda>completed.
          case completed of
            None \<Rightarrow> recovery_failed
          | Some uid \<Rightarrow>
              bnd (catching (bnd (on_store (ts_consume store key (the reference))) (\<lambda>_. ret ()))
                     (\<lambda>e. if is_connection_error e then ret () else raise e)) (\<lambda>_.
              bnd (on_db (find_primary_email P uid)) (\<lambda>recipient.
              case recipient of
                None \<Rightarrow> ret ()
              | Some email \<Rightarrow>
                  (case notify uid email completed_at (cr_correlation_id cmd) of None \<Rightarrow> ret () | Some _ \<Rightarrow> ret ()))))))"

lemmas token_flows = StartEmailPasswordRegistration_execute_def StartEmailPasswordRegistration_resend_def
  VerifyEmailPasswordRegistration_execute_def RequestPasswordRecovery_execute_def
  CompletePasswordRecovery_execute_def discard_pending_def deliver_code_def verification_failed_def
  recovery_failed_def

end
