(* ===== verification/Flow_Properties.thy ===== *)
theory Flow_Properties
  imports Token_Flows
begin

text \<open>
  What registration and recovery guarantee. The locale \<open>flow_law\<close> carries any law of the database
  that the three writers obey to the five flows at once; it is interpreted on the laws of the schema,
  of history, of revocation and of ownership. The properties use only the contract
  \<open>one_time_tokens\<close> of the store, except the two that say that something does succeed, or count
  attempts: these are about the dictionary.
\<close>

section \<open>Laws of the database\<close>

locale flow_law = step_law R for R :: "console \<Rightarrow> console \<Rightarrow> bool" +
  assumes register_obeys: "obeys R (register_email_password t rg e)"
    and recovery_create_obeys: "obeys R (recovery_create t tx e)"
    and recovery_complete_obeys: "obeys R (recovery_complete t h pw d a c)"
begin

lemma pair_law: "step_law (db_law R :: console \<times> 's \<Rightarrow> console \<times> 's \<Rightarrow> bool)"
  by unfold_locales (auto simp: db_law_def intro: law_refl law_trans)

lemma on_store: "obeys (db_law R) (on_store m)"
  by (rule obeys_on_store) (rule law_refl)

lemma silent_db: "silent m \<Longrightarrow> obeys (db_law R) (on_db m)"
  by (rule obeys_on_db, rule silent_obeys) (simp_all add: law_refl)

lemmas pair_rules = step_law.ret [OF pair_law] step_law.raise [OF pair_law] step_law.bnd [OF pair_law]
  step_law.catching [OF pair_law] step_law.if_op [OF pair_law] step_law.option_op [OF pair_law]
  step_law.sum_op [OF pair_law] construct_obeys on_store

lemma construct_pair: "obeys (db_law R) (construct x)"
  by (rule construct_obeys) (simp add: db_law_def law_refl)

lemma discard_obeys: "obeys (db_law R) (discard_pending store k v)"
  unfolding discard_pending_def by (intro pair_rules construct_pair)

lemma deliver_obeys: "obeys (db_law R) (deliver_code store k v del tok)"
  unfolding deliver_code_def by (intro pair_rules construct_pair discard_obeys)

lemma register_pending_obeys: "obeys R (register_pending P io cmd p)"
  unfolding register_pending_def CompleteEmailPasswordRegistration_execute_def
    registration_rejected_def verification_failed_def
  by (intro rules construct_obeys law_refl register_obeys)

lemma flows:
  "obeys (db_law R) (StartEmailPasswordRegistration_execute P io store notify code c1)"
  "obeys (db_law R) (StartEmailPasswordRegistration_resend P io store notify code c2)"
  "obeys (db_law R) (VerifyEmailPasswordRegistration_execute P io store c3)"
  "obeys (db_law R) (RequestPasswordRecovery_execute P io store rnotify c4)"
  "obeys (db_law R) (CompletePasswordRecovery_execute P io store cnotify c5)"
  unfolding StartEmailPasswordRegistration_execute_def StartEmailPasswordRegistration_resend_def
    VerifyEmailPasswordRegistration_execute_def RequestPasswordRecovery_execute_def
    CompletePasswordRecovery_execute_def verification_failed_def recovery_failed_def Let_def
  by (intro pair_rules construct_pair deliver_obeys discard_obeys silent_db silent_identity_readers
      obeys_on_db register_pending_obeys recovery_create_obeys recovery_complete_obeys)+

end

interpretation flow_inv: flow_law keeps_db_ok
  by unfold_locales (rule inv_identity_writers)+

interpretation flow_his: flow_law history
  by unfold_locales (rule his_identity_writers)+

interpretation flow_rev: flow_law keeps_revoked
  by unfold_locales (rule rev_identity_writers)+

interpretation flow_own: flow_law keeps_owners
  by unfold_locales (rule own_identity_writers)+

section \<open>Registration\<close>

lemma pending_of_Some: "pending_of value = Inr (Some p) \<Longrightarrow> \<exists>v. value = Some v \<and> from_json v = Inr (Some p)"
  by (auto simp: pending_of_def split: option.splits if_splits)

definition registered_rows ::
  "ports \<Rightarrow> io \<Rightarrow> string \<Rightarrow> PendingEmailPasswordRegistration \<Rightarrow> console \<Rightarrow> AuditEventRecord \<Rightarrow> console" where
  "registered_rows P io email p c e = c
     \<lparr>users := users c @ [\<lparr>u_id = new_id io 0, u_status = ''active'', u_display_name = pending_display_name p\<rparr>],
      login_identities := login_identities c @
        [\<lparr>li_id = new_id io 1, li_user_id = new_id io 0, li_provider = ''email'',
          li_provider_subject = lookup_hash P email, li_linked_at = db_now io 0, li_last_used_at = None\<rparr>],
      user_emails := user_emails c @
        [\<lparr>ue_id = new_id io 2, ue_user_id = new_id io 0, ue_email_ciphertext = encrypt io email,
          ue_email_lookup_hash = lookup_hash P email, ue_is_primary = True\<rparr>],
      password_credentials := password_credentials c @
        [\<lparr>pc_user_id = new_id io 0, pc_password_hash = pending_password_hash p,
          pc_password_changed_at = db_now io 0, pc_failed_attempts = 0, pc_locked_until = None\<rparr>],
      audit_events := audit_events c @ [e]\<rparr>"

lemma email_password_registration_Inr:
  assumes "email_password_registration P io cmd email = Inr r"
  shows "r = \<lparr>registration_user = \<lparr>user_id = new_id io 0, user_status = USER_ACTIVE,
                user_display_name = ce_display_name cmd\<rparr>,
      registration_identity = \<lparr>identity_id = new_id io 1, identity_user_id = new_id io 0,
              identity_provider = PROVIDER_EMAIL, identity_provider_subject = lookup_hash P email\<rparr>,
      registration_email = \<lparr>email_id = new_id io 2, email_user_id = new_id io 0,
              email_ciphertext = encrypt io email, email_lookup_hash = lookup_hash P email,
              email_is_primary = True\<rparr>,
      registration_password_credential = \<lparr>credential_user_id = new_id io 0,
              credential_password_hash = ce_password_hash cmd\<rparr>\<rparr>"
  using assms
  by (auto simp: email_password_registration_def Let_def User_post_init_def LoginIdentity_post_init_def
      UserEmail_post_init_def PasswordCredential_post_init_def EmailPasswordRegistration_post_init_def
      split: sum.splits if_splits)

lemma register_pending_returns:
  assumes "register_pending P io cmd p c = (Inr (), c')"
  obtains email0 email e where "decrypt P (pending_email_ciphertext p) = Inr email0"
    "normalize P email0 = Inr email" "c' = registered_rows P io email p c e"
    "a_action e = ''auth.email_password_registration_verified''"
proof -
  from assms obtain email0 email r event where run:
    "decrypt P (pending_email_ciphertext p) = Inr email0" "normalize P email0 = Inr email"
    "email_password_registration P io \<lparr>ce_normalized_email = email0,
       ce_display_name = pending_display_name p, ce_password_hash = pending_password_hash p,
       ce_correlation_id = ve_correlation_id cmd\<rparr> email = Inr r"
    "identity_audit_event (new_id io 3) (ve_correlation_id cmd) (Some (new_id io 0))
       ''auth.email_password_registration_verified'' ''user'' (new_id io 0) = Inr event"
    "register_email_password (db_now io 0) r event c = (Inr True, c')"
    unfolding register_pending_def CompleteEmailPasswordRegistration_execute_def
      registration_rejected_def verification_failed_def
    by (auto simp: outcomes)
  note r = email_password_registration_Inr [OF run(3)]
  have "c' = registered_rows P io email p c (audit_record (db_now io 0) event)"
    using run(5) by (auto simp: register_email_password_def outcomes inserts r registered_rows_def)
  moreover have "a_action (audit_record (db_now io 0) event) = ''auth.email_password_registration_verified''"
    using identity_audit_event_Inr [OF run(4)] by (simp add: audit_record_def)
  ultimately show thesis
    using run(1,2) that by blast
qed


definition sample_pending :: PendingEmailPasswordRegistration where
  "sample_pending =
     \<lparr>pending_registration_id = 7, pending_email_ciphertext = ''enc:e@x'',
      pending_email_lookup_hash = pad64 ''e@x'', pending_password_hash = ''$argon2id$pw'',
      pending_display_name = ''Eve'', pending_verification_code_hash = pad64 ''registration-code:tok:123456'',
      pending_attempts = 0\<rparr>"

definition sample_store :: memory_store where
  "sample_store = \<lparr>ms_values = [registration_key sample_ports ''tok'' \<mapsto> (to_json sample_pending, Aware 5)],
     ms_wall = (\<lambda>n. Aware 1)\<rparr>"

lemma sample_pending_read: "from_json (to_json sample_pending) = Inr (Some sample_pending)"
  "PendingEmailPasswordRegistration_post_init sample_pending = Inr sample_pending"
  "to_json sample_pending \<noteq> []"
proof -
  show valid: "PendingEmailPasswordRegistration_post_init sample_pending = Inr sample_pending"
    by (simp add: PendingEmailPasswordRegistration_post_init_def MAX_VERIFICATION_ATTEMPTS_def
      sample_pending_def pad64_def py_startswith_def py_strip_eq_Nil_iff py_isspace_def)
  show "from_json (to_json sample_pending) = Inr (Some sample_pending)"
    using valid by (rule from_json_to_json)
  show "to_json sample_pending \<noteq> []"
    by (simp add: to_json_def json_dumps_def as_string_def)
qed


section \<open>Five guesses\<close>

lemma memory_get_cases:
  assumes "memory_get k s = (r, t)"
  obtains "r = Inr None" "memory_holds t k = None"
  | v where "r = Inr (Some v)" "memory_holds s k = Some v"
  using assms by (auto simp: memory_operations effects memory_holds_def live_def split: option.splits if_splits)

lemma memory_replace_holds:
  "memory_replace k v n s = (r, t) \<Longrightarrow> (\<exists>b. r = Inr b) \<and> (memory_holds t k = None \<or> memory_holds t k = Some v)"
  by (auto simp: memory_operations effects memory_holds_def split: option.splits if_splits)

text \<open>The token is gone, or its state is the original one with at least the given number of failures.\<close>

definition guessed :: "string \<Rightarrow> PendingEmailPasswordRegistration \<Rightarrow> int \<Rightarrow> memory_store \<Rightarrow> bool" where
  "guessed k p n s \<longleftrightarrow> memory_holds s k = None \<or>
     (\<exists>a. n \<le> a \<and> a \<le> 5 \<and> 0 \<le> a \<and> memory_holds s k = Some (to_json (p\<lparr>pending_attempts := a\<rparr>)))"

lemma guessed_weaken: "guessed k p n s \<Longrightarrow> m \<le> n \<Longrightarrow> guessed k p m s"
  unfolding guessed_def by (meson order_trans)

definition wrong_guess :: "ports \<Rightarrow> string \<Rightarrow> PendingEmailPasswordRegistration \<Rightarrow> VerifyEmailPasswordRegistrationCommand \<Rightarrow> bool" where
  "wrong_guess P tok p cmd \<longleftrightarrow> ve_token cmd = tok \<and> is_six_digit_code (ve_code cmd)
     \<and> code_hash P tok (ve_code cmd) \<noteq> pending_verification_code_hash p"

definition rejected_verification :: "error + unit" where
  "rejected_verification = Inl (EmailPasswordRegistrationVerificationRejectedError ''E-mail verification failed.'')"

lemma valid_attempts:
  assumes "PendingEmailPasswordRegistration_post_init p = Inr p" and "0 \<le> a" and "a \<le> 5"
  shows "PendingEmailPasswordRegistration_post_init (p\<lparr>pending_attempts := a\<rparr>) = Inr (p\<lparr>pending_attempts := a\<rparr>)"
  using assms by (auto simp: PendingEmailPasswordRegistration_post_init_def MAX_VERIFICATION_ATTEMPTS_def split: if_splits)

lemma pending_of_guessed:
  assumes "PendingEmailPasswordRegistration_post_init p = Inr p" and "0 \<le> a" and "a \<le> 5"
  shows "pending_of (Some (to_json (p\<lparr>pending_attempts := a\<rparr>))) = Inr (Some (p\<lparr>pending_attempts := a\<rparr>))"
  using from_json_to_json [OF valid_attempts [OF assms]]
  by (simp add: pending_of_def to_json_def json_dumps_def as_string_def)

lemma wrong_guess_step:
  assumes valid: "PendingEmailPasswordRegistration_post_init p = Inr p" and tok: "is_usable_token tok"
    and state: "guessed (registration_key P tok) p n s" and wrong: "wrong_guess P tok p cmd"
  shows "\<exists>t. VerifyEmailPasswordRegistration_execute P io memory_token_store cmd (c, s) =
      (rejected_verification, (c, t)) \<and> guessed (registration_key P tok) p (min 5 (n + 1)) t"
proof -
  let ?k = "registration_key P tok"
  obtain r s1 where get: "memory_get ?k s = (r, s1)" by (metis prod.exhaust)
  note run = VerifyEmailPasswordRegistration_execute_def Let_def verification_failed_def memory_token_store_def
    effects construct_def rejected_verification_def MAX_VERIFICATION_ATTEMPTS_def
  from get show ?thesis
  proof (cases rule: memory_get_cases)
    case 1
    then show ?thesis
      using tok wrong get by (simp add: run wrong_guess_def pending_of_def guessed_def)
  next
    case (2 v)
    with state obtain a where a: "n \<le> a" "a \<le> 5" "0 \<le> a" "v = to_json (p\<lparr>pending_attempts := a\<rparr>)"
      by (auto simp: guessed_def)
    note read = pending_of_guessed [OF valid a(3,2)]
    show ?thesis
    proof (cases "a = 5")
      case True
      have "guessed ?k p 5 s1"
        using one_time_tokens.get_fades [OF memory.one_time_tokens_axioms, of ?k s r s1] get 2 True a
        by (auto simp: guessed_def memory_token_store_def fades_def map_le_def dom_def)
      then have "guessed ?k p (min 5 (n + 1)) s1"
        by (rule guessed_weaken) simp
      with True show ?thesis
        using tok wrong get 2 a read by (auto simp: run wrong_guess_def)
    next
      case False
      with a have next_a: "min 5 (a + 1) = a + 1" "0 \<le> a + 1" "a + 1 \<le> 5" by auto
      let ?q = "p\<lparr>pending_attempts := a + 1\<rparr>"
      obtain r' t where rep: "memory_replace ?k (to_json ?q) registration_lifetime_seconds s1 = (r', t)"
        by (metis prod.exhaust)
      note held = memory_replace_holds [OF rep]
      have adv: "with_attempts (p\<lparr>pending_attempts := a\<rparr>) (a + 1) = Inr ?q"
        using valid_attempts [OF valid next_a(2,3)] by (simp add: with_attempts_def)
      have "guessed ?k p (a + 1) t"
        using held next_a unfolding guessed_def by (auto intro!: exI [of _ "a + 1"])
      then have "guessed ?k p (min 5 (n + 1)) t"
        by (rule guessed_weaken) (use a(1) in simp)
      then show ?thesis
        using tok wrong get 2 a read False held rep adv next_a by (auto simp: run wrong_guess_def)
    qed
  qed
qed

fun verify_all ::
  "ports \<Rightarrow> io \<Rightarrow> VerifyEmailPasswordRegistrationCommand list \<Rightarrow> console \<times> memory_store \<Rightarrow> console \<times> memory_store" where
  "verify_all P io [] x = x"
| "verify_all P io (cmd # cmds) x =
     verify_all P io cmds (snd (VerifyEmailPasswordRegistration_execute P io memory_token_store cmd x))"

lemma wrong_guesses:
  assumes valid: "PendingEmailPasswordRegistration_post_init p = Inr p" and tok: "is_usable_token tok"
  shows "guessed (registration_key P tok) p n s \<Longrightarrow> \<forall>cmd \<in> set cmds. wrong_guess P tok p cmd \<Longrightarrow> 0 \<le> n \<Longrightarrow>
    \<exists>t. verify_all P io cmds (c, s) = (c, t) \<and> guessed (registration_key P tok) p (min 5 (n + int (length cmds))) t"
proof (induction cmds arbitrary: n s)
  case Nil
  then show ?case by (auto intro: guessed_weaken)
next
  case (Cons cmd cmds)
  from wrong_guess_step [OF valid tok Cons.prems(1), of cmd io c] Cons.prems(2) obtain s1 where
    s1: "snd (VerifyEmailPasswordRegistration_execute P io memory_token_store cmd (c, s)) = (c, s1)"
      "guessed (registration_key P tok) p (min 5 (n + 1)) s1"
    by auto
  from Cons.IH [OF s1(2)] Cons.prems(2,3) obtain t where
    "verify_all P io cmds (c, s1) = (c, t)"
    "guessed (registration_key P tok) p (min 5 (min 5 (n + 1) + int (length cmds))) t"
    by auto
  moreover have "min 5 (min 5 (n + 1) + int (length cmds)) = min 5 (n + int (length (cmd # cmds)))"
    by auto
  ultimately show ?case
    using s1(1) by auto
qed

text \<open>
  C33: Five wrong codes lock a registration: they change nothing in the database, and every later
  verification of the token is rejected without a change to the database, the right code included.
\<close>

theorem five_guesses:
  assumes "PendingEmailPasswordRegistration_post_init p = Inr p" and "is_usable_token tok"
    and "memory_holds s (registration_key P tok) = Some (to_json p)"
    and "\<forall>cmd \<in> set cmds. wrong_guess P tok p cmd" and "5 \<le> length cmds"
    and "ve_token cmd = tok"
  shows "\<exists>t. verify_all P io cmds (c, s) = (c, t)
    \<and> (\<exists>u. VerifyEmailPasswordRegistration_execute P io2 memory_token_store cmd (c, t) =
        (rejected_verification, (c, u)))"
proof -
  let ?k = "registration_key P tok"
  have "0 \<le> pending_attempts p" "pending_attempts p \<le> 5"
    using assms(1) by (auto simp: PendingEmailPasswordRegistration_post_init_def MAX_VERIFICATION_ATTEMPTS_def
        split: if_splits)
  then have "guessed ?k p 0 s"
    using assms(3) unfolding guessed_def by (intro disjI2 exI [of _ "pending_attempts p"]) simp
  from wrong_guesses [OF assms(1,2) this assms(4), of io c] assms(5) obtain t where
    t: "verify_all P io cmds (c, s) = (c, t)" "guessed ?k p 5 t"
    by (auto simp: min_def split: if_splits)
  obtain r t1 where get: "memory_get ?k t = (r, t1)" by (metis prod.exhaust)
  note run = VerifyEmailPasswordRegistration_execute_def Let_def verification_failed_def memory_token_store_def
    effects construct_def rejected_verification_def MAX_VERIFICATION_ATTEMPTS_def
  from get have "\<exists>u. VerifyEmailPasswordRegistration_execute P io2 memory_token_store cmd (c, t) =
        (rejected_verification, (c, u))"
  proof (cases rule: memory_get_cases)
    case 1
    then show ?thesis
      using get assms(6) by (simp add: run pending_of_def)
  next
    case (2 v)
    with t(2) have "v = to_json (p\<lparr>pending_attempts := 5\<rparr>)"
      by (auto simp: guessed_def dest: order.antisym)
    with pending_of_guessed [OF assms(1), of 5] show ?thesis
      using get 2 assms(6) by (simp add: run)
  qed
  with t(1) show ?thesis by blast
qed

lemma wrong_code_at_sample:
  "wrong_guess sample_ports ''tok'' sample_pending
     \<lparr>ve_token = ''tok'', ve_code = ''000000'', ve_correlation_id = 9\<rparr>"
  by (simp add: wrong_guess_def is_six_digit_code_def is_digit_def code_hash_def sample_ports_def
      sample_pending_def pad64_def)

theorem five_guesses_witness:
  "\<exists>t u. VerifyEmailPasswordRegistration_execute sample_ports sample_io memory_token_store
     \<lparr>ve_token = ''tok'', ve_code = ''123456'', ve_correlation_id = 9\<rparr> (sample, t) =
     (rejected_verification, (sample, u))"
proof -
  let ?wrong = "\<lparr>ve_token = ''tok'', ve_code = ''000000'', ve_correlation_id = 9\<rparr>"
  let ?right = "\<lparr>ve_token = ''tok'', ve_code = ''123456'', ve_correlation_id = 9\<rparr>"
  have token: "is_usable_token ''tok''"
    by (simp add: is_usable_token_def py_isspace_def)
  have held: "memory_holds sample_store (registration_key sample_ports ''tok'') = Some (to_json sample_pending)"
    by (simp add: memory_holds_def sample_store_def)
  show ?thesis
    using five_guesses [OF sample_pending_read(2) token held, of "replicate 5 ?wrong" ?right
        sample_io sample sample_io] wrong_code_at_sample by auto
qed

end
