(* ===== verification/Recovery_Properties.thy ===== *)
theory Recovery_Properties
  imports Flow_Properties
begin

text \<open>
  What password recovery guarantees: completion
  (\<open>complete_password_recovery_use_case.py\<close>) replaces the password, ends every session and spends
  the token, and the request (\<open>request_password_recovery_use_case.py\<close>) answers the same for every
  address.
\<close>

section \<open>Completing a recovery\<close>

lemma CompletePasswordRecovery_returns:
  assumes "CompletePasswordRecovery_execute P io store notify cmd (c, s) = (Inr (), (c', s'))"
  obtains r s1 uid where "is_valid_new_password (cr_new_password cmd)" "parse_uuid (ascii r) \<noteq> None"
    "ts_get store (recovery_key (token_hash P (cr_token cmd))) s = (Inr (Some r), s1)"
    "recovery_complete (db_now io 0) (token_hash P (cr_token cmd)) (hash_password io (cr_new_password cmd))
       (clock io 0) (new_id io 0) (cr_correlation_id cmd) c = (Inr (Some uid), c')"
proof -
  have silent: "find_primary_email P u d = (r, d') \<Longrightarrow> d' = d" for u d r d'
    using silent_identity_readers(7) [of P u] by (auto simp: silent_def dest: prod.inject [THEN iffD1])
  show thesis
    using assms that
    unfolding CompletePasswordRecovery_execute_def Let_def recovery_failed_def is_valid_reference_def
    by (auto simp: outcomes split: option.splits if_splits dest!: silent) blast+
qed

lemma CompletePasswordRecovery_replay:
  assumes "db_ok d" and "recovery_spent (token_hash P (cr_token cmd)) d"
  shows "fst (CompletePasswordRecovery_execute P io store notify cmd (d, u)) \<noteq> Inr ()"
proof
  assume "fst (CompletePasswordRecovery_execute P io store notify cmd (d, u)) = Inr ()"
  then obtain d' u' where
    "CompletePasswordRecovery_execute P io store notify cmd (d, u) = (Inr (), (d', u'))"
    by (metis prod.collapse)
  then show False
    by (elim CompletePasswordRecovery_returns) (simp add: recovery_complete_refused [OF assms])
qed

lemma revoked_by_recovery:
  assumes "auth_sessions t =
     update_rows (\<lambda>x. s_user_id x = uid \<and> s_revoked_at x = None \<and> dt_lt now (s_expires_at x))
       (\<lambda>x. x\<lparr>s_revoked_at := Some now\<rparr>) (auth_sessions s)"
  shows "\<forall>x \<in> set (auth_sessions t). s_user_id x = uid \<longrightarrow> s_revoked_at x \<noteq> None \<or> \<not> dt_lt now (s_expires_at x)"
    and "filter (\<lambda>x. s_user_id x \<noteq> uid) (auth_sessions t) = filter (\<lambda>x. s_user_id x \<noteq> uid) (auth_sessions s)"
proof -
  show "\<forall>x \<in> set (auth_sessions t). s_user_id x = uid \<longrightarrow> s_revoked_at x \<noteq> None \<or> \<not> dt_lt now (s_expires_at x)"
    unfolding assms update_rows_def set_map ball_simps by simp
  show "filter (\<lambda>x. s_user_id x \<noteq> uid) (auth_sessions t) = filter (\<lambda>x. s_user_id x \<noteq> uid) (auth_sessions s)"
    unfolding assms by (rule filter_update_rows) simp_all
qed


definition recovery_store :: memory_store where
  "recovery_store = \<lparr>ms_values = [recovery_key (pad64 ''recover'') \<mapsto> (uuid_str 32, Aware 5)],
     ms_wall = (\<lambda>n. Aware 1)\<rparr>"

lemma recovery_reference: "is_valid_reference (Some (uuid_str 32))"
  by (simp add: is_valid_reference_def uuid_text_roundtrip)


section \<open>Requesting a recovery\<close>

lemma discard_pending_returns: "fst (discard_pending store k v x) = Inr ()"
  by (cases x) (auto simp: discard_pending_def effects split: sum.split)

lemma memory_put_returns: "\<exists>b t. memory_put k v n s = (Inr b, t)"
  by (auto simp: memory_operations effects)

lemma recovery_create_returns: "\<exists>b d. recovery_create t tx e c = (Inr b, d)"
  by (auto simp: recovery_create_def atomically_cases bnd_apply ret_def inserts constrained_def)

lemma recovery_audit_event:
  "\<exists>e. identity_audit_event i c a ''auth.password_recovery_requested'' ''user'' u = Inr e"
  by (simp add: identity_audit_event_def AuditEvent_post_init_def py_strip_eq_Nil_iff py_isspace_def)



end
