(* ===== verification/Identifiers.thy ===== *)
theory Identifiers
  imports Console_Prelude
begin

unbundle bit_operations_syntax

text \<open>
  The server-side identifier generator (\<open>uuid7_identifier_generator.py\<close>). The reading of the clock
  in milliseconds and the random bits are arguments; the arithmetic is on unbounded integers, as in
  the source, and \<open>UUID(int=...)\<close> rejects what does not fit 128 bits.
\<close>

definition uuid_of_int :: "int \<Rightarrow> error + uuid" where
  "uuid_of_int v =
     (if 0 \<le> v \<and> v < 2 ^ 128 then Inr (word_of_int v)
      else Inl (ValueError ''int is out of range (need a 128-bit value)''))"

definition uuid7_value :: "int \<Rightarrow> int \<Rightarrow> int" where
  "uuid7_value timestamp_ms random_bits =
     (let value = push_bit 80 timestamp_ms OR push_bit 76 7 OR (random_bits AND (push_bit 76 1 - 1)) in
      (value AND NOT (push_bit 62 3)) OR push_bit 62 2)"

definition uuid7_new :: "int \<Rightarrow> int \<Rightarrow> error + uuid" where
  "uuid7_new timestamp_ms random_bits = uuid_of_int (uuid7_value timestamp_ms random_bits)"

text \<open>The bits of an identifier: the instant, the version, the variant, and what is random.\<close>

lemma uuid7_bit:
  "bit (uuid7_value ts r) n \<longleftrightarrow>
     (if 80 \<le> n then bit ts (n - 80)
      else if 76 \<le> n then n \<le> 78
      else if n = 63 then True else if n = 62 then False else bit r n)"
proof -
  have seven: "bit (7 :: int) k \<longleftrightarrow> k < 3" for k
    using bit_mask_iff [of 3 k, where ?'a = int] by (simp add: mask_eq_exp_minus_1)
  have three: "bit (3 :: int) k \<longleftrightarrow> k < 2" for k
    using bit_mask_iff [of 2 k, where ?'a = int] by (simp add: mask_eq_exp_minus_1)
  have two: "bit (2 :: int) k \<longleftrightarrow> k = 1" for k
    using bit_exp_iff [of 1 k, where ?'a = int] by simp
  have low: "bit (push_bit 76 1 - 1 :: int) k \<longleftrightarrow> k < 76" for k
    using bit_mask_iff [of 76 k, where ?'a = int] by (simp add: mask_eq_exp_minus_1 push_bit_eq_mult)
  show ?thesis
    unfolding uuid7_value_def Let_def bit_or_iff bit_and_iff bit_not_iff bit_push_bit_iff seven three two low
    by auto
qed

lemma uuid7_fields:
  "drop_bit 80 (uuid7_value ts r) = ts"
  "take_bit 4 (drop_bit 76 (uuid7_value ts r)) = 7"
  "take_bit 2 (drop_bit 62 (uuid7_value ts r)) = 2"
proof -
  show "drop_bit 80 (uuid7_value ts r) = ts"
    by (rule bit_eqI) (simp add: bit_drop_bit_eq uuid7_bit)
  show "take_bit 4 (drop_bit 76 (uuid7_value ts r)) = 7"
  proof (rule bit_eqI)
    fix n
    have "bit (7 :: int) n \<longleftrightarrow> n < 3"
      using bit_mask_iff [of 3 n, where ?'a = int] by (simp add: mask_eq_exp_minus_1)
    then show "bit (take_bit 4 (drop_bit 76 (uuid7_value ts r))) n \<longleftrightarrow> bit (7 :: int) n"
      by (auto simp: bit_take_bit_iff bit_drop_bit_eq uuid7_bit)
  qed
  show "take_bit 2 (drop_bit 62 (uuid7_value ts r)) = 2"
  proof (rule bit_eqI)
    fix n
    have "bit (2 :: int) n \<longleftrightarrow> n = 1"
      using bit_exp_iff [of 1 n, where ?'a = int] by simp
    then show "bit (take_bit 2 (drop_bit 62 (uuid7_value ts r))) n \<longleftrightarrow> bit (2 :: int) n"
      by (auto simp: bit_take_bit_iff bit_drop_bit_eq uuid7_bit)
  qed
qed

lemma uuid7_bounds:
  assumes "0 \<le> ts" and "ts < 2 ^ 48"
  shows "2 ^ 80 * ts \<le> uuid7_value ts r" "uuid7_value ts r < 2 ^ 80 * (ts + 1)" "uuid7_value ts r < 2 ^ 128"
proof -
  have d: "uuid7_value ts r div 2 ^ 80 = ts"
    using uuid7_fields(1) [of ts r] by (simp add: drop_bit_eq_div)
  have p: "(0 :: int) < 2 ^ 80" by simp
  show "2 ^ 80 * ts \<le> uuid7_value ts r"
    using d p by (metis mult.commute div_mult_mod_eq le_add_same_cancel1 pos_mod_sign)
  show u: "uuid7_value ts r < 2 ^ 80 * (ts + 1)"
    using d p by (metis add_less_cancel_left distrib_left mult.right_neutral mult_div_mod_eq pos_mod_bound)
  have "2 ^ 80 * (ts + 1) \<le> (2 :: int) ^ 80 * 2 ^ 48"
    using assms(2) by simp
  with u show "uuid7_value ts r < 2 ^ 128" by simp
qed

lemma uuid7_new_Inr:
  assumes "0 \<le> ts" and "ts < 2 ^ 48"
  shows "uuid7_new ts r = Inr (word_of_int (uuid7_value ts r))"
    and "uint (word_of_int (uuid7_value ts r) :: uuid) = uuid7_value ts r"
proof -
  have "0 \<le> uuid7_value ts r"
    using uuid7_bounds(1) [OF assms, of r] assms(1) by (meson order_trans zero_le_mult_iff zero_le_numeral zero_le_power)
  with uuid7_bounds(3) [OF assms, of r]
  show "uuid7_new ts r = Inr (word_of_int (uuid7_value ts r))"
    "uint (word_of_int (uuid7_value ts r) :: uuid) = uuid7_value ts r"
    by (simp_all add: uuid7_new_def uuid_of_int_def take_bit_int_eq_self unsigned_of_int)
qed

lemma uuid7_too_late:
  assumes "2 ^ 48 \<le> ts"
  shows "uuid7_new ts r = Inl (ValueError ''int is out of range (need a 128-bit value)'')"
proof -
  have "uuid7_value ts r div 2 ^ 80 = ts"
    using uuid7_fields(1) [of ts r] by (simp add: drop_bit_eq_div)
  then have "2 ^ 80 * ts \<le> uuid7_value ts r"
    by (metis mult.commute div_mult_mod_eq le_add_same_cancel1 pos_mod_sign zero_less_numeral zero_less_power)
  moreover have "(2 :: int) ^ 80 * 2 ^ 48 \<le> 2 ^ 80 * ts"
    using assms by (intro mult_left_mono) simp_all
  ultimately have "2 ^ 128 \<le> uuid7_value ts r" by simp
  then show ?thesis by (simp add: uuid7_new_def uuid_of_int_def)
qed

text \<open>
  C40: Until the year 10889 the generator always returns a UUID of version 7 and variant 10 that
  carries its millisecond in the upper 48 bits, so that identifiers of a later millisecond are larger,
  whatever the random bits; later it raises ValueError.
\<close>

theorem uuid7_wellformed:
  assumes "0 \<le> ts"
  shows "(ts < 2 ^ 48 \<longrightarrow> (\<exists>u. uuid7_new ts r = Inr u
      \<and> drop_bit 80 (uint u) = ts \<and> take_bit 4 (drop_bit 76 (uint u)) = 7 \<and> take_bit 2 (drop_bit 62 (uint u)) = 2
      \<and> (\<forall>ts' r' u'. ts < ts' \<and> uuid7_new ts' r' = Inr u' \<longrightarrow> u < u')))
    \<and> (2 ^ 48 \<le> ts \<longrightarrow> uuid7_new ts r = Inl (ValueError ''int is out of range (need a 128-bit value)''))"
proof (intro conjI impI)
  assume ts: "ts < 2 ^ 48"
  let ?u = "word_of_int (uuid7_value ts r) :: uuid"
  note u = uuid7_new_Inr [OF assms ts, of r]
  have "?u < u'" if "ts < ts'" "uuid7_new ts' r' = Inr u'" for ts' r' u'
  proof -
    have less: "ts' < 2 ^ 48"
      using that(2) uuid7_too_late [of ts' r'] by (cases "2 ^ 48 \<le> ts'") simp_all
    have "0 \<le> ts'" using assms that(1) by simp
    note u' = uuid7_new_Inr [OF this less, of r'] and bound' = uuid7_bounds(1) [OF this less, of r']
    have "uuid7_value ts r < 2 ^ 80 * (ts + 1)" by (rule uuid7_bounds(2) [OF assms ts])
    also have "\<dots> \<le> 2 ^ 80 * ts'" using that(1) by simp
    also note bound'
    finally show ?thesis
      using u(2) u' that(2) by (simp add: word_less_def)
  qed
  with u uuid7_fields [of ts r] show "\<exists>u. uuid7_new ts r = Inr u
      \<and> drop_bit 80 (uint u) = ts \<and> take_bit 4 (drop_bit 76 (uint u)) = 7 \<and> take_bit 2 (drop_bit 62 (uint u)) = 2
      \<and> (\<forall>ts' r' u'. ts < ts' \<and> uuid7_new ts' r' = Inr u' \<longrightarrow> u < u')"
    by (intro exI [of _ ?u]) (simp only: u simp_thms, blast)
qed (rule uuid7_too_late)

theorem uuid7_wellformed_witness:
  "\<exists>u. uuid7_new 1700000000000 5 = Inr u \<and> drop_bit 80 (uint u) = 1700000000000"
  using uuid7_wellformed [of 1700000000000 5] by auto

text \<open>Two of the 74 drawn bits are overwritten by the variant, and the two upper bits of rand_a stay zero.\<close>

lemma uuid7_lost_bits: "uuid7_new ts (r XOR push_bit 62 3) = uuid7_new ts r"
proof -
  have three: "bit (3 :: int) k \<longleftrightarrow> k < 2" for k
    using bit_mask_iff [of 2 k, where ?'a = int] by (simp add: mask_eq_exp_minus_1)
  have "uuid7_value ts (r XOR push_bit 62 3) = uuid7_value ts r"
    by (rule bit_eqI) (unfold uuid7_bit bit_xor_iff bit_push_bit_iff three, auto)
  then show ?thesis by (simp add: uuid7_new_def)
qed

lemma uuid7_zero_bits:
  assumes "0 \<le> r" and "r < 2 ^ 74"
  shows "\<not> bit (uuid7_value ts r) 74" "\<not> bit (uuid7_value ts r) 75"
proof -
  have "take_bit 74 r = r" using assms by (simp add: take_bit_int_eq_self)
  then have "bit r n \<Longrightarrow> n < 74" for n by (metis bit_take_bit_iff)
  then have "\<not> bit r 74" "\<not> bit r 75" by fastforce+
  then show "\<not> bit (uuid7_value ts r) 74" "\<not> bit (uuid7_value ts r) 75" by (simp_all add: uuid7_bit)
qed

end
