(* ===== verification/Rate_Limiting.thy ===== *)
theory Rate_Limiting
  imports Redis
begin

text \<open>
  The fixed-window rate limiters: the process-local one
  (\<open>in_memory_fixed_window_rate_limiter.py\<close>, with \<open>rate_limit_rule.py\<close> and
  \<open>rate_limit_bucket.py\<close>), the shared one over the Redis counter
  (\<open>redis_fixed_window_rate_limiter.py\<close>) and the rules of the authentication endpoints
  (\<open>rate_limiting.py\<close>). Instants are microseconds, readings of the monotonic clock are arguments;
  the rounding of the floating-point clock is not modelled.
\<close>

section \<open>Rules and decisions\<close>

record RateLimitRule =
  rule_limit :: int
  rule_window_seconds :: int

definition RateLimitRule_post_init :: "RateLimitRule \<Rightarrow> error + RateLimitRule" where
  "RateLimitRule_post_init r = checked
     [(rule_limit r < 1, ''Rate limit must allow at least one request.''),
      (rule_window_seconds r < 1, ''Rate limit window must be positive.'')] r"

record RateLimitDecision =
  decision_allowed :: bool
  retry_after_seconds :: int

definition rate_allowed :: RateLimitDecision where
  "rate_allowed = \<lparr>decision_allowed = True, retry_after_seconds = 0\<rparr>"

definition rate_denied :: "int \<Rightarrow> RateLimitDecision" where
  "rate_denied n = \<lparr>decision_allowed = False, retry_after_seconds = n\<rparr>"

type_synonym rate_rules = "string \<rightharpoonup> RateLimitRule"

definition DEFAULT_AUTH_RATE_LIMIT_RULES :: rate_rules where
  "DEFAULT_AUTH_RATE_LIMIT_RULES =
     [''auth.registration'' \<mapsto> \<lparr>rule_limit = 5, rule_window_seconds = 60\<rparr>,
      ''auth.registration.verification'' \<mapsto> \<lparr>rule_limit = 10, rule_window_seconds = 60\<rparr>,
      ''auth.registration.resend'' \<mapsto> \<lparr>rule_limit = 3, rule_window_seconds = 300\<rparr>,
      ''auth.login'' \<mapsto> \<lparr>rule_limit = 10, rule_window_seconds = 60\<rparr>,
      ''auth.oauth.start'' \<mapsto> \<lparr>rule_limit = 10, rule_window_seconds = 60\<rparr>,
      ''auth.oauth.callback'' \<mapsto> \<lparr>rule_limit = 20, rule_window_seconds = 60\<rparr>,
      ''auth.reauthentication'' \<mapsto> \<lparr>rule_limit = 10, rule_window_seconds = 60\<rparr>,
      ''auth.password_recovery.request'' \<mapsto> \<lparr>rule_limit = 5, rule_window_seconds = 60\<rparr>,
      ''auth.password_recovery.complete'' \<mapsto> \<lparr>rule_limit = 10, rule_window_seconds = 60\<rparr>,
      ''auth.invitation.accept'' \<mapsto> \<lparr>rule_limit = 10, rule_window_seconds = 60\<rparr>,
      ''organization.invitation.create'' \<mapsto> \<lparr>rule_limit = 20, rule_window_seconds = 60\<rparr>]"

section \<open>The process-local limiter\<close>

record RateLimitBucket =
  bucket_count :: int
  bucket_reset_at :: int

type_synonym buckets = "string \<times> string \<rightharpoonup> RateLimitBucket"

definition local_check ::
  "rate_rules \<Rightarrow> int \<Rightarrow> string \<Rightarrow> string \<Rightarrow> (buckets, RateLimitDecision) operation" where
  "local_check rules now scope key = (\<lambda>buckets.
     case rules scope of
       None \<Rightarrow> (Inr rate_allowed, buckets)
     | Some rule \<Rightarrow>
         let fresh = \<lparr>bucket_count = 1, bucket_reset_at = now + seconds (rule_window_seconds rule)\<rparr> in
         (case buckets (scope, key) of
            None \<Rightarrow> (Inr rate_allowed, buckets((scope, key) \<mapsto> fresh))
          | Some bucket \<Rightarrow>
              if bucket_reset_at bucket \<le> now
              then (Inr rate_allowed, buckets((scope, key) \<mapsto> fresh))
              else if rule_limit rule \<le> bucket_count bucket
              then (Inr (rate_denied (max 1 ((bucket_reset_at bucket - now) div seconds 1))), buckets)
              else (Inr rate_allowed,
                buckets((scope, key) \<mapsto> bucket\<lparr>bucket_count := bucket_count bucket + 1\<rparr>))))"

text \<open>A history of checks: the instant, the scope and the key of each, in order.\<close>

type_synonym checks = "(int \<times> string \<times> string) list"

fun after_checks :: "rate_rules \<Rightarrow> checks \<Rightarrow> buckets \<Rightarrow> buckets" where
  "after_checks rules [] b = b"
| "after_checks rules ((now, scope, key) # rest) b =
     after_checks rules rest (snd (local_check rules now scope key b))"

text \<open>The number of allowed checks of a scope and key at instants from \<open>a\<close> on and before \<open>a + w\<close>.\<close>

fun allowed_within :: "rate_rules \<Rightarrow> string \<Rightarrow> string \<Rightarrow> int \<Rightarrow> int \<Rightarrow> checks \<Rightarrow> buckets \<Rightarrow> int" where
  "allowed_within rules s k a w [] b = 0"
| "allowed_within rules s k a w ((now, scope, key) # rest) b =
     (if scope = s \<and> key = k \<and> a \<le> now \<and> now < a + w
         \<and> fst (local_check rules now scope key b) = Inr rate_allowed then 1 else 0) +
     allowed_within rules s k a w rest (snd (local_check rules now scope key b))"

lemma decision_distinct [simp]: "rate_denied n \<noteq> rate_allowed" "rate_allowed \<noteq> rate_denied n"
  by (simp_all add: rate_denied_def rate_allowed_def)

lemma local_check_cases:
  assumes "rules scope = Some rule"
  obtains (fresh) "local_check rules now scope key b = (Inr rate_allowed, b((scope, key) \<mapsto>
      \<lparr>bucket_count = 1, bucket_reset_at = now + seconds (rule_window_seconds rule)\<rparr>))"
      "b (scope, key) = None \<or> (\<exists>x. b (scope, key) = Some x \<and> bucket_reset_at x \<le> now)"
  | (denied) x where "b (scope, key) = Some x" "now < bucket_reset_at x" "rule_limit rule \<le> bucket_count x"
      "local_check rules now scope key b =
         (Inr (rate_denied (max 1 ((bucket_reset_at x - now) div seconds 1))), b)"
  | (counted) x where "b (scope, key) = Some x" "now < bucket_reset_at x" "bucket_count x < rule_limit rule"
      "local_check rules now scope key b =
         (Inr rate_allowed, b((scope, key) \<mapsto> x\<lparr>bucket_count := bucket_count x + 1\<rparr>))"
proof (cases "b (scope, key)")
  case None
  with assms fresh show thesis by (simp add: local_check_def Let_def)
next
  case (Some x)
  consider "bucket_reset_at x \<le> now" | "now < bucket_reset_at x" "rule_limit rule \<le> bucket_count x"
    | "now < bucket_reset_at x" "bucket_count x < rule_limit rule"
    by linarith
  then show thesis
    by cases (use assms Some that in \<open>auto simp: local_check_def Let_def\<close>)
qed

lemma local_check_other:
  "(scope, key) \<noteq> x \<Longrightarrow> snd (local_check rules now scope key b) x = b x"
  by (auto simp: local_check_def Let_def split: option.splits)

section \<open>The bound\<close>

text \<open>No bucket starts again before the end of the interval: only the rest of this one is left.\<close>

lemma allowed_in_last_bucket:
  assumes "rules s = Some rule" and "w = seconds (rule_window_seconds rule)"
  shows "b (s, k) = Some x \<Longrightarrow> bucket_count x \<le> rule_limit rule \<Longrightarrow> a + w \<le> bucket_reset_at x \<Longrightarrow>
    sorted (map fst cs) \<Longrightarrow> allowed_within rules s k a w cs b \<le> rule_limit rule - bucket_count x"
proof (induction cs arbitrary: b x)
  case Nil
  then show ?case by simp
next
  case (Cons c cs)
  obtain now scope key where c: "c = (now, scope, key)" by (cases c)
  show ?case
  proof (cases "scope = s \<and> key = k")
    case False
    with Cons show ?thesis by (auto simp: c local_check_other)
  next
    case True
    show ?thesis
    proof (cases "now < a + w")
      case False
      have late: "allowed_within rules s k a w cs' b' = 0" if "\<forall>t \<in> set cs'. a + w \<le> fst t" for cs' b'
        using that by (induction cs' arbitrary: b') auto
      from False Cons.prems(4) have "\<forall>t \<in> set cs. a + w \<le> fst t" by (auto simp: c)
      with False Cons.prems(2) late show ?thesis by (auto simp: c)
    next
      case inside: True
      from assms(1) show ?thesis
      proof (cases rule: local_check_cases [where now = now and key = k and b = b])
        case fresh
        with Cons.prems(1,3) inside show ?thesis by auto
      next
        case (denied y)
        have "allowed_within rules s k a w cs b \<le> rule_limit rule - bucket_count x"
          using Cons.prems by (intro Cons.IH) auto
        with True denied(4) show ?thesis by (simp add: c)
      next
        case (counted y)
        then have y: "y = x" using Cons.prems(1) True by simp
        have "allowed_within rules s k a w cs (b((s, k) \<mapsto> x\<lparr>bucket_count := bucket_count x + 1\<rparr>))
            \<le> rule_limit rule - bucket_count (x\<lparr>bucket_count := bucket_count x + 1\<rparr>)"
          by (rule Cons.IH) (use Cons.prems counted y in auto)
        with True counted(4) y show ?thesis by (simp add: c del: fun_upd_apply)
      qed
    qed
  qed
qed

lemma allowed_from_now_on:
  assumes "rules s = Some rule" and "w = seconds (rule_window_seconds rule)" and "1 \<le> rule_limit rule"
  shows "(case b (s, k) of None \<Rightarrow> c = 0 | Some x \<Rightarrow> c = bucket_count x) \<Longrightarrow> c \<le> rule_limit rule \<Longrightarrow>
    sorted (map fst cs) \<Longrightarrow> \<forall>t \<in> set cs. a \<le> fst t \<Longrightarrow>
    allowed_within rules s k a w cs b \<le> (rule_limit rule - c) + rule_limit rule"
proof (induction cs arbitrary: b c)
  case Nil
  with assms(3) show ?case by simp
next
  case (Cons e cs)
  obtain now scope key where e: "e = (now, scope, key)" by (cases e)
  show ?case
  proof (cases "scope = s \<and> key = k")
    case False
    with Cons show ?thesis by (auto simp: e local_check_other)
  next
    case True
    from assms(1) show ?thesis
    proof (cases rule: local_check_cases [where now = now and key = k and b = b])
      case fresh
      have "allowed_within rules s k a w cs (snd (local_check rules now s k b)) \<le> rule_limit rule - 1"
        using fresh Cons.prems assms e
          allowed_in_last_bucket [of rules s rule w "snd (local_check rules now s k b)" k
            "\<lparr>bucket_count = 1, bucket_reset_at = now + seconds (rule_window_seconds rule)\<rparr>" a cs]
        by simp
      with True Cons.prems(2) show ?thesis by (simp add: e)
    next
      case (denied y)
      have "allowed_within rules s k a w cs b \<le> (rule_limit rule - c) + rule_limit rule"
        using Cons.prems by (intro Cons.IH) auto
      with True denied(4) show ?thesis by (simp add: e)
    next
      case (counted y)
      then have y: "b (s, k) = Some y" "c = bucket_count y" using Cons.prems(1) True by simp_all
      have "allowed_within rules s k a w cs (b((s, k) \<mapsto> y\<lparr>bucket_count := bucket_count y + 1\<rparr>))
          \<le> (rule_limit rule - (c + 1)) + rule_limit rule"
        by (rule Cons.IH) (use Cons.prems counted y in auto)
      with True counted(4) show ?thesis by (simp add: e del: fun_upd_apply)
    qed
  qed
qed

definition buckets_bounded :: "rate_rules \<Rightarrow> buckets \<Rightarrow> bool" where
  "buckets_bounded rules b \<longleftrightarrow>
     (\<forall>s k x rule. b (s, k) = Some x \<and> rules s = Some rule \<longrightarrow> 1 \<le> bucket_count x \<and> bucket_count x \<le> rule_limit rule)"

lemma buckets_bounded_check:
  assumes "buckets_bounded rules b" and "\<And>s r. rules s = Some r \<Longrightarrow> 1 \<le> rule_limit r"
  shows "buckets_bounded rules (snd (local_check rules now scope key b))"
proof (cases "rules scope")
  case None
  with assms(1) show ?thesis by (simp add: local_check_def)
next
  case (Some rule)
  then show ?thesis
    by (cases rule: local_check_cases [where now = now and key = key and b = b])
      (use assms Some in \<open>force simp: buckets_bounded_def\<close>)+
qed



section \<open>What a denied client is told\<close>

text \<open>A client that waits a second longer than it is told is served; the advised time alone may be short.\<close>

lemma retry_after_suffices:
  assumes "local_check rules now scope key b = (Inr (rate_denied n), b)"
    and "now + seconds (n + 1) \<le> later"
  shows "1 \<le> n \<and> fst (local_check rules later scope key b) = Inr rate_allowed"
proof (cases "rules scope")
  case None
  with assms(1) show ?thesis by (simp add: local_check_def)
next
  case (Some rule)
  then show ?thesis
  proof (cases rule: local_check_cases [where now = now and key = key and b = b])
    case (denied x)
    then have n: "n = max 1 ((bucket_reset_at x - now) div seconds 1)"
      using assms(1) by (simp add: rate_denied_def)
    have "bucket_reset_at x - now \<le> seconds (((bucket_reset_at x - now) div seconds 1) + 1)"
      by (simp add: seconds_def)
    also have "\<dots> \<le> seconds (n + 1)"
      by (simp add: seconds_def n)
    finally have "bucket_reset_at x \<le> later" using assms(2) by simp
    with Some denied(1) n show ?thesis by (simp add: local_check_def Let_def)
  qed (use assms(1) in auto)
qed

lemma retry_after_too_short:
  "\<exists>rules b. fst (local_check rules 0 ''s'' ''k'' b) = Inr (rate_denied 1)
     \<and> fst (local_check rules (seconds 1) ''s'' ''k'' b) = Inr (rate_denied 1)"
  by (intro exI [of _ "[''s'' \<mapsto> \<lparr>rule_limit = 1, rule_window_seconds = 2\<rparr>]"]
      exI [of _ "[(''s'', ''k'') \<mapsto> \<lparr>bucket_count = 1, bucket_reset_at = 1900000\<rparr>]"])
    (simp add: local_check_def seconds_def)

section \<open>The shared limiter\<close>

text \<open>The digest is SHA-256 in hexadecimal; the counter is \<open>increment_windowed\<close> over a command runner.\<close>

definition rstrip_colons :: "string \<Rightarrow> string" where
  "rstrip_colons s = rev (dropWhile (\<lambda>c. c = CHR '':'') (rev s))"

definition redis_key :: "string \<Rightarrow> (string \<Rightarrow> string) \<Rightarrow> string \<Rightarrow> string \<Rightarrow> string" where
  "redis_key key_prefix digest scope key =
     rstrip_colons key_prefix @ '':'' @ scope @ '':'' @ digest (scope @ '':'' @ key)"

fun is_backend_unavailable :: "error \<Rightarrow> bool" where
  "is_backend_unavailable (RedisRateLimitUnavailableError _) = True"
| "is_backend_unavailable _ = False"

definition shared_check ::
  "rate_rules \<Rightarrow> string \<Rightarrow> (string \<Rightarrow> string) \<Rightarrow> (codes list \<Rightarrow> ('s, reply) operation) \<Rightarrow> string \<Rightarrow> string \<Rightarrow>
   ('s, RateLimitDecision) operation" where
  "shared_check rules key_prefix digest command scope key =
     (case rules scope of
        None \<Rightarrow> ret rate_allowed
      | Some rule \<Rightarrow>
          catching
            (bnd (increment_windowed command (ascii (redis_key key_prefix digest scope key)) (rule_window_seconds rule))
               (\<lambda>(count, ttl). ret (if rule_limit rule < count then rate_denied ttl else rate_allowed)))
            (\<lambda>e. if is_backend_unavailable e then ret (rate_denied (rule_window_seconds rule)) else raise e))"

text \<open>Without an answer from the backend the shared limiter denies; with one it follows the count.\<close>

lemma shared_check_denies:
  assumes "rules scope = Some rule"
    and "command [ascii ''EVAL'', window_script, ascii ''1'', ascii (redis_key key_prefix digest scope key),
           str_int (rule_window_seconds rule)] s = (Inl (RedisRateLimitUnavailableError m), t)"
  shows "shared_check rules key_prefix digest command scope key s = (Inr (rate_denied (rule_window_seconds rule)), t)"
  using assms by (simp add: shared_check_def increment_windowed_def effects)

lemma shared_check_counts:
  assumes "rules scope = Some rule"
    and "command [ascii ''EVAL'', window_script, ascii ''1'', ascii (redis_key key_prefix digest scope key),
           str_int (rule_window_seconds rule)] s = (Inr (Items [Number n, Number ttl]), t)"
  shows "shared_check rules key_prefix digest command scope key s =
    (Inr (if rule_limit rule < n then rate_denied (max 1 ttl) else rate_allowed), t)"
  using assms by (simp add: shared_check_def increment_windowed_def effects)

end
