(* ===== verification/Http.thy ===== *)
theory Http
  imports Sessions Rate_Limiting
begin

text \<open>
  The HTTP layer around the endpoints (\<open>presentation/api.py\<close>, \<open>create_app\<close>): requests, responses
  with their headers and cookies, and the middlewares for correlation, session resolution, CSRF and
  browser security headers, with \<open>browser_session_cookie_settings.py\<close> and
  \<open>browser_security_policy.py\<close>.

  A middleware added later to a Starlette application is further out, and an exception that no
  endpoint maps passes through the middlewares from the inside to the outside: this order decides
  what the middlewares see of each other, so it is written out in \<open>http_app\<close>. Requests arrive
  parsed: header names are in lower case, and the router is not modelled.
\<close>

section \<open>Requests and responses\<close>

record http_request =
  http_method :: string
  http_path :: string
  http_client :: "string option"
  http_header :: "string \<rightharpoonup> string"
  http_cookie :: "string \<rightharpoonup> string"

text \<open>\<open>request.state\<close>: the attributes that middlewares set, absent at first.\<close>

record request_state =
  st_correlation_id :: "uuid option"
  st_actor_id :: "uuid option"
  st_session_id :: "uuid option"
  st_assurance_level :: "SessionAssuranceLevel option"
  st_authenticated_at :: "datetime option"

definition fresh_state :: request_state where
  "fresh_state = \<lparr>st_correlation_id = None, st_actor_id = None, st_session_id = None,
     st_assurance_level = None, st_authenticated_at = None\<rparr>"

datatype cookie_change =
    SetCookie string string datetime bool bool
  | DeleteCookie string bool bool

datatype 'b body = NoBody | Detail string | RedirectTo string | Content 'b

record 'b response =
  rs_status :: nat
  rs_body :: "'b body"
  rs_headers :: "(string \<times> string) list"
  rs_cookies :: "cookie_change list"

definition plain_response :: "nat \<Rightarrow> 'b body \<Rightarrow> 'b response" where
  "plain_response status body = \<lparr>rs_status = status, rs_body = body, rs_headers = [], rs_cookies = []\<rparr>"

definition set_header :: "string \<Rightarrow> string \<Rightarrow> 'b response \<Rightarrow> 'b response" where
  "set_header name value r = r\<lparr>rs_headers := filter (\<lambda>h. fst h \<noteq> name) (rs_headers r) @ [(name, value)]\<rparr>"

definition setdefault_header :: "string \<Rightarrow> string \<Rightarrow> 'b response \<Rightarrow> 'b response" where
  "setdefault_header name value r =
     (if name \<in> fst ` set (rs_headers r) then r else r\<lparr>rs_headers := rs_headers r @ [(name, value)]\<rparr>)"

definition header_of :: "string \<Rightarrow> 'b response \<Rightarrow> string option" where
  "header_of name r = map_of (rs_headers r) name"

type_synonym ('s, 'b) handler = "request_state \<Rightarrow> ('s, 'b response) operation"

section \<open>Settings\<close>

record BrowserSessionCookieSettings =
  cookie_session_name :: string
  cookie_csrf_name :: string
  cookie_secure :: bool

definition default_cookies :: BrowserSessionCookieSettings where
  "default_cookies = \<lparr>cookie_session_name = ''__Host-muxivo_session'', cookie_csrf_name = ''__Host-muxivo_csrf'',
     cookie_secure = True\<rparr>"

definition development_cookies :: BrowserSessionCookieSettings where
  "development_cookies = \<lparr>cookie_session_name = ''muxivo_console_dev_session'',
     cookie_csrf_name = ''muxivo_console_dev_csrf'', cookie_secure = False\<rparr>"

record BrowserSecurityPolicy =
  content_security_policy :: string
  hsts_enabled :: bool
  hsts_value :: string

definition single_quoted :: "string \<Rightarrow> string" where
  "single_quoted s = CHR 0x27 # s @ [CHR 0x27]"

definition DEFAULT_CONTENT_SECURITY_POLICY :: string where
  "DEFAULT_CONTENT_SECURITY_POLICY =
     ''default-src '' @ single_quoted ''self'' @ ''; base-uri '' @ single_quoted ''self'' @
     ''; frame-ancestors '' @ single_quoted ''none'' @ ''; object-src '' @ single_quoted ''none'' @
     ''; script-src '' @ single_quoted ''self'' @ ''; style-src '' @ single_quoted ''self'' @ '' '' @
     single_quoted ''unsafe-inline'' @ ''; img-src '' @ single_quoted ''self'' @ '' data:; connect-src '' @
     single_quoted ''self''"

definition default_security_policy :: BrowserSecurityPolicy where
  "default_security_policy = \<lparr>content_security_policy = DEFAULT_CONTENT_SECURITY_POLICY,
     hsts_enabled = True, hsts_value = ''max-age=31536000; includeSubDomains''\<rparr>"

definition CSRF_EXEMPT_PATHS :: "string list" where
  "CSRF_EXEMPT_PATHS =
     [''/api/v1/auth/email-password/registrations'',
      ''/api/v1/auth/email-password/registration-verifications'',
      ''/api/v1/auth/email-password/registration-verifications/resend'',
      ''/api/v1/auth/email-password/sessions'',
      ''/api/v1/auth/discord/authorizations'',
      ''/api/v1/auth/twitch/authorizations'',
      ''/api/v1/auth/telegram/authorizations'',
      ''/api/v1/auth/google/authorizations'',
      ''/api/v1/auth/yandex/authorizations'',
      ''/api/v1/auth/password-recovery/requests'',
      ''/api/v1/auth/password-recovery/completions'']"

definition SAFE_HTTP_METHODS :: "string list" where
  "SAFE_HTTP_METHODS = [''GET'', ''HEAD'', ''OPTIONS'']"

section \<open>Middlewares\<close>

definition apply_browser_security_headers :: "BrowserSecurityPolicy \<Rightarrow> 'b response \<Rightarrow> 'b response" where
  "apply_browser_security_headers policy r =
     (let r1 = setdefault_header ''Content-Security-Policy'' (content_security_policy policy) r;
          r2 = setdefault_header ''X-Content-Type-Options'' ''nosniff'' r1;
          r3 = setdefault_header ''X-Frame-Options'' ''DENY'' r2;
          r4 = setdefault_header ''Referrer-Policy'' ''no-referrer'' r3;
          r5 = setdefault_header ''Permissions-Policy'' ''camera=(), microphone=(), geolocation=()'' r4 in
      if hsts_enabled policy then setdefault_header ''Strict-Transport-Security'' (hsts_value policy) r5 else r5)"

definition attach_browser_security_headers ::
  "BrowserSecurityPolicy \<Rightarrow> ('s, 'b) handler \<Rightarrow> ('s, 'b) handler" where
  "attach_browser_security_headers policy call_next st =
     bnd (call_next st) (\<lambda>r. ret (apply_browser_security_headers policy r))"

definition attach_correlation_id ::
  "BrowserSecurityPolicy \<Rightarrow> uuid \<Rightarrow> ('s, 'b) handler \<Rightarrow> ('s, 'b) handler" where
  "attach_correlation_id policy correlation_id call_next st =
     bnd (catching (call_next (st\<lparr>st_correlation_id := Some correlation_id\<rparr>))
            (\<lambda>_. ret (apply_browser_security_headers policy
                (plain_response 500 (Detail ''Internal server error''))))) (\<lambda>r.
     ret (set_header ''X-Correlation-ID'' (uuid_str correlation_id) r))"

definition with_principal :: "BrowserSessionPrincipal \<Rightarrow> request_state \<Rightarrow> request_state" where
  "with_principal p st = st
     \<lparr>st_actor_id := Some (principal_user_id p), st_session_id := Some (principal_session_id p),
      st_assurance_level := Some (principal_assurance_level p), st_authenticated_at := principal_authenticated_at p\<rparr>"

text \<open>
  Reading \<open>request.state.correlation_id\<close> before it is set raises AttributeError: the except clause
  needs it for its log line.
\<close>

definition resolve_browser_session ::
  "(string \<Rightarrow> ('s, BrowserSessionPrincipal option) operation) option \<Rightarrow> BrowserSessionCookieSettings \<Rightarrow>
   http_request \<Rightarrow> ('s, 'b) handler \<Rightarrow> ('s, 'b) handler" where
  "resolve_browser_session session_resolver cookies req call_next st =
     (case session_resolver of
        None \<Rightarrow> call_next st
      | Some resolver \<Rightarrow>
          (case http_cookie req (cookie_session_name cookies) of
             None \<Rightarrow> call_next st
           | Some raw_token \<Rightarrow>
               bnd (catching (resolver raw_token)
                 (\<lambda>_. case st_correlation_id st of
                        None \<Rightarrow> raise (AttributeError ''State object has no attribute correlation_id'')
                      | Some _ \<Rightarrow> ret None)) (\<lambda>principal.
               case principal of
                 None \<Rightarrow> call_next st
               | Some p \<Rightarrow> call_next (with_principal p st))))"

text \<open>\<open>hmac.compare_digest\<close> on strings: they must be ASCII.\<close>

definition is_ascii_text :: "string \<Rightarrow> bool" where
  "is_ascii_text s \<longleftrightarrow> list_all (\<lambda>c. (of_char c :: nat) < 128) s"

definition compare_digest :: "string \<Rightarrow> string \<Rightarrow> error + bool" where
  "compare_digest a b =
     (if is_ascii_text a \<and> is_ascii_text b then Inr (a = b)
      else Inl (TypeError ''comparing strings with non-ASCII characters is not supported''))"

definition csrf_rejection :: "'b response" where
  "csrf_rejection = plain_response 403 (Detail ''CSRF validation failed'')"

definition is_protected :: "http_request \<Rightarrow> bool" where
  "is_protected req \<longleftrightarrow> http_method req \<notin> set SAFE_HTTP_METHODS \<and> http_path req \<notin> set CSRF_EXEMPT_PATHS"

definition protect_mutations_from_csrf ::
  "BrowserSessionCookieSettings \<Rightarrow> http_request \<Rightarrow> ('s, 'b) handler \<Rightarrow> ('s, 'b) handler" where
  "protect_mutations_from_csrf cookies req call_next st =
     (if is_protected req then
        (case (http_cookie req (cookie_csrf_name cookies), http_header req ''x-csrf-token'') of
           (Some (c # cs), Some (h # hs)) \<Rightarrow>
             bnd (tries (\<lambda>_. compare_digest (c # cs) (h # hs))) (\<lambda>same.
             if same then call_next st else ret csrf_rejection)
         | _ \<Rightarrow> ret csrf_rejection)
      else call_next st)"

text \<open>FastAPI answers an \<open>HTTPException\<close> of an endpoint with its status, detail and headers.\<close>

definition exception_middleware :: "('s, 'b) handler \<Rightarrow> ('s, 'b) handler" where
  "exception_middleware endpoint st =
     catching (endpoint st)
       (\<lambda>e. case e of
              HTTPException status detail headers \<Rightarrow>
                ret ((plain_response status (Detail detail))\<lparr>rs_headers := headers\<rparr>)
            | _ \<Rightarrow> raise e)"

definition http_app ::
  "BrowserSecurityPolicy \<Rightarrow> BrowserSessionCookieSettings \<Rightarrow>
   (string \<Rightarrow> ('s, BrowserSessionPrincipal option) operation) option \<Rightarrow> uuid \<Rightarrow> http_request \<Rightarrow>
   ('s, 'b) handler \<Rightarrow> ('s, 'b response) operation" where
  "http_app policy cookies session_resolver correlation_id req endpoint =
     protect_mutations_from_csrf cookies req
       (resolve_browser_session session_resolver cookies req
         (attach_correlation_id policy correlation_id
           (attach_browser_security_headers policy (exception_middleware endpoint)))) fresh_state"

lemmas middlewares = http_app_def protect_mutations_from_csrf_def resolve_browser_session_def
  attach_correlation_id_def attach_browser_security_headers_def exception_middleware_def

section \<open>Cross-site requests\<close>

definition csrf_valid :: "BrowserSessionCookieSettings \<Rightarrow> http_request \<Rightarrow> bool" where
  "csrf_valid cookies req \<longleftrightarrow> (\<exists>t. t \<noteq> [] \<and> is_ascii_text t
     \<and> http_cookie req (cookie_csrf_name cookies) = Some t \<and> http_header req ''x-csrf-token'' = Some t)"

lemma csrf_passes:
  assumes "is_protected req \<longrightarrow> csrf_valid cookies req"
  shows "protect_mutations_from_csrf cookies req call_next st = call_next st"
proof (cases "is_protected req")
  case True
  with assms obtain t where "t \<noteq> []" "is_ascii_text t"
    "http_cookie req (cookie_csrf_name cookies) = Some t" "http_header req ''x-csrf-token'' = Some t"
    by (auto simp: csrf_valid_def)
  with True show ?thesis
    by (cases t) (auto simp: protect_mutations_from_csrf_def compare_digest_def bnd_apply tries_def)
qed (simp add: protect_mutations_from_csrf_def)

lemma csrf_blocks:
  assumes "is_protected req" and "\<not> csrf_valid cookies req"
  shows "protect_mutations_from_csrf cookies req call_next st s = (Inr csrf_rejection, s)
    \<or> (\<exists>c h. http_cookie req (cookie_csrf_name cookies) = Some c \<and> http_header req ''x-csrf-token'' = Some h
        \<and> \<not> (is_ascii_text c \<and> is_ascii_text h)
        \<and> (\<exists>m. protect_mutations_from_csrf cookies req call_next st s = (Inl (TypeError m), s)))"
proof (cases "\<exists>c cs h hs. http_cookie req (cookie_csrf_name cookies) = Some (c # cs)
    \<and> http_header req ''x-csrf-token'' = Some (h # hs)")
  case True
  then obtain c cs h hs where t: "http_cookie req (cookie_csrf_name cookies) = Some (c # cs)"
    "http_header req ''x-csrf-token'' = Some (h # hs)" by blast
  with assms(2) have "c # cs = h # hs \<Longrightarrow> \<not> is_ascii_text (c # cs)"
    unfolding csrf_valid_def by force
  with assms(1) t show ?thesis
    by (auto simp: protect_mutations_from_csrf_def compare_digest_def bnd_apply tries_def ret_def)
next
  case False
  with assms(1) show ?thesis
    by (auto simp: protect_mutations_from_csrf_def ret_def split: option.splits list.splits)
qed

lemma csrf_decides:
  assumes "http_method req \<notin> set SAFE_HTTP_METHODS" and "http_path req \<notin> set CSRF_EXEMPT_PATHS"
  shows "(csrf_valid cookies req \<longrightarrow>
        http_app policy cookies resolver cid req endpoint s =
        resolve_browser_session resolver cookies req
          (attach_correlation_id policy cid (attach_browser_security_headers policy (exception_middleware endpoint)))
          fresh_state s)
    \<and> (\<not> csrf_valid cookies req \<longrightarrow>
        http_app policy cookies resolver cid req endpoint s \<in>
          {(Inr csrf_rejection, s), (Inl (TypeError ''comparing strings with non-ASCII characters is not supported''), s)})"
proof -
  have protected: "is_protected req"
    using assms by (simp add: is_protected_def)
  have "http_app policy cookies resolver cid req endpoint s \<in>
      {(Inr csrf_rejection, s), (Inl (TypeError ''comparing strings with non-ASCII characters is not supported''), s)}"
    if "\<not> csrf_valid cookies req"
    using csrf_blocks [OF protected that, of _ fresh_state s] protected
    by (auto simp: http_app_def protect_mutations_from_csrf_def compare_digest_def bnd_apply tries_def ret_def
        split: option.splits list.splits if_splits)
  then show ?thesis
    by (auto simp: http_app_def csrf_passes)
qed

text \<open>
  C6: A mutation outside the public sign-in paths runs only with a non-empty CSRF token that is the
  same in the cookie and in the header. Otherwise neither the session resolver nor the endpoint runs:
  nothing changes, whatever the endpoint does, and the answer is 403, or a TypeError when a token is
  not ASCII.
\<close>

theorem csrf_gate:
  assumes "http_method req \<notin> set SAFE_HTTP_METHODS" and "http_path req \<notin> set CSRF_EXEMPT_PATHS"
  shows "(csrf_valid cookies req \<longrightarrow>
        http_app policy cookies resolver cid req endpoint s =
        resolve_browser_session resolver cookies req
          (attach_correlation_id policy cid (attach_browser_security_headers policy (exception_middleware endpoint)))
          fresh_state s)
    \<and> (\<not> csrf_valid cookies req \<longrightarrow>
        http_app policy cookies resolver cid req endpoint s \<in>
          {(Inr csrf_rejection, s), (Inl (TypeError ''comparing strings with non-ASCII characters is not supported''), s)})"
  by (rule csrf_decides [OF assms])

definition mutation :: http_request where
  "mutation = \<lparr>http_method = ''DELETE'', http_path = ''/api/v1/auth/session'', http_client = None,
     http_header = [''x-csrf-token'' \<mapsto> ''abc''], http_cookie = [''__Host-muxivo_csrf'' \<mapsto> ''abd'']\<rparr>"

theorem csrf_gate_witness:
  "http_app default_security_policy default_cookies None 7 mutation (\<lambda>_. raise InvalidToken) (0 :: nat) =
     (Inr (csrf_rejection :: unit response), 0)"
proof -
  have req: "http_method mutation \<notin> set SAFE_HTTP_METHODS" "http_path mutation \<notin> set CSRF_EXEMPT_PATHS"
    "\<not> csrf_valid default_cookies mutation"
    by (simp_all add: mutation_def SAFE_HTTP_METHODS_def CSRF_EXEMPT_PATHS_def csrf_valid_def default_cookies_def)
  have "fst (http_app default_security_policy default_cookies None 7 mutation (\<lambda>_. raise InvalidToken) (0 :: nat)) =
      Inr (csrf_rejection :: unit response)"
    using req(1,2) by (simp add: http_app_def protect_mutations_from_csrf_def is_protected_def compare_digest_def bnd_apply
        mutation_def default_cookies_def is_ascii_text_def tries_def ret_def)
  with csrf_gate [OF req(1,2), of default_cookies default_security_policy None 7 "\<lambda>_. raise InvalidToken" 0] req(3)
  show ?thesis by auto
qed

section \<open>Exceptions and headers\<close>

lemma header_of_set [simp]: "header_of n (set_header n v r) = Some v"
proof -
  have "map_of (filter (\<lambda>h. fst h \<noteq> n) hs @ [(n, v)]) n = Some v" for hs :: "(string \<times> string) list"
    by (induction hs) auto
  then show ?thesis by (simp add: header_of_def set_header_def)
qed

definition has_header :: "string \<Rightarrow> 'b response \<Rightarrow> bool" where
  "has_header n r \<longleftrightarrow> n \<in> fst ` set (rs_headers r)"

lemma has_header_simps [simp]:
  "has_header n (setdefault_header m v r) \<longleftrightarrow> n = m \<or> has_header n r"
  "has_header n (set_header m v r) \<longleftrightarrow> n = m \<or> has_header n r"
  by (force simp: has_header_def setdefault_header_def set_header_def)+

definition has_security_headers :: "'b response \<Rightarrow> bool" where
  "has_security_headers r \<longleftrightarrow> (\<forall>n \<in> {''Content-Security-Policy'', ''X-Content-Type-Options'', ''X-Frame-Options'',
      ''Referrer-Policy'', ''Permissions-Policy''}. has_header n r)"

lemma applied_security_headers: "has_security_headers (apply_browser_security_headers policy r)"
  by (simp add: has_security_headers_def apply_browser_security_headers_def Let_def)

lemma correlated_security_headers:
  "has_security_headers (set_header ''X-Correlation-ID'' v (apply_browser_security_headers policy q))"
  using applied_security_headers [of policy q] by (simp add: has_security_headers_def)

lemma correlated_response:
  "\<exists>r. fst (attach_correlation_id policy cid
      (attach_browser_security_headers policy (exception_middleware endpoint)) st s) = Inr r
    \<and> header_of ''X-Correlation-ID'' r = Some (uuid_str cid) \<and> has_security_headers r"
  by (auto simp: attach_correlation_id_def attach_browser_security_headers_def bnd_apply
        catching_apply ret_def correlated_security_headers split: sum.splits)

lemma resolver_cases:
  obtains st u where
    "resolve_browser_session resolver cookies req call_next fresh_state s = call_next st u"
  | f tok e m where "resolver = Some f" "http_cookie req (cookie_session_name cookies) = Some tok"
    "fst (f tok s) = Inl e"
    "fst (resolve_browser_session resolver cookies req call_next fresh_state s) = Inl (AttributeError m)"
proof (cases resolver)
  case None
  then show thesis using that(1) [of fresh_state s] by (simp add: resolve_browser_session_def)
next
  case resolver: (Some f)
  show thesis
  proof (cases "http_cookie req (cookie_session_name cookies)")
    case None
    then show thesis using resolver that(1) [of fresh_state s] by (simp add: resolve_browser_session_def)
  next
    case (Some tok)
    show thesis
    proof (cases "fst (f tok s)")
      case (Inl e)
      with resolver Some show thesis
        using that(2) by (simp add: resolve_browser_session_def bnd_apply catching_apply raise_def fresh_state_def)
    next
      case (Inr p)
      with resolver Some show thesis
        using that(1) by (cases p) (auto simp: resolve_browser_session_def bnd_apply catching_apply)
    qed
  qed
qed

text \<open>
  C7: No exception of an endpoint leaves the application: every answer past the session resolver
  carries the correlation identifier of the request and the browser security headers, an unmapped
  exception as a 500 without detail. The two ways out are in the outer middlewares: a non-ASCII CSRF
  token, and a session resolver that raises.
\<close>

theorem http_errors_contained:
  "case fst (http_app policy cookies resolver cid req endpoint s) of
     Inr r \<Rightarrow> (r = csrf_rejection \<and> is_protected req) \<or>
       (header_of ''X-Correlation-ID'' r = Some (uuid_str cid) \<and> has_security_headers r)
   | Inl e \<Rightarrow> (is_protected req \<and> (\<exists>m. e = TypeError m)) \<or>
       (\<exists>f tok e'. resolver = Some f \<and> http_cookie req (cookie_session_name cookies) = Some tok
          \<and> fst (f tok s) = Inl e' \<and> (\<exists>m. e = AttributeError m))"
proof (cases "is_protected req \<and> \<not> csrf_valid cookies req")
  case True
  with csrf_decides [of req cookies policy resolver cid endpoint s] show ?thesis
    by (auto simp: is_protected_def)
next
  case False
  let ?inner = "attach_correlation_id policy cid
      (attach_browser_security_headers policy (exception_middleware endpoint))"
  from False have app: "http_app policy cookies resolver cid req endpoint s =
      resolve_browser_session resolver cookies req ?inner fresh_state s"
    by (simp add: http_app_def csrf_passes)
  show ?thesis
  proof (cases rule: resolver_cases [of resolver cookies req ?inner s])
    case (1 st u)
    with correlated_response [of policy cid endpoint st u] show ?thesis
      by (auto simp: app)
  next
    case (2 f tok e m)
    then show ?thesis
      unfolding app by simp
  qed
qed

text \<open>Where an answer comes from: the CSRF guard, or the endpoint with what the resolver found.\<close>

lemma http_app_answers:
  assumes "http_app policy cookies resolver cid req endpoint s = (Inr r, t)"
  obtains (rejected) "r = csrf_rejection" "t = s" "is_protected req"
  | (ran) st u where
    "attach_correlation_id policy cid (attach_browser_security_headers policy (exception_middleware endpoint)) st u
       = (Inr r, t)"
    "is_protected req \<longrightarrow> csrf_valid cookies req"
    "(st = fresh_state \<and> u = s \<and> (resolver = None \<or> http_cookie req (cookie_session_name cookies) = None))
     \<or> (\<exists>f tok p. resolver = Some f \<and> http_cookie req (cookie_session_name cookies) = Some tok
          \<and> f tok s = (Inr p, u)
          \<and> st = (case p of None \<Rightarrow> fresh_state | Some who \<Rightarrow> with_principal who fresh_state))"
proof (cases "is_protected req \<and> \<not> csrf_valid cookies req")
  case True
  with csrf_decides [of req cookies policy resolver cid endpoint s] assms rejected show thesis
    by (auto simp: is_protected_def)
next
  case False
  let ?inner = "attach_correlation_id policy cid
      (attach_browser_security_headers policy (exception_middleware endpoint))"
  from False assms have run: "resolve_browser_session resolver cookies req ?inner fresh_state s = (Inr r, t)"
    by (simp add: http_app_def csrf_passes)
  from False have valid: "is_protected req \<longrightarrow> csrf_valid cookies req" by simp
  show thesis
  proof (cases "resolver = None \<or> http_cookie req (cookie_session_name cookies) = None")
    case True
    with run have "?inner fresh_state s = (Inr r, t)"
      by (auto simp: resolve_browser_session_def split: option.splits)
    with ran valid True show thesis by blast
  next
    case False
    then obtain f tok where f: "resolver = Some f" "http_cookie req (cookie_session_name cookies) = Some tok" by auto
    with run obtain p u where p: "f tok s = (Inr p, u)"
        "?inner (case p of None \<Rightarrow> fresh_state | Some who \<Rightarrow> with_principal who fresh_state) u = (Inr r, t)"
      by (cases "f tok s", cases "fst (f tok s)")
        (auto simp: resolve_browser_session_def bnd_apply catching_apply raise_def fresh_state_def split: option.splits)
    with ran valid f show thesis by blast
  qed
qed

definition status_of_error :: "error \<Rightarrow> nat" where
  "status_of_error e = (case e of HTTPException status _ _ \<Rightarrow> status | _ \<Rightarrow> 500)"

lemma setdefault_keeps [simp]:
  "rs_status (setdefault_header n v r) = rs_status r" "rs_body (setdefault_header n v r) = rs_body r"
  "rs_cookies (setdefault_header n v r) = rs_cookies r"
  by (simp_all add: setdefault_header_def)

lemma applied_keeps [simp]:
  "rs_status (apply_browser_security_headers policy r) = rs_status r"
  "rs_body (apply_browser_security_headers policy r) = rs_body r"
  "rs_cookies (apply_browser_security_headers policy r) = rs_cookies r"
  "rs_status (set_header n v r) = rs_status r" "rs_body (set_header n v r) = rs_body r"
  "rs_cookies (set_header n v r) = rs_cookies r"
  by (simp_all add: apply_browser_security_headers_def set_header_def Let_def)

definition http_answer :: "error \<Rightarrow> 'b response option" where
  "http_answer e = (case e of
     HTTPException status detail headers \<Rightarrow> Some ((plain_response status (Detail detail))\<lparr>rs_headers := headers\<rparr>)
   | _ \<Rightarrow> None)"

lemma exception_answer:
  assumes "endpoint st u = (Inl e, t)"
  shows "exception_middleware endpoint st u =
    (case http_answer e of Some q \<Rightarrow> (Inr q, t) | None \<Rightarrow> (Inl e, t))"
  using assms by (cases e) (simp_all only: http_answer_def exception_middleware_def catching_apply error.case
      fst_conv snd_conv sum.case option.case ret_def raise_def)

lemma http_answer_status:
  "http_answer e = None \<Longrightarrow> status_of_error e = 500"
  "http_answer e = Some q \<Longrightarrow> rs_status q = status_of_error e \<and> rs_cookies q = []"
  by (cases e; simp_all only: http_answer_def status_of_error_def error.case option.distinct option.inject; fail)
    (cases e; simp_all only: http_answer_def status_of_error_def error.case option.distinct option.inject
       plain_response_def response.simps response.select_convs; auto)

lemma correlated_answers:
  fixes r :: "'b response"
  assumes "attach_correlation_id policy cid
      (attach_browser_security_headers policy (exception_middleware endpoint)) st u = (Inr r, t)"
  obtains (returned) q where "endpoint (st\<lparr>st_correlation_id := Some cid\<rparr>) u = (Inr q, t)"
      "rs_status r = rs_status q" "rs_body r = rs_body q" "rs_cookies r = rs_cookies q"
  | (raised) e where "endpoint (st\<lparr>st_correlation_id := Some cid\<rparr>) u = (Inl e, t)"
      "rs_status r = status_of_error e" "rs_cookies r = []"
proof -
  obtain a v where run: "endpoint (st\<lparr>st_correlation_id := Some cid\<rparr>) u = (a, v)" by fastforce
  show thesis
  proof (cases a)
    case (Inl e)
    with run have answer: "exception_middleware endpoint (st\<lparr>st_correlation_id := Some cid\<rparr>) u =
        (case http_answer e of Some q \<Rightarrow> (Inr q, v) | None \<Rightarrow> (Inl e, v))"
      by (intro exception_answer) simp
    show thesis
    proof (rule raised)
      show "endpoint (st\<lparr>st_correlation_id := Some cid\<rparr>) u = (Inl e, t)"
        using run Inl assms answer
        by (cases "http_answer e :: 'b response option") (simp_all add: attach_correlation_id_def attach_browser_security_headers_def bnd_apply
            catching_apply ret_def)
      show "rs_status r = status_of_error e" "rs_cookies r = []"
        using assms answer http_answer_status [of e]
        by - (cases "http_answer e :: 'b response option"; auto simp: attach_correlation_id_def
            attach_browser_security_headers_def bnd_apply catching_apply ret_def plain_response_def)+
    qed
  next
    case (Inr q)
    with run assms returned show thesis
      by (auto simp: attach_correlation_id_def attach_browser_security_headers_def exception_middleware_def
          bnd_apply catching_apply ret_def)
  qed
qed

text \<open>
  The resolver error path: the except clause reads the correlation identifier before the inner
  middleware has set it, so that a failing resolver ends the request with an AttributeError.
\<close>

lemma resolver_failure_escapes:
  assumes "\<not> is_protected req" and "http_cookie req (cookie_session_name cookies) = Some tok"
    and "fst (f tok s) = Inl e"
  shows "\<exists>m. fst (http_app policy cookies (Some f) cid req endpoint s) = Inl (AttributeError m)"
  using assms by (simp add: http_app_def protect_mutations_from_csrf_def resolve_browser_session_def bnd_apply
      catching_apply raise_def fresh_state_def)

lemma same_first:
  "m s = m' s \<Longrightarrow> bnd m f s = bnd m' f s" "m s = m' s \<Longrightarrow> catching m h s = catching m' h s"
  by (simp_all add: bnd_def catching_def)

text \<open>Only the resolver names the actor of a request.\<close>

lemma endpoint_sees_resolved_actor:
  assumes "\<And>st u. st_correlation_id st = Some cid \<Longrightarrow>
      (st_actor_id st = None \<and> st_session_id st = None \<and> st_assurance_level st = None) \<or>
      (\<exists>f tok p. resolver = Some f \<and> http_cookie req (cookie_session_name cookies) = Some tok
         \<and> fst (f tok s) = Inr (Some p) \<and> st = (with_principal p fresh_state)\<lparr>st_correlation_id := Some cid\<rparr>) \<Longrightarrow>
      endpoint st u = endpoint' st u"
  shows "http_app policy cookies resolver cid req endpoint s = http_app policy cookies resolver cid req endpoint' s"
proof -
  let ?inner = "\<lambda>e. attach_correlation_id policy cid (attach_browser_security_headers policy (exception_middleware e))"
  have same: "?inner endpoint st u = ?inner endpoint' st u"
    if "endpoint (st\<lparr>st_correlation_id := Some cid\<rparr>) u = endpoint' (st\<lparr>st_correlation_id := Some cid\<rparr>) u" for st u
    unfolding attach_correlation_id_def attach_browser_security_headers_def exception_middleware_def
    by (intro same_first that)
  have anonymous: "?inner endpoint fresh_state u = ?inner endpoint' fresh_state u" for u
    by (rule same, rule assms) (simp_all add: fresh_state_def)
  have "resolve_browser_session resolver cookies req (?inner endpoint) fresh_state s =
      resolve_browser_session resolver cookies req (?inner endpoint') fresh_state s"
  proof (cases resolver)
    case (Some f)
    have named: "?inner endpoint (with_principal p fresh_state) u = ?inner endpoint' (with_principal p fresh_state) u"
      if "http_cookie req (cookie_session_name cookies) = Some tok" "fst (f tok s) = Inr (Some p)" for tok p u
      using that Some by (intro same assms) (auto simp: with_principal_def)
    show ?thesis
      using anonymous named Some
      by (auto simp: resolve_browser_session_def bnd_apply catching_apply fresh_state_def raise_def
          split: option.splits sum.splits)
  qed (simp add: resolve_browser_session_def anonymous)
  then show ?thesis
    by (simp add: http_app_def protect_mutations_from_csrf_def bnd_apply tries_def split: option.split list.split sum.split)
qed

end
