(* ===== verification/Candidates.thy ===== *)
theory Candidates
  imports Connections
begin

text \<open>
  Discovering the platform resources that can be connected: the domain objects
  (\<open>platform_connection_candidate.py\<close>, \<open>platform_connection_candidate_catalog.py\<close>), the router
  over the platform adapters and the use case. The adapters are arguments that answer with a catalog
  or an exception.
\<close>

record PlatformConnectionCandidate =
  candidate_platform :: Platform
  candidate_external_resource_id :: string
  candidate_display_name :: string

definition PlatformConnectionCandidate_post_init ::
  "PlatformConnectionCandidate \<Rightarrow> error + PlatformConnectionCandidate" where
  "PlatformConnectionCandidate_post_init c = checked
     [(py_strip (candidate_external_resource_id c) = [] \<or> 255 < length (candidate_external_resource_id c),
       ''External resource identifier must contain 1 to 255 characters.''),
      (py_strip (candidate_display_name c) = [] \<or> 255 < length (candidate_display_name c),
       ''Candidate display name must contain 1 to 255 characters.'')] c"

record PlatformConnectionCandidateCatalog =
  catalog_platform :: Platform
  catalog_items :: "PlatformConnectionCandidate list"
  catalog_identity_linked :: bool

definition PlatformConnectionCandidateCatalog_post_init ::
  "PlatformConnectionCandidateCatalog \<Rightarrow> error + PlatformConnectionCandidateCatalog" where
  "PlatformConnectionCandidateCatalog_post_init c = checked
     [(\<not> catalog_identity_linked c \<and> catalog_items c \<noteq> [],
       ''An unlinked identity cannot have connection candidates.''),
      (list_ex (\<lambda>x. candidate_platform x \<noteq> catalog_platform c) (catalog_items c),
       ''All candidates must belong to the catalog platform.''),
      (\<not> distinct (map candidate_external_resource_id (catalog_items c)),
       ''Candidate resource identifiers must be unique.'')] c"

type_synonym candidate_reader = "uuid \<Rightarrow> uuid \<Rightarrow> uuid \<Rightarrow> error + PlatformConnectionCandidateCatalog"

definition list_for_platform ::
  "(Platform \<Rightarrow> candidate_reader option) \<Rightarrow> uuid \<Rightarrow> uuid \<Rightarrow> Platform \<Rightarrow> uuid \<Rightarrow>
   error + PlatformConnectionCandidateCatalog" where
  "list_for_platform catalogs org actor platform correlation =
     (case catalogs platform of
        None \<Rightarrow> Inl (PlatformControlUnavailableError ''No platform connection candidate catalog is available.'')
      | Some catalog \<Rightarrow> catalog org actor correlation)"

record ListPlatformConnectionCandidatesCommand =
  lc_actor_id :: uuid
  lc_organization_id :: uuid
  lc_platform :: Platform
  lc_correlation_id :: uuid

definition ListPlatformConnectionCandidates_execute ::
  "(Platform \<Rightarrow> candidate_reader option) \<Rightarrow> ListPlatformConnectionCandidatesCommand \<Rightarrow>
   (console, PlatformConnectionCandidateCatalog) operation" where
  "ListPlatformConnectionCandidates_execute catalogs cmd =
     bnd (authorize get_membership (authorization_request (lc_actor_id cmd) (lc_organization_id cmd)
            PLATFORM_CONNECTIONS ACTION_MANAGE)) (\<lambda>decision.
     if \<not> allowed decision
     then raise (AccessDeniedError ''The actor is not allowed to discover platform resources.'')
     else construct (list_for_platform catalogs (lc_organization_id cmd) (lc_actor_id cmd)
            (lc_platform cmd) (lc_correlation_id cmd)))"

lemma silent_list_candidates [simp]: "silent (ListPlatformConnectionCandidates_execute catalogs cmd)"
  unfolding ListPlatformConnectionCandidates_execute_def
  by (intro silent_if silent_bnd silent_authorize silent_simps)

end
