(* ===== verification/Control_Assertions.thy ===== *)
theory Control_Assertions
  imports Json Domain_Organizations
begin

text \<open>
  The service assertions of \<open>infrastructure/discord_control_api.py\<close> (\<open>HmacControlAssertionIssuer\<close>): a
  signed JSON Web Token for one call of a Control API. HMAC-SHA256 is an argument. Together with the
  issuer stands what a service does that holds the key: it checks the signature and reads the claims.
  The conversions between datetimes and seconds are exact for the times of a double's precision.
\<close>

section \<open>URL-safe base64 without padding\<close>

definition base64url :: "nat list \<Rightarrow> codes" where
  "base64url bs = rev (dropWhile (\<lambda>c. c = 61) (rev (base64_encode bs)))"

definition repadded :: "codes \<Rightarrow> codes" where
  "repadded t = t @ replicate ((4 - length t mod 4) mod 4) 61"

definition base64url_decode :: "codes \<Rightarrow> nat list option" where
  "base64url_decode t = base64_decode (repadded t)"

lemma base64_char_alphabet: "n < 64 \<Longrightarrow> base64_char n \<noteq> 61 \<and> base64_char n \<noteq> 46"
  by (auto simp: base64_char_def)

lemma base64_encode_shape:
  "\<forall>b \<in> set bs. b < 256 \<Longrightarrow> \<exists>t n. base64_encode bs = t @ replicate n 61 \<and> n < 3 \<and> 61 \<notin> set t \<and> 46 \<notin> set t
     \<and> (length t + n) mod 4 = 0"
proof (induction bs rule: base64_encode.induct)
  case (2 a)
  then have "a div 4 < 64" "a mod 4 * 16 < 64" by auto
  note chars = this [THEN base64_char_alphabet]
  let ?t = "[base64_char (a div 4), base64_char (a mod 4 * 16)]"
  have "base64_encode [a] = ?t @ replicate 2 61 \<and> (2 :: nat) < 3 \<and> (length ?t + 2) mod 4 = 0"
    by (simp add: numeral_2_eq_2)
  moreover have "61 \<notin> set ?t \<and> 46 \<notin> set ?t" using chars by auto
  ultimately show ?case by (intro exI [of _ ?t] exI [of _ 2]) simp
next
  case (3 a b)
  then have "a div 4 < 64" "a mod 4 * 16 + b div 16 < 64" "b mod 16 * 4 < 64" by auto
  note chars = this [THEN base64_char_alphabet]
  let ?t = "[base64_char (a div 4), base64_char (a mod 4 * 16 + b div 16), base64_char (b mod 16 * 4)]"
  have "base64_encode [a, b] = ?t @ replicate 1 61 \<and> (1 :: nat) < 3 \<and> (length ?t + 1) mod 4 = 0"
    by simp
  moreover have "61 \<notin> set ?t \<and> 46 \<notin> set ?t" using chars by auto
  ultimately show ?case by (intro exI [of _ ?t] exI [of _ 1]) simp
next
  case (4 a b c rest)
  then have "a div 4 < 64" "a mod 4 * 16 + b div 16 < 64" "b mod 16 * 4 + c div 64 < 64" "c mod 64 < 64" by auto
  note chars = this [THEN base64_char_alphabet]
  from 4 obtain t n where t: "base64_encode rest = t @ replicate n 61" "n < 3" "61 \<notin> set t" "46 \<notin> set t"
    "(length t + n) mod 4 = 0" by auto
  let ?u = "base64_char (a div 4) # base64_char (a mod 4 * 16 + b div 16) #
      base64_char (b mod 16 * 4 + c div 64) # base64_char (c mod 64) # t"
  have "base64_encode (a # b # c # rest) = ?u @ replicate n 61" by (simp add: t(1))
  moreover have "(length ?u + n) mod 4 = 0" using t(5) by (simp; presburger)
  moreover have "61 \<notin> set ?u \<and> 46 \<notin> set ?u" using chars t(3,4) by auto
  ultimately show ?case using t(2) by (intro exI [of _ ?u] exI [of _ n]) simp
next
  case 1
  have "base64_encode [] = [] @ replicate 0 61 \<and> (0 :: nat) < 3 \<and> (length ([] :: codes) + 0) mod 4 = 0" by simp
  then show ?case by (metis empty_iff list.set(1))
qed

lemma base64url_shape:
  assumes "\<forall>b \<in> set bs. b < 256"
  shows "repadded (base64url bs) = base64_encode bs \<and> 46 \<notin> set (base64url bs)"
proof -
  obtain t n where t: "base64_encode bs = t @ replicate n 61" "n < 3" "61 \<notin> set t" "46 \<notin> set t"
    "(length t + n) mod 4 = 0" using base64_encode_shape [OF assms] by (elim exE conjE) (rule that)
  have "dropWhile (\<lambda>c. c = 61) (replicate n 61 @ rev t) = dropWhile (\<lambda>c. c = 61) (rev t)"
    by (induction n) simp_all
  also have "\<dots> = rev t"
    using t(3) by (cases t rule: rev_cases) auto
  finally have "dropWhile (\<lambda>c. c = 61) (replicate n 61 @ rev t) = rev t" .
  then have url: "base64url bs = t" by (simp add: base64url_def t(1))
  have "(4 - length t mod 4) mod 4 = n"
  proof -
    consider "n = 0" | "n = 1" | "n = 2" using t(2) by linarith
    then show ?thesis
    proof cases
      case 2
      then have "length t mod 4 = 3" using t(5) by presburger
      with 2 show ?thesis by simp
    next
      case 3
      then have "length t mod 4 = 2" using t(5) by presburger
      with 3 show ?thesis by simp
    qed (use t(5) in simp)
  qed
  with url t show ?thesis by (simp add: repadded_def)
qed

lemma base64url_roundtrip:
  "\<forall>b \<in> set bs. b < 256 \<Longrightarrow> base64url_decode (base64url bs) = Some bs"
  by (simp add: base64url_decode_def base64url_shape base64_roundtrip)

section \<open>Issuing\<close>

record HmacControlAssertionIssuer =
  assertion_issuer :: string
  assertion_audience :: string
  assertion_signing_key :: "nat list"

definition HmacControlAssertionIssuer_post_init ::
  "HmacControlAssertionIssuer \<Rightarrow> error + HmacControlAssertionIssuer" where
  "HmacControlAssertionIssuer_post_init i = checked
     [(length (assertion_signing_key i) < 32, ''Control assertion signing key must be at least 32 bytes.''),
      (assertion_issuer i = [] \<or> assertion_audience i = [],
       ''Control assertion issuer and audience must be non-empty.'')] i"

type_synonym hmac = "nat list \<Rightarrow> codes \<Rightarrow> byte list"

text \<open>The call an assertion is for.\<close>

record control_grant =
  grant_actor_id :: uuid
  grant_organization_id :: uuid
  grant_resource :: AuthorizationResource
  grant_action :: AuthorizationAction
  grant_correlation_id :: uuid
  grant_platform_subject :: "string option"
  grant_platform_resource_id :: "string option"

definition epoch_seconds :: "datetime \<Rightarrow> int" where
  "epoch_seconds t = (if instant t < 0 then - (- instant t div 1000000) else instant t div 1000000)"

definition assertion_lifetime :: timedelta where
  "assertion_lifetime = seconds 60"

definition text_claim :: "string \<Rightarrow> string \<Rightarrow> codes \<times> json" where
  "text_claim k v = (ascii k, JString (ascii v))"

definition assertion_claims ::
  "HmacControlAssertionIssuer \<Rightarrow> datetime \<Rightarrow> uuid \<Rightarrow> control_grant \<Rightarrow> (codes \<times> json) list" where
  "assertion_claims i now jti g =
     [text_claim ''iss'' (assertion_issuer i), text_claim ''aud'' (assertion_audience i),
      text_claim ''sub'' (uuid_str (grant_actor_id g)),
      text_claim ''organization_id'' (uuid_str (grant_organization_id g)),
      text_claim ''resource'' (AuthorizationResource_value (grant_resource g)),
      text_claim ''action'' (AuthorizationAction_value (grant_action g)),
      text_claim ''correlation_id'' (uuid_str (grant_correlation_id g)), text_claim ''jti'' (uuid_str jti),
      (ascii ''iat'', JInt (epoch_seconds now)),
      (ascii ''exp'', JInt (epoch_seconds (dt_add now assertion_lifetime)))]
     @ (case grant_platform_subject g of None \<Rightarrow> [] | Some s \<Rightarrow> [text_claim ''platform_subject'' s])
     @ (case grant_platform_resource_id g of None \<Rightarrow> [] | Some r \<Rightarrow> [text_claim ''platform_resource_id'' r])"

definition assertion_header :: "(codes \<times> json) list" where
  "assertion_header = [text_claim ''alg'' ''HS256'', text_claim ''typ'' ''JWT'']"

definition valid_resource_id :: "string option \<Rightarrow> bool" where
  "valid_resource_id r \<longleftrightarrow> (case r of None \<Rightarrow> True | Some i \<Rightarrow> py_strip i \<noteq> [] \<and> length i \<le> 255)"

definition issue ::
  "hmac \<Rightarrow> HmacControlAssertionIssuer \<Rightarrow> datetime \<Rightarrow> uuid \<Rightarrow> control_grant \<Rightarrow> error + codes" where
  "issue hmac i now jti g =
     (if \<not> valid_resource_id (grant_platform_resource_id g)
      then Inl (ValueError ''Platform resource identifier must contain 1 to 255 characters.'')
      else
        let signing_input = base64url (json_dumps assertion_header) @ [46]
              @ base64url (json_dumps (assertion_claims i now jti g))
        in Inr (signing_input @ [46] @ base64url (map unat (hmac (assertion_signing_key i) signing_input))))"

section \<open>Checking\<close>

fun split_dots :: "codes \<Rightarrow> codes list" where
  "split_dots [] = [[]]"
| "split_dots (c # cs) =
     (if c = 46 then [] # split_dots cs
      else (case split_dots cs of [] \<Rightarrow> [[c]] | p # ps \<Rightarrow> (c # p) # ps))"

text \<open>What a service with the key reads from a token: the claims, if the signature is right.\<close>

definition read_assertion :: "hmac \<Rightarrow> nat list \<Rightarrow> codes \<Rightarrow> json option" where
  "read_assertion hmac key token =
     (case split_dots token of
        [h, c, s] \<Rightarrow>
          if base64url_decode s = Some (map unat (hmac key (h @ [46] @ c)))
          then Option.bind (base64url_decode c) json_loads
          else None
      | _ \<Rightarrow> None)"

lemma split_dots_plain: "46 \<notin> set t \<Longrightarrow> split_dots t = [t]"
  by (induction t) auto

lemma split_dots_join: "46 \<notin> set t \<Longrightarrow> split_dots (t @ [46] @ rest) = t # split_dots rest"
  by (induction t) auto

lemma print_bytes:
  assumes "\<And>k v. (k, v) \<in> set ms \<Longrightarrow> latin_codes k \<and> flat_value v" and "b \<in> set (json_dumps ms)"
  shows "b < 256"
proof -
  have "b \<in> set (hex4 c) \<Longrightarrow> b < 256" for c
    using latin_codes_ascii [of "hex_fixed 4 c"] by (simp add: hex4_def latin_codes_def)
  then have esc: "c < 256 \<Longrightarrow> b \<in> set (escape_code c) \<Longrightarrow> b < 256" for c
    by (auto simp: escape_code_def split: if_splits)
  have quoted: "latin_codes t \<Longrightarrow> b \<in> set (quote t) \<Longrightarrow> b < 256" for t
    by (auto simp: quote_def latin_codes_def dest: esc)
  have "b \<in> set (print_value v) \<Longrightarrow> flat_value v \<Longrightarrow> b < 256" for v
    by (cases v) (auto simp: flat_value_def is_digit_def dest: quoted set_decimal)
  with quoted have "b \<in> set (print_members ms) \<Longrightarrow> b < 256"
    using assms(1) by (induction ms rule: print_members.induct) auto
  with assms(2) show ?thesis by (auto simp: json_dumps_def)
qed

lemma claims_flat:
  assumes "0 \<le> instant now" and "instant now < 10 ^ 20"
  shows "(k, v) \<in> set (assertion_claims i now jti g) \<Longrightarrow> latin_codes k \<and> flat_value v"
proof -
  have "epoch_seconds now < 10 ^ 15" "epoch_seconds (dt_add now assertion_lifetime) < 10 ^ 15"
    "0 \<le> epoch_seconds now" "0 \<le> epoch_seconds (dt_add now assertion_lifetime)"
    using assms by (auto simp: epoch_seconds_def assertion_lifetime_def seconds_def)
  then show "(k, v) \<in> set (assertion_claims i now jti g) \<Longrightarrow> latin_codes k \<and> flat_value v"
    by (auto simp: assertion_claims_def text_claim_def flat_value_def split: option.splits)
qed

text \<open>
  C27: An issued assertion is accepted by a service that holds the key, and by its claims: it names the
  acting user, the organization, the resource and action, the platform subject and resource it is bound
  to, and a lifetime of exactly sixty seconds. It is issued for every resource identifier of 1 to 255
  characters that is not blank, and for no other.
\<close>

theorem assertion_verifies:
  assumes "0 \<le> instant now" and "instant now < 10 ^ 20"
  shows "case issue hmac i now jti g of
      Inl e \<Rightarrow> \<not> valid_resource_id (grant_platform_resource_id g) \<and> (\<exists>m. e = ValueError m)
    | Inr token \<Rightarrow> valid_resource_id (grant_platform_resource_id g) \<and> (\<exists>claims.
        read_assertion hmac (assertion_signing_key i) token = Some (JObject claims)
        \<and> json_lookup (ascii ''sub'') claims = Some (JString (ascii (uuid_str (grant_actor_id g))))
        \<and> json_lookup (ascii ''organization_id'') claims = Some (JString (ascii (uuid_str (grant_organization_id g))))
        \<and> json_lookup (ascii ''resource'') claims =
            Some (JString (ascii (AuthorizationResource_value (grant_resource g))))
        \<and> json_lookup (ascii ''action'') claims =
            Some (JString (ascii (AuthorizationAction_value (grant_action g))))
        \<and> json_lookup (ascii ''platform_subject'') claims =
            map_option (\<lambda>s. JString (ascii s)) (grant_platform_subject g)
        \<and> json_lookup (ascii ''platform_resource_id'') claims =
            map_option (\<lambda>r. JString (ascii r)) (grant_platform_resource_id g)
        \<and> (\<exists>iat. json_lookup (ascii ''iat'') claims = Some (JInt iat)
              \<and> json_lookup (ascii ''exp'') claims = Some (JInt (iat + 60))))"
proof (cases "valid_resource_id (grant_platform_resource_id g)")
  case False
  then show ?thesis by (simp add: issue_def)
next
  case True
  let ?claims = "assertion_claims i now jti g"
  let ?h = "base64url (json_dumps assertion_header)"
  let ?c = "base64url (json_dumps ?claims)"
  let ?s = "base64url (map unat (hmac (assertion_signing_key i) (?h @ [46] @ ?c)))"
  have header: "(k, v) \<in> set assertion_header \<Longrightarrow> latin_codes k \<and> flat_value v" for k v
    by (auto simp: assertion_header_def text_claim_def flat_value_def)
  have "b \<in> set (json_dumps assertion_header) \<Longrightarrow> b < 256" "b \<in> set (json_dumps ?claims) \<Longrightarrow> b < 256" for b
    by (erule print_bytes [rotated], erule header claims_flat [OF assms])+
  then have bytes: "\<forall>b \<in> set (json_dumps assertion_header). b < 256" "\<forall>b \<in> set (json_dumps ?claims). b < 256"
    by blast+
  have "unat (b :: byte) < 256" for b
    by (rule order.strict_trans2 [OF unsigned_less]) simp
  then have sig: "\<forall>b \<in> set (map unat (hmac key x)). b < 256" for key x
    by simp
  have parts: "46 \<notin> set ?h" "46 \<notin> set ?c" "46 \<notin> set ?s"
    using base64url_shape [OF bytes(1)] base64url_shape [OF bytes(2)] base64url_shape [OF sig] by blast+
  have token: "issue hmac i now jti g = Inr (?h @ [46] @ ?c @ [46] @ ?s)"
    using True by (simp add: issue_def Let_def)
  have dots: "split_dots (?h @ [46] @ ?c @ [46] @ ?s) = [?h, ?c, ?s]"
    unfolding split_dots_join [OF parts(1)] split_dots_join [OF parts(2)] split_dots_plain [OF parts(3)] ..
  have claims: "base64url_decode ?c = Some (json_dumps ?claims)" "json_loads (json_dumps ?claims) = Some (JObject ?claims)"
    using base64url_roundtrip [OF bytes(2)] json_roundtrip [of ?claims, OF _ claims_flat [OF assms]]
    by (simp_all add: assertion_claims_def)
  have read: "read_assertion hmac (assertion_signing_key i) (?h @ [46] @ ?c @ [46] @ ?s) = Some (JObject ?claims)"
    unfolding read_assertion_def dots using claims base64url_roundtrip [OF sig] by simp
  have "epoch_seconds (dt_add now assertion_lifetime) = epoch_seconds now + 60"
    using assms by (simp add: epoch_seconds_def assertion_lifetime_def seconds_def)
  then show ?thesis
    unfolding token using True read
    by (auto simp: assertion_claims_def json_lookup_def text_claim_def ascii_def split: option.split)
qed

end
