(* ===== verification/Control_Policy.thy ===== *)
theory Control_Policy
  imports Control_Values
begin

text \<open>
  The AI moderation policy of a connected platform and the other reported values that the bot service
  converts loosely (\<open>domain/ai_moderation.py\<close>, \<open>ai_moderation_policy.py\<close>, \<open>integrations.py\<close>, \<open>role_purposes.py\<close>), with the
  browser contract of the policy (\<open>contracts/v1/ai_moderation_policy.py\<close>). A float is finite,
  an infinity or not a number.
\<close>

section \<open>Floats\<close>

text \<open>A finite double is an integer multiple of the smallest positive one, the power of 2 to -1074.\<close>

datatype float_value = Finite int | Infinite bool | NotANumber

definition float_unit :: int where
  "float_unit = 2 ^ 1074"

definition whole :: "int \<Rightarrow> int" where
  "whole n = n * float_unit"

lemma float_unit_pos [simp]: "0 < float_unit"
  by (simp add: float_unit_def)

lemma whole_simps [simp]: "whole 0 = 0" "whole m \<le> whole n \<longleftrightarrow> m \<le> n" "whole m = whole n \<longleftrightarrow> m = n"
    "0 \<le> whole n \<longleftrightarrow> 0 \<le> n"
  using float_unit_pos by (simp_all add: whole_def mult_le_cancel_right zero_le_mult_iff del: float_unit_pos)

text \<open>\<open>lo <= x <= hi\<close> for finite bounds.\<close>

definition float_between :: "int \<Rightarrow> float_value \<Rightarrow> int \<Rightarrow> bool" where
  "float_between lo x hi = (case x of Finite r \<Rightarrow> lo \<le> r \<and> r \<le> hi | _ \<Rightarrow> False)"

text \<open>The doubles nearest to 0.1 and 0.95.\<close>

definition one_tenth :: int where
  "one_tenth = 3602879701896397 * 2 ^ 1019"

definition ninety_five_hundredths :: int where
  "ninety_five_hundredths = 4278419646001971 * 2 ^ 1022"

lemma decimal_bounds [simp]:
  "1 \<le> n \<Longrightarrow> one_tenth \<le> whole n" "0 \<le> ninety_five_hundredths" "ninety_five_hundredths \<le> whole 1"
proof -
  have "one_tenth \<le> whole 1"
    by (simp add: one_tenth_def whole_def float_unit_def)
  then show "1 \<le> n \<Longrightarrow> one_tenth \<le> whole n"
    using whole_simps(2) [of 1 n] by (meson order_trans)
qed (simp_all add: ninety_five_hundredths_def whole_def float_unit_def)

section \<open>Actions and label rules\<close>

datatype AiModerationAction =
  IGNORE | LOG | REVIEW | WARN | DELETE | DELETE_WARN | TIMEOUT | KICK | BAN

primrec AiModerationAction_value :: "AiModerationAction \<Rightarrow> string" where
  "AiModerationAction_value IGNORE = ''IGNORE''"
| "AiModerationAction_value LOG = ''LOG''"
| "AiModerationAction_value REVIEW = ''REVIEW''"
| "AiModerationAction_value WARN = ''WARN''"
| "AiModerationAction_value DELETE = ''DELETE''"
| "AiModerationAction_value DELETE_WARN = ''DELETE_WARN''"
| "AiModerationAction_value TIMEOUT = ''TIMEOUT''"
| "AiModerationAction_value KICK = ''KICK''"
| "AiModerationAction_value BAN = ''BAN''"

definition all_actions :: "AiModerationAction list" where
  "all_actions = [IGNORE, LOG, REVIEW, WARN, DELETE, DELETE_WARN, TIMEOUT, KICK, BAN]"

primrec action_rank :: "AiModerationAction \<Rightarrow> nat" where
  "action_rank IGNORE = 0" | "action_rank LOG = 1" | "action_rank REVIEW = 2" | "action_rank WARN = 3"
| "action_rank DELETE = 4" | "action_rank DELETE_WARN = 5" | "action_rank TIMEOUT = 6"
| "action_rank KICK = 7" | "action_rank BAN = 8"

lemma action_rank_index: "all_actions ! action_rank a = a \<and> action_rank a < length all_actions"
  by (cases a) (simp_all add: all_actions_def)

instantiation AiModerationAction :: linorder
begin

definition less_eq_AiModerationAction :: "AiModerationAction \<Rightarrow> AiModerationAction \<Rightarrow> bool" where
  "a \<le> b \<longleftrightarrow> action_rank a \<le> action_rank b"

definition less_AiModerationAction :: "AiModerationAction \<Rightarrow> AiModerationAction \<Rightarrow> bool" where
  "a < b \<longleftrightarrow> action_rank a < action_rank b"

instance
proof (intro_classes, goal_cases)
  case (4 a b)
  then show ?case by (metis action_rank_index less_eq_AiModerationAction_def order_antisym)
qed (auto simp: less_eq_AiModerationAction_def less_AiModerationAction_def)

end

datatype AiModerationEnforcementMode = SHADOW | LIMITED | ELEVATED

primrec AiModerationEnforcementMode_value :: "AiModerationEnforcementMode \<Rightarrow> string" where
  "AiModerationEnforcementMode_value SHADOW = ''SHADOW''"
| "AiModerationEnforcementMode_value LIMITED = ''LIMITED''"
| "AiModerationEnforcementMode_value ELEVATED = ''ELEVATED''"

definition all_modes :: "AiModerationEnforcementMode list" where
  "all_modes = [SHADOW, LIMITED, ELEVATED]"

record AiModerationLabelRule =
  risk_threshold :: float_value
  min_action :: AiModerationAction
  max_action :: AiModerationAction

definition AiModerationLabelRule_post_init :: "AiModerationLabelRule \<Rightarrow> error + AiModerationLabelRule" where
  "AiModerationLabelRule_post_init r = checked
     [(\<not> float_between 0 (risk_threshold r) (whole 100),
       ''AI moderation label risk threshold must be between 0 and 100.''),
      (min_action r > max_action r,
       ''AI moderation label minimum action cannot exceed maximum action.'')] r"

section \<open>The policy\<close>

record PlatformAiModerationPolicy =
  policy_platform :: Platform
  blacklist_words :: "codes list"
  allowed_domains :: "codes list"
  policy_labels :: "(codes \<times> AiModerationLabelRule) list"
  blacklist_action :: AiModerationAction
  unapproved_domain_action :: AiModerationAction
  context_window_days :: int
  repeat_offender_threshold :: int
  repeat_offender_action :: AiModerationAction
  escalation_enabled :: bool
  escalation_score_threshold :: float_value
  escalation_half_life_days :: float_value
  excluded_user_ids :: "codes list"
  excluded_role_ids :: "codes list"
  excluded_channel_ids :: "codes list"
  exclude_bots :: bool
  ocr_enabled :: bool
  ocr_failure_mode :: codes
  ocr_max_gif_frames :: int
  ocr_process_empty_result :: bool
  policy_test_mode :: bool
  enforcement_mode :: AiModerationEnforcementMode
  limited_min_confidence :: float_value
  limited_hard_rule_labels :: "codes list"
  beta_enforcement_acknowledged :: bool
  allow_automated_timeout :: bool
  allow_automated_kick :: bool
  allow_automated_ban :: bool

definition automated_punishment :: "PlatformAiModerationPolicy \<Rightarrow> bool" where
  "automated_punishment p \<longleftrightarrow> allow_automated_timeout p \<or> allow_automated_kick p \<or> allow_automated_ban p"

definition PlatformAiModerationPolicy_post_init ::
  "PlatformAiModerationPolicy \<Rightarrow> error + PlatformAiModerationPolicy" where
  "PlatformAiModerationPolicy_post_init p = checked
     [(policy_platform p \<noteq> DISCORD, ''AI moderation policy is not supported by this platform.''),
      (\<not> (1 \<le> context_window_days p \<and> context_window_days p \<le> 3650),
       ''AI moderation context window must be between 1 and 3650 days.''),
      (\<not> (1 \<le> repeat_offender_threshold p \<and> repeat_offender_threshold p \<le> 1000),
       ''AI moderation repeat-offender threshold must be between 1 and 1000.''),
      (\<not> float_between one_tenth (escalation_score_threshold p) (whole 1000),
       ''AI moderation escalation score threshold is invalid.''),
      (\<not> float_between (whole 1) (escalation_half_life_days p) (whole 3650), ''AI moderation escalation half-life is invalid.''),
      (\<not> float_between 0 (limited_min_confidence p) (whole 1),
       ''AI moderation limited confidence must be between 0 and 1.''),
      (ocr_failure_mode p \<noteq> ascii ''SKIP'' \<and> ocr_failure_mode p \<noteq> ascii ''REVIEW'',
       ''AI moderation OCR failure mode is invalid.''),
      (\<not> (1 \<le> ocr_max_gif_frames p \<and> ocr_max_gif_frames p \<le> 24),
       ''AI moderation OCR GIF frame limit must be between 1 and 24.''),
      (limited_hard_rule_labels p = [], ''AI moderation limited hard-rule labels are required.''),
      (enforcement_mode p = ELEVATED \<and> automated_punishment p \<and> \<not> beta_enforcement_acknowledged p,
       ''Elevated automated actions require acknowledgement.'')] p"

text \<open>The defaults of the fields.\<close>

definition default_policy :: PlatformAiModerationPolicy where
  "default_policy =
     \<lparr>policy_platform = DISCORD, blacklist_words = [], allowed_domains = [], policy_labels = [],
      blacklist_action = DELETE_WARN, unapproved_domain_action = REVIEW, context_window_days = 30,
      repeat_offender_threshold = 3, repeat_offender_action = TIMEOUT, escalation_enabled = True,
      escalation_score_threshold = Finite (whole 3), escalation_half_life_days = Finite (whole 30), excluded_user_ids = [],
      excluded_role_ids = [], excluded_channel_ids = [], exclude_bots = True, ocr_enabled = False,
      ocr_failure_mode = ascii ''SKIP'', ocr_max_gif_frames = 6, ocr_process_empty_result = False,
      policy_test_mode = False, enforcement_mode = SHADOW,
      limited_min_confidence = Finite ninety_five_hundredths,
      limited_hard_rule_labels = [ascii ''INVITE'', ascii ''SCAM''], beta_enforcement_acknowledged = False,
      allow_automated_timeout = False, allow_automated_kick = False, allow_automated_ban = False\<rparr>"

lemma default_policy_valid [simp]:
  "PlatformAiModerationPolicy_post_init default_policy = Inr default_policy"
  by (simp add: PlatformAiModerationPolicy_post_init_def default_policy_def float_between_def
      automated_punishment_def)

record PlatformAiModerationPolicyState =
  state_policy :: PlatformAiModerationPolicy
  state_is_default_policy :: bool

section \<open>The summary and the integrations\<close>

record PlatformAiModerationSummary =
  summary_platform :: Platform
  summary_enforcement_mode :: codes
  summary_test_mode :: bool
  summary_is_default_policy :: bool
  covered_channel_count :: int
  log_channel_configured :: bool
  label_count :: int
  blacklist_word_count :: int
  allowed_domain_count :: int
  automated_timeout_enabled :: bool
  automated_kick_enabled :: bool
  automated_ban_enabled :: bool

definition PlatformAiModerationSummary_post_init ::
  "PlatformAiModerationSummary \<Rightarrow> error + PlatformAiModerationSummary" where
  "PlatformAiModerationSummary_post_init s = checked
     [(blank (summary_enforcement_mode s), ''AI moderation enforcement mode must be non-empty.''),
      (list_ex (\<lambda>n. n < 0) [covered_channel_count s, label_count s, blacklist_word_count s, allowed_domain_count s],
       ''AI moderation counts must not be negative.'')] s"

record IntegrationSourceCount =
  source_platform :: codes
  source_total :: int
  source_active :: int

definition IntegrationSourceCount_post_init :: "IntegrationSourceCount \<Rightarrow> error + IntegrationSourceCount" where
  "IntegrationSourceCount_post_init c = checked
     [(blank (source_platform c) \<or> source_total c < 0 \<or> source_active c < 0 \<or> source_active c > source_total c,
       ''Integration source counts are invalid.'')] c"

record PlatformIntegrations =
  integrations_platform :: Platform
  discord_bot_status :: codes
  creator_platforms_status :: codes
  creator_poll_interval_seconds :: int
  integration_sources :: "IntegrationSourceCount list"
  muxivo_core_status :: codes
  database_status :: codes

definition PlatformIntegrations_post_init :: "PlatformIntegrations \<Rightarrow> error + PlatformIntegrations" where
  "PlatformIntegrations_post_init i = checked
     [(creator_poll_interval_seconds i < 1, ''Creator poll interval must be positive.''),
      (list_ex blank [discord_bot_status i, creator_platforms_status i, muxivo_core_status i, database_status i],
       ''Integration statuses must not be blank.'')] i"

datatype RolePurpose = ACTIVITY_ADMIN | ACTIVITY_STREAMER | ACTIVITY_DEVELOPER | PING_STREAM | PING_DEV

primrec RolePurpose_value :: "RolePurpose \<Rightarrow> string" where
  "RolePurpose_value ACTIVITY_ADMIN = ''activity_admin''"
| "RolePurpose_value ACTIVITY_STREAMER = ''activity_streamer''"
| "RolePurpose_value ACTIVITY_DEVELOPER = ''activity_developer''"
| "RolePurpose_value PING_STREAM = ''ping_stream''"
| "RolePurpose_value PING_DEV = ''ping_dev''"

record PlatformRolePurposes =
  roles_platform :: Platform
  roles_assignments :: "(RolePurpose \<times> codes) list"

definition PlatformRolePurposes_post_init :: "PlatformRolePurposes \<Rightarrow> error + PlatformRolePurposes" where
  "PlatformRolePurposes_post_init p = checked
     [(list_ex (\<lambda>(_, role). blank role) (roles_assignments p),
       ''Role purpose assignments must have non-empty role IDs.'')] p"

lemmas policy_post_inits = AiModerationLabelRule_post_init_def PlatformAiModerationPolicy_post_init_def
  PlatformAiModerationSummary_post_init_def IntegrationSourceCount_post_init_def PlatformIntegrations_post_init_def

end
