(* ===== verification/Control_Parsers.thy ===== *)
theory Control_Parsers
  imports Control_Values Candidates Repo_Invitations "HOL-Library.List_Lexorder"
begin

text \<open>
  The readers of \<open>infrastructure/discord_control_api.py\<close> and \<open>twitch_control_api.py\<close>: a JSON answer
  of a bot service becomes a value of \<open>Control_Values\<close>, or PlatformControlUnavailableError. The tables
  of the Unicode database that \<open>str.isalnum\<close>, \<open>str.lower\<close> and \<open>str.isdecimal\<close> read are arguments.
\<close>

section \<open>Reading JSON values\<close>

definition andthen :: "error + 'a \<Rightarrow> ('a \<Rightarrow> error + 'b) \<Rightarrow> error + 'b" where
  "andthen r f = (case r of Inl e \<Rightarrow> Inl e | Inr x \<Rightarrow> f x)"

lemma andthen_simps [simp]: "andthen (Inl e) f = Inl e" "andthen (Inr x) f = f x"
  by (simp_all add: andthen_def)

lemma andthen_Inr: "andthen r f = Inr y \<longleftrightarrow> (\<exists>x. r = Inr x \<and> f x = Inr y)"
  by (cases r) simp_all

lemma andthen_Inl: "andthen r f = Inl e \<longleftrightarrow> r = Inl e \<or> (\<exists>x. r = Inr x \<and> f x = Inl e)"
  by (cases r) auto

type_synonym members = "(codes \<times> json) list"

text \<open>\<open>payload[key]\<close> and \<open>payload.get(key)\<close>\<close>

definition json_item :: "members \<Rightarrow> string \<Rightarrow> error + json" where
  "json_item ms k = (case json_lookup (ascii k) ms of None \<Rightarrow> Inl (KeyError k) | Some v \<Rightarrow> Inr v)"

definition json_get :: "members \<Rightarrow> string \<Rightarrow> json" where
  "json_get ms k = (case json_lookup (ascii k) ms of None \<Rightarrow> JNull | Some v \<Rightarrow> v)"

text \<open>\<open>payload.items()\<close>: a repeated key keeps its first place and its last value.\<close>

definition dict_items :: "members \<Rightarrow> members" where
  "dict_items ms = map (\<lambda>k. (k, the (json_lookup k ms))) (rev (remdups (rev (map fst ms))))"

text \<open>The type tests; a bool is an int in Python, and the source excludes it every time.\<close>

definition wrong_type :: "error + 'a" where
  "wrong_type = Inl (ValueError ''invalid field'')"

definition as_object :: "json \<Rightarrow> error + members" where
  "as_object v = (case v of JObject ms \<Rightarrow> Inr ms | _ \<Rightarrow> wrong_type)"

definition as_list :: "json \<Rightarrow> error + json list" where
  "as_list v = (case v of JList vs \<Rightarrow> Inr vs | _ \<Rightarrow> wrong_type)"

definition as_text :: "json \<Rightarrow> error + codes" where
  "as_text v = (case v of JString t \<Rightarrow> Inr t | _ \<Rightarrow> wrong_type)"

definition as_int :: "json \<Rightarrow> error + int" where
  "as_int v = (case v of JInt i \<Rightarrow> Inr i | _ \<Rightarrow> wrong_type)"

definition as_bool :: "json \<Rightarrow> error + bool" where
  "as_bool v = (case v of JBool b \<Rightarrow> Inr b | _ \<Rightarrow> wrong_type)"

definition optional :: "(json \<Rightarrow> error + 'a) \<Rightarrow> json \<Rightarrow> error + 'a option" where
  "optional f v = (if v = JNull then Inr None else andthen (f v) (\<lambda>x. Inr (Some x)))"

text \<open>\<open>value.strip()\<close> on a value whose type was not tested.\<close>

definition stripped :: "json \<Rightarrow> error + codes" where
  "stripped v = (case v of JString t \<Rightarrow> Inr t | _ \<Rightarrow> Inl (AttributeError ''object has no attribute strip''))"

lemmas json_types = as_object_def as_list_def as_text_def as_int_def as_bool_def wrong_type_def

section \<open>Refusing a payload\<close>

text \<open>\<open>except (KeyError, TypeError, ValueError)\<close>\<close>

definition is_malformed :: "error \<Rightarrow> bool" where
  "is_malformed e = (case e of
     KeyError _ \<Rightarrow> True | TypeError _ \<Rightarrow> True | ValueError _ \<Rightarrow> True | ConfigurationError _ \<Rightarrow> True
   | EmailPasswordRegistrationRejectedError _ \<Rightarrow> True | _ \<Rightarrow> False)"

definition unavailable :: "string \<Rightarrow> error + 'a" where
  "unavailable msg = Inl (PlatformControlUnavailableError msg)"

definition refusing :: "string \<Rightarrow> error + 'a \<Rightarrow> error + 'a" where
  "refusing msg r = (case r of Inl e \<Rightarrow> if is_malformed e then unavailable msg else Inl e | Inr x \<Rightarrow> Inr x)"

text \<open>The test at the head of every reader: an object with a part of the given type.\<close>

definition payload_part :: "(json \<Rightarrow> error + 'a) \<Rightarrow> string \<Rightarrow> string \<Rightarrow> json \<Rightarrow> error + 'a" where
  "payload_part kind key msg payload =
     (case andthen (as_object payload) (\<lambda>ms. kind (json_get ms key)) of
        Inl _ \<Rightarrow> unavailable msg
      | Inr x \<Rightarrow> Inr x)"

section \<open>Modules and health\<close>

definition all_platforms :: "Platform list" where
  "all_platforms = [DISCORD, TWITCH, TELEGRAM]"

definition parse_module :: "json \<Rightarrow> error + ControlModule" where
  "parse_module item =
     andthen (as_object item) (\<lambda>ms.
     andthen (collect (\<lambda>k. as_text (json_get ms k))
       [''key'', ''display_name'', ''platform'', ''capability'', ''status'']) (\<lambda>fields.
     andthen (text_enum Platform_value all_platforms (fields ! 2)) (\<lambda>platform.
     andthen (text_enum ModuleCapability_value [CAPABILITY_VIEW, CAPABILITY_MANAGE] (fields ! 3)) (\<lambda>capability.
     andthen (text_enum ModuleStatus_value
       [MODULE_AVAILABLE, MODULE_UNAVAILABLE, MODULE_REQUIRES_REAUTHORIZATION] (fields ! 4)) (\<lambda>status.
     andthen (ControlModule_post_init
       \<lparr>module_key = fields ! 0, module_display_name = fields ! 1, module_platform = platform,
        module_capability = capability, module_status = status\<rparr>) (\<lambda>module.
     if module_platform module \<noteq> DISCORD
     then Inl (ValueError ''Discord adapter cannot return another platform module.'') else Inr module))))))"

definition parse_discord_modules :: "json \<Rightarrow> error + ControlModule list" where
  "parse_discord_modules payload =
     andthen (payload_part as_list ''items'' ''Discord Control API returned an invalid module payload.'' payload)
       (\<lambda>items. refusing ''Discord Control API returned an invalid module.'' (collect parse_module items))"

record unicode_tables =
  alnum :: "nat \<Rightarrow> bool"
  lowered :: "nat \<Rightarrow> codes"
  decimal_digit :: "nat \<Rightarrow> nat option"

definition health_signal_key :: "unicode_tables \<Rightarrow> string \<Rightarrow> codes \<Rightarrow> codes" where
  "health_signal_key u pre name =
     ascii pre @ strip_codes (\<lambda>c. c = 45) (concat (map (\<lambda>c. if alnum u c then lowered u c else [45]) name))"

definition parse_health_signal :: "unicode_tables \<Rightarrow> string \<Rightarrow> json \<Rightarrow> error + HealthSignal" where
  "parse_health_signal u pre item =
     andthen (as_object item) (\<lambda>ms.
     andthen (collect (json_item ms) [''name'', ''value'', ''status'']) (\<lambda>fields.
     andthen (collect as_text fields) (\<lambda>texts.
     andthen (optional as_int (json_get ms ''latency_ms'')) (\<lambda>latency.
     andthen (text_enum HealthStatus_value [HEALTH_OPERATIONAL, HEALTH_DEGRADED] (texts ! 2)) (\<lambda>status.
     HealthSignal_post_init
       \<lparr>signal_key = health_signal_key u pre (texts ! 0), signal_display_name = texts ! 0,
        signal_value = texts ! 1, signal_status = status, signal_latency_ms = latency\<rparr>)))))"

definition parse_discord_health :: "unicode_tables \<Rightarrow> json \<Rightarrow> error + PlatformHealth" where
  "parse_discord_health u payload =
     andthen (payload_part as_list ''signals'' ''Discord Control API returned an invalid health payload.'' payload)
       (\<lambda>items. andthen (refusing ''Discord Control API returned an invalid health signal.''
         (collect (parse_health_signal u ''discord.'') items)) (\<lambda>signals.
       Inr \<lparr>health_platform = DISCORD, health_signals = signals\<rparr>))"

definition parse_twitch_health :: "unicode_tables \<Rightarrow> json \<Rightarrow> error + PlatformHealth" where
  "parse_twitch_health u payload =
     andthen (payload_part as_list ''signals'' ''Twitch Control API returned an invalid health payload.'' payload)
       (\<lambda>items. andthen (refusing ''Twitch Control API returned an invalid health signal.''
         (collect (parse_health_signal u ''twitch.'') items)) (\<lambda>signals.
       Inr \<lparr>health_platform = TWITCH, health_signals = signals\<rparr>))"

section \<open>Decisions\<close>

definition parse_decision :: "string \<Rightarrow> string \<Rightarrow> json \<Rightarrow> error + ConnectionReconciliationDecision" where
  "parse_decision invalid_payload invalid_decision payload =
     (case as_object payload of
        Inl _ \<Rightarrow> unavailable invalid_payload
      | Inr ms \<Rightarrow> refusing invalid_decision
          (andthen (collect (json_item ms) [''target_status'', ''reason'']) (\<lambda>fields.
           andthen (collect as_text fields) (\<lambda>texts.
           andthen (text_enum ConnectionStatus_value
             [CONN_PENDING, CONN_ACTIVE, DEGRADED, REAUTH_REQUIRED, CONN_DISCONNECTED] (texts ! 0)) (\<lambda>target.
           andthen (text_enum ConnectionReconciliationReason_value
             [HEALTHY, PREFLIGHT_FAILED, TOKEN_EXPIRED, SCOPES_MISSING, PLATFORM_UNREACHABLE, RESOURCE_REMOVED]
             (texts ! 1)) (\<lambda>reason.
           ConnectionReconciliationDecision_post_init
             \<lparr>decision_target_status = target, decision_reason = reason\<rparr>))))))"

definition parse_connection_reconciliation_decision :: "json \<Rightarrow> error + ConnectionReconciliationDecision" where
  "parse_connection_reconciliation_decision = parse_decision
     ''Discord Control API returned an invalid connection reconciliation payload.''
     ''Discord Control API returned an invalid connection reconciliation decision.''"

definition parse_twitch_connection_reconciliation_decision :: "json \<Rightarrow> error + ConnectionReconciliationDecision" where
  "parse_twitch_connection_reconciliation_decision = parse_decision
     ''Twitch Control API returned an invalid connection reconciliation payload.''
     ''Twitch Control API returned an invalid connection reconciliation decision.''"

definition parse_verified :: "string \<Rightarrow> json \<Rightarrow> error + bool" where
  "parse_verified msg payload = payload_part as_bool ''verified'' msg payload"

section \<open>Counters\<close>

definition parse_discord_dashboard :: "json \<Rightarrow> error + PlatformDashboardSummary" where
  "parse_discord_dashboard payload =
     andthen (payload_part as_object ''metrics'' ''Discord Control API returned an invalid dashboard payload.'' payload)
       (\<lambda>metrics. refusing ''Discord Control API returned an invalid dashboard summary.''
         (andthen (collect (json_item metrics) [''messages_today'', ''ai_flagged_today'', ''creator_sources'']) (\<lambda>fields.
          andthen (collect as_int fields) (\<lambda>counters.
          andthen (optional as_int (json_get metrics ''bot_latency_ms'')) (\<lambda>latency.
          PlatformDashboardSummary_post_init
            \<lparr>dashboard_platform = DISCORD, messages_today = counters ! 0, ai_flagged_today = counters ! 1,
             creator_sources = counters ! 2, bot_latency_ms = latency\<rparr>)))))"

definition parse_discord_server_statistics :: "json \<Rightarrow> error + PlatformServerStatistics" where
  "parse_discord_server_statistics payload =
     andthen (payload_part as_object ''summary'' ''Discord Control API returned an invalid server statistics payload.'' payload)
       (\<lambda>summary. refusing ''Discord Control API returned invalid aggregate server statistics.''
         (andthen (collect (json_item summary) [''period_days'', ''total_messages'', ''active_users'',
            ''active_channels'', ''current_member_count'', ''total_voice_minutes'', ''joins'', ''leaves'',
            ''moderation_events'']) (\<lambda>fields.
          andthen (collect as_int fields) (\<lambda>values.
          PlatformServerStatistics_post_init
            \<lparr>statistics_platform = DISCORD, period_days = values ! 0, total_messages = values ! 1,
             active_users = values ! 2, active_channels = values ! 3, current_member_count = values ! 4,
             total_voice_minutes = values ! 5, joins = values ! 6, leaves = values ! 7,
             moderation_events = values ! 8\<rparr>))))"

section \<open>Timeline and channels\<close>

text \<open>
  The events and the channels are built from fields whose type was not tested: the first use of such a
  field is \<open>strip\<close> in \<open>__post_init__\<close>.
\<close>

definition timeline_event :: "members \<Rightarrow> error + PlatformAuditTimelineEvent" where
  "timeline_event ms =
     andthen (json_item ms ''event_type'') (\<lambda>event_type.
     andthen (json_item ms ''occurred_at'') (\<lambda>occurred_at.
     andthen (stripped event_type) (\<lambda>e.
     if blank e then Inl (ValueError ''Audit timeline events require a type and occurrence time.'') else
     andthen (stripped occurred_at) (\<lambda>t.
     if blank t then Inl (ValueError ''Audit timeline events require a type and occurrence time.'')
     else Inr \<lparr>timeline_event_type = e, timeline_occurred_at = t\<rparr>))))"

definition objects_of :: "json list \<Rightarrow> members list" where
  "objects_of items = List.map_filter (\<lambda>v. case v of JObject ms \<Rightarrow> Some ms | _ \<Rightarrow> None) items"

definition parse_discord_audit_timeline :: "json \<Rightarrow> error + PlatformAuditTimeline" where
  "parse_discord_audit_timeline payload =
     andthen (payload_part as_object ''timeline'' ''Discord Control API returned an invalid audit timeline payload.'' payload)
       (\<lambda>timeline. refusing ''Discord Control API returned invalid sanitized audit timeline data.''
         (andthen (json_item timeline ''items'') (\<lambda>items_value.
          andthen (json_item timeline ''limit'') (\<lambda>limit_value.
          andthen (as_list items_value) (\<lambda>items.
          andthen (as_int limit_value) (\<lambda>limit.
          andthen (collect timeline_event (objects_of items)) (\<lambda>events.
          if length events \<noteq> length items then Inl (ValueError ''Audit timeline item must be an object.'')
          else PlatformAuditTimeline_post_init
            \<lparr>timeline_platform = DISCORD, timeline_events = events, timeline_limit = limit\<rparr>)))))))"

definition json_enum :: "('e \<Rightarrow> string) \<Rightarrow> 'e list \<Rightarrow> json \<Rightarrow> error + 'e" where
  "json_enum val members v =
     (case v of JString t \<Rightarrow> text_enum val members t | _ \<Rightarrow> Inl (ValueError ''not a valid value''))"

definition platform_channel :: "members \<Rightarrow> error + PlatformChannel" where
  "platform_channel ms =
     andthen (json_item ms ''id'') (\<lambda>channel.
     andthen (json_item ms ''name'') (\<lambda>name.
     andthen (json_item ms ''kind'') (\<lambda>kind_value.
     andthen (json_enum ChannelKind_value [CHANNEL_TEXT, CHANNEL_VOICE, CHANNEL_ANNOUNCEMENT] kind_value) (\<lambda>kind.
     andthen (stripped channel) (\<lambda>i.
     if blank i then Inl (ValueError ''Channel identifier and name must be non-empty.'') else
     andthen (stripped name) (\<lambda>n.
     if blank n then Inl (ValueError ''Channel identifier and name must be non-empty.'')
     else Inr \<lparr>channel_id = i, channel_name = n, channel_kind = kind\<rparr>))))))"

definition parse_discord_channel_catalog :: "json \<Rightarrow> error + PlatformChannelCatalog" where
  "parse_discord_channel_catalog payload =
     andthen (payload_part as_list ''items'' ''Discord Control API returned an invalid channel catalog payload.'' payload)
       (\<lambda>items. refusing ''Discord Control API returned an invalid channel catalog.''
         (andthen (collect platform_channel (objects_of items)) (\<lambda>channels.
          if length channels \<noteq> length items then Inl (ValueError ''Channel item must be an object.'')
          else Inr \<lparr>channels_platform = DISCORD, channels_items = channels\<rparr>)))"

definition parse_discord_channel_purposes :: "json \<Rightarrow> error + PlatformChannelPurposes" where
  "parse_discord_channel_purposes payload =
     andthen (payload_part as_object ''items'' ''Discord Control API returned an invalid channel purposes payload.'' payload)
       (\<lambda>items. refusing ''Discord Control API returned invalid channel purposes.''
         (andthen (collect (\<lambda>(purpose, channel). andthen (text_enum ChannelPurpose_value all_purposes purpose)
            (\<lambda>p. Inr (p, channel))) (dict_items items)) (\<lambda>assignments.
          andthen (collect (\<lambda>(p, channel). andthen (as_text channel) (\<lambda>t. Inr (p, t))) assignments) (\<lambda>texts.
          PlatformChannelPurposes_post_init
            \<lparr>purposes_platform = DISCORD, purposes_assignments = texts\<rparr>))))"

section \<open>Settings\<close>

definition parse_discord_bot_settings :: "json \<Rightarrow> error + PlatformBotSettings" where
  "parse_discord_bot_settings payload =
     andthen (payload_part as_object ''settings'' ''Discord Control API returned an invalid bot settings payload.'' payload)
       (\<lambda>settings. refusing ''Discord Control API returned invalid bot settings.''
         (andthen (collect (json_item settings) [''subscription_tier'', ''activity_rotation_enabled'',
            ''activity_rotation_interval_seconds'', ''retention'']) (\<lambda>fields.
          andthen (as_text (fields ! 0)) (\<lambda>tier.
          andthen (as_bool (fields ! 1)) (\<lambda>enabled.
          andthen (as_int (fields ! 2)) (\<lambda>interval.
          andthen (as_object (fields ! 3)) (\<lambda>retention.
          andthen (collect (\<lambda>(key, n). andthen (as_int n) (\<lambda>i. Inr (key, i))) (dict_items retention)) (\<lambda>retained.
          PlatformBotSettings_post_init
            \<lparr>settings_platform = DISCORD, subscription_tier = tier, activity_rotation_enabled = enabled,
             activity_rotation_interval_seconds = interval, retention_days = sort_key fst retained\<rparr>))))))))"

definition parse_discord_welcome_settings :: "json \<Rightarrow> error + PlatformWelcomeSettings" where
  "parse_discord_welcome_settings payload =
     andthen (payload_part as_object ''settings'' ''Discord Control API returned an invalid welcome settings payload.'' payload)
       (\<lambda>settings. refusing ''Discord Control API returned invalid welcome settings.''
         (andthen (collect (json_item settings) [''title'', ''description'', ''color'', ''is_enabled'']) (\<lambda>fields.
          andthen (as_text (fields ! 0)) (\<lambda>title.
          andthen (as_text (fields ! 1)) (\<lambda>description.
          andthen (as_int (fields ! 2)) (\<lambda>color.
          andthen (as_bool (fields ! 3)) (\<lambda>enabled.
          andthen (collect (\<lambda>k. optional as_text (json_get settings k)) [''thumbnail_url'', ''footer_text'',
            ''footer_icon_url'', ''rules_channel_id'', ''roles_channel_id'']) (\<lambda>strings.
          PlatformWelcomeSettings_post_init
            \<lparr>welcome_platform = DISCORD, welcome_title = title, welcome_description = description,
             welcome_thumbnail_url = strings ! 0, welcome_footer_text = strings ! 1,
             welcome_footer_icon_url = strings ! 2, welcome_color = color, welcome_is_enabled = enabled,
             welcome_rules_channel_id = strings ! 3, welcome_roles_channel_id = strings ! 4\<rparr>))))))))"

lemmas control_parsers = parse_discord_modules_def parse_discord_health_def parse_twitch_health_def
  parse_connection_reconciliation_decision_def parse_twitch_connection_reconciliation_decision_def
  parse_verified_def parse_discord_dashboard_def parse_discord_server_statistics_def
  parse_discord_audit_timeline_def parse_discord_channel_catalog_def parse_discord_channel_purposes_def
  parse_discord_bot_settings_def parse_discord_welcome_settings_def

section \<open>Every payload is read or refused\<close>

text \<open>\<open>only_malformed r\<close>: if the reading fails, it does so with an exception that the source maps.\<close>

definition only_malformed :: "error + 'a \<Rightarrow> bool" where
  "only_malformed r \<longleftrightarrow> (case r of Inl e \<Rightarrow> is_malformed e | Inr _ \<Rightarrow> True)"

lemma only_malformed_simps [simp]:
  "only_malformed (Inr x)" "only_malformed (Inl (ValueError m))" "only_malformed (Inl (KeyError m))"
  by (simp_all add: only_malformed_def is_malformed_def)

lemma only_malformed_andthen [intro]:
  "only_malformed r \<Longrightarrow> (\<And>x. r = Inr x \<Longrightarrow> only_malformed (f x)) \<Longrightarrow> only_malformed (andthen r f)"
  by (cases r) (simp_all add: only_malformed_def)

lemma only_malformed_collect [intro]:
  "(\<And>x. only_malformed (f x)) \<Longrightarrow> only_malformed (collect f xs)"
proof (induction xs)
  case (Cons x xs)
  then have "only_malformed (f x)" "only_malformed (collect f xs)" by blast+
  then show ?case by (simp add: only_malformed_def split: sum.splits)
qed simp

lemma only_malformed_checked [intro]: "only_malformed (checked conds x)"
  using checked_Inl [of conds x] by (cases "checked conds x") (auto simp: only_malformed_def is_malformed_def)

lemma only_malformed_readers [simp, intro]:
  "only_malformed (json_item ms k)" "only_malformed (as_object v)" "only_malformed (as_list v)"
  "only_malformed (as_text v)" "only_malformed (as_int v)" "only_malformed (as_bool v)"
  "only_malformed (text_enum val members t)" "only_malformed (json_enum val members v)"
  by (auto simp: json_item_def json_types text_enum_def json_enum_def split: option.split json.split)

lemma only_malformed_optional [intro]: "(\<And>v. only_malformed (f v)) \<Longrightarrow> only_malformed (optional f v)"
  unfolding optional_def by (cases "v = JNull") auto

lemma only_malformed_cases [intro]:
  "(b \<Longrightarrow> only_malformed r) \<Longrightarrow> (\<not> b \<Longrightarrow> only_malformed q) \<Longrightarrow> only_malformed (if b then r else q)"
  "(\<And>x y. p = (x, y) \<Longrightarrow> only_malformed (g x y)) \<Longrightarrow> only_malformed (case p of (x, y) \<Rightarrow> g x y)"
  by (simp_all split: prod.split)

lemmas malformed_rules = only_malformed_andthen only_malformed_collect only_malformed_checked
  only_malformed_readers only_malformed_optional only_malformed_cases only_malformed_simps

lemma refusing_Inl: "only_malformed r \<Longrightarrow> refusing msg r = Inl e \<Longrightarrow> e = PlatformControlUnavailableError msg"
  by (cases r) (auto simp: refusing_def only_malformed_def unavailable_def split: if_splits)

lemma refusing_Inr [simp]: "refusing msg r = Inr x \<longleftrightarrow> r = Inr x"
  by (cases r) (auto simp: refusing_def unavailable_def)

lemma payload_part_Inl: "payload_part kind key msg payload = Inl e \<Longrightarrow> e = PlatformControlUnavailableError msg"
  by (auto simp: payload_part_def unavailable_def split: sum.splits)

end
