(* ===== verification/Policy_Contract.thy ===== *)
theory Policy_Contract
  imports Control_Policy Control_Parsers
begin

text \<open>
  The browser contract of the AI moderation policy (\<open>contracts/v1/ai_moderation_policy.py\<close>): the request
  with the constraints of its fields and its validator, and the conversions from and to the domain policy.
  A violated constraint is a ValidationError of Pydantic, a subclass of ValueError.
\<close>

section \<open>Requests\<close>

record AiModerationLabelRuleRequest =
  lr_risk_threshold :: float_value
  lr_min_action :: codes
  lr_max_action :: codes

definition is_action_text :: "codes \<Rightarrow> bool" where
  "is_action_text t \<longleftrightarrow> list_ex (\<lambda>a. t = ascii (AiModerationAction_value a)) all_actions"

definition is_mode_text :: "codes \<Rightarrow> bool" where
  "is_mode_text t \<longleftrightarrow> list_ex (\<lambda>m. t = ascii (AiModerationEnforcementMode_value m)) all_modes"

definition AiModerationLabelRuleRequest_validate ::
  "AiModerationLabelRuleRequest \<Rightarrow> error + AiModerationLabelRuleRequest" where
  "AiModerationLabelRuleRequest_validate r = checked
     [(\<not> float_between 0 (lr_risk_threshold r) (whole 100), ''risk_threshold''),
      (\<not> is_action_text (lr_min_action r), ''min_action''), (\<not> is_action_text (lr_max_action r), ''max_action'')] r"

record AiModerationPolicyUpdateRequest =
  pr_blacklist_words :: "codes list"
  pr_allowed_domains :: "codes list"
  pr_labels :: "(codes \<times> AiModerationLabelRuleRequest) list"
  pr_blacklist_action :: codes
  pr_unapproved_domain_action :: codes
  pr_context_window_days :: int
  pr_repeat_offender_threshold :: int
  pr_repeat_offender_action :: codes
  pr_escalation_enabled :: bool
  pr_escalation_score_threshold :: float_value
  pr_escalation_half_life_days :: float_value
  pr_excluded_user_ids :: "codes list"
  pr_excluded_role_ids :: "codes list"
  pr_excluded_channel_ids :: "codes list"
  pr_exclude_bots :: bool
  pr_ocr_enabled :: bool
  pr_ocr_failure_mode :: codes
  pr_ocr_max_gif_frames :: int
  pr_ocr_process_empty_result :: bool
  pr_test_mode :: bool
  pr_enforcement_mode :: codes
  pr_limited_min_confidence :: float_value
  pr_limited_hard_rule_labels :: "codes list"
  pr_beta_enforcement_acknowledged :: bool
  pr_allow_automated_timeout :: bool
  pr_allow_automated_kick :: bool
  pr_allow_automated_ban :: bool

definition AiModerationPolicyUpdateRequest_validate ::
  "AiModerationPolicyUpdateRequest \<Rightarrow> error + AiModerationPolicyUpdateRequest" where
  "AiModerationPolicyUpdateRequest_validate q = checked
     [(200 < length (pr_blacklist_words q), ''blacklist_words''),
      (200 < length (pr_allowed_domains q), ''allowed_domains''),
      (32 < length (pr_labels q), ''labels''),
      (\<not> list_all (\<lambda>(_, r). AiModerationLabelRuleRequest_validate r = Inr r) (pr_labels q), ''labels''),
      (\<not> is_action_text (pr_blacklist_action q), ''blacklist_action''),
      (\<not> is_action_text (pr_unapproved_domain_action q), ''unapproved_domain_action''),
      (\<not> (1 \<le> pr_context_window_days q \<and> pr_context_window_days q \<le> 3650), ''context_window_days''),
      (\<not> (1 \<le> pr_repeat_offender_threshold q \<and> pr_repeat_offender_threshold q \<le> 1000),
       ''repeat_offender_threshold''),
      (\<not> is_action_text (pr_repeat_offender_action q), ''repeat_offender_action''),
      (\<not> float_between one_tenth (pr_escalation_score_threshold q) (whole 1000), ''escalation_score_threshold''),
      (\<not> float_between (whole 1) (pr_escalation_half_life_days q) (whole 3650), ''escalation_half_life_days''),
      (500 < length (pr_excluded_user_ids q), ''excluded_user_ids''),
      (500 < length (pr_excluded_role_ids q), ''excluded_role_ids''),
      (500 < length (pr_excluded_channel_ids q), ''excluded_channel_ids''),
      (pr_ocr_failure_mode q \<noteq> ascii ''SKIP'' \<and> pr_ocr_failure_mode q \<noteq> ascii ''REVIEW'', ''ocr_failure_mode''),
      (\<not> (1 \<le> pr_ocr_max_gif_frames q \<and> pr_ocr_max_gif_frames q \<le> 24), ''ocr_max_gif_frames''),
      (\<not> is_mode_text (pr_enforcement_mode q), ''enforcement_mode''),
      (\<not> float_between 0 (pr_limited_min_confidence q) (whole 1), ''limited_min_confidence''),
      (pr_enforcement_mode q = ascii ''ELEVATED''
         \<and> (pr_allow_automated_timeout q \<or> pr_allow_automated_kick q \<or> pr_allow_automated_ban q)
         \<and> \<not> pr_beta_enforcement_acknowledged q, ''Elevated automated actions require acknowledgement.'')] q"

section \<open>Conversions\<close>

definition action_of_text :: "codes \<Rightarrow> error + AiModerationAction" where
  "action_of_text = text_enum AiModerationAction_value all_actions"

definition mode_of_text :: "codes \<Rightarrow> error + AiModerationEnforcementMode" where
  "mode_of_text = text_enum AiModerationEnforcementMode_value all_modes"

definition label_to_domain :: "AiModerationLabelRuleRequest \<Rightarrow> error + AiModerationLabelRule" where
  "label_to_domain r =
     andthen (action_of_text (lr_min_action r)) (\<lambda>low.
     andthen (action_of_text (lr_max_action r)) (\<lambda>high.
     AiModerationLabelRule_post_init
       \<lparr>risk_threshold = lr_risk_threshold r, min_action = low, max_action = high\<rparr>))"

definition to_domain_policy :: "AiModerationPolicyUpdateRequest \<Rightarrow> error + PlatformAiModerationPolicy" where
  "to_domain_policy q =
     andthen (collect (\<lambda>(label, r). andthen (label_to_domain r) (\<lambda>rule. Inr (label, rule))) (pr_labels q)) (\<lambda>labels.
     andthen (action_of_text (pr_blacklist_action q)) (\<lambda>a1.
     andthen (action_of_text (pr_unapproved_domain_action q)) (\<lambda>a2.
     andthen (action_of_text (pr_repeat_offender_action q)) (\<lambda>a3.
     andthen (mode_of_text (pr_enforcement_mode q)) (\<lambda>mode.
     PlatformAiModerationPolicy_post_init
       \<lparr>policy_platform = DISCORD, blacklist_words = pr_blacklist_words q,
        allowed_domains = pr_allowed_domains q, policy_labels = labels, blacklist_action = a1,
        unapproved_domain_action = a2, context_window_days = pr_context_window_days q,
        repeat_offender_threshold = pr_repeat_offender_threshold q, repeat_offender_action = a3,
        escalation_enabled = pr_escalation_enabled q,
        escalation_score_threshold = pr_escalation_score_threshold q,
        escalation_half_life_days = pr_escalation_half_life_days q,
        excluded_user_ids = pr_excluded_user_ids q, excluded_role_ids = pr_excluded_role_ids q,
        excluded_channel_ids = pr_excluded_channel_ids q, exclude_bots = pr_exclude_bots q,
        ocr_enabled = pr_ocr_enabled q, ocr_failure_mode = pr_ocr_failure_mode q,
        ocr_max_gif_frames = pr_ocr_max_gif_frames q,
        ocr_process_empty_result = pr_ocr_process_empty_result q, policy_test_mode = pr_test_mode q,
        enforcement_mode = mode, limited_min_confidence = pr_limited_min_confidence q,
        limited_hard_rule_labels = pr_limited_hard_rule_labels q,
        beta_enforcement_acknowledged = pr_beta_enforcement_acknowledged q,
        allow_automated_timeout = pr_allow_automated_timeout q,
        allow_automated_kick = pr_allow_automated_kick q, allow_automated_ban = pr_allow_automated_ban q\<rparr>)))))"

definition label_from_domain :: "AiModerationLabelRule \<Rightarrow> error + AiModerationLabelRuleRequest" where
  "label_from_domain rule = AiModerationLabelRuleRequest_validate
     \<lparr>lr_risk_threshold = risk_threshold rule, lr_min_action = ascii (AiModerationAction_value (min_action rule)),
      lr_max_action = ascii (AiModerationAction_value (max_action rule))\<rparr>"

definition from_domain_policy :: "PlatformAiModerationPolicy \<Rightarrow> error + AiModerationPolicyUpdateRequest" where
  "from_domain_policy p =
     andthen (collect (\<lambda>(label, rule). andthen (label_from_domain rule) (\<lambda>r. Inr (label, r))) (policy_labels p)) (\<lambda>labels.
     AiModerationPolicyUpdateRequest_validate
       \<lparr>pr_blacklist_words = blacklist_words p, pr_allowed_domains = allowed_domains p,
        pr_labels = labels, pr_blacklist_action = ascii (AiModerationAction_value (blacklist_action p)),
        pr_unapproved_domain_action = ascii (AiModerationAction_value (unapproved_domain_action p)),
        pr_context_window_days = context_window_days p,
        pr_repeat_offender_threshold = repeat_offender_threshold p,
        pr_repeat_offender_action = ascii (AiModerationAction_value (repeat_offender_action p)),
        pr_escalation_enabled = escalation_enabled p,
        pr_escalation_score_threshold = escalation_score_threshold p,
        pr_escalation_half_life_days = escalation_half_life_days p,
        pr_excluded_user_ids = excluded_user_ids p, pr_excluded_role_ids = excluded_role_ids p,
        pr_excluded_channel_ids = excluded_channel_ids p, pr_exclude_bots = exclude_bots p,
        pr_ocr_enabled = ocr_enabled p, pr_ocr_failure_mode = ocr_failure_mode p,
        pr_ocr_max_gif_frames = ocr_max_gif_frames p,
        pr_ocr_process_empty_result = ocr_process_empty_result p, pr_test_mode = policy_test_mode p,
        pr_enforcement_mode = ascii (AiModerationEnforcementMode_value (enforcement_mode p)),
        pr_limited_min_confidence = limited_min_confidence p,
        pr_limited_hard_rule_labels = limited_hard_rule_labels p,
        pr_beta_enforcement_acknowledged = beta_enforcement_acknowledged p,
        pr_allow_automated_timeout = allow_automated_timeout p,
        pr_allow_automated_kick = allow_automated_kick p, pr_allow_automated_ban = allow_automated_ban p\<rparr>)"


section \<open>Nothing is lost between the editor and the domain\<close>

lemma enumerations [simp]:
  "action_of_text (ascii (AiModerationAction_value a)) = Inr a"
  "mode_of_text (ascii (AiModerationEnforcementMode_value m)) = Inr m"
  by (cases a; cases m; simp add: action_of_text_def mode_of_text_def text_enum_def all_actions_def all_modes_def ascii_def)+

lemma text_enum_Inr: "text_enum val members t = Inr e \<Longrightarrow> t = ascii (val e)"
  by (auto simp: text_enum_def find_Some_iff split: option.splits)

lemma texts_of_enumerations:
  "action_of_text t = Inr a \<longleftrightarrow> t = ascii (AiModerationAction_value a)"
  "mode_of_text t = Inr m \<longleftrightarrow> t = ascii (AiModerationEnforcementMode_value m)"
  using enumerations text_enum_Inr unfolding action_of_text_def mode_of_text_def by metis+

lemma is_enumerations [simp]:
  "is_action_text (ascii (AiModerationAction_value a))" "is_mode_text (ascii (AiModerationEnforcementMode_value m))"
  by (cases a; cases m; simp add: is_action_text_def is_mode_text_def all_actions_def all_modes_def)+

lemma mode_value_elevated: "ascii (AiModerationEnforcementMode_value m) = ascii ''ELEVATED'' \<longleftrightarrow> m = ELEVATED"
  by (cases m) (simp_all add: ascii_def)

definition valid_label :: "AiModerationLabelRule \<Rightarrow> bool" where
  "valid_label r \<longleftrightarrow> AiModerationLabelRule_post_init r = Inr r"

lemma label_round_trip:
  "valid_label rule \<Longrightarrow> \<exists>r. label_from_domain rule = Inr r \<and> label_to_domain r = Inr rule
     \<and> AiModerationLabelRuleRequest_validate r = Inr r"
  by (cases rule) (auto simp: valid_label_def AiModerationLabelRule_post_init_def label_from_domain_def
      AiModerationLabelRuleRequest_validate_def label_to_domain_def split: if_splits)

lemma label_back:
  "label_to_domain r = Inr rule \<Longrightarrow> valid_label rule \<and> label_from_domain rule = Inr r"
  by (cases r) (auto simp: andthen_Inr valid_label_def AiModerationLabelRule_post_init_def label_from_domain_def
      AiModerationLabelRuleRequest_validate_def label_to_domain_def texts_of_enumerations split: if_splits)

definition labels_to_domain where
  "labels_to_domain = collect (\<lambda>(label, r). andthen (label_to_domain r) (\<lambda>rule. Inr (label, rule)))"

definition labels_from_domain where
  "labels_from_domain = collect (\<lambda>(label, rule). andthen (label_from_domain rule) (\<lambda>r. Inr (label, r)))"

lemma labels_round_trip:
  "list_all (\<lambda>(_, rule). valid_label rule) ls \<Longrightarrow>
   \<exists>rs. labels_from_domain ls = Inr rs \<and> labels_to_domain rs = Inr ls \<and> length rs = length ls
      \<and> list_all (\<lambda>(_, r). AiModerationLabelRuleRequest_validate r = Inr r) rs"
proof (induction ls)
  case (Cons x ls)
  obtain label rule where x: "x = (label, rule)" by fastforce
  with Cons obtain rs where rs: "labels_from_domain ls = Inr rs" "labels_to_domain rs = Inr ls"
      "length rs = length ls" "list_all (\<lambda>(_, r). AiModerationLabelRuleRequest_validate r = Inr r) rs"
    by auto
  from Cons.prems x label_round_trip [of rule] obtain r where
    "label_from_domain rule = Inr r" "label_to_domain r = Inr rule" "AiModerationLabelRuleRequest_validate r = Inr r"
    by auto
  with rs x show ?case
    by (intro exI [of _ "(label, r) # rs"]) (simp add: labels_from_domain_def labels_to_domain_def)
qed (simp add: labels_from_domain_def labels_to_domain_def)

lemma labels_back:
  "labels_to_domain rs = Inr ls \<Longrightarrow> labels_from_domain ls = Inr rs \<and> list_all (\<lambda>(_, rule). valid_label rule) ls"
proof (induction rs arbitrary: ls)
  case (Cons x rs)
  then show ?case
    by (cases x) (fastforce simp: labels_to_domain_def labels_from_domain_def andthen_Inr dest: label_back split: sum.splits)
qed (simp add: labels_from_domain_def labels_to_domain_def)

lemma labels_back_length: "labels_to_domain rs = Inr ls \<Longrightarrow> length ls = length rs"
  unfolding labels_to_domain_def
  by (induction rs arbitrary: ls) (auto split: sum.splits)

text \<open>The sizes that the contract admits and the domain does not ask for.\<close>

definition fits_contract :: "PlatformAiModerationPolicy \<Rightarrow> bool" where
  "fits_contract p \<longleftrightarrow> length (blacklist_words p) \<le> 200 \<and> length (allowed_domains p) \<le> 200
     \<and> length (policy_labels p) \<le> 32 \<and> length (excluded_user_ids p) \<le> 500
     \<and> length (excluded_role_ids p) \<le> 500 \<and> length (excluded_channel_ids p) \<le> 500"

definition valid_policy :: "PlatformAiModerationPolicy \<Rightarrow> bool" where
  "valid_policy p \<longleftrightarrow> PlatformAiModerationPolicy_post_init p = Inr p
     \<and> list_all (\<lambda>(_, rule). valid_label rule) (policy_labels p)"

text \<open>The conditions of both sides as conjunctions, and both records as the lists of their fields.\<close>

lemma policy_accepted:
  "PlatformAiModerationPolicy_post_init p = Inr p' \<longleftrightarrow> p' = p \<and> policy_platform p = DISCORD
   \<and> 1 \<le> context_window_days p \<and> context_window_days p \<le> 3650
   \<and> 1 \<le> repeat_offender_threshold p \<and> repeat_offender_threshold p \<le> 1000
   \<and> float_between one_tenth (escalation_score_threshold p) (whole 1000)
   \<and> float_between (whole 1) (escalation_half_life_days p) (whole 3650) \<and> float_between 0 (limited_min_confidence p) (whole 1)
   \<and> (ocr_failure_mode p = ascii ''SKIP'' \<or> ocr_failure_mode p = ascii ''REVIEW'')
   \<and> 1 \<le> ocr_max_gif_frames p \<and> ocr_max_gif_frames p \<le> 24 \<and> limited_hard_rule_labels p \<noteq> []
   \<and> (enforcement_mode p = ELEVATED \<longrightarrow> automated_punishment p \<longrightarrow> beta_enforcement_acknowledged p)"
  unfolding PlatformAiModerationPolicy_post_init_def
  by (simp add: checked_Inr_iff del: checked_Cons) blast

lemma request_accepted:
  "AiModerationPolicyUpdateRequest_validate q = Inr q' \<longleftrightarrow> q' = q
   \<and> length (pr_blacklist_words q) \<le> 200 \<and> length (pr_allowed_domains q) \<le> 200 \<and> length (pr_labels q) \<le> 32
   \<and> list_all (\<lambda>(_, r). AiModerationLabelRuleRequest_validate r = Inr r) (pr_labels q)
   \<and> is_action_text (pr_blacklist_action q) \<and> is_action_text (pr_unapproved_domain_action q)
   \<and> 1 \<le> pr_context_window_days q \<and> pr_context_window_days q \<le> 3650
   \<and> 1 \<le> pr_repeat_offender_threshold q \<and> pr_repeat_offender_threshold q \<le> 1000
   \<and> is_action_text (pr_repeat_offender_action q)
   \<and> float_between one_tenth (pr_escalation_score_threshold q) (whole 1000)
   \<and> float_between (whole 1) (pr_escalation_half_life_days q) (whole 3650)
   \<and> length (pr_excluded_user_ids q) \<le> 500 \<and> length (pr_excluded_role_ids q) \<le> 500
   \<and> length (pr_excluded_channel_ids q) \<le> 500
   \<and> (pr_ocr_failure_mode q = ascii ''SKIP'' \<or> pr_ocr_failure_mode q = ascii ''REVIEW'')
   \<and> 1 \<le> pr_ocr_max_gif_frames q \<and> pr_ocr_max_gif_frames q \<le> 24 \<and> is_mode_text (pr_enforcement_mode q)
   \<and> float_between 0 (pr_limited_min_confidence q) (whole 1)
   \<and> (pr_enforcement_mode q = ascii ''ELEVATED'' \<longrightarrow>
        pr_allow_automated_timeout q \<or> pr_allow_automated_kick q \<or> pr_allow_automated_ban q \<longrightarrow>
        pr_beta_enforcement_acknowledged q)"
  unfolding AiModerationPolicyUpdateRequest_validate_def
  by (simp add: checked_Inr_iff linorder_not_less del: checked_Cons) blast

lemma policy_eta:
  "policy_platform p = DISCORD \<Longrightarrow>
   \<lparr>policy_platform = DISCORD, blacklist_words = blacklist_words p, allowed_domains = allowed_domains p,
    policy_labels = policy_labels p, blacklist_action = blacklist_action p,
    unapproved_domain_action = unapproved_domain_action p, context_window_days = context_window_days p,
    repeat_offender_threshold = repeat_offender_threshold p,
    repeat_offender_action = repeat_offender_action p, escalation_enabled = escalation_enabled p,
    escalation_score_threshold = escalation_score_threshold p,
    escalation_half_life_days = escalation_half_life_days p, excluded_user_ids = excluded_user_ids p,
    excluded_role_ids = excluded_role_ids p, excluded_channel_ids = excluded_channel_ids p,
    exclude_bots = exclude_bots p, ocr_enabled = ocr_enabled p, ocr_failure_mode = ocr_failure_mode p,
    ocr_max_gif_frames = ocr_max_gif_frames p, ocr_process_empty_result = ocr_process_empty_result p,
    policy_test_mode = policy_test_mode p, enforcement_mode = enforcement_mode p,
    limited_min_confidence = limited_min_confidence p,
    limited_hard_rule_labels = limited_hard_rule_labels p,
    beta_enforcement_acknowledged = beta_enforcement_acknowledged p,
    allow_automated_timeout = allow_automated_timeout p, allow_automated_kick = allow_automated_kick p,
    allow_automated_ban = allow_automated_ban p\<rparr> = p"
  by (cases p) simp

lemma request_eta:
  "\<lparr>pr_blacklist_words = pr_blacklist_words q, pr_allowed_domains = pr_allowed_domains q,
    pr_labels = pr_labels q, pr_blacklist_action = pr_blacklist_action q,
    pr_unapproved_domain_action = pr_unapproved_domain_action q,
    pr_context_window_days = pr_context_window_days q,
    pr_repeat_offender_threshold = pr_repeat_offender_threshold q,
    pr_repeat_offender_action = pr_repeat_offender_action q,
    pr_escalation_enabled = pr_escalation_enabled q,
    pr_escalation_score_threshold = pr_escalation_score_threshold q,
    pr_escalation_half_life_days = pr_escalation_half_life_days q,
    pr_excluded_user_ids = pr_excluded_user_ids q, pr_excluded_role_ids = pr_excluded_role_ids q,
    pr_excluded_channel_ids = pr_excluded_channel_ids q, pr_exclude_bots = pr_exclude_bots q,
    pr_ocr_enabled = pr_ocr_enabled q, pr_ocr_failure_mode = pr_ocr_failure_mode q,
    pr_ocr_max_gif_frames = pr_ocr_max_gif_frames q,
    pr_ocr_process_empty_result = pr_ocr_process_empty_result q, pr_test_mode = pr_test_mode q,
    pr_enforcement_mode = pr_enforcement_mode q, pr_limited_min_confidence = pr_limited_min_confidence q,
    pr_limited_hard_rule_labels = pr_limited_hard_rule_labels q,
    pr_beta_enforcement_acknowledged = pr_beta_enforcement_acknowledged q,
    pr_allow_automated_timeout = pr_allow_automated_timeout q,
    pr_allow_automated_kick = pr_allow_automated_kick q,
    pr_allow_automated_ban = pr_allow_automated_ban q\<rparr> = q"
  by (cases q) simp

lemma to_domain_fields:
  assumes "to_domain_policy q = Inr p"
  shows "PlatformAiModerationPolicy_post_init p = Inr p"
    "policy_platform p = DISCORD"
    "labels_to_domain (pr_labels q) = Inr (policy_labels p)"
    "blacklist_words p = pr_blacklist_words q"
    "allowed_domains p = pr_allowed_domains q"
    "pr_blacklist_action q = ascii (AiModerationAction_value (blacklist_action p))"
    "pr_unapproved_domain_action q = ascii (AiModerationAction_value (unapproved_domain_action p))"
    "context_window_days p = pr_context_window_days q"
    "repeat_offender_threshold p = pr_repeat_offender_threshold q"
    "pr_repeat_offender_action q = ascii (AiModerationAction_value (repeat_offender_action p))"
    "escalation_enabled p = pr_escalation_enabled q"
    "escalation_score_threshold p = pr_escalation_score_threshold q"
    "escalation_half_life_days p = pr_escalation_half_life_days q"
    "excluded_user_ids p = pr_excluded_user_ids q"
    "excluded_role_ids p = pr_excluded_role_ids q"
    "excluded_channel_ids p = pr_excluded_channel_ids q"
    "exclude_bots p = pr_exclude_bots q"
    "ocr_enabled p = pr_ocr_enabled q"
    "ocr_failure_mode p = pr_ocr_failure_mode q"
    "ocr_max_gif_frames p = pr_ocr_max_gif_frames q"
    "ocr_process_empty_result p = pr_ocr_process_empty_result q"
    "policy_test_mode p = pr_test_mode q"
    "pr_enforcement_mode q = ascii (AiModerationEnforcementMode_value (enforcement_mode p))"
    "limited_min_confidence p = pr_limited_min_confidence q"
    "limited_hard_rule_labels p = pr_limited_hard_rule_labels q"
    "beta_enforcement_acknowledged p = pr_beta_enforcement_acknowledged q"
    "allow_automated_timeout p = pr_allow_automated_timeout q"
    "allow_automated_kick p = pr_allow_automated_kick q"
    "allow_automated_ban p = pr_allow_automated_ban q"
proof -
  from assms obtain ls a1 a2 a3 mode where ls: "labels_to_domain (pr_labels q) = Inr ls"
    and texts: "action_of_text (pr_blacklist_action q) = Inr a1" "action_of_text (pr_unapproved_domain_action q) = Inr a2"
      "action_of_text (pr_repeat_offender_action q) = Inr a3" "mode_of_text (pr_enforcement_mode q) = Inr mode"
    unfolding to_domain_policy_def labels_to_domain_def [symmetric] andthen_Inr by blast
  with assms have made: "PlatformAiModerationPolicy_post_init
       \<lparr>policy_platform = DISCORD, blacklist_words = pr_blacklist_words q,
        allowed_domains = pr_allowed_domains q, policy_labels = ls, blacklist_action = a1,
        unapproved_domain_action = a2, context_window_days = pr_context_window_days q,
        repeat_offender_threshold = pr_repeat_offender_threshold q, repeat_offender_action = a3,
        escalation_enabled = pr_escalation_enabled q,
        escalation_score_threshold = pr_escalation_score_threshold q,
        escalation_half_life_days = pr_escalation_half_life_days q,
        excluded_user_ids = pr_excluded_user_ids q, excluded_role_ids = pr_excluded_role_ids q,
        excluded_channel_ids = pr_excluded_channel_ids q, exclude_bots = pr_exclude_bots q,
        ocr_enabled = pr_ocr_enabled q, ocr_failure_mode = pr_ocr_failure_mode q,
        ocr_max_gif_frames = pr_ocr_max_gif_frames q,
        ocr_process_empty_result = pr_ocr_process_empty_result q, policy_test_mode = pr_test_mode q,
        enforcement_mode = mode, limited_min_confidence = pr_limited_min_confidence q,
        limited_hard_rule_labels = pr_limited_hard_rule_labels q,
        beta_enforcement_acknowledged = pr_beta_enforcement_acknowledged q,
        allow_automated_timeout = pr_allow_automated_timeout q,
        allow_automated_kick = pr_allow_automated_kick q, allow_automated_ban = pr_allow_automated_ban q\<rparr> = Inr p"
    unfolding to_domain_policy_def labels_to_domain_def [symmetric] by simp
  then have p: "p = \<lparr>policy_platform = DISCORD, blacklist_words = pr_blacklist_words q,
        allowed_domains = pr_allowed_domains q, policy_labels = ls, blacklist_action = a1,
        unapproved_domain_action = a2, context_window_days = pr_context_window_days q,
        repeat_offender_threshold = pr_repeat_offender_threshold q, repeat_offender_action = a3,
        escalation_enabled = pr_escalation_enabled q,
        escalation_score_threshold = pr_escalation_score_threshold q,
        escalation_half_life_days = pr_escalation_half_life_days q,
        excluded_user_ids = pr_excluded_user_ids q, excluded_role_ids = pr_excluded_role_ids q,
        excluded_channel_ids = pr_excluded_channel_ids q, exclude_bots = pr_exclude_bots q,
        ocr_enabled = pr_ocr_enabled q, ocr_failure_mode = pr_ocr_failure_mode q,
        ocr_max_gif_frames = pr_ocr_max_gif_frames q,
        ocr_process_empty_result = pr_ocr_process_empty_result q, policy_test_mode = pr_test_mode q,
        enforcement_mode = mode, limited_min_confidence = pr_limited_min_confidence q,
        limited_hard_rule_labels = pr_limited_hard_rule_labels q,
        beta_enforcement_acknowledged = pr_beta_enforcement_acknowledged q,
        allow_automated_timeout = pr_allow_automated_timeout q,
        allow_automated_kick = pr_allow_automated_kick q, allow_automated_ban = pr_allow_automated_ban q\<rparr>"
    unfolding policy_accepted by (rule conjunct1)
  show "PlatformAiModerationPolicy_post_init p = Inr p"
    using made unfolding p [symmetric] .
  show "policy_platform p = DISCORD"
    "labels_to_domain (pr_labels q) = Inr (policy_labels p)"
    "blacklist_words p = pr_blacklist_words q"
    "allowed_domains p = pr_allowed_domains q"
    "pr_blacklist_action q = ascii (AiModerationAction_value (blacklist_action p))"
    "pr_unapproved_domain_action q = ascii (AiModerationAction_value (unapproved_domain_action p))"
    "context_window_days p = pr_context_window_days q"
    "repeat_offender_threshold p = pr_repeat_offender_threshold q"
    "pr_repeat_offender_action q = ascii (AiModerationAction_value (repeat_offender_action p))"
    "escalation_enabled p = pr_escalation_enabled q"
    "escalation_score_threshold p = pr_escalation_score_threshold q"
    "escalation_half_life_days p = pr_escalation_half_life_days q"
    "excluded_user_ids p = pr_excluded_user_ids q"
    "excluded_role_ids p = pr_excluded_role_ids q"
    "excluded_channel_ids p = pr_excluded_channel_ids q"
    "exclude_bots p = pr_exclude_bots q"
    "ocr_enabled p = pr_ocr_enabled q"
    "ocr_failure_mode p = pr_ocr_failure_mode q"
    "ocr_max_gif_frames p = pr_ocr_max_gif_frames q"
    "ocr_process_empty_result p = pr_ocr_process_empty_result q"
    "policy_test_mode p = pr_test_mode q"
    "pr_enforcement_mode q = ascii (AiModerationEnforcementMode_value (enforcement_mode p))"
    "limited_min_confidence p = pr_limited_min_confidence q"
    "limited_hard_rule_labels p = pr_limited_hard_rule_labels q"
    "beta_enforcement_acknowledged p = pr_beta_enforcement_acknowledged q"
    "allow_automated_timeout p = pr_allow_automated_timeout q"
    "allow_automated_kick p = pr_allow_automated_kick q"
    "allow_automated_ban p = pr_allow_automated_ban q"
    using ls texts unfolding p texts_of_enumerations by simp_all
qed

text \<open>
  C25: Reading a policy into the editor and writing it back changes nothing: a valid policy within the
  sizes of the contract becomes a request that converts back to the same policy, a policy beyond them
  is refused, and a request accepted by the domain is shown again as the same request.
\<close>

theorem policy_contract_roundtrip:
  "(valid_policy p \<and> fits_contract p \<longrightarrow>
      (\<exists>q. from_domain_policy p = Inr q \<and> AiModerationPolicyUpdateRequest_validate q = Inr q
         \<and> to_domain_policy q = Inr p))
   \<and> (valid_policy p \<and> \<not> fits_contract p \<longrightarrow> (\<exists>e. from_domain_policy p = Inl e))
   \<and> (AiModerationPolicyUpdateRequest_validate q = Inr q \<and> to_domain_policy q = Inr p \<longrightarrow>
      valid_policy p \<and> fits_contract p \<and> from_domain_policy p = Inr q)"
proof (intro conjI [of "_ \<longrightarrow> _"] impI, goal_cases)
  case 1
  then obtain rs where rs: "labels_from_domain (policy_labels p) = Inr rs" "labels_to_domain rs = Inr (policy_labels p)"
      "length rs = length (policy_labels p)"
      "list_all (\<lambda>(_, r). AiModerationLabelRuleRequest_validate r = Inr r) rs"
    using labels_round_trip [of "policy_labels p"] by (auto simp: valid_policy_def)
  from 1 have ok: "PlatformAiModerationPolicy_post_init p = Inr p" by (simp add: valid_policy_def)
  obtain q where q: "from_domain_policy p = Inr q"
    using rs 1 ok unfolding from_domain_policy_def labels_from_domain_def [symmetric]
    by (simp add: request_accepted policy_accepted fits_contract_def mode_value_elevated automated_punishment_def)
  then have "AiModerationPolicyUpdateRequest_validate q = Inr q"
    using rs by (auto simp: from_domain_policy_def labels_from_domain_def request_accepted)
  moreover have "to_domain_policy q = Inr p"
    using q rs ok unfolding from_domain_policy_def to_domain_policy_def labels_from_domain_def [symmetric]
      labels_to_domain_def [symmetric]
    by (auto simp: request_accepted policy_accepted policy_eta)
  ultimately show ?case using q by simp
next
  case 2
  then obtain rs where "labels_from_domain (policy_labels p) = Inr rs" "length rs = length (policy_labels p)"
    using labels_round_trip [of "policy_labels p"] by (auto simp: valid_policy_def)
  with 2 have "from_domain_policy p \<noteq> Inr q" for q
    unfolding from_domain_policy_def labels_from_domain_def [symmetric]
    by (auto simp: request_accepted fits_contract_def)
  then show ?case by (cases "from_domain_policy p") auto
next
  case 3
  then have q: "AiModerationPolicyUpdateRequest_validate q = Inr q" and p: "to_domain_policy q = Inr p" by simp_all
  note fields = to_domain_fields [OF p]
  note labels = labels_back [OF fields(3)] labels_back_length [OF fields(3)]
  have "valid_policy p"
    using fields(1) labels by (simp add: valid_policy_def)
  moreover have "fits_contract p"
    using q fields labels unfolding request_accepted fits_contract_def by simp
  moreover have "from_domain_policy p = Inr q"
    using labels q unfolding from_domain_policy_def labels_from_domain_def [symmetric]
    by (simp add: fields(2,4,5,8,9,11-22,24-) fields(6,7,10,23) [symmetric] request_eta)
  ultimately show ?case by simp
qed

theorem policy_contract_roundtrip_witness:
  "\<exists>q. from_domain_policy default_policy = Inr q \<and> to_domain_policy q = Inr default_policy"
proof -
  have "valid_policy default_policy" "fits_contract default_policy"
    by (simp_all add: valid_policy_def fits_contract_def) (simp_all add: default_policy_def)
  with policy_contract_roundtrip [of default_policy] show ?thesis by blast
qed

text \<open>
  A request that the contract accepts can still be refused by the domain: the contract admits an empty
  list of hard-rule labels, and a label whose minimum action is above its maximum.
\<close>

lemma contract_wider_than_domain:
  "\<exists>q m. AiModerationPolicyUpdateRequest_validate q = Inr q \<and> to_domain_policy q = Inl (ValueError m)"
proof -
  obtain q where q: "from_domain_policy default_policy = Inr q"
    by (simp add: from_domain_policy_def AiModerationPolicyUpdateRequest_validate_def default_policy_def
        float_between_def ascii_def is_action_text_def is_mode_text_def all_actions_def all_modes_def)
  define r where "r = q\<lparr>pr_limited_hard_rule_labels := []\<rparr>"
  have "AiModerationPolicyUpdateRequest_validate q = Inr q" and ls: "pr_labels q = []"
    using q by (auto simp: from_domain_policy_def request_accepted default_policy_def)
  then have "AiModerationPolicyUpdateRequest_validate r = Inr r"
    unfolding request_accepted by (simp add: r_def)
  moreover have "\<exists>m. to_domain_policy r = Inl (ValueError m)"
    using q unfolding r_def
    by (auto simp: from_domain_policy_def request_accepted to_domain_policy_def default_policy_def
        PlatformAiModerationPolicy_post_init_def action_of_text_def mode_of_text_def text_enum_def all_actions_def
        all_modes_def ascii_def)
  ultimately show ?thesis by blast
qed

end
