(* ===== verification/Policy_Protocol.thy ===== *)
theory Policy_Protocol
  imports Policy_Contract Redis
begin

text \<open>
  The part of \<open>discord_control_api.py\<close> that exchanges AI moderation policies, their summaries and the
  integrations. These readers convert the fields of a payload with \<open>str\<close>, \<open>int\<close>, \<open>float\<close> and
  \<open>bool\<close>; how Python reads and prints numbers in texts, and prints lists and dictionaries, is an argument.
\<close>

section \<open>Conversions\<close>

record conversions =
  literal_float :: "codes \<Rightarrow> float_value"
  float_repr :: "float_value \<Rightarrow> codes"
  text_int :: "codes \<Rightarrow> int option"
  text_float :: "codes \<Rightarrow> float_value option"
  int_float :: "int \<Rightarrow> float_value option"
  container_repr :: "json \<Rightarrow> codes"

definition truncated :: "int \<Rightarrow> int" where
  "truncated r = (if 0 \<le> r then r div float_unit else - (- r div float_unit))"

definition py_int :: "conversions \<Rightarrow> json \<Rightarrow> error + int" where
  "py_int c v = (case v of
     JBool b \<Rightarrow> Inr (if b then 1 else 0)
   | JInt i \<Rightarrow> Inr i
   | JFloat t \<Rightarrow> (case literal_float c t of
         Finite r \<Rightarrow> Inr (truncated r)
       | Infinite _ \<Rightarrow> Inl (OverflowError ''cannot convert float infinity to integer'')
       | NotANumber \<Rightarrow> Inl (ValueError ''cannot convert float NaN to integer''))
   | JString t \<Rightarrow> (case text_int c t of None \<Rightarrow> Inl (ValueError ''invalid literal for int()'') | Some i \<Rightarrow> Inr i)
   | _ \<Rightarrow> Inl (TypeError ''int() argument must be a string or a real number''))"

definition py_float :: "conversions \<Rightarrow> json \<Rightarrow> error + float_value" where
  "py_float c v = (case v of
     JBool b \<Rightarrow> Inr (Finite (whole (if b then 1 else 0)))
   | JInt i \<Rightarrow> (case int_float c i of None \<Rightarrow> Inl (OverflowError ''int too large to convert to float'') | Some x \<Rightarrow> Inr x)
   | JFloat t \<Rightarrow> Inr (literal_float c t)
   | JString t \<Rightarrow> (case text_float c t of None \<Rightarrow> Inl (ValueError ''could not convert string to float'') | Some x \<Rightarrow> Inr x)
   | _ \<Rightarrow> Inl (TypeError ''float() argument must be a string or a real number''))"

definition py_bool :: "conversions \<Rightarrow> json \<Rightarrow> bool" where
  "py_bool c v = (case v of
     JNull \<Rightarrow> False | JBool b \<Rightarrow> b | JInt i \<Rightarrow> i \<noteq> 0 | JFloat t \<Rightarrow> literal_float c t \<noteq> Finite 0
   | JString t \<Rightarrow> t \<noteq> [] | JList vs \<Rightarrow> vs \<noteq> [] | JObject ms \<Rightarrow> ms \<noteq> [])"

definition py_str :: "conversions \<Rightarrow> json \<Rightarrow> codes" where
  "py_str c v = (case v of
     JNull \<Rightarrow> ascii ''None'' | JBool b \<Rightarrow> ascii (if b then ''True'' else ''False'') | JInt i \<Rightarrow> str_int i
   | JFloat t \<Rightarrow> float_repr c (literal_float c t) | JString t \<Rightarrow> t | _ \<Rightarrow> container_repr c v)"

definition field :: "members \<Rightarrow> string \<Rightarrow> (json \<Rightarrow> error + 'a) \<Rightarrow> error + 'a" where
  "field ms key read = andthen (json_item ms key) read"

definition json_action :: "json \<Rightarrow> error + AiModerationAction" where
  "json_action = json_enum AiModerationAction_value all_actions"

definition json_mode :: "json \<Rightarrow> error + AiModerationEnforcementMode" where
  "json_mode = json_enum AiModerationEnforcementMode_value all_modes"

text \<open>A bool passes the test \<open>isinstance(value, (str, int))\<close>.\<close>

definition string_tuple :: "conversions \<Rightarrow> json \<Rightarrow> error + codes list" where
  "string_tuple c v = (case v of
     JList vs \<Rightarrow>
       if list_all (\<lambda>x. case x of JString _ \<Rightarrow> True | JInt _ \<Rightarrow> True | JBool _ \<Rightarrow> True | _ \<Rightarrow> False) vs
       then Inr (map (py_str c) vs)
       else Inl (ValueError ''Expected a list of identifiers or strings.'')
   | _ \<Rightarrow> Inl (ValueError ''Expected a list of identifiers or strings.''))"

section \<open>Summary and integrations\<close>

definition parse_discord_ai_moderation_summary :: "conversions \<Rightarrow> json \<Rightarrow> error + PlatformAiModerationSummary" where
  "parse_discord_ai_moderation_summary c payload =
     andthen (payload_part as_object ''summary'' ''Discord Control API returned an invalid AI moderation summary.'' payload)
       (\<lambda>summary. refusing ''Discord Control API returned invalid AI moderation summary values.''
         (andthen (field summary ''enforcement_mode'' (\<lambda>v. Inr (py_str c v))) (\<lambda>v1.
          andthen (field summary ''test_mode'' (\<lambda>v. Inr (py_bool c v))) (\<lambda>v2.
          andthen (field summary ''is_default_policy'' (\<lambda>v. Inr (py_bool c v))) (\<lambda>v3.
          andthen (field summary ''covered_channel_count'' (py_int c)) (\<lambda>v4.
          andthen (field summary ''log_channel_configured'' (\<lambda>v. Inr (py_bool c v))) (\<lambda>v5.
          andthen (field summary ''label_count'' (py_int c)) (\<lambda>v6.
          andthen (field summary ''blacklist_word_count'' (py_int c)) (\<lambda>v7.
          andthen (field summary ''allowed_domain_count'' (py_int c)) (\<lambda>v8.
          andthen (field summary ''automated_timeout_enabled'' (\<lambda>v. Inr (py_bool c v))) (\<lambda>v9.
          andthen (field summary ''automated_kick_enabled'' (\<lambda>v. Inr (py_bool c v))) (\<lambda>v10.
          andthen (field summary ''automated_ban_enabled'' (\<lambda>v. Inr (py_bool c v))) (\<lambda>v11.
          PlatformAiModerationSummary_post_init
            \<lparr>summary_platform = DISCORD, summary_enforcement_mode = v1, summary_test_mode = v2,
             summary_is_default_policy = v3, covered_channel_count = v4, log_channel_configured = v5,
             label_count = v6, blacklist_word_count = v7, allowed_domain_count = v8,
             automated_timeout_enabled = v9, automated_kick_enabled = v10, automated_ban_enabled = v11\<rparr>)))))))))))))"

text \<open>\<open>value[key]\<close> and \<open>for item in value\<close> on a value whose type was not tested.\<close>

definition json_index :: "json \<Rightarrow> string \<Rightarrow> error + json" where
  "json_index v key = (case v of JObject ms \<Rightarrow> json_item ms key | _ \<Rightarrow> Inl (TypeError ''not subscriptable by a string''))"

definition json_iterate :: "json \<Rightarrow> error + json list" where
  "json_iterate v = (case v of
     JList vs \<Rightarrow> Inr vs
   | JString t \<Rightarrow> Inr (map (\<lambda>ch. JString [ch]) t)
   | JObject ms \<Rightarrow> Inr (map (\<lambda>(k, _). JString k) (dict_items ms))
   | _ \<Rightarrow> Inl (TypeError ''object is not iterable''))"

definition source_count :: "conversions \<Rightarrow> json \<Rightarrow> error + IntegrationSourceCount" where
  "source_count c item =
     andthen (json_index item ''platform'') (\<lambda>platform.
     andthen (json_index item ''count'') (\<lambda>total_value.
     andthen (py_int c total_value) (\<lambda>total.
     andthen (json_index item ''active_count'') (\<lambda>active_value.
     andthen (py_int c (if py_bool c active_value then active_value else JInt 0)) (\<lambda>active.
     IntegrationSourceCount_post_init
       \<lparr>source_platform = py_str c platform, source_total = total, source_active = active\<rparr>)))))"

definition status_of :: "conversions \<Rightarrow> json \<Rightarrow> string \<Rightarrow> error + codes" where
  "status_of c data key =
     andthen (json_index data key) (\<lambda>part. andthen (json_index part ''status'') (\<lambda>v. Inr (py_str c v)))"

definition parse_discord_integrations :: "conversions \<Rightarrow> json \<Rightarrow> error + PlatformIntegrations" where
  "parse_discord_integrations c payload =
     refusing ''Discord Control API returned invalid integrations.''
       (andthen (json_index payload ''integrations'') (\<lambda>data.
        andthen (json_index data ''creator_platforms'') (\<lambda>creator.
        andthen (json_index creator ''sources'') (\<lambda>sources_value.
        andthen (json_iterate sources_value) (\<lambda>items.
        andthen (collect (source_count c) items) (\<lambda>sources.
        andthen (status_of c data ''discord_bot'') (\<lambda>bot.
        andthen (json_index creator ''status'') (\<lambda>creator_status.
        andthen (json_index creator ''poll_interval_seconds'') (\<lambda>interval_value.
        andthen (py_int c interval_value) (\<lambda>interval.
        andthen (status_of c data ''muxivo_core'') (\<lambda>core.
        andthen (status_of c data ''database'') (\<lambda>database.
        PlatformIntegrations_post_init
          \<lparr>integrations_platform = DISCORD, discord_bot_status = bot,
           creator_platforms_status = py_str c creator_status, creator_poll_interval_seconds = interval,
           integration_sources = sources, muxivo_core_status = core, database_status = database\<rparr>))))))))))))"

section \<open>Policies\<close>

definition parse_label_rule :: "conversions \<Rightarrow> members \<Rightarrow> error + AiModerationLabelRule" where
  "parse_label_rule c rule =
     andthen (field rule ''risk_threshold'' (py_float c)) (\<lambda>threshold.
     andthen (field rule ''min_action'' json_action) (\<lambda>low.
     andthen (field rule ''max_action'' json_action) (\<lambda>high.
     AiModerationLabelRule_post_init \<lparr>risk_threshold = threshold, min_action = low, max_action = high\<rparr>)))"

definition parse_labels :: "conversions \<Rightarrow> json \<Rightarrow> error + (codes \<times> AiModerationLabelRule) list" where
  "parse_labels c v =
     andthen (as_object v) (\<lambda>ms.
     andthen (collect (\<lambda>(label, rule). andthen (parse_label_rule c rule) (\<lambda>r. Inr (label, r)))
       (List.map_filter (\<lambda>(label, x). case x of JObject rule \<Rightarrow> Some (label, rule) | _ \<Rightarrow> None) (dict_items ms))) (\<lambda>labels.
     if length labels \<noteq> length (dict_items ms) then Inl (ValueError ''AI moderation label must be an object.'')
     else Inr labels))"

definition parse_policy_fields ::
  "conversions \<Rightarrow> members \<Rightarrow> (codes \<times> AiModerationLabelRule) list \<Rightarrow> error + PlatformAiModerationPolicy" where
  "parse_policy_fields c policy labels =
     andthen (field policy ''blacklist_words'' (string_tuple c)) (\<lambda>v1.
     andthen (field policy ''allowed_domains'' (string_tuple c)) (\<lambda>v2.
     andthen (field policy ''blacklist_action'' json_action) (\<lambda>v3.
     andthen (field policy ''unapproved_domain_action'' json_action) (\<lambda>v4.
     andthen (field policy ''context_window_days'' (py_int c)) (\<lambda>v5.
     andthen (field policy ''repeat_offender_threshold'' (py_int c)) (\<lambda>v6.
     andthen (field policy ''repeat_offender_action'' json_action) (\<lambda>v7.
     andthen (field policy ''escalation_enabled'' as_bool) (\<lambda>v8.
     andthen (field policy ''escalation_score_threshold'' (py_float c)) (\<lambda>v9.
     andthen (field policy ''escalation_half_life_days'' (py_float c)) (\<lambda>v10.
     andthen (field policy ''excluded_user_ids'' (string_tuple c)) (\<lambda>v11.
     andthen (field policy ''excluded_role_ids'' (string_tuple c)) (\<lambda>v12.
     andthen (field policy ''excluded_channel_ids'' (string_tuple c)) (\<lambda>v13.
     andthen (field policy ''exclude_bots'' as_bool) (\<lambda>v14.
     andthen (field policy ''ocr_enabled'' as_bool) (\<lambda>v15.
     andthen (field policy ''ocr_failure_mode'' (\<lambda>v. Inr (py_str c v))) (\<lambda>v16.
     andthen (field policy ''ocr_max_gif_frames'' (py_int c)) (\<lambda>v17.
     andthen (field policy ''ocr_process_empty_result'' as_bool) (\<lambda>v18.
     andthen (field policy ''test_mode'' as_bool) (\<lambda>v19.
     andthen (field policy ''enforcement_mode'' json_mode) (\<lambda>v20.
     andthen (field policy ''limited_min_confidence'' (py_float c)) (\<lambda>v21.
     andthen (field policy ''limited_hard_rule_labels'' (string_tuple c)) (\<lambda>v22.
     andthen (field policy ''beta_enforcement_acknowledged'' as_bool) (\<lambda>v23.
     andthen (field policy ''allow_automated_timeout'' as_bool) (\<lambda>v24.
     andthen (field policy ''allow_automated_kick'' as_bool) (\<lambda>v25.
     andthen (field policy ''allow_automated_ban'' as_bool) (\<lambda>v26.
     PlatformAiModerationPolicy_post_init
       \<lparr>policy_platform = DISCORD, blacklist_words = v1, allowed_domains = v2, policy_labels = labels,
        blacklist_action = v3, unapproved_domain_action = v4, context_window_days = v5,
        repeat_offender_threshold = v6, repeat_offender_action = v7, escalation_enabled = v8,
        escalation_score_threshold = v9, escalation_half_life_days = v10, excluded_user_ids = v11,
        excluded_role_ids = v12, excluded_channel_ids = v13, exclude_bots = v14, ocr_enabled = v15,
        ocr_failure_mode = v16, ocr_max_gif_frames = v17, ocr_process_empty_result = v18,
        policy_test_mode = v19, enforcement_mode = v20, limited_min_confidence = v21,
        limited_hard_rule_labels = v22, beta_enforcement_acknowledged = v23,
        allow_automated_timeout = v24, allow_automated_kick = v25, allow_automated_ban = v26\<rparr>))))))))))))))))))))))))))"

definition parse_discord_ai_moderation_policy :: "conversions \<Rightarrow> json \<Rightarrow> error + PlatformAiModerationPolicyState" where
  "parse_discord_ai_moderation_policy c payload =
     andthen (payload_part as_object ''policy'' ''Discord Control API returned an invalid AI moderation policy.'' payload)
       (\<lambda>policy. refusing ''Discord Control API returned invalid AI moderation policy values.''
         (andthen (field policy ''labels'' (parse_labels c)) (\<lambda>labels.
          andthen (parse_policy_fields c policy labels) (\<lambda>p.
          andthen (as_object payload) (\<lambda>ms.
          andthen (field ms ''is_default_policy'' as_bool) (\<lambda>default.
          Inr \<lparr>state_policy = p, state_is_default_policy = default\<rparr>))))))"

text \<open>\<open>value.isdecimal()\<close>, 1 to 20 characters, and \<open>int(value)\<close>.\<close>

definition discord_snowflake :: "unicode_tables \<Rightarrow> codes \<Rightarrow> error + int" where
  "discord_snowflake u value =
     (if value = [] \<or> list_ex (\<lambda>ch. decimal_digit u ch = None) value \<or> 20 < length value
      then Inl (ValueError ''Discord channel identifier must be a snowflake.'')
      else Inr (foldl (\<lambda>n ch. n * 10 + int (the (decimal_digit u ch))) 0 value))"

definition discord_snowflakes :: "unicode_tables \<Rightarrow> codes list \<Rightarrow> error + json list" where
  "discord_snowflakes u values = collect (\<lambda>v. andthen (discord_snowflake u v) (\<lambda>n. Inr (JInt n))) values"

definition label_payload :: "conversions \<Rightarrow> AiModerationLabelRule \<Rightarrow> json" where
  "label_payload c rule = JObject
     [(ascii ''risk_threshold'', JFloat (float_repr c (risk_threshold rule))),
      (ascii ''min_action'', JString (ascii (AiModerationAction_value (min_action rule)))),
      (ascii ''max_action'', JString (ascii (AiModerationAction_value (max_action rule))))]"

definition discord_ai_moderation_policy_payload ::
  "conversions \<Rightarrow> unicode_tables \<Rightarrow> PlatformAiModerationPolicy \<Rightarrow> error + json" where
  "discord_ai_moderation_policy_payload c u p =
     (if policy_platform p \<noteq> DISCORD then Inl (ValueError ''AI moderation policy must target Discord.'') else
     andthen (discord_snowflakes u (excluded_user_ids p)) (\<lambda>users.
     andthen (discord_snowflakes u (excluded_role_ids p)) (\<lambda>roles.
     andthen (discord_snowflakes u (excluded_channel_ids p)) (\<lambda>channels.
     Inr (JObject
       [(ascii ''blacklist_words'', JList (map JString (blacklist_words p))),
        (ascii ''allowed_domains'', JList (map JString (allowed_domains p))),
        (ascii ''labels'', JObject (map (\<lambda>(label, rule). (label, label_payload c rule)) (policy_labels p))),
        (ascii ''blacklist_action'', JString (ascii (AiModerationAction_value (blacklist_action p)))),
        (ascii ''unapproved_domain_action'', JString (ascii (AiModerationAction_value (unapproved_domain_action p)))),
        (ascii ''context_window_days'', JInt (context_window_days p)),
        (ascii ''repeat_offender_threshold'', JInt (repeat_offender_threshold p)),
        (ascii ''repeat_offender_action'', JString (ascii (AiModerationAction_value (repeat_offender_action p)))),
        (ascii ''escalation_enabled'', JBool (escalation_enabled p)),
        (ascii ''escalation_score_threshold'', JFloat (float_repr c (escalation_score_threshold p))),
        (ascii ''escalation_half_life_days'', JFloat (float_repr c (escalation_half_life_days p))),
        (ascii ''excluded_user_ids'', JList users), (ascii ''excluded_role_ids'', JList roles),
        (ascii ''excluded_channel_ids'', JList channels),
        (ascii ''exclude_bots'', JBool (exclude_bots p)), (ascii ''ocr_enabled'', JBool (ocr_enabled p)),
        (ascii ''ocr_failure_mode'', JString (ocr_failure_mode p)),
        (ascii ''ocr_max_gif_frames'', JInt (ocr_max_gif_frames p)),
        (ascii ''ocr_process_empty_result'', JBool (ocr_process_empty_result p)),
        (ascii ''test_mode'', JBool (policy_test_mode p)),
        (ascii ''enforcement_mode'', JString (ascii (AiModerationEnforcementMode_value (enforcement_mode p)))),
        (ascii ''limited_min_confidence'', JFloat (float_repr c (limited_min_confidence p))),
        (ascii ''limited_hard_rule_labels'', JList (map JString (limited_hard_rule_labels p))),
        (ascii ''beta_enforcement_acknowledged'', JBool (beta_enforcement_acknowledged p)),
        (ascii ''allow_automated_timeout'', JBool (allow_automated_timeout p)),
        (ascii ''allow_automated_kick'', JBool (allow_automated_kick p)),
        (ascii ''allow_automated_ban'', JBool (allow_automated_ban p))])))))"

end
