(* ===== verification/Control_Client.thy ===== *)
theory Control_Client
  imports Control_Assertions Policy_Protocol Repo_Identity
begin

text \<open>
  The clients of the Control APIs (\<open>discord_control_api.py\<close>, \<open>twitch_control_api.py\<close>): each method
  looks up the platform identity of the actor where it needs one, issues an assertion for the call,
  sends the request and reads the payload. The HTTP exchange is an argument that answers with the parsed
  payload, or None where the source's \<open>except (httpx.HTTPError, ValueError)\<close> applies: a network
  failure, a status that is not 2xx, a body that is not JSON.
\<close>

section \<open>Clients\<close>

record control_request =
  control_method :: string
  control_path :: string
  control_bearer :: codes
  control_body :: "json option"

text \<open>
  The collaborators of a client, with the clock reading and the fresh token identifier of the call;
  \<open>client_identities\<close> says whether the client was built with an identity reader.
\<close>

record control_client =
  client_hmac :: hmac
  client_assertions :: HmacControlAssertionIssuer
  client_now :: datetime
  client_jti :: uuid
  client_http :: "control_request \<Rightarrow> json option"
  client_unicode :: unicode_tables
  client_conversions :: conversions
  client_identities :: bool

definition control_unavailable :: "string \<Rightarrow> (console, 'a) operation" where
  "control_unavailable msg = raise (PlatformControlUnavailableError msg)"

text \<open>One call: the assertion, the exchange, the payload.\<close>

definition control_call ::
  "control_client \<Rightarrow> control_grant \<Rightarrow> string \<Rightarrow> string \<Rightarrow> json option \<Rightarrow> string \<Rightarrow>
   (json \<Rightarrow> error + 'a) \<Rightarrow> (console, 'a) operation" where
  "control_call c g verb path body failure parse =
     bnd (construct (issue (client_hmac c) (client_assertions c) (client_now c) (client_jti c) g)) (\<lambda>token.
     case client_http c \<lparr>control_method = verb, control_path = path, control_bearer = token, control_body = body\<rparr> of
       None \<Rightarrow> control_unavailable failure
     | Some payload \<Rightarrow> construct (parse payload))"

definition module_grant :: "uuid \<Rightarrow> uuid \<Rightarrow> uuid \<Rightarrow> string option \<Rightarrow> string option \<Rightarrow> control_grant" where
  "module_grant actor org correlation subject resource_id =
     \<lparr>grant_actor_id = actor, grant_organization_id = org, grant_resource = CONTROL_MODULES,
      grant_action = ACTION_READ, grant_correlation_id = correlation, grant_platform_subject = subject,
      grant_platform_resource_id = resource_id\<rparr>"

definition organization_path :: "uuid \<Rightarrow> string \<Rightarrow> string" where
  "organization_path org rest = ''/control/v1/organizations/'' @ uuid_str org @ rest"

definition connection_path :: "uuid \<Rightarrow> string \<Rightarrow> string \<Rightarrow> string" where
  "connection_path org ext rest = organization_path org (''/connections/'' @ ext @ rest)"

text \<open>The identity that some calls are bound to.\<close>

definition with_discord_subject ::
  "control_client \<Rightarrow> uuid \<Rightarrow> string \<Rightarrow> (string \<Rightarrow> (console, 'a) operation) \<Rightarrow> (console, 'a) operation" where
  "with_discord_subject c actor missing f =
     (if \<not> client_identities c then control_unavailable ''Discord identity verification is unavailable.''
      else bnd (find_provider_subject actor PROVIDER_DISCORD) (\<lambda>subject.
        case subject of None \<Rightarrow> control_unavailable missing | Some s \<Rightarrow> f s))"

section \<open>Reading\<close>

definition discord_list_modules :: "control_client \<Rightarrow> uuid \<Rightarrow> uuid \<Rightarrow> uuid \<Rightarrow> (console, ControlModule list) operation" where
  "discord_list_modules c org actor cor =
     control_call c (module_grant actor org cor None None) ''GET'' (organization_path org ''/modules'') None
       ''Discord Control API request failed.'' parse_discord_modules"

definition discord_get_health :: "control_client \<Rightarrow> uuid \<Rightarrow> uuid \<Rightarrow> uuid \<Rightarrow> (console, PlatformHealth) operation" where
  "discord_get_health c org actor cor =
     control_call c (module_grant actor org cor None None) ''GET'' (organization_path org ''/health'') None
       ''Discord Control API health request failed.'' (parse_discord_health (client_unicode c))"

definition twitch_get_health :: "control_client \<Rightarrow> uuid \<Rightarrow> uuid \<Rightarrow> uuid \<Rightarrow> (console, PlatformHealth) operation" where
  "twitch_get_health c org actor cor =
     control_call c (module_grant actor org cor None None) ''GET'' (organization_path org ''/health'') None
       ''Twitch Control API health request failed.'' (parse_twitch_health (client_unicode c))"

type_synonym 'a connection_reader = "uuid \<Rightarrow> uuid \<Rightarrow> string \<Rightarrow> uuid \<Rightarrow> (console, 'a) operation"

definition discord_get_dashboard :: "control_client \<Rightarrow> PlatformDashboardSummary connection_reader" where
  "discord_get_dashboard c org actor ext cor =
     control_call c (module_grant actor org cor None (Some ext)) ''GET'' (connection_path org ext ''/dashboard'') None
       ''Discord Control API dashboard request failed.'' parse_discord_dashboard"

definition discord_get_bot_settings :: "control_client \<Rightarrow> PlatformBotSettings connection_reader" where
  "discord_get_bot_settings c org actor ext cor =
     with_discord_subject c actor ''A linked Discord identity is required.'' (\<lambda>subject.
     control_call c (module_grant actor org cor (Some subject) (Some ext)) ''GET''
       (connection_path org ext ''/bot-settings'') None
       ''Discord Control API bot settings request failed.'' parse_discord_bot_settings)"

definition discord_get_server_statistics :: "control_client \<Rightarrow> PlatformServerStatistics connection_reader" where
  "discord_get_server_statistics c org actor ext cor =
     with_discord_subject c actor ''A linked Discord identity is required.'' (\<lambda>subject.
     control_call c (module_grant actor org cor (Some subject) (Some ext)) ''GET''
       (connection_path org ext ''/server-stats'') None
       ''Discord Control API server statistics request failed.'' parse_discord_server_statistics)"

definition discord_get_audit_timeline :: "control_client \<Rightarrow> PlatformAuditTimeline connection_reader" where
  "discord_get_audit_timeline c org actor ext cor =
     with_discord_subject c actor ''A linked Discord identity is required.'' (\<lambda>subject.
     control_call c (module_grant actor org cor (Some subject) (Some ext)) ''GET''
       (connection_path org ext ''/audit-timeline'') None
       ''Discord Control API audit timeline request failed.'' parse_discord_audit_timeline)"

definition discord_get_channel_catalog :: "control_client \<Rightarrow> PlatformChannelCatalog connection_reader" where
  "discord_get_channel_catalog c org actor ext cor =
     control_call c (module_grant actor org cor None (Some ext)) ''GET'' (connection_path org ext ''/channels'') None
       ''Discord Control API channel catalog request failed.'' parse_discord_channel_catalog"

definition discord_get_channel_purposes :: "control_client \<Rightarrow> PlatformChannelPurposes connection_reader" where
  "discord_get_channel_purposes c org actor ext cor =
     control_call c (module_grant actor org cor None (Some ext)) ''GET''
       (connection_path org ext ''/channel-purposes'') None
       ''Discord Control API channel purposes request failed.'' parse_discord_channel_purposes"

definition discord_get_welcome_settings :: "control_client \<Rightarrow> PlatformWelcomeSettings connection_reader" where
  "discord_get_welcome_settings c org actor ext cor =
     control_call c (module_grant actor org cor None (Some ext)) ''GET''
       (connection_path org ext ''/welcome-settings'') None
       ''Discord Control API welcome settings request failed.'' parse_discord_welcome_settings"

definition discord_get_integrations :: "control_client \<Rightarrow> PlatformIntegrations connection_reader" where
  "discord_get_integrations c org actor ext cor =
     with_discord_subject c actor ''A linked Discord identity is required.'' (\<lambda>subject.
     control_call c (module_grant actor org cor (Some subject) (Some ext)) ''GET''
       (connection_path org ext ''/integrations'') None
       ''Discord Control API integrations request failed.'' (parse_discord_integrations (client_conversions c)))"

definition discord_get_ai_moderation_summary :: "control_client \<Rightarrow> PlatformAiModerationSummary connection_reader" where
  "discord_get_ai_moderation_summary c org actor ext cor =
     control_call c (module_grant actor org cor None (Some ext)) ''GET''
       (connection_path org ext ''/ai-moderation-summary'') None
       ''Discord Control API AI moderation summary request failed.''
       (parse_discord_ai_moderation_summary (client_conversions c))"

text \<open>The two calls on the policy issue the assertion inside the \<open>try\<close> block.\<close>

definition policy_call ::
  "control_client \<Rightarrow> control_grant \<Rightarrow> string \<Rightarrow> string \<Rightarrow> error + json option \<Rightarrow> string \<Rightarrow>
   (json \<Rightarrow> error + 'a) \<Rightarrow> (console, 'a) operation" where
  "policy_call c g verb path body failure parse =
     (case andthen body (\<lambda>b. andthen (issue (client_hmac c) (client_assertions c) (client_now c) (client_jti c) g)
             (\<lambda>token. Inr (b, token))) of
        Inl _ \<Rightarrow> control_unavailable failure
      | Inr (b, token) \<Rightarrow>
          (case client_http c \<lparr>control_method = verb, control_path = path, control_bearer = token, control_body = b\<rparr> of
             None \<Rightarrow> control_unavailable failure
           | Some payload \<Rightarrow> construct (parse payload)))"

definition discord_get_ai_moderation_policy :: "control_client \<Rightarrow> PlatformAiModerationPolicyState connection_reader" where
  "discord_get_ai_moderation_policy c org actor ext cor =
     with_discord_subject c actor ''A linked Discord identity is required.'' (\<lambda>subject.
     policy_call c (module_grant actor org cor (Some subject) (Some ext)) ''GET''
       (connection_path org ext ''/ai-moderation-policy'') (Inr None)
       ''Discord Control API AI moderation policy request failed.''
       (parse_discord_ai_moderation_policy (client_conversions c)))"

section \<open>Writing\<close>

definition snowflake_or_null :: "unicode_tables \<Rightarrow> codes option \<Rightarrow> error + json" where
  "snowflake_or_null u value =
     (case value of None \<Rightarrow> Inr JNull | Some v \<Rightarrow> andthen (discord_snowflake u v) (\<lambda>n. Inr (JInt n)))"

definition text_or_null :: "codes option \<Rightarrow> json" where
  "text_or_null value = (case value of None \<Rightarrow> JNull | Some t \<Rightarrow> JString t)"

definition welcome_settings_payload :: "unicode_tables \<Rightarrow> PlatformWelcomeSettings \<Rightarrow> error + json" where
  "welcome_settings_payload u w =
     andthen (snowflake_or_null u (welcome_rules_channel_id w)) (\<lambda>rules.
     andthen (snowflake_or_null u (welcome_roles_channel_id w)) (\<lambda>roles.
     Inr (JObject
       [(ascii ''title'', JString (welcome_title w)), (ascii ''description'', JString (welcome_description w)),
        (ascii ''thumbnail_url'', text_or_null (welcome_thumbnail_url w)),
        (ascii ''footer_text'', text_or_null (welcome_footer_text w)),
        (ascii ''footer_icon_url'', text_or_null (welcome_footer_icon_url w)),
        (ascii ''color'', JInt (welcome_color w)), (ascii ''is_enabled'', JBool (welcome_is_enabled w)),
        (ascii ''rules_channel_id'', rules), (ascii ''roles_channel_id'', roles)])))"

text \<open>
  The channel identifier is parsed outside the \<open>try\<close> block, the payload of the welcome settings
  inside it.
\<close>

definition discord_update_channel_purpose ::
  "control_client \<Rightarrow> ChannelPurpose \<Rightarrow> codes \<Rightarrow> PlatformChannelPurposes connection_reader" where
  "discord_update_channel_purpose c purpose channel org actor ext cor =
     (if \<not> client_identities c then control_unavailable ''Discord identity verification is unavailable.''
      else bnd (find_provider_subject actor PROVIDER_DISCORD) (\<lambda>subject.
        bnd (construct (discord_snowflake (client_unicode c) channel)) (\<lambda>channel_number.
        case subject of
          None \<Rightarrow> control_unavailable ''A linked Discord identity and channel are required.''
        | Some s \<Rightarrow>
            control_call c (module_grant actor org cor (Some s) (Some ext)) ''PUT''
              (connection_path org ext ''/channel-purposes'')
              (Some (JObject [(ascii ''purpose'', JString (ascii (ChannelPurpose_value purpose))),
                              (ascii ''channel_id'', JInt channel_number)]))
              ''Discord Control API channel purpose update failed.'' parse_discord_channel_purposes)))"

definition discord_update_welcome_settings ::
  "control_client \<Rightarrow> PlatformWelcomeSettings \<Rightarrow> PlatformWelcomeSettings connection_reader" where
  "discord_update_welcome_settings c w org actor ext cor =
     with_discord_subject c actor ''A linked Discord identity is required.'' (\<lambda>subject.
     bnd (construct (issue (client_hmac c) (client_assertions c) (client_now c) (client_jti c)
            (module_grant actor org cor (Some subject) (Some ext)))) (\<lambda>token.
     case welcome_settings_payload (client_unicode c) w of
       Inl _ \<Rightarrow> control_unavailable ''Discord Control API welcome settings update failed.''
     | Inr body \<Rightarrow>
         (case client_http c \<lparr>control_method = ''PUT'', control_path = connection_path org ext ''/welcome-settings'',
                 control_bearer = token, control_body = Some body\<rparr> of
            None \<Rightarrow> control_unavailable ''Discord Control API welcome settings update failed.''
          | Some payload \<Rightarrow> construct (parse_discord_welcome_settings payload))))"

definition discord_update_ai_moderation_policy ::
  "control_client \<Rightarrow> PlatformAiModerationPolicy \<Rightarrow> PlatformAiModerationSummary connection_reader" where
  "discord_update_ai_moderation_policy c p org actor ext cor =
     with_discord_subject c actor ''A linked Discord identity is required.'' (\<lambda>subject.
     policy_call c (module_grant actor org cor (Some subject) (Some ext)) ''PUT''
       (connection_path org ext ''/ai-moderation-policy'')
       (andthen (discord_ai_moderation_policy_payload (client_conversions c) (client_unicode c) p)
          (\<lambda>body. Inr (Some (JObject [(ascii ''policy'', body)]))))
       ''Discord Control API AI moderation policy update failed.''
       (parse_discord_ai_moderation_summary (client_conversions c)))"

section \<open>Verification and reconciliation\<close>

definition platform_verify_connection ::
  "Platform \<Rightarrow> LoginIdentityProvider \<Rightarrow> string \<Rightarrow> string \<Rightarrow> control_client \<Rightarrow>
   uuid \<Rightarrow> uuid \<Rightarrow> Platform \<Rightarrow> string \<Rightarrow> uuid \<Rightarrow> (console, bool) operation" where
  "platform_verify_connection own provider failure invalid c actor org platform ext cor =
     (if platform \<noteq> own then ret False
      else bnd (find_provider_subject actor provider) (\<lambda>subject.
        case subject of
          None \<Rightarrow> ret False
        | Some s \<Rightarrow>
            control_call c
              \<lparr>grant_actor_id = actor, grant_organization_id = org, grant_resource = PLATFORM_CONNECTIONS,
               grant_action = ACTION_MANAGE, grant_correlation_id = cor, grant_platform_subject = Some s,
               grant_platform_resource_id = None\<rparr>
              ''POST'' (organization_path org ''/connections/verify'')
              (Some (JObject [(ascii ''platform'', JString (ascii (Platform_value platform))),
                              (ascii ''external_resource_id'', JString (ascii ext))]))
              failure (parse_verified invalid)))"

definition discord_verify_connection ::
  "control_client \<Rightarrow> uuid \<Rightarrow> uuid \<Rightarrow> Platform \<Rightarrow> string \<Rightarrow> uuid \<Rightarrow> (console, bool) operation" where
  "discord_verify_connection = platform_verify_connection DISCORD PROVIDER_DISCORD
     ''Discord Control API connection verification failed.''
     ''Discord Control API returned an invalid connection verification payload.''"

definition twitch_verify_connection ::
  "control_client \<Rightarrow> uuid \<Rightarrow> uuid \<Rightarrow> Platform \<Rightarrow> string \<Rightarrow> uuid \<Rightarrow> (console, bool) operation" where
  "twitch_verify_connection = platform_verify_connection TWITCH PROVIDER_TWITCH
     ''Twitch Control API connection verification failed.''
     ''Twitch Control API returned an invalid connection verification payload.''"

definition platform_inspect_connection ::
  "Platform \<Rightarrow> string \<Rightarrow> (json \<Rightarrow> error + ConnectionReconciliationDecision) \<Rightarrow> control_client \<Rightarrow> uuid \<Rightarrow>
   PlatformConnection \<Rightarrow> uuid \<Rightarrow> (console, ConnectionReconciliationDecision) operation" where
  "platform_inspect_connection own failure parse c system_actor connection cor =
     (if connection_platform connection \<noteq> own
      then construct (ConnectionReconciliationDecision_post_init
        \<lparr>decision_target_status = connection_status connection, decision_reason = HEALTHY\<rparr>)
      else control_call c
        \<lparr>grant_actor_id = system_actor, grant_organization_id = connection_organization_id connection,
         grant_resource = PLATFORM_CONNECTIONS, grant_action = ACTION_READ, grant_correlation_id = cor,
         grant_platform_subject = None,
         grant_platform_resource_id = Some (connection_external_resource_id connection)\<rparr>
        ''GET'' (connection_path (connection_organization_id connection)
          (connection_external_resource_id connection) ''/reconciliation'') None failure parse)"

definition discord_inspect_connection ::
  "control_client \<Rightarrow> uuid \<Rightarrow> PlatformConnection \<Rightarrow> uuid \<Rightarrow> (console, ConnectionReconciliationDecision) operation" where
  "discord_inspect_connection = platform_inspect_connection DISCORD
     ''Discord Control API connection reconciliation request failed.'' parse_connection_reconciliation_decision"

definition twitch_inspect_connection ::
  "control_client \<Rightarrow> uuid \<Rightarrow> PlatformConnection \<Rightarrow> uuid \<Rightarrow> (console, ConnectionReconciliationDecision) operation" where
  "twitch_inspect_connection = platform_inspect_connection TWITCH
     ''Twitch Control API connection reconciliation request failed.'' parse_twitch_connection_reconciliation_decision"

lemmas control_client_methods = discord_list_modules_def discord_get_health_def twitch_get_health_def
  discord_get_dashboard_def discord_get_bot_settings_def discord_get_server_statistics_def
  discord_get_audit_timeline_def discord_get_channel_catalog_def discord_get_channel_purposes_def
  discord_get_welcome_settings_def discord_get_integrations_def discord_get_ai_moderation_summary_def
  discord_get_ai_moderation_policy_def discord_update_ai_moderation_policy_def discord_update_channel_purpose_def discord_update_welcome_settings_def
  discord_verify_connection_def twitch_verify_connection_def platform_verify_connection_def
  discord_inspect_connection_def twitch_inspect_connection_def platform_inspect_connection_def

section \<open>A call leaves the database as it was\<close>

lemma silent_control_call [simp]: "silent (control_call c g verb path body failure parse)"
  unfolding control_call_def control_unavailable_def by (intro silent_bnd silent_option silent_simps)

lemma silent_policy_call [simp]: "silent (policy_call c g verb path body failure parse)"
  unfolding policy_call_def control_unavailable_def
  by (auto intro!: silent_option silent_simps split: sum.split prod.split)

lemma silent_with_discord_subject:
  "(\<And>s. silent (f s)) \<Longrightarrow> silent (with_discord_subject c actor missing f)"
  unfolding with_discord_subject_def control_unavailable_def
  by (intro silent_if silent_bnd silent_option silent_simps silent_identity_readers)

lemma silent_control_client [simp]:
  "silent (discord_list_modules c org actor cor)" "silent (discord_get_health c org actor cor)"
  "silent (twitch_get_health c org actor cor)" "silent (discord_get_dashboard c org actor ext cor)"
  "silent (discord_get_bot_settings c org actor ext cor)"
  "silent (discord_get_server_statistics c org actor ext cor)"
  "silent (discord_get_audit_timeline c org actor ext cor)"
  "silent (discord_get_channel_catalog c org actor ext cor)"
  "silent (discord_get_channel_purposes c org actor ext cor)"
  "silent (discord_get_welcome_settings c org actor ext cor)"
  "silent (discord_get_integrations c org actor ext cor)"
  "silent (discord_get_ai_moderation_summary c org actor ext cor)"
  "silent (discord_get_ai_moderation_policy c org actor ext cor)"
  "silent (discord_update_channel_purpose c p ch org actor ext cor)"
  "silent (discord_update_welcome_settings c w org actor ext cor)"
  "silent (discord_update_ai_moderation_policy c q org actor ext cor)"
  "silent (platform_verify_connection own pr f i c actor org pf ext cor)"
  "silent (platform_inspect_connection own f ps c actor conn cor)"
  unfolding control_client_methods control_unavailable_def
  by (auto intro!: silent_with_discord_subject silent_control_call silent_policy_call silent_if silent_bnd
      silent_option silent_simps silent_identity_readers split: sum.split)

end
