(* ===== verification/Control.thy ===== *)
theory Control
  imports Control_Client Candidates
begin

text \<open>
  The use cases on the bot services of connected platforms: \<open>list_control_modules_use_case.py\<close>,
  \<open>get_platform_*.py\<close>, \<open>list_platform_connection_channels.py\<close>, \<open>update_platform_*.py\<close>. Each one
  asks the authorizer for an action on the control modules, looks the connection up in the organization
  and passes its external identifier to an adapter, which is an argument.
\<close>

section \<open>Access\<close>

definition is_usable :: "PlatformConnection \<Rightarrow> bool" where
  "is_usable c \<longleftrightarrow> connection_status c = CONN_ACTIVE \<or> connection_status c = DEGRADED"

definition is_usable_discord :: "PlatformConnection \<Rightarrow> bool" where
  "is_usable_discord c \<longleftrightarrow> connection_platform c = DISCORD \<and> is_usable c"

definition is_active_discord :: "PlatformConnection \<Rightarrow> bool" where
  "is_active_discord c \<longleftrightarrow> connection_platform c = DISCORD \<and> connection_status c = CONN_ACTIVE"

definition no_usable_connection :: "('s, 'a) operation" where
  "no_usable_connection = raise (PlatformHealthUnavailableError ''No usable platform connection exists.'')"

definition with_control_access ::
  "AuthorizationAction \<Rightarrow> string \<Rightarrow> uuid \<Rightarrow> uuid \<Rightarrow> (console, 'a) operation \<Rightarrow> (console, 'a) operation" where
  "with_control_access action denied actor org m =
     bnd (authorize get_membership (authorization_request actor org CONTROL_MODULES action)) (\<lambda>decision.
     if \<not> allowed decision then raise (AccessDeniedError denied) else m)"

definition with_connection ::
  "AuthorizationAction \<Rightarrow> string \<Rightarrow> uuid \<Rightarrow> uuid \<Rightarrow> uuid \<Rightarrow> (PlatformConnection \<Rightarrow> bool) \<Rightarrow>
   (PlatformConnection \<Rightarrow> (console, 'a) operation) \<Rightarrow> (console, 'a) operation" where
  "with_connection action denied actor org cid suitable f =
     with_control_access action denied actor org
       (bnd (find_connection_for_organization org cid) (\<lambda>found.
        case found of
          None \<Rightarrow> no_usable_connection
        | Some connection \<Rightarrow> if suitable connection then f connection else no_usable_connection))"

definition through_adapter ::
  "(Platform \<Rightarrow> 'r option) \<Rightarrow> string \<Rightarrow> PlatformConnection \<Rightarrow> ('r \<Rightarrow> (console, 'a) operation) \<Rightarrow> (console, 'a) operation" where
  "through_adapter adapters missing connection f =
     (case adapters (connection_platform connection) of
        None \<Rightarrow> raise (PlatformHealthUnavailableError missing)
      | Some adapter \<Rightarrow> f adapter)"

section \<open>Modules and health\<close>

definition ListControlModules_execute ::
  "(uuid \<Rightarrow> uuid \<Rightarrow> uuid \<Rightarrow> (console, ControlModule list) operation) \<Rightarrow> uuid \<Rightarrow> uuid \<Rightarrow> uuid \<Rightarrow>
   (console, ControlModule list) operation" where
  "ListControlModules_execute catalog actor org cor =
     with_control_access ACTION_READ ''The actor is not allowed to view this organization.'' actor org
       (catalog org actor cor)"

definition GetPlatformHealth_execute ::
  "(Platform \<Rightarrow> (uuid \<Rightarrow> uuid \<Rightarrow> uuid \<Rightarrow> (console, PlatformHealth) operation) option) \<Rightarrow>
   uuid \<Rightarrow> uuid \<Rightarrow> Platform \<Rightarrow> uuid \<Rightarrow> (console, PlatformHealth) operation" where
  "GetPlatformHealth_execute readers actor org platform cor =
     with_control_access ACTION_READ ''The actor is not allowed to view platform health.'' actor org
       (bnd (list_connections_for_organization org None 100) (\<lambda>connections.
        if \<not> list_ex (\<lambda>c. connection_platform c = platform \<and> is_usable c) connections then no_usable_connection
        else (case readers platform of
                None \<Rightarrow> raise (PlatformHealthUnavailableError ''No platform health adapter is available.'')
              | Some reader \<Rightarrow> reader org actor cor)))"

section \<open>Reading through the adapter of the platform\<close>

definition GetPlatformDashboardSummary_execute ::
  "(Platform \<Rightarrow> PlatformDashboardSummary connection_reader option) \<Rightarrow> uuid \<Rightarrow> uuid \<Rightarrow> uuid \<Rightarrow> uuid \<Rightarrow>
   (console, PlatformDashboardSummary) operation" where
  "GetPlatformDashboardSummary_execute readers actor org cid cor =
     with_connection ACTION_READ ''The actor is not allowed to view platform dashboard summaries.''
       actor org cid is_usable (\<lambda>connection.
     through_adapter readers ''No dashboard adapter is available.'' connection (\<lambda>reader.
     reader org actor (connection_external_resource_id connection) cor))"

definition ListPlatformConnectionChannels_execute ::
  "(Platform \<Rightarrow> PlatformChannelCatalog connection_reader option) \<Rightarrow> uuid \<Rightarrow> uuid \<Rightarrow> uuid \<Rightarrow> uuid \<Rightarrow>
   (console, PlatformChannelCatalog) operation" where
  "ListPlatformConnectionChannels_execute readers actor org cid cor =
     with_connection ACTION_READ ''The actor is not allowed to view platform channels.''
       actor org cid is_usable (\<lambda>connection.
     through_adapter readers ''No channel catalog adapter is available.'' connection (\<lambda>reader.
     reader org actor (connection_external_resource_id connection) cor))"

definition GetPlatformBotSettings_execute ::
  "(Platform \<Rightarrow> PlatformBotSettings connection_reader option) \<Rightarrow> uuid \<Rightarrow> uuid \<Rightarrow> uuid \<Rightarrow> uuid \<Rightarrow>
   (console, PlatformBotSettings) operation" where
  "GetPlatformBotSettings_execute readers actor org cid cor =
     with_connection ACTION_MANAGE ''The actor is not allowed to view bot settings.''
       actor org cid is_usable (\<lambda>connection.
     through_adapter readers ''No bot settings adapter is available.'' connection (\<lambda>reader.
     reader org actor (connection_external_resource_id connection) cor))"

definition GetPlatformServerStatistics_execute ::
  "(Platform \<Rightarrow> PlatformServerStatistics connection_reader option) \<Rightarrow> uuid \<Rightarrow> uuid \<Rightarrow> uuid \<Rightarrow> uuid \<Rightarrow>
   (console, PlatformServerStatistics) operation" where
  "GetPlatformServerStatistics_execute readers actor org cid cor =
     with_connection ACTION_MANAGE ''The actor is not allowed to view server statistics.''
       actor org cid is_usable (\<lambda>connection.
     through_adapter readers ''No server statistics adapter is available.'' connection (\<lambda>reader.
     reader org actor (connection_external_resource_id connection) cor))"

definition GetPlatformAuditTimeline_execute ::
  "(Platform \<Rightarrow> PlatformAuditTimeline connection_reader option) \<Rightarrow> uuid \<Rightarrow> uuid \<Rightarrow> uuid \<Rightarrow> uuid \<Rightarrow>
   (console, PlatformAuditTimeline) operation" where
  "GetPlatformAuditTimeline_execute readers actor org cid cor =
     with_connection ACTION_MANAGE ''The actor is not allowed to view audit timeline events.''
       actor org cid is_usable (\<lambda>connection.
     through_adapter readers ''No audit timeline adapter is available.'' connection (\<lambda>reader.
     reader org actor (connection_external_resource_id connection) cor))"

definition GetPlatformIntegrations_execute ::
  "(Platform \<Rightarrow> PlatformIntegrations connection_reader option) \<Rightarrow> uuid \<Rightarrow> uuid \<Rightarrow> uuid \<Rightarrow> uuid \<Rightarrow>
   (console, PlatformIntegrations) operation" where
  "GetPlatformIntegrations_execute readers actor org cid cor =
     with_connection ACTION_MANAGE ''The actor is not allowed to view integrations.''
       actor org cid is_usable (\<lambda>connection.
     through_adapter readers ''No integrations adapter is available.'' connection (\<lambda>reader.
     reader org actor (connection_external_resource_id connection) cor))"

section \<open>Reading from Discord\<close>

definition GetPlatformChannelPurposes_execute ::
  "PlatformChannelPurposes connection_reader \<Rightarrow> uuid \<Rightarrow> uuid \<Rightarrow> uuid \<Rightarrow> uuid \<Rightarrow> (console, PlatformChannelPurposes) operation" where
  "GetPlatformChannelPurposes_execute reader actor org cid cor =
     with_connection ACTION_READ ''The actor is not allowed to view channel purposes.''
       actor org cid is_usable_discord (\<lambda>connection.
     reader org actor (connection_external_resource_id connection) cor)"

definition GetPlatformWelcomeSettings_execute ::
  "PlatformWelcomeSettings connection_reader \<Rightarrow> uuid \<Rightarrow> uuid \<Rightarrow> uuid \<Rightarrow> uuid \<Rightarrow> (console, PlatformWelcomeSettings) operation" where
  "GetPlatformWelcomeSettings_execute reader actor org cid cor =
     with_connection ACTION_READ ''The actor is not allowed to view welcome settings.''
       actor org cid is_usable_discord (\<lambda>connection.
     reader org actor (connection_external_resource_id connection) cor)"

definition GetPlatformRolePurposes_execute ::
  "PlatformRolePurposes connection_reader \<Rightarrow> uuid \<Rightarrow> uuid \<Rightarrow> uuid \<Rightarrow> uuid \<Rightarrow> (console, PlatformRolePurposes) operation" where
  "GetPlatformRolePurposes_execute reader actor org cid cor =
     with_connection ACTION_READ ''The actor is not allowed to view role purposes.''
       actor org cid is_usable_discord (\<lambda>connection.
     reader org actor (connection_external_resource_id connection) cor)"

definition GetPlatformAiModerationSummary_execute ::
  "PlatformAiModerationSummary connection_reader \<Rightarrow> uuid \<Rightarrow> uuid \<Rightarrow> uuid \<Rightarrow> uuid \<Rightarrow> (console, PlatformAiModerationSummary) operation" where
  "GetPlatformAiModerationSummary_execute reader actor org cid cor =
     with_connection ACTION_READ ''The actor is not allowed to view AI moderation settings.''
       actor org cid is_usable_discord (\<lambda>connection.
     reader org actor (connection_external_resource_id connection) cor)"

definition GetPlatformAiModerationPolicy_execute ::
  "PlatformAiModerationPolicyState connection_reader \<Rightarrow> uuid \<Rightarrow> uuid \<Rightarrow> uuid \<Rightarrow> uuid \<Rightarrow> (console, PlatformAiModerationPolicyState) operation" where
  "GetPlatformAiModerationPolicy_execute reader actor org cid cor =
     with_connection ACTION_MANAGE ''The actor is not allowed to view AI moderation policy.''
       actor org cid is_usable_discord (\<lambda>connection.
     reader org actor (connection_external_resource_id connection) cor)"

section \<open>Updating\<close>

definition UpdatePlatformChannelPurpose_execute ::
  "(ChannelPurpose \<Rightarrow> codes \<Rightarrow> PlatformChannelPurposes connection_reader) \<Rightarrow> uuid \<Rightarrow> uuid \<Rightarrow> uuid \<Rightarrow>
   ChannelPurpose \<Rightarrow> codes \<Rightarrow> uuid \<Rightarrow> (console, PlatformChannelPurposes) operation" where
  "UpdatePlatformChannelPurpose_execute writer actor org cid purpose channel cor =
     with_connection ACTION_MANAGE ''The actor is not allowed to update channel purposes.''
       actor org cid is_active_discord (\<lambda>connection.
     writer purpose channel org actor (connection_external_resource_id connection) cor)"

definition UpdatePlatformWelcomeSettings_execute ::
  "(PlatformWelcomeSettings \<Rightarrow> PlatformWelcomeSettings connection_reader) \<Rightarrow> uuid \<Rightarrow> uuid \<Rightarrow> uuid \<Rightarrow>
   PlatformWelcomeSettings \<Rightarrow> uuid \<Rightarrow> (console, PlatformWelcomeSettings) operation" where
  "UpdatePlatformWelcomeSettings_execute writer actor org cid settings cor =
     with_connection ACTION_MANAGE ''The actor is not allowed to update welcome settings.''
       actor org cid (\<lambda>c. is_active_discord c \<and> welcome_platform settings = connection_platform c) (\<lambda>connection.
     writer settings org actor (connection_external_resource_id connection) cor)"

definition policy_audit_event :: "uuid \<Rightarrow> uuid \<Rightarrow> uuid \<Rightarrow> uuid \<Rightarrow> uuid \<Rightarrow> string \<Rightarrow> error + AuditEvent" where
  "policy_audit_event eid correlation actor org cid result = AuditEvent_post_init
     \<lparr>audit_id = eid, audit_correlation_id = correlation, audit_actor_id = Some actor,
      audit_organization_id = Some org, audit_action = ''platform_ai_moderation_policy.updated'',
      audit_resource_type = ''platform_connection'', audit_resource_id = Some (uuid_str cid),
      audit_result = result\<rparr>"

definition record_policy_audit ::
  "io \<Rightarrow> BrowserSessionPrincipal \<Rightarrow> uuid \<Rightarrow> uuid \<Rightarrow> uuid \<Rightarrow> string \<Rightarrow> (console, unit) operation" where
  "record_policy_audit io who org cid cor result =
     bnd (construct (policy_audit_event (new_id io 0) cor (principal_user_id who) org cid result)) (\<lambda>event.
     audit_writer_record (db_now io 0) event)"

definition UpdatePlatformAiModerationPolicy_execute ::
  "io \<Rightarrow> (PlatformAiModerationPolicy \<Rightarrow> PlatformAiModerationSummary connection_reader) \<Rightarrow> BrowserSessionPrincipal \<Rightarrow>
   uuid \<Rightarrow> uuid \<Rightarrow> PlatformAiModerationPolicy \<Rightarrow> uuid \<Rightarrow> (console, PlatformAiModerationSummary) operation" where
  "UpdatePlatformAiModerationPolicy_execute io writer who org cid policy cor =
     bnd (RequireRecentAuthentication_check (clock io 0) who) (\<lambda>_.
     with_connection ACTION_MANAGE ''The actor is not allowed to update AI moderation policy.''
       (principal_user_id who) org cid
       (\<lambda>c. is_active_discord c \<and> policy_platform policy = connection_platform c) (\<lambda>connection.
     bnd (catching (writer policy org (principal_user_id who) (connection_external_resource_id connection) cor)
            (\<lambda>e. bnd (record_policy_audit io who org cid cor ''failed'') (\<lambda>_. raise e))) (\<lambda>summary.
     bnd (record_policy_audit io who org cid cor ''succeeded'') (\<lambda>_. ret summary))))"

lemmas control_guards = with_connection_def with_control_access_def through_adapter_def no_usable_connection_def

lemmas control_use_cases = ListControlModules_execute_def GetPlatformHealth_execute_def
  GetPlatformDashboardSummary_execute_def ListPlatformConnectionChannels_execute_def
  GetPlatformBotSettings_execute_def GetPlatformServerStatistics_execute_def
  GetPlatformAuditTimeline_execute_def GetPlatformIntegrations_execute_def
  GetPlatformChannelPurposes_execute_def GetPlatformWelcomeSettings_execute_def
  GetPlatformRolePurposes_execute_def GetPlatformAiModerationSummary_execute_def
  GetPlatformAiModerationPolicy_execute_def
  UpdatePlatformChannelPurpose_execute_def UpdatePlatformWelcomeSettings_execute_def
  UpdatePlatformAiModerationPolicy_execute_def

section \<open>Laws\<close>

lemma silent_with_control_access: "silent m \<Longrightarrow> silent (with_control_access action denied actor org m)"
  unfolding with_control_access_def by (intro silent_bnd silent_authorize silent_if silent_simps)

lemma silent_with_connection:
  "(\<And>c. silent (f c)) \<Longrightarrow> silent (with_connection action denied actor org cid suitable f)"
  unfolding with_connection_def no_usable_connection_def
  by (intro silent_with_control_access silent_bnd silent_connection_readers silent_option silent_if silent_simps)

lemma silent_through_adapter:
  "(\<And>a. adapters (connection_platform c) = Some a \<Longrightarrow> silent (f a)) \<Longrightarrow> silent (through_adapter adapters missing c f)"
  unfolding through_adapter_def by (intro silent_option silent_simps)

lemma silent_control_modules_health:
  "(\<And>o' a x. silent (catalog o' a x)) \<Longrightarrow> silent (ListControlModules_execute catalog actor org cor)"
  "(\<And>p r o' a x. health_readers p = Some r \<Longrightarrow> silent (r o' a x)) \<Longrightarrow>
   silent (GetPlatformHealth_execute health_readers actor org platform cor)"
  unfolding ListControlModules_execute_def GetPlatformHealth_execute_def no_usable_connection_def
  by (intro silent_with_control_access silent_bnd silent_connection_readers silent_if silent_option silent_simps; assumption?; blast?)+

lemma silent_adapter_readers:
  "(\<And>p r o' a x k. readers1 p = Some r \<Longrightarrow> silent (r o' a x k)) \<Longrightarrow>
   silent (GetPlatformDashboardSummary_execute readers1 actor org cid cor)"
  "(\<And>p r o' a x k. readers2 p = Some r \<Longrightarrow> silent (r o' a x k)) \<Longrightarrow>
   silent (ListPlatformConnectionChannels_execute readers2 actor org cid cor)"
  "(\<And>p r o' a x k. readers3 p = Some r \<Longrightarrow> silent (r o' a x k)) \<Longrightarrow>
   silent (GetPlatformBotSettings_execute readers3 actor org cid cor)"
  "(\<And>p r o' a x k. readers4 p = Some r \<Longrightarrow> silent (r o' a x k)) \<Longrightarrow>
   silent (GetPlatformServerStatistics_execute readers4 actor org cid cor)"
  "(\<And>p r o' a x k. readers5 p = Some r \<Longrightarrow> silent (r o' a x k)) \<Longrightarrow>
   silent (GetPlatformAuditTimeline_execute readers5 actor org cid cor)"
  "(\<And>p r o' a x k. readers6 p = Some r \<Longrightarrow> silent (r o' a x k)) \<Longrightarrow>
   silent (GetPlatformIntegrations_execute readers6 actor org cid cor)"
  unfolding control_use_cases by (intro silent_with_connection silent_through_adapter; blast)+

lemma silent_discord_readers:
  "(\<And>o' a x k. silent (reader1 o' a x k)) \<Longrightarrow> silent (GetPlatformChannelPurposes_execute reader1 actor org cid cor)"
  "(\<And>o' a x k. silent (reader2 o' a x k)) \<Longrightarrow> silent (GetPlatformWelcomeSettings_execute reader2 actor org cid cor)"
  "(\<And>o' a x k. silent (reader3 o' a x k)) \<Longrightarrow> silent (GetPlatformRolePurposes_execute reader3 actor org cid cor)"
  "(\<And>o' a x k. silent (reader4 o' a x k)) \<Longrightarrow> silent (GetPlatformAiModerationSummary_execute reader4 actor org cid cor)"
  "(\<And>o' a x k. silent (reader5 o' a x k)) \<Longrightarrow> silent (GetPlatformAiModerationPolicy_execute reader5 actor org cid cor)"
  "(\<And>p ch o' a x k. silent (writer1 p ch o' a x k)) \<Longrightarrow>
   silent (UpdatePlatformChannelPurpose_execute writer1 actor org cid purpose channel cor)"
  "(\<And>w o' a x k. silent (writer2 w o' a x k)) \<Longrightarrow>
   silent (UpdatePlatformWelcomeSettings_execute writer2 actor org cid settings cor)"
  unfolding control_use_cases by (intro silent_with_connection; blast)+

text \<open>The update of the moderation policy writes an audit row and nothing else.\<close>

lemma policy_update_obeys:
  assumes law: "step_law R" and quiet: "\<And>p o' a x k. silent (writer p o' a x k)"
    and writes: "\<And>t e. obeys R (audit_writer_record t e)"
  shows "obeys R (UpdatePlatformAiModerationPolicy_execute io writer who org cid policy cor)"
  unfolding UpdatePlatformAiModerationPolicy_execute_def control_guards record_policy_audit_def
  by (intro step_law.bnd [OF law] step_law.catching [OF law] step_law.option_op [OF law] step_law.if_op [OF law]
      step_law.ret [OF law] step_law.raise [OF law] writes silent_obeys [OF quiet] silent_obeys [OF silent_authorize]
      silent_obeys [OF silent_connection_readers(3)] silent_obeys [OF silent_session_checks(1)]
      construct_obeys step_law.law_refl [OF law])

end
