(* ===== verification/Control_Responses.thy ===== *)
theory Control_Responses
  imports Control
begin

text \<open>
  The response contracts of the endpoints on bot services (\<open>contracts/v1/control_modules.py\<close>,
  \<open>platform_*.py\<close>, \<open>ai_moderation_policy.py\<close>): the identifiers of the request next to the fields of the
  domain value.
\<close>

datatype control_content =
    ModulesContent uuid "ControlModule list"
  | HealthContent uuid PlatformHealth
  | DashboardContent uuid uuid PlatformDashboardSummary
  | BotSettingsContent uuid uuid PlatformBotSettings
  | TimelineContent uuid uuid PlatformAuditTimeline
  | StatisticsContent uuid uuid PlatformServerStatistics int
  | IntegrationsContent uuid uuid PlatformIntegrations
  | ChannelsContent uuid uuid PlatformChannelCatalog
  | PurposesContent uuid uuid PlatformChannelPurposes
  | SummaryContent uuid uuid PlatformAiModerationSummary
  | PolicyContent uuid uuid AiModerationPolicyUpdateRequest bool
  | WelcomeContent uuid uuid PlatformWelcomeSettings

text \<open>The body of a welcome update has every field of the settings but the platform.\<close>

record PlatformWelcomeSettingsUpdateRequest =
  wu_title :: codes
  wu_description :: codes
  wu_thumbnail_url :: "codes option"
  wu_footer_text :: "codes option"
  wu_footer_icon_url :: "codes option"
  wu_color :: int
  wu_is_enabled :: bool
  wu_rules_channel_id :: "codes option"
  wu_roles_channel_id :: "codes option"

definition welcome_settings_of ::
  "PlatformWelcomeSettingsUpdateRequest \<Rightarrow> error + PlatformWelcomeSettings" where
  "welcome_settings_of q = PlatformWelcomeSettings_post_init
     \<lparr>welcome_platform = DISCORD, welcome_title = wu_title q, welcome_description = wu_description q,
      welcome_thumbnail_url = wu_thumbnail_url q, welcome_footer_text = wu_footer_text q,
      welcome_footer_icon_url = wu_footer_icon_url q, welcome_color = wu_color q,
      welcome_is_enabled = wu_is_enabled q, welcome_rules_channel_id = wu_rules_channel_id q,
      welcome_roles_channel_id = wu_roles_channel_id q\<rparr>"

text \<open>The net growth of a server is the difference of its joins and leaves.\<close>

definition server_statistics_content :: "uuid \<Rightarrow> uuid \<Rightarrow> PlatformServerStatistics \<Rightarrow> control_content" where
  "server_statistics_content org cid s = StatisticsContent org cid s (joins s - leaves s)"

section \<open>The use cases of the endpoints\<close>

type_synonym ('s, 'a) connection_use_case = "uuid \<Rightarrow> uuid \<Rightarrow> uuid \<Rightarrow> uuid \<Rightarrow> ('s, 'a) operation"

record 's control_use_cases =
  uc_modules :: "uuid \<Rightarrow> uuid \<Rightarrow> uuid \<Rightarrow> ('s, ControlModule list) operation"
  uc_health :: "(uuid \<Rightarrow> uuid \<Rightarrow> Platform \<Rightarrow> uuid \<Rightarrow> ('s, PlatformHealth) operation) option"
  uc_audit_timeline :: "('s, PlatformAuditTimeline) connection_use_case option"
  uc_dashboard :: "('s, PlatformDashboardSummary) connection_use_case option"
  uc_channels :: "('s, PlatformChannelCatalog) connection_use_case option"
  uc_channel_purposes :: "('s, PlatformChannelPurposes) connection_use_case option"
  uc_ai_summary :: "('s, PlatformAiModerationSummary) connection_use_case option"
  uc_bot_settings :: "('s, PlatformBotSettings) connection_use_case option"
  uc_integrations :: "('s, PlatformIntegrations) connection_use_case option"
  uc_server_statistics :: "('s, PlatformServerStatistics) connection_use_case option"
  uc_ai_policy :: "('s, PlatformAiModerationPolicyState) connection_use_case option"
  uc_update_ai_policy ::
    "(BrowserSessionPrincipal \<Rightarrow> uuid \<Rightarrow> uuid \<Rightarrow> PlatformAiModerationPolicy \<Rightarrow> uuid \<Rightarrow>
      ('s, PlatformAiModerationSummary) operation) option"
  uc_update_channel_purpose ::
    "(uuid \<Rightarrow> uuid \<Rightarrow> uuid \<Rightarrow> ChannelPurpose \<Rightarrow> codes \<Rightarrow> uuid \<Rightarrow> ('s, PlatformChannelPurposes) operation) option"
  uc_welcome_settings :: "('s, PlatformWelcomeSettings) connection_use_case option"
  uc_update_welcome_settings ::
    "(uuid \<Rightarrow> uuid \<Rightarrow> uuid \<Rightarrow> PlatformWelcomeSettings \<Rightarrow> uuid \<Rightarrow> ('s, PlatformWelcomeSettings) operation) option"

end
