(* ===== verification/Api_Responses.thy ===== *)
theory Api_Responses
  imports Http Candidates Account_Properties Control_Responses
begin

text \<open>
  The response contracts of the account and organization endpoints (\<open>contracts/v1/sessions.py\<close>,
  \<open>identities.py\<close>, \<open>organizations.py\<close>, \<open>platform_connections.py\<close>, \<open>audit_events.py\<close>,
  \<open>authentication.py\<close>) and the functions of \<open>presentation/api.py\<close> that fill them from domain
  objects. A contract lists what leaves the server: neither token hashes nor e-mail ciphertexts occur.
\<close>

section \<open>Sessions and identities\<close>

record BrowserSessionResponse =
  bs_id :: uuid
  bs_is_current :: bool
  bs_assurance_level :: SessionAssuranceLevel
  bs_authenticated_at :: "datetime option"
  bs_last_seen_at :: "datetime option"
  bs_expires_at :: datetime
  bs_device_label :: "string option"
  bs_ip_fingerprint :: "string option"
  bs_user_agent_fingerprint :: "string option"

definition fingerprint_label :: "string \<Rightarrow> string option \<Rightarrow> string option" where
  "fingerprint_label label value =
     (case value of
        None \<Rightarrow> if label \<noteq> ''Browser'' then None else Some ''Unknown browser''
      | Some v \<Rightarrow> Some (label @ '':'' @ take 12 v))"

definition browser_session_response :: "BrowserSessionSecurityView \<Rightarrow> BrowserSessionResponse" where
  "browser_session_response view =
     (let session = view_session view in
      \<lparr>bs_id = session_id session, bs_is_current = view_is_current view,
       bs_assurance_level = session_assurance_level session,
       bs_authenticated_at = session_authenticated_at session,
       bs_last_seen_at = (case session_last_seen_at session of Some t \<Rightarrow> Some t | None \<Rightarrow> session_authenticated_at session),
       bs_expires_at = session_expires_at session,
       bs_device_label = fingerprint_label ''Browser'' (session_user_agent_hash session),
       bs_ip_fingerprint = fingerprint_label ''ip'' (session_ip_hash session),
       bs_user_agent_fingerprint = fingerprint_label ''ua'' (session_user_agent_hash session)\<rparr>)"

record LoginIdentityResponse =
  ir_id :: uuid
  ir_provider :: LoginIdentityProvider
  ir_linked_at :: datetime
  ir_last_used_at :: "datetime option"
  ir_can_unlink :: bool

definition login_identity_response :: "nat \<Rightarrow> LoginIdentityProfile \<Rightarrow> LoginIdentityResponse" where
  "login_identity_response total_identity_count identity =
     \<lparr>ir_id = profile_id identity, ir_provider = profile_provider identity,
      ir_linked_at = profile_linked_at identity, ir_last_used_at = profile_last_used_at identity,
      ir_can_unlink = (profile_provider identity \<noteq> PROVIDER_EMAIL \<and> 1 < total_identity_count)\<rparr>"

section \<open>Organizations\<close>

record OrganizationMembershipResponse =
  mr_id :: "uuid option"
  mr_organization_id :: uuid
  mr_user_id :: uuid
  mr_display_name :: "string option"
  mr_role :: OrganizationRole
  mr_resource_scopes :: "MembershipResourceScope list"

text \<open>\<open>str\<close> of an optional identifier.\<close>

definition opt_uuid_str :: "uuid option \<Rightarrow> string" where
  "opt_uuid_str i = (case i of None \<Rightarrow> ''None'' | Some u \<Rightarrow> uuid_str u)"

definition string_le :: "string \<Rightarrow> string \<Rightarrow> bool" where
  "string_le a b = lexordp_eq (map of_char a) (map of_char b :: nat list)"

definition scope_le :: "MembershipResourceScope \<Rightarrow> MembershipResourceScope \<Rightarrow> bool" where
  "scope_le a b =
     (let ra = AuthorizationResource_value (scope_resource a); rb = AuthorizationResource_value (scope_resource b);
          aa = AuthorizationAction_value (scope_action a); ab = AuthorizationAction_value (scope_action b) in
      if ra \<noteq> rb then string_le ra rb
      else if aa \<noteq> ab then string_le aa ab
      else string_le (opt_uuid_str (scope_id a)) (opt_uuid_str (scope_id b)))"

definition membership_response :: "string option \<Rightarrow> OrganizationMembership \<Rightarrow> OrganizationMembershipResponse" where
  "membership_response display_name membership =
     \<lparr>mr_id = member_id membership, mr_organization_id = member_organization_id membership,
      mr_user_id = member_actor_id membership, mr_display_name = display_name, mr_role = member_role membership,
      mr_resource_scopes = order_by scope_le (member_resource_scopes membership)\<rparr>"

definition organization_member_response :: "OrganizationMemberProfile \<Rightarrow> OrganizationMembershipResponse" where
  "organization_member_response member =
     membership_response (Some (mprofile_display_name member)) (mprofile_membership member)"

record OrganizationInvitationResponse =
  or_id :: uuid
  or_organization_id :: uuid
  or_email_hint :: string
  or_role :: OrganizationRole
  or_resource_scopes :: "MembershipResourceScope list"
  or_status :: OrganizationInvitationStatus
  or_expires_at :: datetime
  or_created_at :: datetime
  or_accepted_at :: "datetime option"
  or_revoked_at :: "datetime option"
  or_delivery_status :: "string option"

definition organization_invitation_response ::
  "datetime \<Rightarrow> string option \<Rightarrow> OrganizationInvitation \<Rightarrow> error + OrganizationInvitationResponse" where
  "organization_invitation_response now delivery_status invitation =
     (case status_at invitation now of
        Inl e \<Rightarrow> Inl e
      | Inr status \<Rightarrow> Inr
          \<lparr>or_id = invitation_id invitation, or_organization_id = invitation_organization_id invitation,
           or_email_hint = invitation_email_hint invitation, or_role = invitation_role invitation,
           or_resource_scopes = order_by scope_le (invitation_resource_scopes invitation),
           or_status = status, or_expires_at = invitation_expires_at invitation,
           or_created_at = invitation_created_at invitation, or_accepted_at = invitation_accepted_at invitation,
           or_revoked_at = invitation_revoked_at invitation,
           or_delivery_status =
             (case delivery_status of
                Some d \<Rightarrow> Some d
              | None \<Rightarrow> map_option OrganizationInvitationDeliveryStatus_value (invitation_delivery_status invitation))\<rparr>)"

text \<open>A list comprehension of responses: the first one that raises decides.\<close>

fun all_or_error :: "('a \<Rightarrow> error + 'b) \<Rightarrow> 'a list \<Rightarrow> error + 'b list" where
  "all_or_error f [] = Inr []"
| "all_or_error f (x # xs) =
     (case f x of
        Inl e \<Rightarrow> Inl e
      | Inr y \<Rightarrow> (case all_or_error f xs of Inl e \<Rightarrow> Inl e | Inr ys \<Rightarrow> Inr (y # ys)))"

section \<open>Platform connections\<close>

record PlatformConnectionGrantedScopeResponse =
  gs_key :: string
  gs_display_name :: string
  gs_description :: string
  gs_status :: string

record PlatformConnectionResponse =
  cn_id :: uuid
  cn_organization_id :: uuid
  cn_platform :: Platform
  cn_external_resource_id :: string
  cn_status :: ConnectionStatus
  cn_status_reason :: "ConnectionStatusReason option"
  cn_granted_scopes :: "PlatformConnectionGrantedScopeResponse list"

definition scope_status_for_connection :: "ConnectionStatus \<Rightarrow> string" where
  "scope_status_for_connection status =
     (if status = CONN_PENDING then ''pending''
      else if status \<in> {CONN_ACTIVE, DEGRADED} then ''granted''
      else if status = REAUTH_REQUIRED then ''requires_reauthorization''
      else ''revoked'')"

fun scope_catalog_for_platform :: "Platform \<Rightarrow> (string \<times> string \<times> string) list" where
  "scope_catalog_for_platform DISCORD =
     [(''discord.guild.read'', ''Read Discord server metadata'',
       ''Lets Console show safe aggregate server, channel and health information.''),
      (''discord.guild.manage'', ''Manage Discord server settings'',
       ''Lets Console request server-side Control API changes after native admin checks.'')]"
| "scope_catalog_for_platform TWITCH =
     [(''twitch.channel.read'', ''Read Twitch channel metadata'',
       ''Lets Console show safe aggregate channel and connection health information.''),
      (''twitch.channel.manage'', ''Manage Twitch channel controls'',
       ''Lets Console request server-side Control API changes after native owner checks.'')]"
| "scope_catalog_for_platform TELEGRAM =
     [(''telegram.chat.read'', ''Read Telegram chat metadata'',
       ''Lets Console show safe aggregate chat and connection health information.''),
      (''telegram.chat.manage'', ''Manage Telegram chat controls'',
       ''Lets Console request server-side Control API changes after native owner checks.'')]"

definition platform_connection_response :: "PlatformConnection \<Rightarrow> PlatformConnectionResponse" where
  "platform_connection_response connection =
     (let catalog = scope_catalog_for_platform (connection_platform connection);
          granted = connection_granted_capabilities connection;
          shown = (if granted \<noteq> [] then filter (\<lambda>scope. fst scope \<in> set granted) catalog else catalog) in
      \<lparr>cn_id = connection_id connection, cn_organization_id = connection_organization_id connection,
       cn_platform = connection_platform connection,
       cn_external_resource_id = connection_external_resource_id connection,
       cn_status = connection_status connection, cn_status_reason = connection_status_reason connection,
       cn_granted_scopes = map (\<lambda>(key, display_name, description).
         \<lparr>gs_key = key, gs_display_name = display_name, gs_description = description,
          gs_status = scope_status_for_connection (connection_status connection)\<rparr>) shown\<rparr>)"

section \<open>The contents of a response\<close>

datatype content =
    StatusContent string
  | AuthenticatedContent
  | SessionsContent "BrowserSessionResponse list"
  | RevokedCountContent nat
  | IdentitiesContent "LoginIdentityResponse list"
  | IdentityContent LoginIdentityResponse
  | AuthorizationContent string int
  | ProvidersContent "string list"
  | AuditContent "AuditLogEntry list" "uuid option"
  | OrganizationsContent "(Organization \<times> OrganizationMembershipResponse) list"
  | OrganizationContent Organization
  | MembersContent "OrganizationMembershipResponse list"
  | MembershipContent OrganizationMembershipResponse
  | InvitationContent OrganizationInvitationResponse
  | InvitationsContent "OrganizationInvitationResponse list"
  | CandidatesContent PlatformConnectionCandidateCatalog
  | ConnectionContent PlatformConnectionResponse
  | ConnectionsContent "PlatformConnectionResponse list" "uuid option"
  | RegistrationContent "string option"
  | ControlContent control_content

text \<open>A connection shows only scopes of its own platform, and only granted ones when any are recorded.\<close>

lemma shown_scopes:
  "g \<in> set (cn_granted_scopes (platform_connection_response c)) \<Longrightarrow>
     gs_key g \<in> fst ` set (scope_catalog_for_platform (connection_platform c))
     \<and> (connection_granted_capabilities c \<noteq> [] \<longrightarrow> gs_key g \<in> set (connection_granted_capabilities c))"
  by (auto simp: platform_connection_response_def Let_def split: if_splits) force+

lemma scope_status_granted:
  "scope_status_for_connection status = ''granted'' \<longleftrightarrow> status \<in> {CONN_ACTIVE, DEGRADED}"
  by (cases status) (simp_all add: scope_status_for_connection_def)

end
