(* ===== verification/Api.thy ===== *)
theory Api
  imports Api_Responses Candidates Token_Flows Invitations
begin

text \<open>
  The endpoints of \<open>presentation/api.py\<close> (\<open>create_app\<close>) for accounts, sessions, organizations,
  invitations, platform connections and the audit trail. As in the source, the use cases are handed in
  and may be absent; the record \<open>application\<close> holds them, over any state. An endpoint takes the
  attributes of \<open>request.state\<close> and its parsed parameters, and answers with a response or an
  \<open>HTTPException\<close>.
\<close>

section \<open>Guards and error mapping\<close>

definition http_error :: "nat \<Rightarrow> string \<Rightarrow> ('s, 'a) operation" where
  "http_error status detail = raise (HTTPException status detail [])"

text \<open>\<open>isinstance(actor_id, UUID)\<close> on the attribute of the request state.\<close>

definition with_actor :: "request_state \<Rightarrow> (uuid \<Rightarrow> ('s, 'a) operation) \<Rightarrow> ('s, 'a) operation" where
  "with_actor st f = (case st_actor_id st of None \<Rightarrow> http_error 403 ''Access denied'' | Some actor \<Rightarrow> f actor)"

definition with_session :: "request_state \<Rightarrow> (uuid \<Rightarrow> uuid \<Rightarrow> ('s, 'a) operation) \<Rightarrow> ('s, 'a) operation" where
  "with_session st f =
     (case (st_actor_id st, st_session_id st) of
        (Some actor, Some session) \<Rightarrow> f actor session
      | _ \<Rightarrow> http_error 403 ''Access denied'')"

definition with_assured :: "request_state \<Rightarrow> (BrowserSessionPrincipal \<Rightarrow> ('s, 'a) operation) \<Rightarrow> ('s, 'a) operation" where
  "with_assured st f =
     (case (st_actor_id st, st_session_id st, st_assurance_level st) of
        (Some actor, Some session, Some level) \<Rightarrow>
          f \<lparr>principal_user_id = actor, principal_session_id = session, principal_assurance_level = level,
             principal_authenticated_at = st_authenticated_at st\<rparr>
      | _ \<Rightarrow> http_error 403 ''Access denied'')"

definition available :: "'u option \<Rightarrow> string \<Rightarrow> ('u \<Rightarrow> ('s, 'a) operation) \<Rightarrow> ('s, 'a) operation" where
  "available use_case detail f = (case use_case of None \<Rightarrow> http_error 503 detail | Some u \<Rightarrow> f u)"

definition with_correlation :: "request_state \<Rightarrow> (uuid \<Rightarrow> ('s, 'a) operation) \<Rightarrow> ('s, 'a) operation" where
  "with_correlation st f =
     (case st_correlation_id st of
        None \<Rightarrow> raise (AttributeError ''State object has no attribute correlation_id'')
      | Some correlation \<Rightarrow> f correlation)"

text \<open>The class of an exception and its base classes, by name; \<open>except C\<close> asks for a member.\<close>

primrec class_names :: "error \<Rightarrow> string list" where
  "class_names (ValueError m) = [''ValueError'']"
| "class_names (PermissionError m) = [''PermissionError'', ''OSError'']"
| "class_names (ConfigurationError m) = [''ConfigurationError'', ''ValueError'']"
| "class_names (ConnectionError m) = [''ConnectionError'', ''OSError'']"
| "class_names (RuntimeError m) = [''RuntimeError'']"
| "class_names InvalidToken = [''InvalidToken'']"
| "class_names (AttributeError m) = [''AttributeError'']"
| "class_names RecursionError = [''RecursionError'', ''RuntimeError'']"
| "class_names (TypeError m) = [''TypeError'']"
| "class_names (KeyError m) = [''KeyError'', ''LookupError'']"
| "class_names (OSError m) = [''OSError'']"
| "class_names (OverflowError m) = [''OverflowError'', ''ArithmeticError'']"
| "class_names TimeoutError = [''TimeoutError'', ''OSError'']"
| "class_names (IndexError m) = [''IndexError'', ''LookupError'']"
| "class_names IncompleteReadError = [''IncompleteReadError'', ''EOFError'']"
| "class_names IntegrityError = [''IntegrityError'']"
| "class_names MultipleResultsFound = [''MultipleResultsFound'']"
| "class_names (AccessDeniedError m) = [''AccessDeniedError'', ''PermissionError'', ''OSError'']"
| "class_names (AuthenticationRejectedError m) = [''AuthenticationRejectedError'', ''PermissionError'', ''OSError'']"
| "class_names (BrowserSessionBulkRevocationRejectedError m) = [''BrowserSessionBulkRevocationRejectedError'', ''PermissionError'', ''OSError'']"
| "class_names (BrowserSessionListRejectedError m) = [''BrowserSessionListRejectedError'', ''PermissionError'', ''OSError'']"
| "class_names (BrowserSessionReauthenticationRejectedError m) = [''BrowserSessionReauthenticationRejectedError'', ''PermissionError'', ''OSError'']"
| "class_names (EmailPasswordRegistrationRejectedError m) = [''EmailPasswordRegistrationRejectedError'', ''ValueError'']"
| "class_names (EmailPasswordRegistrationVerificationRejectedError m) = [''EmailPasswordRegistrationVerificationRejectedError'', ''PermissionError'', ''OSError'']"
| "class_names (IdentityLinkRejectedError m) = [''IdentityLinkRejectedError'', ''PermissionError'', ''OSError'']"
| "class_names (IdentityLinkStartRejectedError m) = [''IdentityLinkStartRejectedError'', ''PermissionError'', ''OSError'']"
| "class_names (IdentityLinkCompletionRejectedError m) = [''IdentityLinkCompletionRejectedError'', ''PermissionError'', ''OSError'']"
| "class_names (LoginIdentityManagementRejectedError m) = [''LoginIdentityManagementRejectedError'', ''PermissionError'', ''OSError'']"
| "class_names (OAuthLoginStartRejectedError m) = [''OAuthLoginStartRejectedError'', ''PermissionError'', ''OSError'']"
| "class_names (OAuthLoginCompletionRejectedError m) = [''OAuthLoginCompletionRejectedError'', ''PermissionError'', ''OSError'']"
| "class_names (OrganizationCreationRejectedError m) = [''OrganizationCreationRejectedError'', ''PermissionError'', ''OSError'']"
| "class_names (OrganizationListRejectedError m) = [''OrganizationListRejectedError'', ''PermissionError'', ''OSError'']"
| "class_names (OrganizationMemberManagementRejectedError m) = [''OrganizationMemberManagementRejectedError'', ''PermissionError'', ''OSError'']"
| "class_names (OrganizationInvitationRejectedError m) = [''OrganizationInvitationRejectedError'', ''PermissionError'', ''OSError'']"
| "class_names (OrganizationInvitationAcceptanceRejectedError m) = [''OrganizationInvitationAcceptanceRejectedError'', ''PermissionError'', ''OSError'']"
| "class_names (OrganizationInvitationListingRejectedError m) = [''OrganizationInvitationListingRejectedError'', ''PermissionError'', ''OSError'']"
| "class_names (OrganizationInvitationRevocationRejectedError m) = [''OrganizationInvitationRevocationRejectedError'', ''PermissionError'', ''OSError'']"
| "class_names (PasswordChangeRejectedError m) = [''PasswordChangeRejectedError'', ''PermissionError'', ''OSError'']"
| "class_names (PasswordRecoveryCompletionRejectedError m) = [''PasswordRecoveryCompletionRejectedError'', ''PermissionError'', ''OSError'']"
| "class_names (PlatformConnectionConnectRejectedError m) = [''PlatformConnectionConnectRejectedError'', ''PermissionError'', ''OSError'']"
| "class_names (PlatformConnectionLifecycleRejectedError m) = [''PlatformConnectionLifecycleRejectedError'', ''PermissionError'', ''OSError'']"
| "class_names (PlatformControlUnavailableError m) = [''PlatformControlUnavailableError'', ''RuntimeError'']"
| "class_names (PlatformHealthUnavailableError m) = [''PlatformHealthUnavailableError'', ''RuntimeError'']"
| "class_names (RecentAuthenticationRequiredError m) = [''RecentAuthenticationRequiredError'', ''PermissionError'', ''OSError'']"
| "class_names (RedisOneTimeTokenStoreUnavailableError m) = [''RedisOneTimeTokenStoreUnavailableError'', ''ConnectionError'', ''OSError'']"
| "class_names (RedisRateLimitUnavailableError m) = [''RedisRateLimitUnavailableError'', ''ConnectionError'', ''OSError'']"
| "class_names (HTTPException a b c) = [''HTTPException'']"
| "class_names (SessionCreationRejectedError m) = [''SessionCreationRejectedError'', ''PermissionError'', ''OSError'']"

definition caught :: "string \<Rightarrow> error \<Rightarrow> bool" where
  "caught name e \<longleftrightarrow> name \<in> set (class_names e)"

text \<open>A sequence of except clauses that answer with an HTTP error: the first that matches decides.\<close>

definition excepting :: "(string \<times> nat \<times> string) list \<Rightarrow> ('s, 'a) operation \<Rightarrow> ('s, 'a) operation" where
  "excepting clauses m = catching m
     (\<lambda>e. case find (\<lambda>(name, _). caught name e) clauses of
            None \<Rightarrow> raise e
          | Some (_, status, detail) \<Rightarrow> http_error status detail)"

section \<open>The application\<close>

record OAuthCallback =
  cb_provider :: LoginIdentityProvider
  cb_state :: string
  cb_code :: string

text \<open>
  The collaborators of \<open>create_app\<close>. The use cases of the OAuth flows exist per provider. The current
  time of a response is the reading of the wall clock at that point.
\<close>

record 's application =
  app_rate_limiter :: "(string \<Rightarrow> string \<Rightarrow> ('s, RateLimitDecision) operation) option"
  app_readiness_probe :: "(uuid \<Rightarrow> ('s, bool) operation) option"
  app_now :: datetime
  app_authorization_url :: "LoginIdentityProvider \<Rightarrow> (string \<Rightarrow> string \<Rightarrow> string) option"
  uc_session_revoker :: "(uuid \<Rightarrow> uuid \<Rightarrow> uuid \<Rightarrow> ('s, unit) operation) option"
  uc_session_list :: "(uuid \<Rightarrow> uuid \<Rightarrow> ('s, BrowserSessionSecurityView list) operation) option"
  uc_session_bulk_revoker :: "(BrowserSessionPrincipal \<Rightarrow> uuid \<Rightarrow> ('s, nat) operation) option"
  uc_session_reauthentication :: "(ReauthenticateBrowserSessionCommand \<Rightarrow> ('s, unit) operation) option"
  uc_login_identity_list :: "(uuid \<Rightarrow> ('s, LoginIdentityProfile list) operation) option"
  uc_login_identity_unlink :: "(UnlinkLoginIdentityCommand \<Rightarrow> ('s, LoginIdentityProfile) operation) option"
  uc_password_change :: "(ChangeEmailPasswordCommand \<Rightarrow> ('s, unit) operation) option"
  uc_password_recovery_request :: "(RequestPasswordRecoveryCommand \<Rightarrow> ('s, unit) operation) option"
  uc_password_recovery_completion :: "(CompletePasswordRecoveryCommand \<Rightarrow> ('s, unit) operation) option"
  uc_registration_start ::
    "((StartEmailPasswordRegistrationCommand \<Rightarrow> ('s, EmailPasswordRegistrationVerificationResult) operation) \<times>
      (ResendEmailPasswordRegistrationCommand \<Rightarrow> ('s, EmailPasswordRegistrationVerificationResult) operation)) option"
  uc_registration_verification :: "(VerifyEmailPasswordRegistrationCommand \<Rightarrow> ('s, unit) operation) option"
  uc_authentication :: "(AuthenticateEmailPasswordCommand \<Rightarrow> ('s, IssuedBrowserSession) operation) option"
  uc_identity_link_start ::
    "LoginIdentityProvider \<Rightarrow> (BeginIdentityLinkCommand \<Rightarrow> ('s, StartedIdentityLink) operation) option"
  uc_identity_link_complete ::
    "LoginIdentityProvider \<Rightarrow> (CompleteIdentityLinkCommand \<Rightarrow> ('s, LoginIdentity) operation) option"
  uc_login_start :: "LoginIdentityProvider \<Rightarrow> (LoginIdentityProvider \<Rightarrow> uuid \<Rightarrow> ('s, StartedIdentityLink) operation) option"
  uc_login_complete ::
    "LoginIdentityProvider \<Rightarrow> (CompleteOAuthLoginRequest \<Rightarrow> ('s, IssuedBrowserSession) operation) option"
  uc_audit_events :: "(uuid \<Rightarrow> uuid \<Rightarrow> uuid option \<Rightarrow> int \<Rightarrow> ('s, AuditEventPage) operation) option"
  uc_organization_list :: "(uuid \<Rightarrow> ('s, OrganizationMembershipProfile list) operation) option"
  uc_organization_creation :: "(CreateOrganizationCommand \<Rightarrow> ('s, Organization) operation) option"
  uc_organization_members :: "(uuid \<Rightarrow> uuid \<Rightarrow> ('s, OrganizationMemberProfile list) operation) option"
  uc_organization_member_add :: "(AddOrganizationMemberCommand \<Rightarrow> ('s, OrganizationMembership) operation) option"
  uc_organization_member_update :: "(UpdateOrganizationMemberCommand \<Rightarrow> ('s, OrganizationMembership) operation) option"
  uc_organization_member_remove :: "(RemoveOrganizationMemberCommand \<Rightarrow> ('s, unit) operation) option"
  uc_invitation_create ::
    "(InviteOrganizationMemberCommand \<Rightarrow> ('s, OrganizationInvitationCreationResult) operation) option"
  uc_invitation_list :: "(uuid \<Rightarrow> uuid \<Rightarrow> ('s, OrganizationInvitation list) operation) option"
  uc_invitation_revoke :: "(RevokeOrganizationInvitationCommand \<Rightarrow> ('s, unit) operation) option"
  uc_invitation_accept :: "(AcceptOrganizationInvitationCommand \<Rightarrow> ('s, OrganizationMembership) operation) option"
  uc_connection_candidates ::
    "(ListPlatformConnectionCandidatesCommand \<Rightarrow> ('s, PlatformConnectionCandidateCatalog) operation) option"
  uc_connection_connect :: "(ConnectPlatformConnectionCommand \<Rightarrow> ('s, PlatformConnection) operation) option"
  uc_connections :: "(uuid \<Rightarrow> uuid \<Rightarrow> uuid option \<Rightarrow> int \<Rightarrow> ('s, PlatformConnectionPage) operation) option"
  app_controls :: "'s control_use_cases"
  uc_connection_lifecycle :: "(ManagePlatformConnectionLifecycleCommand \<Rightarrow> ('s, PlatformConnection) operation) option"

type_synonym answer = "content response"

definition no_content :: answer where
  "no_content = plain_response 204 NoBody"

definition set_browser_session_cookies ::
  "IssuedBrowserSession \<Rightarrow> BrowserSessionCookieSettings \<Rightarrow> answer \<Rightarrow> answer" where
  "set_browser_session_cookies session cookies r = r\<lparr>rs_cookies := rs_cookies r @
     [SetCookie (cookie_session_name cookies) (issued_raw_token session) (issued_expires_at session)
        (cookie_secure cookies) True,
      SetCookie (cookie_csrf_name cookies) (issued_raw_csrf_token session) (issued_expires_at session)
        (cookie_secure cookies) False]\<rparr>"

definition delete_browser_session_cookies :: "BrowserSessionCookieSettings \<Rightarrow> answer \<Rightarrow> answer" where
  "delete_browser_session_cookies cookies r = r\<lparr>rs_cookies := rs_cookies r @
     [DeleteCookie (cookie_session_name cookies) (cookie_secure cookies) True,
      DeleteCookie (cookie_csrf_name cookies) (cookie_secure cookies) False]\<rparr>"

definition request_client_ip :: "http_request \<Rightarrow> string option" where
  "request_client_ip req = (case http_client req of None \<Rightarrow> None | Some host \<Rightarrow> if host = [] then None else Some host)"

definition enforce_auth_rate_limit ::
  "'s application \<Rightarrow> http_request \<Rightarrow> request_state \<Rightarrow> string \<Rightarrow> ('s, unit) operation" where
  "enforce_auth_rate_limit app req st scope =
     (case app_rate_limiter app of
        None \<Rightarrow> ret ()
      | Some check \<Rightarrow>
          let client_host = (case http_client req of None \<Rightarrow> ''unknown'' | Some host \<Rightarrow> host) in
          bnd (check scope client_host) (\<lambda>decision.
          with_correlation st (\<lambda>_.
          if decision_allowed decision then ret ()
          else raise (HTTPException 429 ''Too many requests''
                 [(''Retry-After'', latin (str_int (max 1 (retry_after_seconds decision))))]))))"

section \<open>Operations, sessions and identities\<close>

definition healthz_endpoint :: "('s, answer) operation" where
  "healthz_endpoint = ret (plain_response 200 (Content (StatusContent ''ok'')))"

definition readyz_endpoint :: "'s application \<Rightarrow> request_state \<Rightarrow> ('s, answer) operation" where
  "readyz_endpoint app st =
     (case app_readiness_probe app of
        None \<Rightarrow> with_correlation st (\<lambda>_. http_error 503 ''Readiness is unavailable'')
      | Some check \<Rightarrow>
          bnd (catching (with_correlation st check) (\<lambda>_. with_correlation st (\<lambda>_. ret False))) (\<lambda>ready.
          with_correlation st (\<lambda>_.
          if \<not> ready then http_error 503 ''Service is not ready''
          else ret (plain_response 200 (Content (StatusContent ''ok''))))))"

definition get_browser_session_endpoint :: "request_state \<Rightarrow> ('s, answer) operation" where
  "get_browser_session_endpoint st =
     with_actor st (\<lambda>_. ret (plain_response 200 (Content AuthenticatedContent)))"

definition revoke_browser_session_endpoint ::
  "'s application \<Rightarrow> BrowserSessionCookieSettings \<Rightarrow> request_state \<Rightarrow> ('s, answer) operation" where
  "revoke_browser_session_endpoint app cookies st =
     with_session st (\<lambda>actor session.
     available (uc_session_revoker app) ''Session revocation is unavailable'' (\<lambda>revoker.
     bnd (excepting [(''PermissionError'', 403, ''Access denied'')]
            (with_correlation st (\<lambda>correlation. revoker session actor correlation))) (\<lambda>_.
     ret (delete_browser_session_cookies cookies no_content))))"

definition list_browser_sessions_endpoint :: "'s application \<Rightarrow> request_state \<Rightarrow> ('s, answer) operation" where
  "list_browser_sessions_endpoint app st =
     with_session st (\<lambda>actor session.
     available (uc_session_list app) ''Session listing is unavailable'' (\<lambda>sessions.
     bnd (excepting [(''BrowserSessionListRejectedError'', 403, ''Access denied'')]
            (with_correlation st (\<lambda>_. sessions actor session))) (\<lambda>views.
     ret (plain_response 200 (Content (SessionsContent (map browser_session_response views)))))))"

definition revoke_all_browser_sessions_endpoint ::
  "'s application \<Rightarrow> BrowserSessionCookieSettings \<Rightarrow> request_state \<Rightarrow> ('s, answer) operation" where
  "revoke_all_browser_sessions_endpoint app cookies st =
     with_assured st (\<lambda>principal.
     available (uc_session_bulk_revoker app) ''Session bulk revocation is unavailable'' (\<lambda>revoker.
     bnd (excepting [(''RecentAuthenticationRequiredError'', 403, ''Recent authentication required''),
                     (''BrowserSessionBulkRevocationRejectedError'', 403, ''Access denied'')]
            (with_correlation st (\<lambda>correlation. revoker principal correlation))) (\<lambda>revoked_count.
     ret (delete_browser_session_cookies cookies
            (plain_response 200 (Content (RevokedCountContent revoked_count)))))))"

definition reauthenticate_browser_session_endpoint ::
  "'s application \<Rightarrow> http_request \<Rightarrow> string \<Rightarrow> request_state \<Rightarrow> ('s, answer) operation" where
  "reauthenticate_browser_session_endpoint app req current_password st =
     bnd (enforce_auth_rate_limit app req st ''auth.reauthentication'') (\<lambda>_.
     with_assured st (\<lambda>principal.
     available (uc_session_reauthentication app) ''Session reauthentication is unavailable'' (\<lambda>use_case.
     bnd (excepting [(''BrowserSessionReauthenticationRejectedError'', 403, ''Session reauthentication failed'')]
            (with_correlation st (\<lambda>correlation. use_case
              \<lparr>ra_principal = principal, ra_current_password = current_password,
               ra_correlation_id = correlation\<rparr>))) (\<lambda>_.
     ret no_content))))"

definition list_login_identities_endpoint :: "'s application \<Rightarrow> request_state \<Rightarrow> ('s, answer) operation" where
  "list_login_identities_endpoint app st =
     with_actor st (\<lambda>actor.
     available (uc_login_identity_list app) ''Login identity listing is unavailable'' (\<lambda>use_case.
     bnd (excepting [(''LoginIdentityManagementRejectedError'', 403, ''Access denied'')]
            (with_correlation st (\<lambda>_. use_case actor))) (\<lambda>identities.
     ret (plain_response 200 (Content (IdentitiesContent
            (map (login_identity_response (length identities)) identities)))))))"

definition unlink_login_identity_endpoint ::
  "'s application \<Rightarrow> uuid \<Rightarrow> request_state \<Rightarrow> ('s, answer) operation" where
  "unlink_login_identity_endpoint app identity st =
     with_assured st (\<lambda>principal.
     available (uc_login_identity_unlink app) ''Login identity unlink is unavailable'' (\<lambda>use_case.
     bnd (excepting [(''RecentAuthenticationRequiredError'', 403, ''Recent authentication is required''),
                     (''LoginIdentityManagementRejectedError'', 403, ''Login identity unlink failed'')]
            (with_correlation st (\<lambda>correlation. use_case
              \<lparr>ul_principal = principal, ul_identity_id = identity, ul_correlation_id = correlation\<rparr>))) (\<lambda>unlinked.
     ret (plain_response 200 (Content (IdentityContent (login_identity_response 0 unlinked)))))))"

definition change_email_password_endpoint ::
  "'s application \<Rightarrow> string \<Rightarrow> string \<Rightarrow> request_state \<Rightarrow> ('s, answer) operation" where
  "change_email_password_endpoint app current_password new_password st =
     with_assured st (\<lambda>principal.
     available (uc_password_change app) ''Password change is unavailable'' (\<lambda>use_case.
     bnd (excepting [(''RecentAuthenticationRequiredError'', 403, ''Recent authentication is required''),
                     (''PasswordChangeRejectedError'', 403, ''Password change failed'')]
            (with_correlation st (\<lambda>correlation. use_case
              \<lparr>cp_principal = principal, cp_current_password = current_password,
               cp_new_password = new_password, cp_correlation_id = correlation\<rparr>))) (\<lambda>_.
     ret no_content)))"

end
