(* ===== verification/Api_Flows.thy ===== *)
theory Api_Flows
  imports Api
begin

text \<open>
  The endpoints of \<open>presentation/api.py\<close> that a visitor without a session can reach: registration and
  its verification, password recovery, sign-in with a password or with an OAuth provider, and the
  callbacks that finish a sign-in or an identity link.
\<close>

section \<open>Registration and recovery\<close>

definition start_email_password_registration_endpoint ::
  "'s application \<Rightarrow> http_request \<Rightarrow> string \<Rightarrow> string \<Rightarrow> string \<Rightarrow> request_state \<Rightarrow> ('s, answer) operation" where
  "start_email_password_registration_endpoint app req email password display_name st =
     bnd (enforce_auth_rate_limit app req st ''auth.registration'') (\<lambda>_.
     available (uc_registration_start app) ''Registration is unavailable'' (\<lambda>(start, _).
     bnd (excepting [(''ConnectionError'', 503, ''Registration is temporarily unavailable''),
                     (''ValueError'', 422, ''Registration data is invalid'')]
            (with_correlation st (\<lambda>correlation. start
              \<lparr>se_email = email, se_password = password, se_display_name = display_name,
               se_correlation_id = correlation\<rparr>))) (\<lambda>started.
     ret (plain_response 202 (Content (RegistrationContent (vr_raw_token started)))))))"

definition verify_email_password_registration_endpoint ::
  "'s application \<Rightarrow> http_request \<Rightarrow> string \<Rightarrow> string \<Rightarrow> request_state \<Rightarrow> ('s, answer) operation" where
  "verify_email_password_registration_endpoint app req token code st =
     bnd (enforce_auth_rate_limit app req st ''auth.registration.verification'') (\<lambda>_.
     available (uc_registration_verification app) ''E-mail verification is unavailable'' (\<lambda>use_case.
     bnd (excepting [(''EmailPasswordRegistrationVerificationRejectedError'', 403, ''E-mail verification failed''),
                     (''ConnectionError'', 503, ''E-mail verification is temporarily unavailable'')]
            (with_correlation st (\<lambda>correlation. use_case
              \<lparr>ve_token = token, ve_code = code, ve_correlation_id = correlation\<rparr>))) (\<lambda>_.
     ret (plain_response 200 (Content (StatusContent ''verified''))))))"

definition resend_email_password_registration_verification_endpoint ::
  "'s application \<Rightarrow> http_request \<Rightarrow> string \<Rightarrow> request_state \<Rightarrow> ('s, answer) operation" where
  "resend_email_password_registration_verification_endpoint app req token st =
     bnd (enforce_auth_rate_limit app req st ''auth.registration.resend'') (\<lambda>_.
     available (uc_registration_start app) ''E-mail verification is unavailable'' (\<lambda>(_, resend).
     bnd (excepting [(''ConnectionError'', 503, ''E-mail verification is temporarily unavailable'')]
            (with_correlation st (\<lambda>correlation. resend \<lparr>re_token = token, re_correlation_id = correlation\<rparr>))) (\<lambda>resent.
     ret (plain_response 202 (Content (RegistrationContent (vr_raw_token resent)))))))"

definition request_password_recovery_endpoint ::
  "'s application \<Rightarrow> http_request \<Rightarrow> string \<Rightarrow> request_state \<Rightarrow> ('s, answer) operation" where
  "request_password_recovery_endpoint app req email st =
     bnd (enforce_auth_rate_limit app req st ''auth.password_recovery.request'') (\<lambda>_.
     available (uc_password_recovery_request app) ''Password recovery is unavailable'' (\<lambda>use_case.
     bnd (excepting [(''ConnectionError'', 503, ''Password recovery is temporarily unavailable'')]
            (with_correlation st (\<lambda>correlation. use_case \<lparr>rr_email = email, rr_correlation_id = correlation\<rparr>))) (\<lambda>_.
     ret (plain_response 202 (Content (StatusContent ''accepted''))))))"

definition complete_password_recovery_endpoint ::
  "'s application \<Rightarrow> http_request \<Rightarrow> string \<Rightarrow> string \<Rightarrow> request_state \<Rightarrow> ('s, answer) operation" where
  "complete_password_recovery_endpoint app req token new_password st =
     bnd (enforce_auth_rate_limit app req st ''auth.password_recovery.complete'') (\<lambda>_.
     available (uc_password_recovery_completion app) ''Password recovery is unavailable'' (\<lambda>use_case.
     bnd (excepting [(''ConnectionError'', 503, ''Password recovery is temporarily unavailable''),
                     (''PasswordRecoveryCompletionRejectedError'', 403, ''Password recovery failed'')]
            (with_correlation st (\<lambda>correlation. use_case
              \<lparr>cr_token = token, cr_new_password = new_password, cr_correlation_id = correlation\<rparr>))) (\<lambda>_.
     ret no_content)))"

section \<open>Sign-in\<close>

definition authenticate_email_password_endpoint ::
  "'s application \<Rightarrow> BrowserSessionCookieSettings \<Rightarrow> http_request \<Rightarrow> string \<Rightarrow> string \<Rightarrow> request_state \<Rightarrow>
   ('s, answer) operation" where
  "authenticate_email_password_endpoint app cookies req email password st =
     bnd (enforce_auth_rate_limit app req st ''auth.login'') (\<lambda>_.
     available (uc_authentication app) ''Authentication is unavailable'' (\<lambda>use_case.
     bnd (excepting [(''AuthenticationRejectedError'', 401, ''Authentication failed'')]
            (with_correlation st (\<lambda>correlation. use_case
              \<lparr>ae_email = email, ae_password = password, ae_correlation_id = correlation,
               ae_client_ip = request_client_ip req, ae_user_agent = http_header req ''user-agent''\<rparr>))) (\<lambda>issued.
     ret (set_browser_session_cookies issued cookies no_content))))"

definition provider_label :: "LoginIdentityProvider \<Rightarrow> string" where
  "provider_label provider =
     (case provider of
        PROVIDER_EMAIL \<Rightarrow> ''E-mail''
      | PROVIDER_GOOGLE \<Rightarrow> ''Google''
      | PROVIDER_YANDEX \<Rightarrow> ''Yandex ID''
      | PROVIDER_TWITCH \<Rightarrow> ''Twitch''
      | PROVIDER_DISCORD \<Rightarrow> ''Discord''
      | PROVIDER_TELEGRAM \<Rightarrow> ''Telegram'')"

definition begin_external_identity_link ::
  "'s application \<Rightarrow> LoginIdentityProvider \<Rightarrow> request_state \<Rightarrow> ('s, answer) operation" where
  "begin_external_identity_link app provider st =
     with_actor st (\<lambda>actor.
     case (uc_identity_link_start app provider, app_authorization_url app provider) of
       (Some start, Some authorization_url) \<Rightarrow>
         excepting [(''IdentityLinkStartRejectedError'', 403, provider_label provider @ '' identity linking failed'')]
           (bnd (with_correlation st (\<lambda>correlation. start
              \<lparr>bl_actor_id = actor, bl_provider = provider, bl_correlation_id = correlation\<rparr>)) (\<lambda>started.
            ret (plain_response 200 (Content (AuthorizationContent
              (authorization_url (started_state started) (started_code_challenge started))
              (started_expires_in_seconds started))))))
     | _ \<Rightarrow> http_error 503 (provider_label provider @ '' identity linking is unavailable''))"

definition begin_oauth_login ::
  "'s application \<Rightarrow> http_request \<Rightarrow> LoginIdentityProvider \<Rightarrow> request_state \<Rightarrow> ('s, answer) operation" where
  "begin_oauth_login app req provider st =
     bnd (enforce_auth_rate_limit app req st ''auth.oauth.start'') (\<lambda>_.
     case (uc_login_start app provider, app_authorization_url app provider) of
       (Some start, Some authorization_url) \<Rightarrow>
         bnd (excepting [(''OAuthLoginStartRejectedError'', 503, provider_label provider @ '' sign-in is unavailable'')]
                (with_correlation st (\<lambda>correlation. start provider correlation))) (\<lambda>started.
         ret (plain_response 200 (Content (AuthorizationContent
           (authorization_url (started_state started) (started_code_challenge started))
           (started_expires_in_seconds started)))))
     | _ \<Rightarrow> http_error 503 (provider_label provider @ '' sign-in is unavailable''))"

definition list_oauth_providers_endpoint :: "'s application \<Rightarrow> request_state \<Rightarrow> ('s, answer) operation" where
  "list_oauth_providers_endpoint app st =
     with_correlation st (\<lambda>_. ret (plain_response 200 (Content (ProvidersContent
       (map LoginIdentityProvider_value
         (filter (\<lambda>provider. uc_login_start app provider \<noteq> None \<and> app_authorization_url app provider \<noteq> None)
            [PROVIDER_DISCORD, PROVIDER_TWITCH, PROVIDER_TELEGRAM, PROVIDER_GOOGLE, PROVIDER_YANDEX]))))))"

definition complete_oauth_login_if_valid ::
  "'s application \<Rightarrow> http_request \<Rightarrow> OAuthCallback \<Rightarrow> request_state \<Rightarrow> ('s, IssuedBrowserSession option) operation" where
  "complete_oauth_login_if_valid app req cb st =
     (case uc_login_complete app (cb_provider cb) of
        None \<Rightarrow> ret None
      | Some complete \<Rightarrow>
          catching
            (bnd (with_correlation st (\<lambda>correlation. complete
               \<lparr>ol_provider = cb_provider cb, ol_state = cb_state cb, ol_authorization_code = cb_code cb,
                ol_correlation_id = correlation, ol_client_ip = request_client_ip req,
                ol_user_agent = http_header req ''user-agent''\<rparr>)) (\<lambda>issued. ret (Some issued)))
            (\<lambda>e. if caught ''OAuthLoginCompletionRejectedError'' e then ret None else raise e))"

definition redirect_response :: "string \<Rightarrow> answer" where
  "redirect_response url = plain_response 303 (RedirectTo url)"

definition complete_external_identity_link_callback ::
  "'s application \<Rightarrow> BrowserSessionCookieSettings \<Rightarrow> http_request \<Rightarrow> OAuthCallback \<Rightarrow> request_state \<Rightarrow>
   ('s, answer) operation" where
  "complete_external_identity_link_callback app cookies req cb st =
     bnd (enforce_auth_rate_limit app req st ''auth.oauth.callback'') (\<lambda>_.
     bnd (complete_oauth_login_if_valid app req cb st) (\<lambda>issued_session.
     case issued_session of
       Some issued \<Rightarrow> ret (set_browser_session_cookies issued cookies (redirect_response ''/''))
     | None \<Rightarrow>
         available (uc_identity_link_complete app (cb_provider cb))
           (provider_label (cb_provider cb) @ '' identity linking is unavailable'') (\<lambda>complete.
         bnd (excepting [(''IdentityLinkCompletionRejectedError'', 400,
                          provider_label (cb_provider cb) @ '' identity linking failed'')]
                (with_correlation st (\<lambda>correlation. complete
                  \<lparr>cl_provider = cb_provider cb, cl_state = cb_state cb, cl_authorization_code = cb_code cb,
                   cl_correlation_id = correlation\<rparr>))) (\<lambda>_.
         ret (redirect_response (''/?identity_linked='' @ LoginIdentityProvider_value (cb_provider cb)))))))"

end
