(* ===== verification/Api_Organizations.thy ===== *)
theory Api_Organizations
  imports Api_Flows
begin

text \<open>
  The endpoints of \<open>presentation/api.py\<close> for organizations, their members, invitations and audit events,
  and for platform connections.
\<close>

section \<open>Organizations and members\<close>

text \<open>\<open>str\<close> of a ValueError.\<close>

fun value_error_text :: "error \<Rightarrow> string" where
  "value_error_text (ValueError m) = m"
| "value_error_text (ConfigurationError m) = m"
| "value_error_text (EmailPasswordRegistrationRejectedError m) = m"
| "value_error_text _ = []"

definition list_organization_audit_events_endpoint ::
  "'s application \<Rightarrow> uuid \<Rightarrow> uuid option \<Rightarrow> int \<Rightarrow> request_state \<Rightarrow> ('s, answer) operation" where
  "list_organization_audit_events_endpoint app org after limit st =
     with_actor st (\<lambda>actor.
     available (uc_audit_events app) ''Organization audit events are unavailable'' (\<lambda>use_case.
     bnd (catching (use_case actor org after limit)
            (\<lambda>e. if caught ''ValueError'' e then http_error 422 (value_error_text e)
                 else if caught ''AccessDeniedError'' e then http_error 403 ''Access denied''
                 else raise e)) (\<lambda>page.
     ret (plain_response 200 (Content (AuditContent (audit_page_items page) (audit_page_next_cursor page)))))))"

definition list_organizations_endpoint :: "'s application \<Rightarrow> request_state \<Rightarrow> ('s, answer) operation" where
  "list_organizations_endpoint app st =
     with_actor st (\<lambda>actor.
     available (uc_organization_list app) ''Organization listing is unavailable'' (\<lambda>use_case.
     bnd (excepting [(''OrganizationListRejectedError'', 403, ''Access denied'')]
            (with_correlation st (\<lambda>_. use_case actor))) (\<lambda>profiles.
     ret (plain_response 200 (Content (OrganizationsContent
       (map (\<lambda>p. (oprofile_organization p, membership_response None (oprofile_membership p))) profiles)))))))"

definition create_organization_endpoint ::
  "'s application \<Rightarrow> string \<Rightarrow> request_state \<Rightarrow> ('s, answer) operation" where
  "create_organization_endpoint app name st =
     with_actor st (\<lambda>actor.
     available (uc_organization_creation app) ''Organization creation is unavailable'' (\<lambda>use_case.
     bnd (excepting [(''OrganizationCreationRejectedError'', 403, ''Organization creation failed'')]
            (with_correlation st (\<lambda>correlation. use_case
              \<lparr>co_actor_id = actor, co_name = name, co_correlation_id = correlation\<rparr>))) (\<lambda>organization.
     ret (plain_response 201 (Content (OrganizationContent organization))))))"

definition list_organization_members_endpoint ::
  "'s application \<Rightarrow> uuid \<Rightarrow> request_state \<Rightarrow> ('s, answer) operation" where
  "list_organization_members_endpoint app org st =
     with_actor st (\<lambda>actor.
     available (uc_organization_members app) ''Organization members are unavailable'' (\<lambda>use_case.
     bnd (excepting [(''OrganizationMemberManagementRejectedError'', 403, ''Access denied'')]
            (with_correlation st (\<lambda>_. use_case actor org))) (\<lambda>members.
     ret (plain_response 200 (Content (MembersContent (map organization_member_response members)))))))"

text \<open>The scopes of a request carry no identifier.\<close>

definition scope_requests_to_domain ::
  "(AuthorizationResource \<times> AuthorizationAction) list \<Rightarrow> MembershipResourceScope list" where
  "scope_requests_to_domain scopes =
     map (\<lambda>(resource, action). \<lparr>scope_resource = resource, scope_action = action, scope_id = None\<rparr>) scopes"

definition add_organization_member_endpoint ::
  "'s application \<Rightarrow> uuid \<Rightarrow> string \<Rightarrow> OrganizationRole \<Rightarrow> (AuthorizationResource \<times> AuthorizationAction) list \<Rightarrow>
   request_state \<Rightarrow> ('s, answer) operation" where
  "add_organization_member_endpoint app org email role scopes st =
     with_actor st (\<lambda>actor.
     available (uc_organization_member_add app) ''Organization member creation is unavailable'' (\<lambda>use_case.
     bnd (excepting [(''OrganizationMemberManagementRejectedError'', 403, ''Organization member creation failed'')]
            (with_correlation st (\<lambda>correlation. use_case
              \<lparr>am_actor_id = actor, am_organization_id = org, am_email = email, am_role = role,
               am_resource_scopes = scope_requests_to_domain scopes, am_correlation_id = correlation\<rparr>))) (\<lambda>membership.
     ret (plain_response 201 (Content (MembershipContent (membership_response None membership)))))))"

definition update_organization_member_endpoint ::
  "'s application \<Rightarrow> uuid \<Rightarrow> uuid \<Rightarrow> OrganizationRole \<Rightarrow> (AuthorizationResource \<times> AuthorizationAction) list \<Rightarrow>
   request_state \<Rightarrow> ('s, answer) operation" where
  "update_organization_member_endpoint app org user role scopes st =
     with_actor st (\<lambda>actor.
     available (uc_organization_member_update app) ''Organization member update is unavailable'' (\<lambda>use_case.
     bnd (excepting [(''OrganizationMemberManagementRejectedError'', 403, ''Organization member update failed'')]
            (with_correlation st (\<lambda>correlation. use_case
              \<lparr>um_actor_id = actor, um_organization_id = org, um_user_id = user, um_role = role,
               um_resource_scopes = scope_requests_to_domain scopes, um_correlation_id = correlation\<rparr>))) (\<lambda>membership.
     ret (plain_response 200 (Content (MembershipContent (membership_response None membership)))))))"

definition remove_organization_member_endpoint ::
  "'s application \<Rightarrow> uuid \<Rightarrow> uuid \<Rightarrow> request_state \<Rightarrow> ('s, answer) operation" where
  "remove_organization_member_endpoint app org user st =
     with_actor st (\<lambda>actor.
     available (uc_organization_member_remove app) ''Organization member removal is unavailable'' (\<lambda>use_case.
     bnd (excepting [(''OrganizationMemberManagementRejectedError'', 403, ''Organization member removal failed'')]
            (with_correlation st (\<lambda>correlation. use_case
              \<lparr>rm_actor_id = actor, rm_organization_id = org, rm_user_id = user, rm_correlation_id = correlation\<rparr>))) (\<lambda>_.
     ret no_content)))"

section \<open>Invitations\<close>

definition create_organization_member_invitation_endpoint ::
  "'s application \<Rightarrow> http_request \<Rightarrow> uuid \<Rightarrow> string \<Rightarrow> OrganizationRole \<Rightarrow>
   (AuthorizationResource \<times> AuthorizationAction) list \<Rightarrow> request_state \<Rightarrow> ('s, answer) operation" where
  "create_organization_member_invitation_endpoint app req org email role scopes st =
     bnd (enforce_auth_rate_limit app req st ''organization.invitation.create'') (\<lambda>_.
     with_actor st (\<lambda>actor.
     available (uc_invitation_create app) ''Organization invitations are unavailable'' (\<lambda>use_case.
     bnd (excepting [(''OrganizationInvitationRejectedError'', 403, ''Organization invitation could not be created'')]
            (with_correlation st (\<lambda>correlation. use_case
              \<lparr>iv_actor_id = actor, iv_organization_id = org, iv_email = email, iv_role = role,
               iv_resource_scopes = scope_requests_to_domain scopes, iv_correlation_id = correlation\<rparr>))) (\<lambda>result.
     bnd (construct (organization_invitation_response (app_now app) (Some (creation_delivery_status result))
            (creation_invitation result))) (\<lambda>invitation.
     ret (plain_response 202 (Content (InvitationContent invitation))))))))"

definition list_organization_member_invitations_endpoint ::
  "'s application \<Rightarrow> uuid \<Rightarrow> request_state \<Rightarrow> ('s, answer) operation" where
  "list_organization_member_invitations_endpoint app org st =
     with_actor st (\<lambda>actor.
     available (uc_invitation_list app) ''Organization invitations are unavailable'' (\<lambda>use_case.
     bnd (excepting [(''OrganizationInvitationListingRejectedError'', 403, ''Access denied'')]
            (with_correlation st (\<lambda>_. use_case actor org))) (\<lambda>invitations.
     bnd (construct (all_or_error (organization_invitation_response (app_now app) None) invitations)) (\<lambda>items.
     ret (plain_response 200 (Content (InvitationsContent items)))))))"

definition revoke_organization_member_invitation_endpoint ::
  "'s application \<Rightarrow> uuid \<Rightarrow> uuid \<Rightarrow> request_state \<Rightarrow> ('s, answer) operation" where
  "revoke_organization_member_invitation_endpoint app org invitation st =
     with_actor st (\<lambda>actor.
     available (uc_invitation_revoke app) ''Organization invitations are unavailable'' (\<lambda>use_case.
     bnd (excepting [(''OrganizationInvitationRevocationRejectedError'', 403,
                      ''Organization invitation revocation failed'')]
            (with_correlation st (\<lambda>correlation. use_case
              \<lparr>ri_actor_id = actor, ri_organization_id = org, ri_invitation_id = invitation,
               ri_correlation_id = correlation\<rparr>))) (\<lambda>_.
     ret no_content)))"

definition accept_organization_member_invitation_endpoint ::
  "'s application \<Rightarrow> http_request \<Rightarrow> string \<Rightarrow> request_state \<Rightarrow> ('s, answer) operation" where
  "accept_organization_member_invitation_endpoint app req token st =
     bnd (enforce_auth_rate_limit app req st ''auth.invitation.accept'') (\<lambda>_.
     with_actor st (\<lambda>actor.
     available (uc_invitation_accept app) ''Organization invitation acceptance is unavailable'' (\<lambda>use_case.
     bnd (excepting [(''OrganizationInvitationAcceptanceRejectedError'', 403,
                      ''Organization invitation acceptance failed'')]
            (with_correlation st (\<lambda>correlation. use_case
              \<lparr>ac_actor_id = actor, ac_raw_token = token, ac_correlation_id = correlation\<rparr>))) (\<lambda>membership.
     ret (plain_response 200 (Content (MembershipContent (membership_response None membership))))))))"

section \<open>Platform connections\<close>

definition platform_unavailable :: "string \<times> nat \<times> string" where
  "platform_unavailable = (''PlatformControlUnavailableError'', 503, ''Platform control service is unavailable'')"

definition list_platform_connection_candidates_endpoint ::
  "'s application \<Rightarrow> uuid \<Rightarrow> Platform \<Rightarrow> request_state \<Rightarrow> ('s, answer) operation" where
  "list_platform_connection_candidates_endpoint app org platform st =
     with_actor st (\<lambda>actor.
     available (uc_connection_candidates app) ''Platform connection candidate discovery is unavailable'' (\<lambda>use_case.
     bnd (excepting [(''AccessDeniedError'', 403, ''Access denied''), platform_unavailable]
            (with_correlation st (\<lambda>correlation. use_case
              \<lparr>lc_actor_id = actor, lc_organization_id = org, lc_platform = platform,
               lc_correlation_id = correlation\<rparr>))) (\<lambda>catalog.
     ret (set_header ''Cache-Control'' ''no-store'' (plain_response 200 (Content (CandidatesContent catalog)))))))"

definition connect_platform_connection_endpoint ::
  "'s application \<Rightarrow> uuid \<Rightarrow> Platform \<Rightarrow> string \<Rightarrow> request_state \<Rightarrow> ('s, answer) operation" where
  "connect_platform_connection_endpoint app org platform external_id st =
     with_actor st (\<lambda>actor.
     available (uc_connection_connect app) ''Platform connection setup is unavailable'' (\<lambda>use_case.
     bnd (excepting [(''PlatformConnectionConnectRejectedError'', 403, ''Platform connection setup failed''),
                     platform_unavailable]
            (with_correlation st (\<lambda>correlation. use_case
              \<lparr>cc_actor_id = actor, cc_organization_id = org, cc_platform = platform,
               cc_external_resource_id = external_id, cc_correlation_id = correlation\<rparr>))) (\<lambda>connection.
     ret (plain_response 201 (Content (ConnectionContent (platform_connection_response connection)))))))"

definition list_platform_connections_endpoint ::
  "'s application \<Rightarrow> uuid \<Rightarrow> uuid option \<Rightarrow> int \<Rightarrow> request_state \<Rightarrow> ('s, answer) operation" where
  "list_platform_connections_endpoint app org cursor limit st =
     with_actor st (\<lambda>actor.
     available (uc_connections app) ''Platform connections are unavailable'' (\<lambda>use_case.
     bnd (excepting [(''AccessDeniedError'', 403, ''Access denied'')] (use_case actor org cursor limit)) (\<lambda>page.
     ret (plain_response 200 (Content (ConnectionsContent
       (map platform_connection_response (page_items page)) (page_next_cursor page)))))))"

definition run_platform_connection_lifecycle ::
  "'s application \<Rightarrow> http_request \<Rightarrow> uuid \<Rightarrow> uuid \<Rightarrow> PlatformConnectionLifecycleAction \<Rightarrow> request_state \<Rightarrow>
   ('s, answer) operation" where
  "run_platform_connection_lifecycle app req org cid action st =
     with_actor st (\<lambda>actor.
     available (uc_connection_lifecycle app) ''Platform connection lifecycle is unavailable'' (\<lambda>use_case.
     bnd (excepting [(''PlatformConnectionLifecycleRejectedError'', 403,
                      ''Platform connection lifecycle action failed'')]
            (with_correlation st (\<lambda>correlation. use_case
              \<lparr>ml_actor_id = actor, ml_organization_id = org, ml_connection_id = cid, ml_action = action,
               ml_correlation_id = correlation, ml_idempotency_key = http_header req ''idempotency-key''\<rparr>))) (\<lambda>connection.
     ret (plain_response 200 (Content (ConnectionContent (platform_connection_response connection)))))))"

end
