(* ===== verification/Api_Control.thy ===== *)
theory Api_Control
  imports Api_Organizations
begin

text \<open>
  The endpoints of \<open>presentation/api.py\<close> on the bot services of connected platforms: modules, health, the
  reports and settings of a connection, and the updates of its channel purposes, welcome settings and AI
  moderation policy.
\<close>

section \<open>Error mapping\<close>

definition control_denials :: "string \<Rightarrow> (string \<times> nat \<times> string) list" where
  "control_denials missing =
     [(''AccessDeniedError'', 403, ''Access denied''), (''PlatformHealthUnavailableError'', 404, missing),
      platform_unavailable]"

definition control_response :: "control_content \<Rightarrow> answer" where
  "control_response c = plain_response 200 (Content (ControlContent c))"

section \<open>Modules and health\<close>

definition list_control_modules_endpoint ::
  "'s application \<Rightarrow> uuid \<Rightarrow> request_state \<Rightarrow> ('s, answer) operation" where
  "list_control_modules_endpoint app org st =
     with_actor st (\<lambda>actor.
     bnd (excepting [(''AccessDeniedError'', 403, ''Access denied''), platform_unavailable]
            (with_correlation st (\<lambda>correlation. uc_modules (app_controls app) actor org correlation))) (\<lambda>modules.
     ret (control_response (ModulesContent org modules))))"

definition get_platform_health_endpoint ::
  "'s application \<Rightarrow> uuid \<Rightarrow> Platform \<Rightarrow> request_state \<Rightarrow> ('s, answer) operation" where
  "get_platform_health_endpoint app org platform st =
     with_actor st (\<lambda>actor.
     available (uc_health (app_controls app)) ''Platform health is unavailable'' (\<lambda>use_case.
     bnd (excepting (control_denials ''Platform health is unavailable'')
            (with_correlation st (\<lambda>correlation. use_case actor org platform correlation))) (\<lambda>health.
     ret (control_response (HealthContent org health)))))"

section \<open>Reports and settings of a connection\<close>

definition get_platform_dashboard_summary_endpoint ::
  "'s application \<Rightarrow> uuid \<Rightarrow> uuid \<Rightarrow> request_state \<Rightarrow> ('s, answer) operation" where
  "get_platform_dashboard_summary_endpoint app org cid st =
     with_actor st (\<lambda>actor.
     available (uc_dashboard (app_controls app)) ''Platform dashboard is unavailable'' (\<lambda>use_case.
     bnd (excepting (control_denials ''Platform dashboard is unavailable'')
            (with_correlation st (\<lambda>correlation. use_case actor org cid correlation))) (\<lambda>value.
     ret (control_response (DashboardContent org cid value)))))"

definition get_platform_bot_settings_endpoint ::
  "'s application \<Rightarrow> uuid \<Rightarrow> uuid \<Rightarrow> request_state \<Rightarrow> ('s, answer) operation" where
  "get_platform_bot_settings_endpoint app org cid st =
     with_actor st (\<lambda>actor.
     available (uc_bot_settings (app_controls app)) ''Platform bot settings are unavailable'' (\<lambda>use_case.
     bnd (excepting (control_denials ''Platform bot settings are unavailable'')
            (with_correlation st (\<lambda>correlation. use_case actor org cid correlation))) (\<lambda>value.
     ret (control_response (BotSettingsContent org cid value)))))"

definition get_platform_audit_timeline_endpoint ::
  "'s application \<Rightarrow> uuid \<Rightarrow> uuid \<Rightarrow> request_state \<Rightarrow> ('s, answer) operation" where
  "get_platform_audit_timeline_endpoint app org cid st =
     with_actor st (\<lambda>actor.
     available (uc_audit_timeline (app_controls app)) ''Platform audit timeline is unavailable'' (\<lambda>use_case.
     bnd (excepting (control_denials ''Platform audit timeline is unavailable'')
            (with_correlation st (\<lambda>correlation. use_case actor org cid correlation))) (\<lambda>value.
     ret (control_response (TimelineContent org cid value)))))"

definition get_platform_server_statistics_endpoint ::
  "'s application \<Rightarrow> uuid \<Rightarrow> uuid \<Rightarrow> request_state \<Rightarrow> ('s, answer) operation" where
  "get_platform_server_statistics_endpoint app org cid st =
     with_actor st (\<lambda>actor.
     available (uc_server_statistics (app_controls app)) ''Platform server statistics are unavailable'' (\<lambda>use_case.
     bnd (excepting (control_denials ''Platform server statistics are unavailable'')
            (with_correlation st (\<lambda>correlation. use_case actor org cid correlation))) (\<lambda>value.
     ret (control_response (server_statistics_content org cid value)))))"

definition get_platform_integrations_endpoint ::
  "'s application \<Rightarrow> uuid \<Rightarrow> uuid \<Rightarrow> request_state \<Rightarrow> ('s, answer) operation" where
  "get_platform_integrations_endpoint app org cid st =
     with_actor st (\<lambda>actor.
     available (uc_integrations (app_controls app)) ''Platform integrations are unavailable'' (\<lambda>use_case.
     bnd (excepting (control_denials ''Platform integrations are unavailable'')
            (with_correlation st (\<lambda>correlation. use_case actor org cid correlation))) (\<lambda>value.
     ret (control_response (IntegrationsContent org cid value)))))"

definition list_platform_connection_channels_endpoint ::
  "'s application \<Rightarrow> uuid \<Rightarrow> uuid \<Rightarrow> request_state \<Rightarrow> ('s, answer) operation" where
  "list_platform_connection_channels_endpoint app org cid st =
     with_actor st (\<lambda>actor.
     available (uc_channels (app_controls app)) ''Platform channels are unavailable'' (\<lambda>use_case.
     bnd (excepting (control_denials ''Platform channels are unavailable'')
            (with_correlation st (\<lambda>correlation. use_case actor org cid correlation))) (\<lambda>value.
     ret (control_response (ChannelsContent org cid value)))))"

definition get_platform_channel_purposes_endpoint ::
  "'s application \<Rightarrow> uuid \<Rightarrow> uuid \<Rightarrow> request_state \<Rightarrow> ('s, answer) operation" where
  "get_platform_channel_purposes_endpoint app org cid st =
     with_actor st (\<lambda>actor.
     available (uc_channel_purposes (app_controls app)) ''Platform channel purposes are unavailable'' (\<lambda>use_case.
     bnd (excepting (control_denials ''Platform channel purposes are unavailable'')
            (with_correlation st (\<lambda>correlation. use_case actor org cid correlation))) (\<lambda>value.
     ret (control_response (PurposesContent org cid value)))))"

definition get_platform_ai_moderation_summary_endpoint ::
  "'s application \<Rightarrow> uuid \<Rightarrow> uuid \<Rightarrow> request_state \<Rightarrow> ('s, answer) operation" where
  "get_platform_ai_moderation_summary_endpoint app org cid st =
     with_actor st (\<lambda>actor.
     available (uc_ai_summary (app_controls app)) ''Platform AI moderation summary is unavailable'' (\<lambda>use_case.
     bnd (excepting (control_denials ''Platform AI moderation summary is unavailable'')
            (with_correlation st (\<lambda>correlation. use_case actor org cid correlation))) (\<lambda>value.
     ret (control_response (SummaryContent org cid value)))))"

definition get_platform_welcome_settings_endpoint ::
  "'s application \<Rightarrow> uuid \<Rightarrow> uuid \<Rightarrow> request_state \<Rightarrow> ('s, answer) operation" where
  "get_platform_welcome_settings_endpoint app org cid st =
     with_actor st (\<lambda>actor.
     available (uc_welcome_settings (app_controls app)) ''Platform welcome settings are unavailable'' (\<lambda>use_case.
     bnd (excepting (control_denials ''Platform welcome settings are unavailable'')
            (with_correlation st (\<lambda>correlation. use_case actor org cid correlation))) (\<lambda>value.
     ret (control_response (WelcomeContent org cid value)))))"

text \<open>Showing a policy constructs its browser contract, outside the \<open>try\<close> block.\<close>

definition get_platform_ai_moderation_policy_endpoint ::
  "'s application \<Rightarrow> uuid \<Rightarrow> uuid \<Rightarrow> request_state \<Rightarrow> ('s, answer) operation" where
  "get_platform_ai_moderation_policy_endpoint app org cid st =
     with_actor st (\<lambda>actor.
     available (uc_ai_policy (app_controls app)) ''Platform AI moderation policy is unavailable'' (\<lambda>use_case.
     bnd (excepting (control_denials ''Platform AI moderation policy is unavailable'')
            (with_correlation st (\<lambda>correlation. use_case actor org cid correlation))) (\<lambda>state.
     bnd (construct (from_domain_policy (state_policy state))) (\<lambda>policy.
     ret (control_response (PolicyContent org cid policy (state_is_default_policy state)))))))"

section \<open>Updates\<close>

definition update_platform_ai_moderation_policy_endpoint ::
  "'s application \<Rightarrow> uuid \<Rightarrow> uuid \<Rightarrow> AiModerationPolicyUpdateRequest \<Rightarrow> request_state \<Rightarrow> ('s, answer) operation" where
  "update_platform_ai_moderation_policy_endpoint app org cid payload st =
     with_assured st (\<lambda>principal.
     available (uc_update_ai_policy (app_controls app)) ''Platform AI moderation policy is unavailable'' (\<lambda>use_case.
     bnd (excepting ((''RecentAuthenticationRequiredError'', 403, ''Recent authentication is required'') #
              control_denials ''Platform AI moderation policy is unavailable'')
            (bnd (construct (to_domain_policy payload)) (\<lambda>policy.
             with_correlation st (\<lambda>correlation. use_case principal org cid policy correlation)))) (\<lambda>summary.
     ret (control_response (SummaryContent org cid summary)))))"

definition update_platform_channel_purpose_endpoint ::
  "'s application \<Rightarrow> uuid \<Rightarrow> uuid \<Rightarrow> ChannelPurpose \<Rightarrow> codes \<Rightarrow> request_state \<Rightarrow> ('s, answer) operation" where
  "update_platform_channel_purpose_endpoint app org cid purpose channel st =
     with_actor st (\<lambda>actor.
     available (uc_update_channel_purpose (app_controls app)) ''Platform channel purposes are unavailable'' (\<lambda>use_case.
     bnd (excepting (control_denials ''Platform channel purposes are unavailable'')
            (with_correlation st (\<lambda>correlation. use_case actor org cid purpose channel correlation))) (\<lambda>purposes.
     ret (control_response (PurposesContent org cid purposes)))))"

definition update_platform_welcome_settings_endpoint ::
  "'s application \<Rightarrow> uuid \<Rightarrow> uuid \<Rightarrow> PlatformWelcomeSettingsUpdateRequest \<Rightarrow> request_state \<Rightarrow> ('s, answer) operation" where
  "update_platform_welcome_settings_endpoint app org cid payload st =
     with_actor st (\<lambda>actor.
     available (uc_update_welcome_settings (app_controls app)) ''Platform welcome settings are unavailable'' (\<lambda>use_case.
     bnd (excepting (control_denials ''Platform welcome settings are unavailable'')
            (with_correlation st (\<lambda>correlation.
             bnd (construct (welcome_settings_of payload)) (\<lambda>settings.
             use_case actor org cid settings correlation)))) (\<lambda>settings.
     ret (control_response (WelcomeContent org cid settings)))))"

lemmas control_endpoints = list_control_modules_endpoint_def get_platform_health_endpoint_def
  get_platform_dashboard_summary_endpoint_def
  get_platform_bot_settings_endpoint_def
  get_platform_audit_timeline_endpoint_def
  get_platform_server_statistics_endpoint_def
  get_platform_integrations_endpoint_def
  list_platform_connection_channels_endpoint_def
  get_platform_channel_purposes_endpoint_def
  get_platform_ai_moderation_summary_endpoint_def
  get_platform_welcome_settings_endpoint_def
  get_platform_ai_moderation_policy_endpoint_def update_platform_ai_moderation_policy_endpoint_def
  update_platform_channel_purpose_endpoint_def update_platform_welcome_settings_endpoint_def

section \<open>Routes\<close>

datatype control_endpoint =
    ListModules uuid
  | HealthOf uuid Platform
  | Dashboard uuid uuid
  | BotSettings uuid uuid
  | AuditTimeline uuid uuid
  | ServerStatistics uuid uuid
  | Integrations uuid uuid
  | Channels uuid uuid
  | ChannelPurposes uuid uuid
  | AiSummary uuid uuid
  | UpdateAiPolicy uuid uuid AiModerationPolicyUpdateRequest
  | AiPolicy uuid uuid
  | UpdateChannelPurpose uuid uuid ChannelPurpose codes
  | WelcomeSettings uuid uuid
  | UpdateWelcomeSettings uuid uuid PlatformWelcomeSettingsUpdateRequest

primrec handle_control :: "'s application \<Rightarrow> control_endpoint \<Rightarrow> ('s, content) handler" where
  "handle_control app (ListModules org) = list_control_modules_endpoint app org"
| "handle_control app (HealthOf org pf) = get_platform_health_endpoint app org pf"
| "handle_control app (Dashboard org cid) = get_platform_dashboard_summary_endpoint app org cid"
| "handle_control app (BotSettings org cid) = get_platform_bot_settings_endpoint app org cid"
| "handle_control app (AuditTimeline org cid) = get_platform_audit_timeline_endpoint app org cid"
| "handle_control app (ServerStatistics org cid) = get_platform_server_statistics_endpoint app org cid"
| "handle_control app (Integrations org cid) = get_platform_integrations_endpoint app org cid"
| "handle_control app (Channels org cid) = list_platform_connection_channels_endpoint app org cid"
| "handle_control app (ChannelPurposes org cid) = get_platform_channel_purposes_endpoint app org cid"
| "handle_control app (AiSummary org cid) = get_platform_ai_moderation_summary_endpoint app org cid"
| "handle_control app (UpdateAiPolicy org cid q) = update_platform_ai_moderation_policy_endpoint app org cid q"
| "handle_control app (AiPolicy org cid) = get_platform_ai_moderation_policy_endpoint app org cid"
| "handle_control app (UpdateChannelPurpose org cid p ch) = update_platform_channel_purpose_endpoint app org cid p ch"
| "handle_control app (WelcomeSettings org cid) = get_platform_welcome_settings_endpoint app org cid"
| "handle_control app (UpdateWelcomeSettings org cid q) = update_platform_welcome_settings_endpoint app org cid q"

definition control_path :: "uuid \<Rightarrow> string \<Rightarrow> string" where
  "control_path org rest = ''/api/v1/organizations/'' @ uuid_str org @ rest"

definition reported :: "uuid \<Rightarrow> uuid \<Rightarrow> string \<Rightarrow> string" where
  "reported org cid part = control_path org (''/platform-connections/'' @ uuid_str cid @ part)"

primrec control_route :: "control_endpoint \<Rightarrow> string \<times> string" where
  "control_route (ListModules org) = (''GET'', control_path org ''/control-modules'')"
| "control_route (HealthOf org pf) = (''GET'', control_path org (''/platforms/'' @ Platform_value pf @ ''/health''))"
| "control_route (Dashboard org cid) = (''GET'', reported org cid ''/dashboard'')"
| "control_route (BotSettings org cid) = (''GET'', reported org cid ''/bot-settings'')"
| "control_route (AuditTimeline org cid) = (''GET'', reported org cid ''/audit-timeline'')"
| "control_route (ServerStatistics org cid) = (''GET'', reported org cid ''/server-statistics'')"
| "control_route (Integrations org cid) = (''GET'', reported org cid ''/integrations'')"
| "control_route (Channels org cid) = (''GET'', reported org cid ''/channels'')"
| "control_route (ChannelPurposes org cid) = (''GET'', reported org cid ''/channel-purposes'')"
| "control_route (AiSummary org cid) = (''GET'', reported org cid ''/ai-moderation-summary'')"
| "control_route (UpdateAiPolicy org cid _) = (''PUT'', reported org cid ''/ai-moderation-policy'')"
| "control_route (AiPolicy org cid) = (''GET'', reported org cid ''/ai-moderation-policy'')"
| "control_route (UpdateChannelPurpose org cid _ _) = (''PUT'', reported org cid ''/channel-purposes'')"
| "control_route (WelcomeSettings org cid) = (''GET'', reported org cid ''/welcome-settings'')"
| "control_route (UpdateWelcomeSettings org cid _) = (''PUT'', reported org cid ''/welcome-settings'')"

lemma control_methods: "fst (control_route e) \<in> {''GET'', ''PUT''}"
  by (cases e) simp_all

lemma control_paths: "\<exists>rest. snd (control_route e) = ''/api/v1/organizations/'' @ rest"
  by (cases e) (simp_all add: control_path_def reported_def)

text \<open>Without an actor no endpoint reaches its use case.\<close>

lemma control_anonymous: "st_actor_id st = None \<Longrightarrow> handle_control app e st = http_error 403 ''Access denied''"
  by (cases e) (simp_all add: control_endpoints with_actor_def with_assured_def)

end
