(* ===== verification/Routes.thy ===== *)
theory Routes
  imports Api_Control
begin

text \<open>
  The routes of \<open>create_app\<close>: one constructor per decorated function with its parsed path, query and
  body parameters, the method and path of its decorator, and the dispatch to the endpoint. Parsing and
  validation of parameters by FastAPI and Pydantic come before and are not modelled: a request is a pair
  of the raw request and an endpoint. A provider is one of the five OAuth providers.
\<close>

section \<open>Endpoints\<close>

type_synonym scope_request = "AuthorizationResource \<times> AuthorizationAction"

datatype endpoint =
    Healthz
  | Readyz
  | GetSession
  | RevokeSession
  | ListSessions
  | RevokeAllSessions
  | Reauthenticate string
  | ListIdentities
  | UnlinkIdentity uuid
  | ChangePassword string string
  | RecoveryRequest string
  | RecoveryCompletion string string
  | StartRegistration string string string
  | VerifyRegistration string string
  | ResendVerification string
  | Login string string
  | BeginLink LoginIdentityProvider
  | ListProviders
  | BeginLogin LoginIdentityProvider
  | LoginCallback OAuthCallback
  | LinkCallback OAuthCallback
  | AuditEvents uuid "uuid option" int
  | ListOrganizations
  | CreateOrganization string
  | ListMembers uuid
  | AddMember uuid string OrganizationRole "scope_request list"
  | UpdateMember uuid uuid OrganizationRole "scope_request list"
  | RemoveMember uuid uuid
  | CreateInvitation uuid string OrganizationRole "scope_request list"
  | ListInvitations uuid
  | RevokeInvitation uuid uuid
  | AcceptInvitation string
  | ListCandidates uuid Platform
  | ConnectPlatform uuid Platform string
  | ListConnections uuid "uuid option" int
  | Lifecycle uuid uuid PlatformConnectionLifecycleAction
  | Control control_endpoint

primrec handle ::
  "'s application \<Rightarrow> BrowserSessionCookieSettings \<Rightarrow> http_request \<Rightarrow> endpoint \<Rightarrow> ('s, content) handler" where
  "handle app ck req Healthz = (\<lambda>st. healthz_endpoint)"
| "handle app ck req Readyz = readyz_endpoint app"
| "handle app ck req GetSession = get_browser_session_endpoint"
| "handle app ck req RevokeSession = revoke_browser_session_endpoint app ck"
| "handle app ck req ListSessions = list_browser_sessions_endpoint app"
| "handle app ck req RevokeAllSessions = revoke_all_browser_sessions_endpoint app ck"
| "handle app ck req (Reauthenticate pw) = reauthenticate_browser_session_endpoint app req pw"
| "handle app ck req ListIdentities = list_login_identities_endpoint app"
| "handle app ck req (UnlinkIdentity i) = unlink_login_identity_endpoint app i"
| "handle app ck req (ChangePassword old new) = change_email_password_endpoint app old new"
| "handle app ck req (RecoveryRequest em) = request_password_recovery_endpoint app req em"
| "handle app ck req (RecoveryCompletion tok pw) = complete_password_recovery_endpoint app req tok pw"
| "handle app ck req (StartRegistration em pw nm) = start_email_password_registration_endpoint app req em pw nm"
| "handle app ck req (VerifyRegistration tok cd) = verify_email_password_registration_endpoint app req tok cd"
| "handle app ck req (ResendVerification tok) = resend_email_password_registration_verification_endpoint app req tok"
| "handle app ck req (Login em pw) = authenticate_email_password_endpoint app ck req em pw"
| "handle app ck req (BeginLink p) = begin_external_identity_link app p"
| "handle app ck req ListProviders = list_oauth_providers_endpoint app"
| "handle app ck req (BeginLogin p) = begin_oauth_login app req p"
| "handle app ck req (LoginCallback cb) = complete_external_identity_link_callback app ck req cb"
| "handle app ck req (LinkCallback cb) = complete_external_identity_link_callback app ck req cb"
| "handle app ck req (AuditEvents org after lim) = list_organization_audit_events_endpoint app org after lim"
| "handle app ck req ListOrganizations = list_organizations_endpoint app"
| "handle app ck req (CreateOrganization nm) = create_organization_endpoint app nm"
| "handle app ck req (ListMembers org) = list_organization_members_endpoint app org"
| "handle app ck req (AddMember org em role scopes) = add_organization_member_endpoint app org em role scopes"
| "handle app ck req (UpdateMember org usr role scopes) = update_organization_member_endpoint app org usr role scopes"
| "handle app ck req (RemoveMember org usr) = remove_organization_member_endpoint app org usr"
| "handle app ck req (CreateInvitation org em role scopes) =
     create_organization_member_invitation_endpoint app req org em role scopes"
| "handle app ck req (ListInvitations org) = list_organization_member_invitations_endpoint app org"
| "handle app ck req (RevokeInvitation org i) = revoke_organization_member_invitation_endpoint app org i"
| "handle app ck req (AcceptInvitation tok) = accept_organization_member_invitation_endpoint app req tok"
| "handle app ck req (ListCandidates org pf) = list_platform_connection_candidates_endpoint app org pf"
| "handle app ck req (ConnectPlatform org pf ext) = connect_platform_connection_endpoint app org pf ext"
| "handle app ck req (ListConnections org after lim) = list_platform_connections_endpoint app org after lim"
| "handle app ck req (Lifecycle org cid act) = run_platform_connection_lifecycle app req org cid act"
| "handle app ck req (Control c) = handle_control app c"

section \<open>Methods and paths\<close>

definition auth_path :: "string \<Rightarrow> string" where
  "auth_path rest = ''/api/v1/auth/'' @ rest"

definition org_path :: "uuid \<Rightarrow> string \<Rightarrow> string" where
  "org_path org rest = ''/api/v1/organizations/'' @ uuid_str org @ ''/'' @ rest"

primrec lifecycle_route :: "PlatformConnectionLifecycleAction \<Rightarrow> string \<times> string" where
  "lifecycle_route REAUTHORIZE = (''POST'', ''/reauthorizations'')"
| "lifecycle_route REVOKE = (''POST'', ''/revocations'')"
| "lifecycle_route DISCONNECT = (''DELETE'', [])"

primrec route :: "endpoint \<Rightarrow> string \<times> string" where
  "route Healthz = (''GET'', ''/healthz'')"
| "route Readyz = (''GET'', ''/readyz'')"
| "route GetSession = (''GET'', auth_path ''session'')"
| "route RevokeSession = (''DELETE'', auth_path ''session'')"
| "route ListSessions = (''GET'', auth_path ''sessions'')"
| "route RevokeAllSessions = (''DELETE'', auth_path ''sessions'')"
| "route (Reauthenticate _) = (''POST'', auth_path ''session/reauthentications'')"
| "route ListIdentities = (''GET'', auth_path ''identities'')"
| "route (UnlinkIdentity i) = (''DELETE'', auth_path (''identities/'' @ uuid_str i))"
| "route (ChangePassword _ _) = (''PUT'', auth_path ''password'')"
| "route (RecoveryRequest _) = (''POST'', auth_path ''password-recovery/requests'')"
| "route (RecoveryCompletion _ _) = (''POST'', auth_path ''password-recovery/completions'')"
| "route (StartRegistration _ _ _) = (''POST'', auth_path ''email-password/registrations'')"
| "route (VerifyRegistration _ _) = (''POST'', auth_path ''email-password/registration-verifications'')"
| "route (ResendVerification _) = (''POST'', auth_path ''email-password/registration-verifications/resend'')"
| "route (Login _ _) = (''POST'', auth_path ''email-password/sessions'')"
| "route (BeginLink p) = (''POST'', ''/api/v1/identity-links/'' @ LoginIdentityProvider_value p @ ''/authorizations'')"
| "route ListProviders = (''GET'', auth_path ''providers'')"
| "route (BeginLogin p) = (''POST'', auth_path (LoginIdentityProvider_value p @ ''/authorizations''))"
| "route (LoginCallback cb) = (''GET'', auth_path (LoginIdentityProvider_value (cb_provider cb) @ ''/callback''))"
| "route (LinkCallback cb) =
     (''GET'', ''/api/v1/identity-links/'' @ LoginIdentityProvider_value (cb_provider cb) @ ''/callback'')"
| "route (AuditEvents org _ _) = (''GET'', org_path org ''audit-events'')"
| "route ListOrganizations = (''GET'', ''/api/v1/organizations'')"
| "route (CreateOrganization _) = (''POST'', ''/api/v1/organizations'')"
| "route (ListMembers org) = (''GET'', org_path org ''members'')"
| "route (AddMember org _ _ _) = (''POST'', org_path org ''members'')"
| "route (UpdateMember org usr _ _) = (''PUT'', org_path org (''members/'' @ uuid_str usr))"
| "route (RemoveMember org usr) = (''DELETE'', org_path org (''members/'' @ uuid_str usr))"
| "route (CreateInvitation org _ _ _) = (''POST'', org_path org ''member-invitations'')"
| "route (ListInvitations org) = (''GET'', org_path org ''member-invitations'')"
| "route (RevokeInvitation org i) = (''DELETE'', org_path org (''member-invitations/'' @ uuid_str i))"
| "route (AcceptInvitation _) = (''POST'', ''/api/v1/member-invitations/accept'')"
| "route (ListCandidates org _) = (''GET'', org_path org ''platform-connection-candidates'')"
| "route (ConnectPlatform org _ _) = (''POST'', org_path org ''platform-connections'')"
| "route (ListConnections org _ _) = (''GET'', org_path org ''platform-connections'')"
| "route (Lifecycle org cid act) =
     (fst (lifecycle_route act), org_path org (''platform-connections/'' @ uuid_str cid @ snd (lifecycle_route act)))"
| "route (Control c) = control_route c"

definition routed :: "http_request \<Rightarrow> endpoint \<Rightarrow> bool" where
  "routed req e \<longleftrightarrow> (http_method req, http_path req) = route e"

section \<open>Public endpoints\<close>

text \<open>
  The endpoints that serve a visitor without a session: the sign-in flows, the provider callbacks and
  the probes. Everything else needs an actor.
\<close>

primrec is_public :: "endpoint \<Rightarrow> bool" where
  "is_public Healthz = True" | "is_public Readyz = True" | "is_public GetSession = False"
| "is_public RevokeSession = False" | "is_public ListSessions = False" | "is_public RevokeAllSessions = False"
| "is_public (Reauthenticate _) = False" | "is_public ListIdentities = False"
| "is_public (UnlinkIdentity _) = False" | "is_public (ChangePassword _ _) = False"
| "is_public (RecoveryRequest _) = True" | "is_public (RecoveryCompletion _ _) = True"
| "is_public (StartRegistration _ _ _) = True" | "is_public (VerifyRegistration _ _) = True"
| "is_public (ResendVerification _) = True" | "is_public (Login _ _) = True"
| "is_public (BeginLink _) = False" | "is_public ListProviders = True" | "is_public (BeginLogin _) = True"
| "is_public (LoginCallback _) = True" | "is_public (LinkCallback _) = True"
| "is_public (AuditEvents _ _ _) = False" | "is_public ListOrganizations = False"
| "is_public (CreateOrganization _) = False" | "is_public (ListMembers _) = False"
| "is_public (AddMember _ _ _ _) = False" | "is_public (UpdateMember _ _ _ _) = False"
| "is_public (RemoveMember _ _) = False" | "is_public (CreateInvitation _ _ _ _) = False"
| "is_public (ListInvitations _) = False" | "is_public (RevokeInvitation _ _) = False"
| "is_public (AcceptInvitation _) = False" | "is_public (ListCandidates _ _) = False"
| "is_public (ConnectPlatform _ _ _) = False" | "is_public (ListConnections _ _ _) = False"
| "is_public (Lifecycle _ _ _) = False" | "is_public (Control _) = False"

primrec limited_scope :: "endpoint \<Rightarrow> string option" where
  "limited_scope Healthz = None" | "limited_scope Readyz = None" | "limited_scope GetSession = None"
| "limited_scope RevokeSession = None" | "limited_scope ListSessions = None" | "limited_scope RevokeAllSessions = None"
| "limited_scope (Reauthenticate _) = Some ''auth.reauthentication''" | "limited_scope ListIdentities = None"
| "limited_scope (UnlinkIdentity _) = None" | "limited_scope (ChangePassword _ _) = None"
| "limited_scope (RecoveryRequest _) = Some ''auth.password_recovery.request''"
| "limited_scope (RecoveryCompletion _ _) = Some ''auth.password_recovery.complete''"
| "limited_scope (StartRegistration _ _ _) = Some ''auth.registration''"
| "limited_scope (VerifyRegistration _ _) = Some ''auth.registration.verification''"
| "limited_scope (ResendVerification _) = Some ''auth.registration.resend''"
| "limited_scope (Login _ _) = Some ''auth.login''" | "limited_scope (BeginLink _) = None"
| "limited_scope ListProviders = None" | "limited_scope (BeginLogin _) = Some ''auth.oauth.start''"
| "limited_scope (LoginCallback _) = Some ''auth.oauth.callback''"
| "limited_scope (LinkCallback _) = Some ''auth.oauth.callback''"
| "limited_scope (AuditEvents _ _ _) = None" | "limited_scope ListOrganizations = None"
| "limited_scope (CreateOrganization _) = None" | "limited_scope (ListMembers _) = None"
| "limited_scope (AddMember _ _ _ _) = None" | "limited_scope (UpdateMember _ _ _ _) = None"
| "limited_scope (RemoveMember _ _) = None"
| "limited_scope (CreateInvitation _ _ _ _) = Some ''organization.invitation.create''"
| "limited_scope (ListInvitations _) = None" | "limited_scope (RevokeInvitation _ _) = None"
| "limited_scope (AcceptInvitation _) = Some ''auth.invitation.accept''" | "limited_scope (ListCandidates _ _) = None"
| "limited_scope (ConnectPlatform _ _ _) = None" | "limited_scope (ListConnections _ _ _) = None"
| "limited_scope (Lifecycle _ _ _) = None" | "limited_scope (Control _) = None"

text \<open>Without an actor an endpoint that is not public stops before its use case.\<close>

lemma anonymous_denied:
  assumes "\<not> is_public e" and "st_actor_id st = None"
  shows "handle app ck req e st =
    (case limited_scope e of
       None \<Rightarrow> http_error 403 ''Access denied''
     | Some scope \<Rightarrow> bnd (enforce_auth_rate_limit app req st scope) (\<lambda>_. http_error 403 ''Access denied''))"
  using assms
  by (cases e) (simp_all add: get_browser_session_endpoint_def revoke_browser_session_endpoint_def
      list_browser_sessions_endpoint_def revoke_all_browser_sessions_endpoint_def
      reauthenticate_browser_session_endpoint_def list_login_identities_endpoint_def
      unlink_login_identity_endpoint_def change_email_password_endpoint_def begin_external_identity_link_def
      list_organization_audit_events_endpoint_def list_organizations_endpoint_def create_organization_endpoint_def
      list_organization_members_endpoint_def add_organization_member_endpoint_def
      update_organization_member_endpoint_def remove_organization_member_endpoint_def
      create_organization_member_invitation_endpoint_def list_organization_member_invitations_endpoint_def
      revoke_organization_member_invitation_endpoint_def accept_organization_member_invitation_endpoint_def
      list_platform_connection_candidates_endpoint_def connect_platform_connection_endpoint_def
      list_platform_connections_endpoint_def run_platform_connection_lifecycle_def
      with_actor_def with_session_def with_assured_def control_anonymous)

text \<open>Every rate-limited endpoint asks the limiter first and stops at a denial.\<close>

lemma limited_first:
  assumes "limited_scope e = Some scope"
  shows "\<exists>f. handle app ck req e st = bnd (enforce_auth_rate_limit app req st scope) f"
  using assms
  by (cases e) (auto simp: reauthenticate_browser_session_endpoint_def request_password_recovery_endpoint_def
      complete_password_recovery_endpoint_def start_email_password_registration_endpoint_def
      verify_email_password_registration_endpoint_def resend_email_password_registration_verification_endpoint_def
      authenticate_email_password_endpoint_def begin_oauth_login_def complete_external_identity_link_callback_def
      create_organization_member_invitation_endpoint_def accept_organization_member_invitation_endpoint_def)

lemma limiter_denies:
  assumes "limited_scope e = Some scope" and "app_rate_limiter app = Some check"
    and "check scope (case http_client req of None \<Rightarrow> ''unknown'' | Some host \<Rightarrow> host) s = (Inr (rate_denied n), t)"
    and "st_correlation_id st = Some cid"
  shows "handle app ck req e st s =
    (Inl (HTTPException 429 ''Too many requests'' [(''Retry-After'', latin (str_int (max 1 n)))]), t)"
proof -
  from limited_first [OF assms(1)] obtain f where
    "handle app ck req e st = bnd (enforce_auth_rate_limit app req st scope) f" by blast
  with assms(2-4) show ?thesis
    by (simp add: enforce_auth_rate_limit_def with_correlation_def rate_denied_def bnd_apply raise_def Let_def)
qed

lemma control_not_exempt: "snd (control_route c) \<notin> set CSRF_EXEMPT_PATHS"
  using control_paths [of c] by (auto simp: CSRF_EXEMPT_PATHS_def)

lemma oauth_provider_values:
  "p \<noteq> PROVIDER_EMAIL \<longleftrightarrow> LoginIdentityProvider_value p \<in> {''discord'', ''twitch'', ''telegram'', ''google'', ''yandex''}"
  by (cases p) simp_all

text \<open>
  The CSRF exemptions are exactly the public mutations: a routed request passes the CSRF guard
  without a token if and only if its method is safe or its endpoint is a public sign-in operation.
\<close>

theorem csrf_exemptions:
  assumes "routed req e" and "\<forall>p. e = BeginLogin p \<longrightarrow> p \<noteq> PROVIDER_EMAIL"
  shows "is_protected req \<longleftrightarrow> http_method req \<noteq> ''GET'' \<and> \<not> is_public e"
proof -
  have methods: "fst (route e) \<in> {''GET'', ''POST'', ''PUT'', ''DELETE''}"
    by (cases e) (auto split: PlatformConnectionLifecycleAction.split, (rename_tac a, case_tac a; simp)+)
  have req: "http_method req = fst (route e)" "http_path req = snd (route e)"
    using assms(1) by (metis routed_def fst_conv snd_conv)+
  have "snd (route e) \<in> set CSRF_EXEMPT_PATHS \<longleftrightarrow> is_public e" if "fst (route e) \<noteq> ''GET''"
    using that assms(2)
  proof (cases e)
    case (Control c)
    then show ?thesis using control_not_exempt [of c] by simp
  qed (auto simp: CSRF_EXEMPT_PATHS_def auth_path_def org_path_def oauth_provider_values)
  with methods req show ?thesis
    by (auto simp: is_protected_def SAFE_HTTP_METHODS_def)
qed

theorem csrf_exemptions_witness:
  "routed mutation RevokeSession \<and> is_protected mutation"
proof -
  have "routed mutation RevokeSession"
    by (simp add: routed_def mutation_def auth_path_def)
  with csrf_exemptions [OF this] show ?thesis by (simp add: mutation_def)
qed

end
