(* ===== verification/Composition.thy ===== *)
theory Composition
  imports Routes
begin

text \<open>
  The composition root (\<open>infrastructure/composition.py\<close>): the use cases of the previous theories wired
  to the database, the one-time token store and the rate limiter. The state of the running service is
  the database next to the states of the store and of the limiter; both are arguments, as the source
  chooses between memory and Redis by its settings.
\<close>

section \<open>The state of the service\<close>

type_synonym ('s, 'l) world = "console \<times> ('s \<times> 'l)"

definition on_left :: "('s, 'a) operation \<Rightarrow> ('s \<times> 'l, 'a) operation" where
  "on_left m = (\<lambda>(s, l). case m s of (r, s') \<Rightarrow> (r, (s', l)))"

definition on_right :: "('l, 'a) operation \<Rightarrow> ('s \<times> 'l, 'a) operation" where
  "on_right m = (\<lambda>(s, l). case m l of (r, l') \<Rightarrow> (r, (s, l')))"

definition left_store :: "'s token_store \<Rightarrow> ('s \<times> 'l) token_store" where
  "left_store store =
     \<lparr>ts_put = (\<lambda>k v n. on_left (ts_put store k v n)), ts_get = (\<lambda>k. on_left (ts_get store k)),
      ts_replace = (\<lambda>k v n. on_left (ts_replace store k v n)),
      ts_consume = (\<lambda>k v. on_left (ts_consume store k v))\<rparr>"

text \<open>
  Everything outside the repository and everything chosen by the settings. One request runs at most
  the session resolver and two use cases: \<open>env_io\<close> gives each its clock readings and fresh values.
\<close>

record ('s, 'l) environment =
  env_ports :: ports
  env_io :: "nat \<Rightarrow> io"
  env_now :: datetime
  env_code :: string
  env_store :: "'s token_store"
  env_limiter :: "string \<Rightarrow> string \<Rightarrow> ('l, RateLimitDecision) operation"
  env_database_reachable :: bool
  env_oauth :: "LoginIdentityProvider \<Rightarrow> (provider_client \<times> (string \<Rightarrow> string \<Rightarrow> string)) option"
  env_verifiers :: "Platform \<Rightarrow> verifier option"
  env_candidates :: "Platform \<Rightarrow> candidate_reader option"
  env_verification_notifier :: verification_notifier
  env_recovery_notifier :: recovery_notifier
  env_completion_notifier :: completion_notifier
  env_invitation_notifier :: invitation_notifier
  env_discord_control :: control_client
  env_twitch_control :: "control_client option"

definition oauth_settings ::
  "('s, 'l) environment \<Rightarrow> LoginIdentityProvider \<Rightarrow> (provider_client \<times> (string \<Rightarrow> string \<Rightarrow> string)) option" where
  "oauth_settings env provider = (if provider = PROVIDER_EMAIL then None else env_oauth env provider)"

definition resolver_io :: "('s, 'l) environment \<Rightarrow> io" where
  "resolver_io env = env_io env 0"

definition first_io :: "('s, 'l) environment \<Rightarrow> io" where
  "first_io env = env_io env 1"

definition second_io :: "('s, 'l) environment \<Rightarrow> io" where
  "second_io env = env_io env 2"

section \<open>The use cases on the bot services\<close>

definition discord_only :: "'r \<Rightarrow> Platform \<Rightarrow> 'r option" where
  "discord_only reader = [DISCORD \<mapsto> reader]"

text \<open>Some use cases get a client that was built without an identity reader.\<close>

definition without_identities :: "control_client \<Rightarrow> control_client" where
  "without_identities c = c\<lparr>client_identities := False\<rparr>"

definition with_identities :: "control_client \<Rightarrow> control_client" where
  "with_identities c = c\<lparr>client_identities := True\<rparr>"

definition platform_health_readers ::
  "control_client \<Rightarrow> control_client option \<Rightarrow> Platform \<Rightarrow>
   (uuid \<Rightarrow> uuid \<Rightarrow> uuid \<Rightarrow> (console, PlatformHealth) operation) option" where
  "platform_health_readers discord twitch =
     (case twitch of
        None \<Rightarrow> [DISCORD \<mapsto> discord_get_health discord]
      | Some c \<Rightarrow> [DISCORD \<mapsto> discord_get_health discord, TWITCH \<mapsto> twitch_get_health c])"

definition production_controls ::
  "io \<Rightarrow> control_client \<Rightarrow> control_client option \<Rightarrow> ('s, 'l) world control_use_cases" where
  "production_controls io client twitch =
     (let bound = with_identities client; plain = without_identities client in
      \<lparr>uc_modules = (\<lambda>actor org cor. on_db (ListControlModules_execute (discord_list_modules bound) actor org cor)),
       uc_health = Some (\<lambda>actor org pf cor.
         on_db (GetPlatformHealth_execute (platform_health_readers bound twitch) actor org pf cor)),
       uc_audit_timeline = Some (\<lambda>actor org cid cor.
         on_db (GetPlatformAuditTimeline_execute (discord_only (discord_get_audit_timeline bound)) actor org cid cor)),
       uc_dashboard = Some (\<lambda>actor org cid cor.
         on_db (GetPlatformDashboardSummary_execute (discord_only (discord_get_dashboard bound)) actor org cid cor)),
       uc_channels = Some (\<lambda>actor org cid cor.
         on_db (ListPlatformConnectionChannels_execute (discord_only (discord_get_channel_catalog bound)) actor org cid cor)),
       uc_channel_purposes = Some (\<lambda>actor org cid cor.
         on_db (GetPlatformChannelPurposes_execute (discord_get_channel_purposes plain) actor org cid cor)),
       uc_ai_summary = Some (\<lambda>actor org cid cor.
         on_db (GetPlatformAiModerationSummary_execute (discord_get_ai_moderation_summary plain) actor org cid cor)),
       uc_bot_settings = Some (\<lambda>actor org cid cor.
         on_db (GetPlatformBotSettings_execute (discord_only (discord_get_bot_settings bound)) actor org cid cor)),
       uc_integrations = Some (\<lambda>actor org cid cor.
         on_db (GetPlatformIntegrations_execute (discord_only (discord_get_integrations bound)) actor org cid cor)),
       uc_server_statistics = Some (\<lambda>actor org cid cor.
         on_db (GetPlatformServerStatistics_execute (discord_only (discord_get_server_statistics bound)) actor org cid cor)),
       uc_ai_policy = Some (\<lambda>actor org cid cor.
         on_db (GetPlatformAiModerationPolicy_execute (discord_get_ai_moderation_policy bound) actor org cid cor)),
       uc_update_ai_policy = Some (\<lambda>who org cid policy cor.
         on_db (UpdatePlatformAiModerationPolicy_execute io (discord_update_ai_moderation_policy bound) who org cid policy cor)),
       uc_update_channel_purpose = Some (\<lambda>actor org cid purpose channel cor.
         on_db (UpdatePlatformChannelPurpose_execute (discord_update_channel_purpose bound) actor org cid purpose channel cor)),
       uc_welcome_settings = Some (\<lambda>actor org cid cor.
         on_db (GetPlatformWelcomeSettings_execute (discord_get_welcome_settings plain) actor org cid cor)),
       uc_update_welcome_settings = Some (\<lambda>actor org cid settings cor.
         on_db (UpdatePlatformWelcomeSettings_execute (discord_update_welcome_settings bound) actor org cid settings cor))\<rparr>)"

section \<open>The application\<close>

definition create_production_app :: "('s, 'l) environment \<Rightarrow> ('s, 'l) world application" where
  "create_production_app env =
     (let P = env_ports env; io = first_io env; store = left_store (env_store env) in
      \<lparr>app_rate_limiter = Some (\<lambda>scope key. on_store (on_right (env_limiter env scope key))),
       app_readiness_probe = Some (\<lambda>_. ret (env_database_reachable env)),
       app_now = env_now env,
       app_authorization_url = (\<lambda>p. map_option snd (oauth_settings env p)),
       uc_session_revoker = Some (\<lambda>sid uid cor. on_db (RevokeBrowserSession_execute io sid uid cor)),
       uc_session_list = Some (\<lambda>actor current. on_db (ListBrowserSessions_execute io actor current)),
       uc_session_bulk_revoker = Some (\<lambda>who cor. on_db (RevokeAllBrowserSessions_execute io who cor)),
       uc_session_reauthentication = Some (\<lambda>cmd. on_db (ReauthenticateBrowserSession_execute P io cmd)),
       uc_login_identity_list = Some (\<lambda>actor. on_db (ListLoginIdentities_execute actor)),
       uc_login_identity_unlink = Some (\<lambda>cmd. on_db (UnlinkLoginIdentity_execute io cmd)),
       uc_password_change = Some (\<lambda>cmd. on_db (ChangeEmailPassword_execute P io cmd)),
       uc_password_recovery_request =
         Some (RequestPasswordRecovery_execute P io store (env_recovery_notifier env)),
       uc_password_recovery_completion =
         Some (CompletePasswordRecovery_execute P io store (env_completion_notifier env)),
       uc_registration_start =
         Some (StartEmailPasswordRegistration_execute P io store (env_verification_notifier env) (env_code env),
               StartEmailPasswordRegistration_resend P io store (env_verification_notifier env) (env_code env)),
       uc_registration_verification = Some (VerifyEmailPasswordRegistration_execute P io store),
       uc_authentication = Some (\<lambda>cmd. on_db (AuthenticateEmailPassword_execute P io cmd)),
       uc_identity_link_start =
         (\<lambda>p. map_option (\<lambda>_ cmd. on_db (BeginIdentityLink_execute P io cmd)) (oauth_settings env p)),
       uc_identity_link_complete =
         (\<lambda>p. map_option (\<lambda>(client, _) cmd. on_db (CompleteIdentityLink_execute P (second_io env) client cmd))
                (oauth_settings env p)),
       uc_login_start =
         (\<lambda>p. map_option (\<lambda>_ prov cor. on_db (BeginOAuthLogin_execute P io prov cor)) (oauth_settings env p)),
       uc_login_complete =
         (\<lambda>p. map_option (\<lambda>(client, _) rq. on_db (CompleteOAuthLogin_execute P io client rq)) (oauth_settings env p)),
       uc_audit_events =
         Some (\<lambda>actor org after lim. on_db (ListOrganizationAuditEvents_execute actor org after lim)),
       uc_organization_list = Some (\<lambda>actor. on_db (ListOrganizations_execute P actor)),
       uc_organization_creation = Some (\<lambda>cmd. on_db (CreateOrganization_execute io cmd)),
       uc_organization_members = Some (\<lambda>actor org. on_db (ListOrganizationMembers_execute P actor org)),
       uc_organization_member_add = Some (\<lambda>cmd. on_db (AddOrganizationMember_execute P io cmd)),
       uc_organization_member_update = Some (\<lambda>cmd. on_db (UpdateOrganizationMember_execute io cmd)),
       uc_organization_member_remove = Some (\<lambda>cmd. on_db (RemoveOrganizationMember_execute io cmd)),
       uc_invitation_create =
         Some (\<lambda>cmd. on_db (InviteOrganizationMember_execute P io (env_invitation_notifier env) cmd)),
       uc_invitation_list = Some (\<lambda>actor org. on_db (ListOrganizationInvitations_execute actor org)),
       uc_invitation_revoke = Some (\<lambda>cmd. on_db (RevokeOrganizationInvitation_execute io cmd)),
       uc_invitation_accept = Some (\<lambda>cmd. on_db (AcceptOrganizationInvitation_execute P io cmd)),
       uc_connection_candidates =
         Some (\<lambda>cmd. on_db (ListPlatformConnectionCandidates_execute (env_candidates env) cmd)),
       uc_connection_connect =
         Some (\<lambda>cmd. on_db (ConnectPlatformConnection_execute (verify_connection (env_verifiers env)) io cmd)),
       uc_connections =
         Some (\<lambda>actor org after lim. on_db (ListPlatformConnections_execute actor org after lim)),
       app_controls = production_controls io (env_discord_control env) (env_twitch_control env),
       uc_connection_lifecycle = Some (\<lambda>cmd. on_db (ManagePlatformConnectionLifecycle_execute io cmd))\<rparr>)"

definition session_resolver ::
  "('s, 'l) environment \<Rightarrow> string \<Rightarrow> (('s, 'l) world, BrowserSessionPrincipal option) operation" where
  "session_resolver env raw_token =
     on_db (ResolveBrowserSession_execute (env_ports env) (resolver_io env) True (minutes 5) raw_token)"

text \<open>One request to the running service; \<open>correlation_id\<close> is the fresh \<open>uuid4()\<close> of the request.\<close>

definition serve ::
  "('s, 'l) environment \<Rightarrow> BrowserSecurityPolicy \<Rightarrow> BrowserSessionCookieSettings \<Rightarrow> uuid \<Rightarrow> http_request \<Rightarrow> endpoint \<Rightarrow>
   (('s, 'l) world, answer) operation" where
  "serve env policy cookies correlation_id req e =
     http_app policy cookies (Some (session_resolver env)) correlation_id req
       (handle (create_production_app env) cookies req e)"

section \<open>The running service\<close>

text \<open>
  What can happen between two states: a request is served, the reconciliation worker makes a pass, the
  clean-up worker runs (where \<open>cleanup\<close> allows it), or the token store and the limiter change by
  themselves, as their entries expire or another process uses them.
\<close>

inductive console_step :: "bool \<Rightarrow> ('s, 'l) world \<Rightarrow> ('s, 'l) world \<Rightarrow> bool" for cleanup where
  served: "serve env policy cookies cid req e w = (r, w') \<Longrightarrow> console_step cleanup w w'"
| reconciled: "ReconcilePlatformConnections_execute probes io cmd c = (r, c') \<Longrightarrow>
    console_step cleanup (c, x) (c', x)"
| cleaned: "cleanup \<Longrightarrow> CleanupSecurityRecords_execute io cmd' c = (r', c') \<Longrightarrow>
    console_step cleanup (c, x) (c', x)"
| elapsed: "console_step cleanup (c, x) (c, y)"

inductive reaches :: "bool \<Rightarrow> ('s, 'l) world \<Rightarrow> ('s, 'l) world \<Rightarrow> bool" for cleanup where
  here: "reaches cleanup w w"
| step: "reaches cleanup w v \<Longrightarrow> console_step cleanup v u \<Longrightarrow> reaches cleanup w u"

end
