(* ===== verification/Api_Laws.thy ===== *)
theory Api_Laws
  imports Composition
begin

text \<open>
  The contract between the endpoints and the use cases: whatever relation of states every use case
  keeps, every request keeps. \<open>lawful_application\<close> states it per collaborator of \<open>create_app\<close>, and its
  interpretation on the composed service is in \<open>System\<close>.
\<close>

section \<open>Guards keep laws\<close>

context step_law
begin

lemma http_error: "obeys R (http_error status detail)"
  unfolding http_error_def by (rule raise)

lemma with_actor: "(\<And>a. obeys R (f a)) \<Longrightarrow> obeys R (with_actor st f)"
  unfolding with_actor_def by (intro option_op http_error)

lemma with_session: "(\<And>a i. obeys R (f a i)) \<Longrightarrow> obeys R (with_session st f)"
  unfolding with_session_def by (auto intro: http_error split: option.split)

lemma with_assured: "(\<And>p. obeys R (f p)) \<Longrightarrow> obeys R (with_assured st f)"
  unfolding with_assured_def by (auto intro: http_error split: option.split)

lemma available: "(\<And>u. x = Some u \<Longrightarrow> obeys R (f u)) \<Longrightarrow> obeys R (available x d f)"
  unfolding available_def by (intro option_op http_error)

lemma with_correlation: "(\<And>c. obeys R (f c)) \<Longrightarrow> obeys R (with_correlation st f)"
  unfolding with_correlation_def by (intro option_op raise)

lemma excepting: "obeys R m \<Longrightarrow> obeys R (excepting clauses m)"
  unfolding excepting_def by (intro catching) (auto intro: raise http_error split: option.split)

lemma construct: "obeys R (construct x)"
  by (rule construct_obeys) (rule law_refl)

lemmas guards = with_actor with_session with_assured available with_correlation excepting http_error construct

text \<open>The middlewares add nothing of their own.\<close>

lemma http_app:
  assumes "\<And>st. obeys R (endpoint st)" and "\<And>f tok. resolver = Some f \<Longrightarrow> obeys R (f tok)"
  shows "obeys R (http_app policy cookies resolver cid req endpoint)"
proof -
  have inner: "obeys R (attach_correlation_id policy cid
      (attach_browser_security_headers policy (exception_middleware endpoint)) st)" for st
    unfolding attach_correlation_id_def attach_browser_security_headers_def exception_middleware_def
    by (intro bnd catching ret assms(1)) (auto intro: ret raise split: error.split)
  have "obeys R (resolve_browser_session resolver cookies req (attach_correlation_id policy cid
      (attach_browser_security_headers policy (exception_middleware endpoint))) st)" for st
    unfolding resolve_browser_session_def
    by (intro option_op bnd catching assms(2) inner ret raise)
  then show ?thesis
    unfolding http_app_def protect_mutations_from_csrf_def
    by (auto intro!: if_op bnd tries ret split: option.split list.split)
qed

end

section \<open>Use cases on the bot services that keep a law\<close>

locale lawful_controls = step_law R for R :: "'s \<Rightarrow> 's \<Rightarrow> bool" +
  fixes uc :: "'s control_use_cases"
  assumes modules: "obeys R (uc_modules uc actor org cor)"
    and health: "uc_health uc = Some g0 \<Longrightarrow> obeys R (g0 actor org pf cor)"
    and audit_timeline: "uc_audit_timeline uc = Some g1 \<Longrightarrow> obeys R (g1 actor org cid cor)"
    and dashboard: "uc_dashboard uc = Some g2 \<Longrightarrow> obeys R (g2 actor org cid cor)"
    and channels: "uc_channels uc = Some g3 \<Longrightarrow> obeys R (g3 actor org cid cor)"
    and channel_purposes: "uc_channel_purposes uc = Some g4 \<Longrightarrow> obeys R (g4 actor org cid cor)"
    and ai_summary: "uc_ai_summary uc = Some g5 \<Longrightarrow> obeys R (g5 actor org cid cor)"
    and bot_settings: "uc_bot_settings uc = Some g6 \<Longrightarrow> obeys R (g6 actor org cid cor)"
    and integrations: "uc_integrations uc = Some g7 \<Longrightarrow> obeys R (g7 actor org cid cor)"
    and server_statistics: "uc_server_statistics uc = Some g8 \<Longrightarrow> obeys R (g8 actor org cid cor)"
    and ai_policy: "uc_ai_policy uc = Some g9 \<Longrightarrow> obeys R (g9 actor org cid cor)"
    and welcome_settings: "uc_welcome_settings uc = Some g10 \<Longrightarrow> obeys R (g10 actor org cid cor)"
    and update_ai_policy: "uc_update_ai_policy uc = Some h1 \<Longrightarrow> obeys R (h1 who org cid policy cor)"
    and update_channel_purpose: "uc_update_channel_purpose uc = Some h2 \<Longrightarrow> obeys R (h2 actor org cid purpose channel cor)"
    and update_welcome_settings: "uc_update_welcome_settings uc = Some h3 \<Longrightarrow> obeys R (h3 actor org cid settings cor)"
begin

lemma control_report_endpoints:
  assumes "app_controls app = uc"
  shows "obeys R (list_control_modules_endpoint app org st)" "obeys R (get_platform_health_endpoint app org pf st)"
    "obeys R (get_platform_dashboard_summary_endpoint app org cid st)"
    "obeys R (get_platform_bot_settings_endpoint app org cid st)"
    "obeys R (get_platform_audit_timeline_endpoint app org cid st)"
    "obeys R (get_platform_server_statistics_endpoint app org cid st)"
    "obeys R (get_platform_integrations_endpoint app org cid st)"
    "obeys R (list_platform_connection_channels_endpoint app org cid st)"
    "obeys R (get_platform_channel_purposes_endpoint app org cid st)"
    "obeys R (get_platform_ai_moderation_summary_endpoint app org cid st)"
    "obeys R (get_platform_welcome_settings_endpoint app org cid st)"
    "obeys R (get_platform_ai_moderation_policy_endpoint app org cid st)"
  unfolding control_endpoints assms
  by (intro guards bnd ret modules health audit_timeline dashboard channels channel_purposes ai_summary
      bot_settings integrations server_statistics ai_policy welcome_settings; assumption)+

lemma control_update_endpoints:
  assumes "app_controls app = uc"
  shows "obeys R (update_platform_ai_moderation_policy_endpoint app org cid q st)"
    "obeys R (update_platform_channel_purpose_endpoint app org cid p ch st)"
    "obeys R (update_platform_welcome_settings_endpoint app org cid w st)"
  unfolding control_endpoints assms
  by (intro guards bnd ret update_ai_policy update_channel_purpose update_welcome_settings; assumption)+

lemma handle_control_obeys: "app_controls app = uc \<Longrightarrow> obeys R (handle_control app e st)"
  by (cases e) (simp_all add: control_report_endpoints control_update_endpoints)

end

section \<open>Applications whose use cases keep a law\<close>

locale lawful_application = step_law R for R :: "'s \<Rightarrow> 's \<Rightarrow> bool" +
  fixes app :: "'s application"
  assumes limiter: "app_rate_limiter app = Some f0 \<Longrightarrow> obeys R (f0 scope key)"
    and readiness: "app_readiness_probe app = Some f1 \<Longrightarrow> obeys R (f1 cor)"
    and revoker: "uc_session_revoker app = Some f2 \<Longrightarrow> obeys R (f2 sid uid cor)"
    and session_list: "uc_session_list app = Some f3 \<Longrightarrow> obeys R (f3 actor sid)"
    and bulk_revoker: "uc_session_bulk_revoker app = Some f4 \<Longrightarrow> obeys R (f4 who cor)"
    and reauthentication: "uc_session_reauthentication app = Some f5 \<Longrightarrow> obeys R (f5 c5)"
    and identity_list: "uc_login_identity_list app = Some f6 \<Longrightarrow> obeys R (f6 actor)"
    and identity_unlink: "uc_login_identity_unlink app = Some f7 \<Longrightarrow> obeys R (f7 c7)"
    and password_change: "uc_password_change app = Some f8 \<Longrightarrow> obeys R (f8 c8)"
    and recovery_request: "uc_password_recovery_request app = Some f9 \<Longrightarrow> obeys R (f9 c9)"
    and recovery_completion: "uc_password_recovery_completion app = Some f10 \<Longrightarrow> obeys R (f10 c10)"
    and registration: "uc_registration_start app = Some (f11, f12) \<Longrightarrow> obeys R (f11 c11) \<and> obeys R (f12 c12)"
    and verification: "uc_registration_verification app = Some f13 \<Longrightarrow> obeys R (f13 c13)"
    and authentication: "uc_authentication app = Some f14 \<Longrightarrow> obeys R (f14 c14)"
    and link_start: "uc_identity_link_start app p = Some f15 \<Longrightarrow> obeys R (f15 c15)"
    and link_complete: "uc_identity_link_complete app p = Some f16 \<Longrightarrow> obeys R (f16 c16)"
    and login_start: "uc_login_start app p = Some f17 \<Longrightarrow> obeys R (f17 q cor)"
    and login_complete: "uc_login_complete app p = Some f18 \<Longrightarrow> obeys R (f18 c18)"
    and audit_events: "uc_audit_events app = Some f19 \<Longrightarrow> obeys R (f19 actor org after lim)"
    and organization_list: "uc_organization_list app = Some f20 \<Longrightarrow> obeys R (f20 actor)"
    and organization_creation: "uc_organization_creation app = Some f21 \<Longrightarrow> obeys R (f21 c21)"
    and members: "uc_organization_members app = Some f22 \<Longrightarrow> obeys R (f22 actor org)"
    and member_add: "uc_organization_member_add app = Some f23 \<Longrightarrow> obeys R (f23 c23)"
    and member_update: "uc_organization_member_update app = Some f24 \<Longrightarrow> obeys R (f24 c24)"
    and member_remove: "uc_organization_member_remove app = Some f25 \<Longrightarrow> obeys R (f25 c25)"
    and invitation_create: "uc_invitation_create app = Some f26 \<Longrightarrow> obeys R (f26 c26)"
    and invitation_list: "uc_invitation_list app = Some f27 \<Longrightarrow> obeys R (f27 actor org)"
    and invitation_revoke: "uc_invitation_revoke app = Some f28 \<Longrightarrow> obeys R (f28 c28)"
    and invitation_accept: "uc_invitation_accept app = Some f29 \<Longrightarrow> obeys R (f29 c29)"
    and candidates: "uc_connection_candidates app = Some f30 \<Longrightarrow> obeys R (f30 c30)"
    and connect: "uc_connection_connect app = Some f31 \<Longrightarrow> obeys R (f31 c31)"
    and connections: "uc_connections app = Some f32 \<Longrightarrow> obeys R (f32 actor org after lim)"
    and lifecycle: "uc_connection_lifecycle app = Some f33 \<Longrightarrow> obeys R (f33 c33)"
    and controls: "lawful_controls R (app_controls app)"
begin

lemma rate_limit: "obeys R (enforce_auth_rate_limit app req st scope)"
  unfolding enforce_auth_rate_limit_def Let_def by (intro option_op guards bnd limiter if_op ret raise)

lemma registration_available:
  "(\<And>start resend. obeys R (start c) \<Longrightarrow> obeys R (resend c') \<Longrightarrow> obeys R (f (start, resend))) \<Longrightarrow>
   obeys R (available (uc_registration_start app) d f)"
  using registration by (intro available) (auto split: prod.splits)

lemma session_endpoints:
  "obeys R healthz_endpoint" "obeys R (readyz_endpoint app st)" "obeys R (get_browser_session_endpoint st)"
  "obeys R (revoke_browser_session_endpoint app ck st)" "obeys R (list_browser_sessions_endpoint app st)"
  "obeys R (revoke_all_browser_sessions_endpoint app ck st)"
  "obeys R (reauthenticate_browser_session_endpoint app req pw st)"
  "obeys R (list_login_identities_endpoint app st)" "obeys R (unlink_login_identity_endpoint app i st)"
  "obeys R (change_email_password_endpoint app pw new st)"
  unfolding healthz_endpoint_def readyz_endpoint_def get_browser_session_endpoint_def
    revoke_browser_session_endpoint_def list_browser_sessions_endpoint_def
    revoke_all_browser_sessions_endpoint_def reauthenticate_browser_session_endpoint_def
    list_login_identities_endpoint_def unlink_login_identity_endpoint_def change_email_password_endpoint_def
  by (intro guards bnd catching option_op if_op ret rate_limit readiness revoker session_list bulk_revoker
      reauthentication identity_list identity_unlink password_change; assumption)+

lemma flow_endpoints:
  "obeys R (start_email_password_registration_endpoint app req em pw nm st)"
  "obeys R (verify_email_password_registration_endpoint app req tok cd st)"
  "obeys R (resend_email_password_registration_verification_endpoint app req tok st)"
  "obeys R (request_password_recovery_endpoint app req em st)"
  "obeys R (complete_password_recovery_endpoint app req tok pw st)"
  "obeys R (authenticate_email_password_endpoint app ck req em pw st)"
  "obeys R (list_oauth_providers_endpoint app st)"
  unfolding start_email_password_registration_endpoint_def verify_email_password_registration_endpoint_def
    resend_email_password_registration_verification_endpoint_def request_password_recovery_endpoint_def
    complete_password_recovery_endpoint_def authenticate_email_password_endpoint_def list_oauth_providers_endpoint_def
  by (intro guards prod_op bnd ret rate_limit verification recovery_request recovery_completion authentication
      registration [THEN conjunct1] registration [THEN conjunct2]; simp?; assumption?)+

lemma both_op:
  "(\<And>x y. a = Some x \<Longrightarrow> b = Some y \<Longrightarrow> obeys R (f x y)) \<Longrightarrow> obeys R g \<Longrightarrow>
   obeys R (case (a, b) of (Some x, Some y) \<Rightarrow> f x y | _ \<Rightarrow> g)"
  by (auto split: option.split)

lemma oauth_endpoints:
  "obeys R (begin_external_identity_link app p st)"
  "obeys R (begin_oauth_login app req p st)"
  "obeys R (complete_external_identity_link_callback app ck req cb st)"
  unfolding begin_external_identity_link_def begin_oauth_login_def complete_external_identity_link_callback_def
    complete_oauth_login_if_valid_def
  by (intro guards both_op option_op bnd catching if_op ret raise rate_limit link_start link_complete login_start
      login_complete; assumption)+

lemma organization_endpoints:
  "obeys R (list_organization_audit_events_endpoint app org after lim st)"
  "obeys R (list_organizations_endpoint app st)" "obeys R (create_organization_endpoint app nm st)"
  "obeys R (list_organization_members_endpoint app org st)"
  "obeys R (add_organization_member_endpoint app org em role scopes st)"
  "obeys R (update_organization_member_endpoint app org usr role scopes st)"
  "obeys R (remove_organization_member_endpoint app org usr st)"
  "obeys R (create_organization_member_invitation_endpoint app req org em role scopes st)"
  "obeys R (list_organization_member_invitations_endpoint app org st)"
  "obeys R (revoke_organization_member_invitation_endpoint app org i st)"
  "obeys R (accept_organization_member_invitation_endpoint app req tok st)"
  unfolding list_organization_audit_events_endpoint_def list_organizations_endpoint_def
    create_organization_endpoint_def list_organization_members_endpoint_def add_organization_member_endpoint_def
    update_organization_member_endpoint_def remove_organization_member_endpoint_def
    create_organization_member_invitation_endpoint_def list_organization_member_invitations_endpoint_def
    revoke_organization_member_invitation_endpoint_def accept_organization_member_invitation_endpoint_def
  by (intro guards bnd catching if_op ret raise rate_limit audit_events organization_list organization_creation
      members member_add member_update member_remove invitation_create invitation_list invitation_revoke
      invitation_accept; assumption)+

lemma connection_endpoints:
  "obeys R (list_platform_connection_candidates_endpoint app org pf st)"
  "obeys R (connect_platform_connection_endpoint app org pf ext st)"
  "obeys R (list_platform_connections_endpoint app org after lim st)"
  "obeys R (run_platform_connection_lifecycle app req org cid act st)"
  unfolding list_platform_connection_candidates_endpoint_def connect_platform_connection_endpoint_def
    list_platform_connections_endpoint_def run_platform_connection_lifecycle_def
  by (intro guards bnd ret candidates connect connections lifecycle; assumption)+

lemma handle_obeys: "obeys R (handle app ck req e st)"
  by (cases e) (simp_all add: session_endpoints flow_endpoints oauth_endpoints organization_endpoints
      connection_endpoints lawful_controls.handle_control_obeys [OF controls])

lemma request_obeys:
  assumes "\<And>f tok. resolver = Some f \<Longrightarrow> obeys R (f tok)"
  shows "obeys R (http_app policy cookies resolver cid req (handle app cookies req e))"
  by (intro http_app handle_obeys assms)

end

end
