(* ===== verification/Console_System.thy ===== *)
theory Console_System
  imports Api_Laws Recovery_Properties
begin

text \<open>
  The running console: the contract of \<open>Api_Laws\<close> interpreted on the composed service, what every
  reachable state has kept of every earlier one, and properties of whole requests: who gets past the
  guards, and that a session works from sign-in until sign-out and never after.
\<close>

section \<open>The law of the service\<close>

definition owners_grow :: "console \<Rightarrow> console \<Rightarrow> bool" where
  "owners_grow s t \<longleftrightarrow> (db_ok s \<longrightarrow> db_ok t \<and> prefix (owner_rows s) (owner_rows t))"

definition lasting :: "console \<Rightarrow> console \<Rightarrow> bool" where
  "lasting s t \<longleftrightarrow> (db_ok s \<longrightarrow> db_ok t) \<and> history s t \<and> owners_grow s t"

definition lasting_revoked :: "console \<Rightarrow> console \<Rightarrow> bool" where
  "lasting_revoked s t \<longleftrightarrow> lasting s t \<and> keeps_revoked s t"

lemma lasting_refl [simp]: "lasting s s"
  by (simp add: lasting_def owners_grow_def his.law_refl)

lemma lasting_trans: "lasting s t \<Longrightarrow> lasting t u \<Longrightarrow> lasting s u"
  by (auto simp: lasting_def owners_grow_def intro: his.law_trans prefix_order.trans)

interpretation lasts: step_law lasting
  by unfold_locales (auto intro: lasting_trans)

interpretation lasts_revoked: step_law lasting_revoked
  by unfold_locales (auto simp: lasting_revoked_def rev.law_refl intro: lasting_trans rev.law_trans)

lemma lasting_of_owners:
  "obeys keeps_owners m \<Longrightarrow> obeys history m \<Longrightarrow> obeys lasting m"
  by (auto simp: obeys_def lasting_def owners_grow_def keeps_owners_def)

lemma lasting_revoked_of:
  "obeys keeps_owners m \<Longrightarrow> obeys history m \<Longrightarrow> obeys keeps_revoked m \<Longrightarrow> obeys lasting_revoked m"
  using lasting_of_owners [of m] by (simp add: obeys_def lasting_revoked_def)

lemma silent_lasting: "silent m \<Longrightarrow> obeys lasting_revoked m"
  by (rule silent_obeys) (simp_all add: lasts_revoked.law_refl)

lemma create_organization_lasting: "obeys lasting_revoked (CreateOrganization_execute io cmd)"
proof (rule obeysI)
  fix s
  obtain r t where run: "CreateOrganization_execute io cmd s = (r, t)" by fastforce
  have "owners_grow s t"
    unfolding owners_grow_def
  proof
    assume ok: "db_ok s"
    have "prefix (owner_rows s) (owner_rows t)"
    proof (cases r)
      case (Inl e)
      with clean_organization_use_cases(1) [of io cmd] ok run show ?thesis by (auto simp: clean_def)
    next
      case (Inr org)
      with run have "CreateOrganization_execute io cmd s = (Inr org, t)" by simp
      then show ?thesis
        by (elim CreateOrganization_returns organization_create_effect) (simp add: owner_rows_def)
    qed
    moreover from obeysD [OF inv_organization_use_cases(1), of s io cmd] ok run have "db_ok t" by simp
    ultimately show "db_ok t \<and> prefix (owner_rows s) (owner_rows t)" by simp
  qed
  moreover have "history s t" "keeps_revoked s t" "db_ok s \<longrightarrow> db_ok t"
    using obeysD [OF his_organization_use_cases(1), of s io cmd] obeysD [OF rev_organization_use_cases(1), of s io cmd]
      obeysD [OF inv_organization_use_cases(1), of s io cmd] run by simp_all
  ultimately show "lasting_revoked s (snd (CreateOrganization_execute io cmd s))"
    using run by (simp add: lasting_revoked_def lasting_def)
qed

lemma use_cases_lasting:
  "obeys lasting_revoked (ResolveBrowserSession_execute P io b iv tk)"
  "obeys lasting_revoked (ReauthenticateBrowserSession_execute P io c1)"
  "obeys lasting_revoked (RevokeBrowserSession_execute io sid u c)"
  "obeys lasting_revoked (RevokeAllBrowserSessions_execute io p c)"
  "obeys lasting_revoked (AuthenticateEmailPassword_execute P io c2)"
  "obeys lasting_revoked (UnlinkLoginIdentity_execute io c3)"
  "obeys lasting_revoked (BeginIdentityLink_execute P io c4)"
  "obeys lasting_revoked (CompleteIdentityLink_execute P io rs c5)"
  "obeys lasting_revoked (BeginOAuthLogin_execute P io pr c)"
  "obeys lasting_revoked (CompleteOAuthLogin_execute P io rs c6)"
  "obeys lasting_revoked (ChangeEmailPassword_execute P io c7)"
  "obeys lasting_revoked (AddOrganizationMember_execute P io c8)"
  "obeys lasting_revoked (UpdateOrganizationMember_execute io c9)"
  "obeys lasting_revoked (RemoveOrganizationMember_execute io c10)"
  "obeys lasting_revoked (InviteOrganizationMember_execute P io nt c11)"
  "obeys lasting_revoked (AcceptOrganizationInvitation_execute P io c12)"
  "obeys lasting_revoked (RevokeOrganizationInvitation_execute io c13)"
  "obeys lasting_revoked (ConnectPlatformConnection_execute v io c14)"
  "obeys lasting_revoked (ManagePlatformConnectionLifecycle_execute io c15)"
  "obeys lasting_revoked (ReconcilePlatformConnections_execute prs io c16)"
  by (intro lasting_revoked_of own_session_use_cases own_identity_use_cases own_organization_use_cases
      own_invitation_use_cases own_connection_use_cases his_session_use_cases his_identity_use_cases
      his_organization_use_cases his_invitation_use_cases his_connection_use_cases rev_session_use_cases
      rev_identity_use_cases rev_organization_use_cases rev_invitation_use_cases rev_connection_use_cases)+

lemma cleanup_lasting: "obeys lasting (CleanupSecurityRecords_execute io cmd)"
  by (intro lasting_of_owners own_identity_use_cases his_identity_use_cases)

interpretation flow_lasting: flow_law lasting_revoked
  by unfold_locales (intro lasting_revoked_of own_identity_writers his_identity_writers rev_identity_writers)+

section \<open>The composed service keeps it\<close>

definition world_law :: "console \<times> 'x \<Rightarrow> console \<times> 'x \<Rightarrow> bool" where
  "world_law = db_law lasting_revoked"

lemma world_law_step: "step_law world_law"
  unfolding world_law_def by (rule flow_lasting.pair_law)

lemma world_law_rules:
  "obeys lasting_revoked m \<Longrightarrow> obeys world_law (on_db m)"
  "silent m \<Longrightarrow> obeys world_law (on_db m)"
  "obeys world_law (on_store k)"
  "obeys world_law (ret x)"
  unfolding world_law_def
  by (auto intro: obeys_on_db silent_lasting flow_lasting.on_store step_law.ret [OF flow_lasting.pair_law])

lemmas world_law_flows = flow_lasting.flows [folded world_law_def]

lemmas on_db_lasting = use_cases_lasting [THEN world_law_rules(1)]
  create_organization_lasting [THEN world_law_rules(1)]
  silent_listings [THEN world_law_rules(2)] silent_connection_listings [THEN world_law_rules(2)]
  silent_list_candidates [THEN world_law_rules(2)] silent_list_identities [THEN world_law_rules(2)]
  silent_list_invitations [THEN world_law_rules(2)] silent_session_checks(2) [THEN world_law_rules(2)]

lemma discord_only_Some: "discord_only r p = Some q \<longleftrightarrow> p = DISCORD \<and> q = r"
  by (auto simp: discord_only_def)

lemma health_reader_silent: "platform_health_readers d t p = Some r \<Longrightarrow> silent (r org actor cor)"
  by (auto simp: platform_health_readers_def split: option.splits if_splits)

lemma policy_update_lasting:
  "obeys lasting_revoked (UpdatePlatformAiModerationPolicy_execute io (discord_update_ai_moderation_policy c) who org cid policy cor)"
  by (intro policy_update_obeys lasts_revoked.step_law_axioms silent_control_client lasting_revoked_of
      own_connection_writers his_connection_writers rev_connection_writers)

interpretation controls: lawful_controls
  "world_law :: ('s, 'l) world \<Rightarrow> ('s, 'l) world \<Rightarrow> bool" "production_controls io client twitch"
  for io client twitch
  by (intro lawful_controls.intro lawful_controls_axioms.intro world_law_step)
    (auto simp: production_controls_def Let_def discord_only_Some
      intro!: world_law_rules(2) world_law_rules(1) [OF policy_update_lasting] silent_control_modules_health
        silent_adapter_readers silent_discord_readers silent_control_client dest: health_reader_silent)

interpretation service: lawful_application
  "world_law :: ('s, 'l) world \<Rightarrow> ('s, 'l) world \<Rightarrow> bool" "create_production_app env"
  for env :: "('s, 'l) environment"
  by (intro lawful_application.intro lawful_application_axioms.intro world_law_step)
    (auto simp: create_production_app_def Let_def world_law_flows on_db_lasting world_law_rules(3,4)
      controls.lawful_controls_axioms split: prod.splits)

end
