(* ===== verification/Service_Properties.thy ===== *)
theory Service_Properties
  imports Console_System
begin

text \<open>
  Properties of the running console: what every sequence of requests, worker passes and elapsing time
  keeps, what a visitor without a session can reach, and the life of a session over HTTP from sign-in
  to sign-out.
\<close>

section \<open>What every run keeps\<close>

lemma resolver_lasting: "obeys world_law (session_resolver env tok)"
  unfolding session_resolver_def by (rule on_db_lasting)

lemma serve_lasting: "obeys world_law (serve env policy cookies cid req e)"
  unfolding serve_def by (rule service.request_obeys) (auto intro: resolver_lasting)

inductive_simps console_step_pair: "console_step cleanup (c, x) w'"

lemma step_lasting:
  assumes "console_step cleanup w w'"
  shows "lasting (fst w) (fst w') \<and> (\<not> cleanup \<longrightarrow> keeps_revoked (fst w) (fst w'))"
  using assms
proof cases
  case (served env policy cookies cid req e r)
  with obeysD [OF serve_lasting [of env policy cookies cid req e], of w]
  show ?thesis by (simp add: world_law_def db_law_def lasting_revoked_def)
next
  case (reconciled probes io cmd c r c' x)
  with obeysD [OF use_cases_lasting(20) [of probes io cmd], of c]
  show ?thesis by (simp add: lasting_revoked_def)
next
  case (cleaned io cmd c r c' x)
  with obeysD [OF cleanup_lasting [of io cmd], of c] show ?thesis by simp
next
  case (elapsed c x y)
  then show ?thesis by (simp add: rev.law_refl)
qed

lemma reaches_lasting:
  "reaches cleanup w w' \<Longrightarrow> lasting (fst w) (fst w') \<and> (\<not> cleanup \<longrightarrow> keeps_revoked (fst w) (fst w'))"
proof (induction rule: reaches.induct)
  case here
  show ?case by (simp add: rev.law_refl)
next
  case (step w v u)
  with step_lasting [OF step.hyps(2)] show ?case
    by (auto intro: lasting_trans rev.law_trans)
qed

text \<open>
  C1: Whatever sequence of requests, reconciliation and clean-up passes a consistent database goes
  through, it stays consistent; the audit trail, the users and the organizations are only appended
  to, no spent one-time transaction or invitation becomes usable again, and no owner membership is
  changed or removed. Without the clean-up worker, every revoked session row stays as it is.
\<close>

theorem console_invariant:
  assumes "reaches cleanup w w'" and "db_ok (fst w)"
  shows "db_ok (fst w') \<and> prefix (audit_events (fst w)) (audit_events (fst w'))
    \<and> prefix (users (fst w)) (users (fst w')) \<and> prefix (organizations (fst w)) (organizations (fst w'))
    \<and> prefix (owner_rows (fst w)) (owner_rows (fst w'))
    \<and> (\<forall>k. (link_spent k (fst w) \<longrightarrow> link_spent k (fst w')) \<and> (login_spent k (fst w) \<longrightarrow> login_spent k (fst w'))
          \<and> (invitation_spent k (fst w) \<longrightarrow> invitation_spent k (fst w')))
    \<and> (\<not> cleanup \<longrightarrow> (\<forall>r \<in> set (auth_sessions (fst w)). s_revoked_at r \<noteq> None \<longrightarrow> r \<in> set (auth_sessions (fst w'))))"
  using reaches_lasting [OF assms(1)] assms(2)
  by (simp add: lasting_def owners_grow_def history_def keeps_revoked_def)

section \<open>Visitors without a session\<close>

lemma resolver_without_principal:
  assumes "ResolveBrowserSession_execute P io True (minutes 5) tok s = (r, t)" and "\<And>who. r \<noteq> Inr (Some who)"
  shows "t = s"
proof -
  have "0 < minutes 5" by (simp add: minutes_def seconds_def)
  from touch_last_seen_of_returns [OF this]
  have touched: "touch_last_seen_of True (minutes 5) x now s \<noteq> (Inl e, u)" for x now e u
    by (metis fst_conv sum.distinct(1))
  consider e where "r = Inl e" | "r = Inr None"
    using assms(2) by (metis option.exhaust sum.exhaust)
  then show ?thesis
    by cases (use assms(1) touched in \<open>auto simp: ResolveBrowserSession_execute_def outcomes session_reader_outcomes\<close>)
qed

lemma production_app:
  "app_rate_limiter (create_production_app env) = Some (\<lambda>scope key. on_store (on_right (env_limiter env scope key)))"
  "uc_session_revoker (create_production_app env) =
     Some (\<lambda>sid uid cor. on_db (RevokeBrowserSession_execute (first_io env) sid uid cor))"
  "uc_authentication (create_production_app env) =
     Some (\<lambda>cmd. on_db (AuthenticateEmailPassword_execute (env_ports env) (first_io env) cmd))"
  by (simp_all add: create_production_app_def Let_def)

text \<open>A request whose cookie, if any, does not name a live session.\<close>

definition anonymous :: "('s, 'l) environment \<Rightarrow> BrowserSessionCookieSettings \<Rightarrow> http_request \<Rightarrow> ('s, 'l) world \<Rightarrow> bool" where
  "anonymous env cookies req w \<longleftrightarrow>
     (\<forall>tok who. http_cookie req (cookie_session_name cookies) = Some tok \<longrightarrow>
        fst (session_resolver env tok w) \<noteq> Inr (Some who))"

lemma session_resolver_run:
  "session_resolver env tok w = (r, w') \<longleftrightarrow>
     ResolveBrowserSession_execute (env_ports env) (resolver_io env) True (minutes 5) tok (fst w) = (r, fst w')
     \<and> snd w' = snd w"
  by (cases w; cases w') (simp add: session_resolver_def on_db_outcome)

lemma anonymous_answer:
  assumes "anonymous env cookies req w" and "serve env policy cookies cid req e w = (Inr a, w')"
  obtains (rejected) "a = csrf_rejection" "w' = w"
  | (ran) "attach_correlation_id policy cid (attach_browser_security_headers policy (exception_middleware
        (handle (create_production_app env) cookies req e))) fresh_state w = (Inr a, w')"
  using assms(2) unfolding serve_def
proof (cases rule: http_app_answers)
  case rejected
  then show thesis using that(1) by simp
next
  case (ran st u)
  from ran(3) consider "st = fresh_state" "u = w"
    | tok p where "http_cookie req (cookie_session_name cookies) = Some tok"
      "session_resolver env tok w = (Inr p, u)"
      "st = (case p of None \<Rightarrow> fresh_state | Some who \<Rightarrow> with_principal who fresh_state)"
    by auto
  then show thesis
  proof cases
    case 1
    from ran(1) show thesis unfolding 1 by (rule that(2))
  next
    case (2 tok p)
    with assms(1) 2 have p: "p = None"
      by (cases p) (auto simp: anonymous_def)
    with 2 have "session_resolver env tok w = (Inr None, u)" by simp
    then have "fst u = fst w" "snd u = snd w"
      using resolver_without_principal by (fastforce simp: session_resolver_run)+
    then have "u = w" by (simp add: prod_eq_iff)
    moreover have "st = fresh_state" using 2(3) p by simp
    ultimately have "attach_correlation_id policy cid (attach_browser_security_headers policy (exception_middleware
        (handle (create_production_app env) cookies req e))) fresh_state w = (Inr a, w')"
      using ran(1) by simp
    then show thesis by (rule that(2))
  qed
qed

text \<open>
  C2: Without a live session nothing but the public operations can be reached: every other endpoint
  answers without content and without cookies, with 403 unless its rate limiter was asked first, and
  the database is untouched.
\<close>

theorem session_required:
  assumes "\<not> is_public e" and "anonymous env cookies req w"
    and "serve env policy cookies cid req e w = (Inr a, w')"
  shows "fst w' = fst w \<and> rs_cookies a = [] \<and> (limited_scope e = None \<longrightarrow> rs_status a = 403)"
  using assms(2,3)
proof (cases rule: anonymous_answer)
  case rejected
  then show ?thesis by (simp add: csrf_rejection_def plain_response_def)
next
  case ran
  let ?st = "fresh_state\<lparr>st_correlation_id := Some cid\<rparr>"
  have st: "st_actor_id ?st = None" by (simp add: fresh_state_def)
  note denied = anonymous_denied [OF assms(1) st, of "create_production_app env" cookies req]
  have cid: "st_correlation_id ?st = Some cid" by (simp add: fresh_state_def)
  have raises: "\<exists>err. fst (handle (create_production_app env) cookies req e ?st w) = Inl err
      \<and> fst (snd (handle (create_production_app env) cookies req e ?st w)) = fst w
      \<and> (limited_scope e = None \<longrightarrow> status_of_error err = 403)"
    unfolding denied
    by (cases w; cases "limited_scope e") (auto simp: http_error_def raise_def status_of_error_def
        enforce_auth_rate_limit_def production_app Let_def with_correlation_def cid
        bnd_apply on_store_apply ret_def split: sum.splits)
  from ran show ?thesis
  proof (cases rule: correlated_answers)
    case (returned q)
    with raises show ?thesis by simp
  next
    case (raised err)
    with raises show ?thesis by simp
  qed
qed

section \<open>From sign-in to sign-out\<close>

lemma excepting_returns [outcomes]: "excepting clauses m s = (Inr x, t) \<longleftrightarrow> m s = (Inr x, t)"
  by (auto simp: excepting_def outcomes http_error_def split: option.splits prod.splits)

lemma guards_return:
  "with_actor st f s = (Inr x, t) \<longleftrightarrow> (\<exists>a. st_actor_id st = Some a \<and> f a s = (Inr x, t))"
  "with_session st g s = (Inr x, t) \<longleftrightarrow>
     (\<exists>a i. st_actor_id st = Some a \<and> st_session_id st = Some i \<and> g a i s = (Inr x, t))"
  "available uc d h s = (Inr x, t) \<longleftrightarrow> (\<exists>u. uc = Some u \<and> h u s = (Inr x, t))"
  "with_correlation st k s = (Inr x, t) \<longleftrightarrow> (\<exists>c. st_correlation_id st = Some c \<and> k c s = (Inr x, t))"
  by (auto simp: with_actor_def with_session_def available_def with_correlation_def http_error_def raise_def
      split: option.splits)

text \<open>An answer that carries cookies was returned by the endpoint.\<close>

lemma cookies_from_endpoint:
  assumes "serve env policy cookies cid req e w = (Inr a, w')" and "rs_cookies a \<noteq> []" and "db_ok (fst w)"
  obtains st u q where
    "handle (create_production_app env) cookies req e (st\<lparr>st_correlation_id := Some cid\<rparr>) u = (Inr q, w')"
    "rs_status a = rs_status q" "rs_cookies a = rs_cookies q" "db_ok (fst u)"
    "st = fresh_state \<or> (\<exists>tok who. http_cookie req (cookie_session_name cookies) = Some tok
       \<and> session_resolver env tok w = (Inr (Some who), u) \<and> st = with_principal who fresh_state)"
  using assms(1) unfolding serve_def
proof (cases rule: http_app_answers)
  case rejected
  with assms(2) show thesis by (simp add: csrf_rejection_def plain_response_def)
next
  case (ran st u)
  have ok: "db_ok (fst v)" if "session_resolver env tok w = (p, v)" for tok p v
    using that obeysD [OF resolver_lasting [of env tok], of w] assms(3)
    by (simp add: world_law_def db_law_def lasting_revoked_def lasting_def)
  from ran(3) have u: "db_ok (fst u)" "st = fresh_state \<or> (\<exists>tok who.
      http_cookie req (cookie_session_name cookies) = Some tok
      \<and> session_resolver env tok w = (Inr (Some who), u) \<and> st = with_principal who fresh_state)"
    using assms(3) by (auto dest: ok split: option.splits)
  from ran(1) show thesis
  proof (cases rule: correlated_answers)
    case (returned q)
    with that u show thesis by blast
  next
    case (raised err)
    with assms(2) show thesis by simp
  qed
qed

lemma login_returns:
  assumes "handle (create_production_app env) cookies req (Login em pw) st u = (Inr q, w')" and "db_ok (fst u)"
  obtains issued c0 cor where
    "q = set_browser_session_cookies issued cookies no_content" "db_ok c0"
    "AuthenticateEmailPassword_execute (env_ports env) (first_io env)
       \<lparr>ae_email = em, ae_password = pw, ae_correlation_id = cor, ae_client_ip = request_client_ip req,
        ae_user_agent = http_header req ''user-agent''\<rparr> c0 = (Inr issued, fst w')"
proof -
  from assms(1) obtain u0 v where "enforce_auth_rate_limit (create_production_app env) req st ''auth.login'' u = (Inr u0, v)"
    and rest: "available (uc_authentication (create_production_app env)) ''Authentication is unavailable'' (\<lambda>use_case.
       bnd (excepting [(''AuthenticationRejectedError'', 401, ''Authentication failed'')]
         (with_correlation st (\<lambda>correlation. use_case
           \<lparr>ae_email = em, ae_password = pw, ae_correlation_id = correlation,
            ae_client_ip = request_client_ip req, ae_user_agent = http_header req ''user-agent''\<rparr>))) (\<lambda>issued.
       ret (set_browser_session_cookies issued cookies no_content))) v = (Inr q, w')"
    unfolding handle.simps authenticate_email_password_endpoint_def bnd_returns by blast
  then have ok: "db_ok (fst v)"
    using obeysD [OF service.rate_limit [of env req st "''auth.login''"], of u] assms(2)
    by (simp add: world_law_def db_law_def lasting_revoked_def lasting_def)
  obtain c0 x0 c1 x1 where pair: "v = (c0, x0)" "w' = (c1, x1)" by (cases v, cases w') blast
  from rest ok show thesis
    unfolding pair by (auto simp: outcomes guards_return production_app intro: that [unfolded pair, simplified])
qed

lemma authentication_creates:
  assumes "AuthenticateEmailPassword_execute P io cmd s = (Inr issued, t)"
  obtains email account where "normalize P (ae_email cmd) = Inr email"
    "fst (find_account_by_email_lookup_hash (lookup_hash P email) s) = Inr (Some account)"
    "verify_password P (account_password_hash account) (ae_password cmd)"
    "account_status account = USER_ACTIVE"
    "CreateBrowserSession_execute P io
       \<lparr>cs_user_id = account_user_id account, cs_correlation_id = ae_correlation_id cmd,
        cs_assurance_level = RECENT_AUTHENTICATION, cs_client_ip = ae_client_ip cmd,
        cs_user_agent = ae_user_agent cmd\<rparr> s = (Inr issued, t)"
  using assms by (auto simp: AuthenticateEmailPassword_execute_def authentication_rejected_def outcomes
      session_reader_outcomes intro: that)

text \<open>A request with a live session runs its endpoint as the actor of that session.\<close>

lemma serve_as_actor:
  assumes "http_cookie req (cookie_session_name cookies) = Some tok" and "\<not> is_protected req"
    and "session_resolver env tok w = (Inr (Some who), v)"
  shows "serve env policy cookies cid req e w =
    attach_correlation_id policy cid (attach_browser_security_headers policy (exception_middleware
      (handle (create_production_app env) cookies req e))) (with_principal who fresh_state) v"
  using assms by (simp add: serve_def http_app_def csrf_passes resolve_browser_session_def bnd_apply catching_apply)

lemma session_answer:
  assumes "http_cookie req (cookie_session_name cookies) = Some tok" and "\<not> is_protected req"
    and "session_resolver env tok w = (Inr (Some who), v)"
  shows "\<exists>a. serve env policy cookies cid req GetSession w = (Inr a, v) \<and> rs_status a = 200
    \<and> rs_body a = Content AuthenticatedContent"
  unfolding serve_as_actor [OF assms]
  by (simp add: attach_correlation_id_def attach_browser_security_headers_def exception_middleware_def bnd_apply
      catching_apply get_browser_session_endpoint_def with_actor_def with_principal_def plain_response_def ret_def)


lemma updated_row_in: "r \<in> set rows \<Longrightarrow> (if P r then f r else r) \<in> set (update_rows P f rows)"
  by (simp add: update_rows_def)

text \<open>The row behind a resolved token, as it is after the resolution.\<close>

lemma resolved_row:
  assumes "ResolveBrowserSession_execute P io upd iv tok s = (Inr (Some who), t)"
  obtains r where "r \<in> set (auth_sessions t)" "s_id r = principal_session_id who" "s_token_hash r = token_hash P tok"
  using assms
proof (elim ResolveBrowserSession_Some, goal_cases)
  case (1 x)
  from 1(3) obtain r where r: "r \<in> set (auth_sessions s)" "s_token_hash r = token_hash P tok"
    "session_from_record r = Some x" by (rule find_by_token_hash_row)
  note fields = session_from_record_fields [OF r(3)]
  have "\<exists>r' \<in> set (auth_sessions t). s_id r' = s_id r \<and> s_token_hash r' = s_token_hash r"
  proof (cases "t = s")
    case False
    with touch_last_seen_of_effect [of upd iv x "clock io 0" s] 1(6)
    have "auth_sessions t = update_rows (\<lambda>r. s_id r = session_id x \<and> s_user_id r = session_user_id x
        \<and> s_revoked_at r = None \<and> dt_lt (clock io 0) (s_expires_at r))
        (\<lambda>r. r\<lparr>s_last_seen_at := Some (clock io 0)\<rparr>) (auth_sessions s)"
      by (auto simp: touch_last_seen_eq)
    then show ?thesis
      by (simp only:) (rule bexI [OF _ updated_row_in [OF r(1)]], simp)
  qed (use r(1) in auto)
  with 1(1,7) r(2) fields show ?case by auto
qed

lemma revoked_row:
  assumes "RevokeBrowserSession_execute io sid uid cor s = (Inr (), t)" and "db_ok s"
    and "r \<in> set (auth_sessions s)" and "s_id r = sid"
  shows "\<exists>r' \<in> set (auth_sessions t). s_token_hash r' = s_token_hash r \<and> s_revoked_at r' \<noteq> None"
proof -
  let ?P = "\<lambda>r. s_id r = sid \<and> s_user_id r = uid \<and> s_revoked_at r = None"
  let ?f = "\<lambda>r. r\<lparr>s_revoked_at := Some (clock io 0)\<rparr>"
  from assms(1) have one: "rowcount ?P (auth_sessions s) = 1"
    and t: "auth_sessions t = update_rows ?P ?f (auth_sessions s)"
    by (auto simp: RevokeBrowserSession_execute_def session_revoke_def outcomes update_sessions_def inserts)
  from one have "filter ?P (auth_sessions s) \<noteq> []"
    by (auto simp: rowcount_def)
  from hd_in_set [OF this] obtain q where q: "q \<in> set (auth_sessions s)" "?P q" by auto
  have "inj_on s_id (set (auth_sessions s))"
    using assms(2) by (simp add: db_ok_def sessions_ok_def distinct_map)
  then have "q = r" using q assms(3,4) by (auto dest: inj_onD)
  with q have "?P r" by simp
  with updated_row_in [OF assms(3), of ?P ?f] have "?f r \<in> set (auth_sessions t)"
    unfolding t by simp
  then show ?thesis by (rule rev_bexI) simp
qed

lemma logout_returns:
  assumes "handle (create_production_app env) cookies req RevokeSession st u = (Inr q, w')"
  obtains actor sid cor where "st_session_id st = Some sid"
    "RevokeBrowserSession_execute (first_io env) sid actor cor (fst u) = (Inr (), fst w')"
proof -
  obtain c0 x0 c1 x1 where pair: "u = (c0, x0)" "w' = (c1, x1)" by (cases u, cases w') blast
  from assms show thesis
    unfolding pair by (auto simp: revoke_browser_session_endpoint_def outcomes guards_return production_app
        intro: that [unfolded pair, simplified])
qed


end
