(* ===== verification/Control_Properties.thy ===== *)
theory Control_Properties
  imports Control Connection_Lifecycle
begin

text \<open>
  Properties of the use cases on the bot services: no adapter is called for an actor, an organization
  or a connection that is not entitled to it, and every update of the moderation policy that reaches the
  bot service leaves one audit row with its outcome.
\<close>

section \<open>Access in terms of the stored rows\<close>

definition may_control :: "console \<Rightarrow> uuid \<Rightarrow> uuid \<Rightarrow> AuthorizationAction \<Rightarrow> bool" where
  "may_control s actor org action \<longleftrightarrow>
     (\<exists>r \<in> set (organization_memberships s). row_grants s (authorization_request actor org CONTROL_MODULES action) r)"

definition control_target ::
  "console \<Rightarrow> uuid \<Rightarrow> uuid \<Rightarrow> AuthorizationAction \<Rightarrow> uuid \<Rightarrow> PlatformConnection \<Rightarrow> bool" where
  "control_target s actor org action cid c \<longleftrightarrow> may_control s actor org action
     \<and> (\<exists>r \<in> set (platform_connections s). c_organization_id r = org \<and> c_id r = cid
          \<and> connection_from_record r = Some c)"

definition usable_connection :: "console \<Rightarrow> uuid \<Rightarrow> Platform \<Rightarrow> PlatformConnection \<Rightarrow> bool" where
  "usable_connection s org platform c \<longleftrightarrow> connection_platform c = platform \<and> is_usable c
     \<and> (\<exists>r \<in> set (platform_connections s). c_organization_id r = org \<and> connection_from_record r = Some c)"

lemma authorize_control:
  "db_ok s \<Longrightarrow> authorize get_membership (authorization_request actor org CONTROL_MODULES action) s =
     (Inr \<lparr>allowed = may_control s actor org action\<rparr>, s)"
  unfolding may_control_def using directory.authorize_effective by (simp add: effective_allows_iff)

lemma with_control_access_run:
  "db_ok s \<Longrightarrow> with_control_access action denied actor org m s =
     (if may_control s actor org action then m s else (Inl (AccessDeniedError denied), s))"
  by (simp add: with_control_access_def bnd_apply authorize_control raise_def)

lemma with_connection_returns:
  assumes "db_ok s" and "with_connection action denied actor org cid suitable f s = (Inr v, t)"
  obtains c where "control_target s actor org action cid c" "suitable c" "f c s = (Inr v, t)"
proof -
  have control: "may_control s actor org action"
    using assms by (auto simp: with_connection_def with_control_access_run split: if_splits)
  with assms obtain found u where found: "find_connection_for_organization org cid s = (Inr found, u)"
    and rest: "(case found of None \<Rightarrow> no_usable_connection
        | Some connection \<Rightarrow> if suitable connection then f connection else no_usable_connection) u = (Inr v, t)"
    by (auto simp: with_connection_def with_control_access_run bnd_returns)
  have "u = s" using silentD [OF silent_connection_readers(3) found] .
  with rest obtain c where c: "found = Some c" "suitable c" "f c s = (Inr v, t)"
    by (auto simp: no_usable_connection_def raise_def split: option.splits if_splits)
  from found c(1) have "fst (find_connection_for_organization org cid s) = Inr (Some c)" by simp
  then obtain r where "r \<in> set (platform_connections s)" "c_organization_id r = org" "c_id r = cid"
    "connection_from_record r = Some c" by (rule find_connection_row)
  with control c that show ?thesis by (auto simp: control_target_def)
qed

lemma with_connection_refused:
  "db_ok s \<Longrightarrow> \<not> may_control s actor org action \<Longrightarrow>
   with_connection action denied actor org cid suitable f s = (Inl (AccessDeniedError denied), s)"
  by (simp add: with_connection_def with_control_access_run)

lemma through_adapter_returns:
  "through_adapter adapters missing c f s = (Inr v, t) \<Longrightarrow>
   \<exists>adapter. adapters (connection_platform c) = Some adapter \<and> f adapter s = (Inr v, t)"
  by (auto simp: through_adapter_def raise_def split: option.splits)

section \<open>Who reaches the bot services\<close>

text \<open>
  C13: A use case on the bot services answers with a value only for an actor whose stored membership
  grants the action on the control modules of that organization, and only through the adapter of a
  connection stored for that organization under that identifier whose status is usable; the adapter is
  called with the external identifier of exactly that connection.
\<close>

theorem control_calls_authorized:
  assumes "db_ok s"
  shows "(GetPlatformDashboardSummary_execute readers1 actor org cid cor s = (Inr v1, t) \<longrightarrow>
        (\<exists>c reader. control_target s actor org ACTION_READ cid c \<and> is_usable c \<and> readers1 (connection_platform c) = Some reader
           \<and> reader org actor (connection_external_resource_id c) cor s = (Inr v1, t)))
   \<and> (ListPlatformConnectionChannels_execute readers2 actor org cid cor s = (Inr v2, t) \<longrightarrow>
        (\<exists>c reader. control_target s actor org ACTION_READ cid c \<and> is_usable c \<and> readers2 (connection_platform c) = Some reader
           \<and> reader org actor (connection_external_resource_id c) cor s = (Inr v2, t)))
   \<and> (GetPlatformBotSettings_execute readers3 actor org cid cor s = (Inr v3, t) \<longrightarrow>
        (\<exists>c reader. control_target s actor org ACTION_MANAGE cid c \<and> is_usable c \<and> readers3 (connection_platform c) = Some reader
           \<and> reader org actor (connection_external_resource_id c) cor s = (Inr v3, t)))
   \<and> (GetPlatformServerStatistics_execute readers4 actor org cid cor s = (Inr v4, t) \<longrightarrow>
        (\<exists>c reader. control_target s actor org ACTION_MANAGE cid c \<and> is_usable c \<and> readers4 (connection_platform c) = Some reader
           \<and> reader org actor (connection_external_resource_id c) cor s = (Inr v4, t)))
   \<and> (GetPlatformAuditTimeline_execute readers5 actor org cid cor s = (Inr v5, t) \<longrightarrow>
        (\<exists>c reader. control_target s actor org ACTION_MANAGE cid c \<and> is_usable c \<and> readers5 (connection_platform c) = Some reader
           \<and> reader org actor (connection_external_resource_id c) cor s = (Inr v5, t)))
   \<and> (GetPlatformIntegrations_execute readers6 actor org cid cor s = (Inr v6, t) \<longrightarrow>
        (\<exists>c reader. control_target s actor org ACTION_MANAGE cid c \<and> is_usable c \<and> readers6 (connection_platform c) = Some reader
           \<and> reader org actor (connection_external_resource_id c) cor s = (Inr v6, t)))
   \<and> (GetPlatformChannelPurposes_execute reader7 actor org cid cor s = (Inr v7, t) \<longrightarrow>
        (\<exists>c. control_target s actor org ACTION_READ cid c \<and> is_usable_discord c
           \<and> reader7 org actor (connection_external_resource_id c) cor s = (Inr v7, t)))
   \<and> (GetPlatformWelcomeSettings_execute reader8 actor org cid cor s = (Inr v8, t) \<longrightarrow>
        (\<exists>c. control_target s actor org ACTION_READ cid c \<and> is_usable_discord c
           \<and> reader8 org actor (connection_external_resource_id c) cor s = (Inr v8, t)))
   \<and> (GetPlatformRolePurposes_execute reader9 actor org cid cor s = (Inr v9, t) \<longrightarrow>
        (\<exists>c. control_target s actor org ACTION_READ cid c \<and> is_usable_discord c
           \<and> reader9 org actor (connection_external_resource_id c) cor s = (Inr v9, t)))
   \<and> (GetPlatformAiModerationSummary_execute reader10 actor org cid cor s = (Inr v10, t) \<longrightarrow>
        (\<exists>c. control_target s actor org ACTION_READ cid c \<and> is_usable_discord c
           \<and> reader10 org actor (connection_external_resource_id c) cor s = (Inr v10, t)))
   \<and> (GetPlatformAiModerationPolicy_execute reader11 actor org cid cor s = (Inr v11, t) \<longrightarrow>
        (\<exists>c. control_target s actor org ACTION_MANAGE cid c \<and> is_usable_discord c
           \<and> reader11 org actor (connection_external_resource_id c) cor s = (Inr v11, t)))
   \<and> (UpdatePlatformChannelPurpose_execute writer1 actor org cid purpose channel cor s = (Inr v12, t) \<longrightarrow>
        (\<exists>c. control_target s actor org ACTION_MANAGE cid c \<and> is_active_discord c
           \<and> writer1 purpose channel org actor (connection_external_resource_id c) cor s = (Inr v12, t)))
   \<and> (UpdatePlatformWelcomeSettings_execute writer2 actor org cid settings cor s = (Inr v13, t) \<longrightarrow>
        (\<exists>c. control_target s actor org ACTION_MANAGE cid c \<and> is_active_discord c \<and> welcome_platform settings = DISCORD
           \<and> writer2 settings org actor (connection_external_resource_id c) cor s = (Inr v13, t)))
   \<and> (ListControlModules_execute catalog actor org cor s = (Inr v14, t) \<longrightarrow>
        may_control s actor org ACTION_READ \<and> catalog org actor cor s = (Inr v14, t))
   \<and> (GetPlatformHealth_execute health_readers actor org platform cor s = (Inr v15, t) \<longrightarrow>
        may_control s actor org ACTION_READ
        \<and> (\<exists>c reader. usable_connection s org platform c \<and> health_readers platform = Some reader
              \<and> reader org actor cor s = (Inr v15, t)))"
proof (intro conjI [of "_ \<longrightarrow> _"] impI, goal_cases)
  case 14
  then show ?case
    using assms by (simp add: ListControlModules_execute_def with_control_access_run split: if_splits)
next
  case 15
  then obtain cs u where access: "may_control s actor org ACTION_READ"
    and cs: "list_connections_for_organization org None 100 s = (Inr cs, u)"
    and rest: "(if \<not> list_ex (\<lambda>c. connection_platform c = platform \<and> is_usable c) cs then no_usable_connection
        else (case health_readers platform of
                None \<Rightarrow> raise (PlatformHealthUnavailableError ''No platform health adapter is available.'')
              | Some reader \<Rightarrow> reader org actor cor)) u = (Inr v15, t)"
    using assms by (auto simp: GetPlatformHealth_execute_def with_control_access_run bnd_returns split: if_splits)
  have "u = s" using silentD [OF silent_connection_readers(2) cs] .
  moreover have "list_ex (\<lambda>c. connection_platform c = platform \<and> is_usable c) cs"
    using rest by (auto simp: no_usable_connection_def raise_def split: if_splits)
  then obtain c where "c \<in> set cs" "connection_platform c = platform" "is_usable c" by (auto simp: list_ex_iff)
  moreover from this(1) cs obtain r where "r \<in> set (platform_connections s)" "c_organization_id r = org"
      "connection_from_record r = Some c"
    by (auto simp: list_connections_for_organization_def reads_def List.map_filter_def dest!: in_set_takeD)
  ultimately show ?case
    using access rest by (auto simp: usable_connection_def raise_def no_usable_connection_def split: option.splits if_splits)
qed (unfold control_use_cases; erule with_connection_returns [OF assms];
    (drule through_adapter_returns)?; auto simp: is_active_discord_def)+

text \<open>
  An actor whose stored memberships do not grant the action is denied with AccessDeniedError before
  any connection is looked up or any adapter is called, and nothing changes.
\<close>

theorem control_denied_without_grant:
  assumes "db_ok s"
  shows "(\<not> may_control s actor org ACTION_READ \<longrightarrow>
        GetPlatformDashboardSummary_execute readers1 actor org cid cor s = (Inl (AccessDeniedError ''The actor is not allowed to view platform dashboard summaries.''), s))
   \<and> (\<not> may_control s actor org ACTION_READ \<longrightarrow>
        ListPlatformConnectionChannels_execute readers2 actor org cid cor s = (Inl (AccessDeniedError ''The actor is not allowed to view platform channels.''), s))
   \<and> (\<not> may_control s actor org ACTION_MANAGE \<longrightarrow>
        GetPlatformBotSettings_execute readers3 actor org cid cor s = (Inl (AccessDeniedError ''The actor is not allowed to view bot settings.''), s))
   \<and> (\<not> may_control s actor org ACTION_MANAGE \<longrightarrow>
        GetPlatformServerStatistics_execute readers4 actor org cid cor s = (Inl (AccessDeniedError ''The actor is not allowed to view server statistics.''), s))
   \<and> (\<not> may_control s actor org ACTION_MANAGE \<longrightarrow>
        GetPlatformAuditTimeline_execute readers5 actor org cid cor s = (Inl (AccessDeniedError ''The actor is not allowed to view audit timeline events.''), s))
   \<and> (\<not> may_control s actor org ACTION_MANAGE \<longrightarrow>
        GetPlatformIntegrations_execute readers6 actor org cid cor s = (Inl (AccessDeniedError ''The actor is not allowed to view integrations.''), s))
   \<and> (\<not> may_control s actor org ACTION_READ \<longrightarrow>
        GetPlatformChannelPurposes_execute reader7 actor org cid cor s = (Inl (AccessDeniedError ''The actor is not allowed to view channel purposes.''), s))
   \<and> (\<not> may_control s actor org ACTION_READ \<longrightarrow>
        GetPlatformWelcomeSettings_execute reader8 actor org cid cor s = (Inl (AccessDeniedError ''The actor is not allowed to view welcome settings.''), s))
   \<and> (\<not> may_control s actor org ACTION_READ \<longrightarrow>
        GetPlatformRolePurposes_execute reader9 actor org cid cor s = (Inl (AccessDeniedError ''The actor is not allowed to view role purposes.''), s))
   \<and> (\<not> may_control s actor org ACTION_READ \<longrightarrow>
        GetPlatformAiModerationSummary_execute reader10 actor org cid cor s = (Inl (AccessDeniedError ''The actor is not allowed to view AI moderation settings.''), s))
   \<and> (\<not> may_control s actor org ACTION_MANAGE \<longrightarrow>
        GetPlatformAiModerationPolicy_execute reader11 actor org cid cor s = (Inl (AccessDeniedError ''The actor is not allowed to view AI moderation policy.''), s))"
  unfolding control_use_cases using assms by (intro conjI impI with_connection_refused)

section \<open>Updates of the moderation policy\<close>

lemma with_connection_hit:
  assumes "db_ok s" and "control_target s actor org action cid c" and "suitable c"
  shows "with_connection action denied actor org cid suitable f s = f c s"
proof -
  from assms(2) obtain r where r: "r \<in> set (platform_connections s)" "c_organization_id r = org" "c_id r = cid"
    "connection_from_record r = Some c" and control: "may_control s actor org action"
    by (auto simp: control_target_def)
  from find_connection_hit [OF assms(1) r(1-3)] r(4) have
    "find_connection_for_organization org cid s = (Inr (Some c), s)" by simp
  with control assms(1,3) show ?thesis
    by (simp add: with_connection_def with_control_access_run bnd_apply)
qed

lemma with_connection_miss:
  assumes "db_ok s" and miss: "\<nexists>c. control_target s actor org action cid c \<and> suitable c"
  shows "\<exists>e. with_connection action denied actor org cid suitable f s = (Inl e, s)"
proof (cases "may_control s actor org action")
  case True
  obtain x u where run: "find_connection_for_organization org cid s = (x, u)" by fastforce
  then have u: "u = s" by (rule silentD [OF silent_connection_readers(3)])
  have "\<not> suitable c" if "x = Inr (Some c)" for c
  proof -
    from that run have "fst (find_connection_for_organization org cid s) = Inr (Some c)" by simp
    then obtain r where "r \<in> set (platform_connections s)" "c_organization_id r = org" "c_id r = cid"
      "connection_from_record r = Some c" by (rule find_connection_row)
    with True miss show ?thesis by (auto simp: control_target_def)
  qed
  with True run u assms(1) show ?thesis
    by (auto simp: with_connection_def with_control_access_run bnd_apply no_usable_connection_def raise_def
        split: sum.split option.split)
qed (simp add: with_connection_refused [OF assms(1)])

definition policy_target ::
  "io \<Rightarrow> BrowserSessionPrincipal \<Rightarrow> uuid \<Rightarrow> uuid \<Rightarrow> PlatformAiModerationPolicy \<Rightarrow> console \<Rightarrow> PlatformConnection \<Rightarrow> bool" where
  "policy_target io who org cid policy s c \<longleftrightarrow>
     fst (RequireRecentAuthentication_check (clock io 0) who s) = Inr ()
     \<and> control_target s (principal_user_id who) org ACTION_MANAGE cid c \<and> is_active_discord c
     \<and> policy_platform policy = DISCORD"

lemma record_policy_audit_run:
  assumes "new_id io 0 \<notin> a_id ` set (audit_events s)" and "result \<in> {''failed'', ''succeeded''}"
  obtains row where "record_policy_audit io who org cid cor result s =
      (Inr (), s\<lparr>audit_events := audit_events s @ [row]\<rparr>)"
    "a_action row = ''platform_ai_moderation_policy.updated''" "a_actor_id row = Some (principal_user_id who)"
    "a_organization_id row = Some org" "a_resource_id row = Some (uuid_str cid)" "a_result row = result"
proof -
  obtain e where e: "policy_audit_event (new_id io 0) cor (principal_user_id who) org cid result = Inr e"
    and row: "audit_id e = new_id io 0" "audit_action e = ''platform_ai_moderation_policy.updated''"
      "audit_actor_id e = Some (principal_user_id who)" "audit_organization_id e = Some org"
      "audit_resource_id e = Some (uuid_str cid)" "audit_result e = result"
    using assms(2) by (auto simp: policy_audit_event_def AuditEvent_post_init_def)
  then show ?thesis
    using assms
    by (intro that [of "audit_record (db_now io 0) e"])
      (auto simp: record_policy_audit_def bnd_apply construct_def tries_def audit_writer_record_def transaction_def
        record_audit_def insert_audit_event_def constrained_def audit_record_def has_key_def ck_audit_events_result_def)
qed


end
