(* ===== verification/Control_Documents.thy ===== *)
theory Control_Documents
  imports Control_Parsers
begin

text \<open>
  Properties of the payload readers: whatever a bot service answers is read or refused with
  PlatformControlUnavailableError, what is read satisfies the conditions of its class, and the document
  that lists the fields of a value is read back as that value.
\<close>

section \<open>Refusals\<close>

text \<open>\<open>contained r\<close>: a reading that fails does so with PlatformControlUnavailableError.\<close>

definition contained :: "error + 'a \<Rightarrow> bool" where
  "contained r \<longleftrightarrow> (case r of Inl e \<Rightarrow> (\<exists>msg. e = PlatformControlUnavailableError msg) | Inr _ \<Rightarrow> True)"

lemma contained_Inr [simp]: "contained (Inr x)"
  by (simp add: contained_def)

lemma contained_andthen: "contained r \<Longrightarrow> (\<And>x. contained (f x)) \<Longrightarrow> contained (andthen r f)"
  by (cases r) (simp_all add: contained_def)

lemma contained_part: "contained (payload_part kind key msg payload)"
  by (auto simp: contained_def dest: payload_part_Inl split: sum.split)

lemma contained_refusing: "only_malformed r \<Longrightarrow> contained (refusing msg r)"
  by (auto simp: contained_def dest: refusing_Inl split: sum.split)

lemma contained_decision: "contained (parse_decision m m' payload)"
proof (cases "as_object payload")
  case (Inr ms)
  then show ?thesis
    unfolding parse_decision_def ConnectionReconciliationDecision_post_init_def
    by (simp del: collect.simps) (intro contained_refusing malformed_rules)
qed (simp add: parse_decision_def unavailable_def contained_def)

text \<open>
  C28: Whatever JSON a bot service answers, reading modules, health, reconciliation decisions,
  verification results, counters, channel purposes and settings either succeeds or raises
  PlatformControlUnavailableError, which the endpoints answer with 503.
\<close>

theorem control_payloads_contained:
  "contained (parse_discord_modules payload) \<and> contained (parse_discord_health u payload)
   \<and> contained (parse_twitch_health u payload) \<and> contained (parse_connection_reconciliation_decision payload)
   \<and> contained (parse_twitch_connection_reconciliation_decision payload) \<and> contained (parse_verified msg payload)
   \<and> contained (parse_discord_dashboard payload) \<and> contained (parse_discord_server_statistics payload)
   \<and> contained (parse_discord_channel_purposes payload) \<and> contained (parse_discord_bot_settings payload)
   \<and> contained (parse_discord_welcome_settings payload)"
proof -
  have parts: "only_malformed (parse_module v)" "only_malformed (parse_health_signal u pre v)" for v pre
    unfolding parse_module_def parse_health_signal_def control_post_inits by (intro malformed_rules)+
  have signals: "contained (parse_discord_health u payload)" "contained (parse_twitch_health u payload)"
    unfolding parse_discord_health_def parse_twitch_health_def
    by (intro contained_andthen contained_part contained_refusing contained_Inr only_malformed_collect parts)+
  have counters: "contained (parse_discord_dashboard payload)" "contained (parse_discord_server_statistics payload)"
    unfolding parse_discord_dashboard_def parse_discord_server_statistics_def control_post_inits
    by (intro contained_andthen contained_part contained_refusing malformed_rules)+
  have settings: "contained (parse_discord_channel_purposes payload)" "contained (parse_discord_bot_settings payload)"
      "contained (parse_discord_welcome_settings payload)"
    unfolding parse_discord_channel_purposes_def parse_discord_bot_settings_def parse_discord_welcome_settings_def
      control_post_inits
    by (intro contained_andthen contained_part contained_refusing malformed_rules)+
  have "contained (parse_discord_modules payload)"
    unfolding parse_discord_modules_def
    by (intro contained_andthen contained_part contained_refusing only_malformed_collect parts)
  then show ?thesis
    using signals counters settings
    by (simp add: parse_connection_reconciliation_decision_def parse_twitch_connection_reconciliation_decision_def
        contained_decision parse_verified_def contained_part)
qed

text \<open>The two readers that build values from untested fields let AttributeError through.\<close>

lemma timeline_leaks_attribute_error:
  "\<exists>m. parse_discord_audit_timeline (JObject [(ascii ''timeline'', JObject [(ascii ''limit'', JInt 10),
     (ascii ''items'', JList [JObject [(ascii ''event_type'', JInt 7), (ascii ''occurred_at'', JString [])]])])]) =
   Inl (AttributeError m)"
  by (simp add: parse_discord_audit_timeline_def payload_part_def json_types json_get_def json_item_def
      json_lookup_def ascii_def objects_of_def List.map_filter_simps timeline_event_def stripped_def refusing_def
      is_malformed_def)

lemma channels_leak_attribute_error:
  "\<exists>m. parse_discord_channel_catalog (JObject [(ascii ''items'', JList [JObject [(ascii ''id'', JInt 7),
     (ascii ''name'', JString (ascii ''general'')), (ascii ''kind'', JString (ascii ''text''))]])]) =
   Inl (AttributeError m)"
  by (simp add: parse_discord_channel_catalog_def payload_part_def json_types json_get_def json_item_def
      json_lookup_def ascii_def objects_of_def List.map_filter_simps platform_channel_def stripped_def refusing_def
      is_malformed_def json_enum_def text_enum_def)

section \<open>What is read is valid\<close>

lemma collect_Inr: "collect f xs = Inr ys \<Longrightarrow> y \<in> set ys \<Longrightarrow> \<exists>x \<in> set xs. f x = Inr y"
  by (induction xs arbitrary: ys) (fastforce split: sum.splits)+

lemma checked_fixed: "checked conds x = Inr y \<Longrightarrow> y = x"
  by (simp add: checked_Inr_iff)

lemma post_init_fixed:
  "PlatformDashboardSummary_post_init d = Inr d' \<Longrightarrow> d' = d"
  "PlatformServerStatistics_post_init st = Inr st' \<Longrightarrow> st' = st"
  "PlatformAuditTimeline_post_init ti = Inr ti' \<Longrightarrow> ti' = ti"
  "PlatformChannelPurposes_post_init p = Inr p' \<Longrightarrow> p' = p"
  "PlatformBotSettings_post_init b = Inr b' \<Longrightarrow> b' = b"
  "PlatformWelcomeSettings_post_init w = Inr w' \<Longrightarrow> w' = w"
  unfolding control_post_inits by (erule checked_fixed)+

definition discord_module :: "ControlModule \<Rightarrow> bool" where
  "discord_module m \<longleftrightarrow> ControlModule_post_init m = Inr m \<and> module_platform m = DISCORD"

definition valid_event :: "PlatformAuditTimelineEvent \<Rightarrow> bool" where
  "valid_event e \<longleftrightarrow> \<not> blank (timeline_event_type e) \<and> \<not> blank (timeline_occurred_at e)"

definition valid_channel :: "PlatformChannel \<Rightarrow> bool" where
  "valid_channel c \<longleftrightarrow> \<not> blank (channel_id c) \<and> \<not> blank (channel_name c)"

lemma parse_module_valid: "parse_module v = Inr m \<Longrightarrow> discord_module m"
  by (auto simp: parse_module_def discord_module_def andthen_Inr ControlModule_post_init_def
      simp del: collect.simps split: if_splits)

lemma timeline_event_valid: "timeline_event ms = Inr e \<Longrightarrow> valid_event e"
  by (auto simp: timeline_event_def valid_event_def andthen_Inr split: if_splits)

lemma platform_channel_valid: "platform_channel ms = Inr c \<Longrightarrow> valid_channel c"
  by (auto simp: platform_channel_def valid_channel_def andthen_Inr split: if_splits)


section \<open>Documents\<close>

definition opt_json :: "('a \<Rightarrow> json) \<Rightarrow> 'a option \<Rightarrow> json" where
  "opt_json f x = (case x of None \<Rightarrow> JNull | Some y \<Rightarrow> f y)"

definition object_of :: "(string \<times> json) list \<Rightarrow> json" where
  "object_of ms = JObject (map (\<lambda>(k, v). (ascii k, v)) ms)"

definition module_document :: "ControlModule \<Rightarrow> json" where
  "module_document m = object_of
     [(''key'', JString (module_key m)), (''display_name'', JString (module_display_name m)),
      (''platform'', JString (ascii (Platform_value (module_platform m)))),
      (''capability'', JString (ascii (ModuleCapability_value (module_capability m)))),
      (''status'', JString (ascii (ModuleStatus_value (module_status m))))]"

definition dashboard_document :: "PlatformDashboardSummary \<Rightarrow> json" where
  "dashboard_document d = object_of [(''metrics'', object_of
     [(''messages_today'', JInt (messages_today d)), (''ai_flagged_today'', JInt (ai_flagged_today d)),
      (''creator_sources'', JInt (creator_sources d)), (''bot_latency_ms'', opt_json JInt (bot_latency_ms d))])]"

definition statistics_document :: "PlatformServerStatistics \<Rightarrow> json" where
  "statistics_document st = object_of [(''summary'', object_of
     [(''period_days'', JInt (period_days st)), (''total_messages'', JInt (total_messages st)),
      (''active_users'', JInt (active_users st)), (''active_channels'', JInt (active_channels st)),
      (''current_member_count'', JInt (current_member_count st)),
      (''total_voice_minutes'', JInt (total_voice_minutes st)), (''joins'', JInt (joins st)),
      (''leaves'', JInt (leaves st)), (''moderation_events'', JInt (moderation_events st))])]"

definition timeline_document :: "PlatformAuditTimeline \<Rightarrow> json" where
  "timeline_document t = object_of [(''timeline'', object_of
     [(''items'', JList (map (\<lambda>e. object_of [(''event_type'', JString (timeline_event_type e)),
        (''occurred_at'', JString (timeline_occurred_at e))]) (timeline_events t))),
      (''limit'', JInt (timeline_limit t))])]"

definition catalog_document :: "PlatformChannelCatalog \<Rightarrow> json" where
  "catalog_document c = object_of [(''items'', JList (map (\<lambda>ch. object_of
     [(''id'', JString (channel_id ch)), (''name'', JString (channel_name ch)),
      (''kind'', JString (ascii (ChannelKind_value (channel_kind ch))))]) (channels_items c)))]"

definition welcome_document :: "PlatformWelcomeSettings \<Rightarrow> json" where
  "welcome_document w = object_of [(''settings'', object_of
     [(''title'', JString (welcome_title w)), (''description'', JString (welcome_description w)),
      (''thumbnail_url'', opt_json JString (welcome_thumbnail_url w)),
      (''footer_text'', opt_json JString (welcome_footer_text w)),
      (''footer_icon_url'', opt_json JString (welcome_footer_icon_url w)),
      (''color'', JInt (welcome_color w)), (''is_enabled'', JBool (welcome_is_enabled w)),
      (''rules_channel_id'', opt_json JString (welcome_rules_channel_id w)),
      (''roles_channel_id'', opt_json JString (welcome_roles_channel_id w))])]"

lemma text_enum_values [simp]:
  "text_enum Platform_value all_platforms (ascii (Platform_value pf)) = Inr pf"
  "text_enum ModuleCapability_value [CAPABILITY_VIEW, CAPABILITY_MANAGE] (ascii (ModuleCapability_value c)) = Inr c"
  "text_enum ModuleStatus_value [MODULE_AVAILABLE, MODULE_UNAVAILABLE, MODULE_REQUIRES_REAUTHORIZATION]
     (ascii (ModuleStatus_value st)) = Inr st"
  "text_enum ChannelKind_value [CHANNEL_TEXT, CHANNEL_VOICE, CHANNEL_ANNOUNCEMENT] (ascii (ChannelKind_value k)) = Inr k"
  by (cases pf; cases c; cases st; cases k; simp add: text_enum_def all_platforms_def ascii_def)+

lemma text_enum_discord [simp]: "text_enum Platform_value all_platforms (ascii ''discord'') = Inr DISCORD"
  using text_enum_values(1) [of DISCORD] by simp

lemma json_type_simps [simp]:
  "as_object (JObject ms) = Inr ms" "as_list (JList vs) = Inr vs" "as_text (JString t) = Inr t"
  "as_int (JInt i) = Inr i" "as_bool (JBool b) = Inr b"
  by (simp_all add: json_types)

lemma optional_json [simp]:
  "optional as_int (opt_json JInt x) = Inr x" "optional as_text (opt_json JString y) = Inr y"
  by (cases x; cases y; simp add: optional_def opt_json_def json_types)+

lemma ascii_inj_iff [simp]: "ascii a = ascii b \<longleftrightarrow> a = b"
  by (simp add: ascii_def inj_map_eq_map inj_of_char)

lemma as_object_of [simp]: "as_object (object_of ms) = Inr (map (\<lambda>(k, v). (ascii k, v)) ms)"
  by (simp add: object_of_def)

lemmas dict_readers = json_get_def json_item_def json_lookup_def

lemma collect_map: "(\<And>x. x \<in> set xs \<Longrightarrow> f (g x) = Inr x) \<Longrightarrow> collect f (map g xs) = Inr xs"
  by (induction xs) simp_all

lemma collect_objects:
  "(\<And>x. x \<in> set xs \<Longrightarrow> f (map (\<lambda>(k, v). (ascii k, v)) (g x)) = Inr x) \<Longrightarrow>
   collect f (objects_of (map (\<lambda>x. object_of (g x)) xs)) = Inr xs"
  by (induction xs) (simp_all add: objects_of_def List.map_filter_simps object_of_def)

lemma payload_object:
  "payload_part kind key msg (object_of [(key, v)]) = (case kind v of Inl _ \<Rightarrow> unavailable msg | Inr x \<Rightarrow> Inr x)"
  by (simp add: payload_part_def object_of_def json_types json_get_def json_lookup_def)

text \<open>
  C31: The readers accept every valid value: the document that lists the fields of a module, of the
  dashboard counters, the statistics, a timeline, a channel catalogue or the welcome settings of Discord
  is read back as exactly that value.
\<close>

theorem control_documents_roundtrip:
  "(list_all discord_module ms \<longrightarrow>
      parse_discord_modules (object_of [(''items'', JList (map module_document ms))]) = Inr ms)
   \<and> (PlatformDashboardSummary_post_init d = Inr d \<and> dashboard_platform d = DISCORD \<longrightarrow>
      parse_discord_dashboard (dashboard_document d) = Inr d)
   \<and> (PlatformServerStatistics_post_init st = Inr st \<and> statistics_platform st = DISCORD \<longrightarrow>
      parse_discord_server_statistics (statistics_document st) = Inr st)
   \<and> (PlatformAuditTimeline_post_init t = Inr t \<and> timeline_platform t = DISCORD
        \<and> list_all valid_event (timeline_events t) \<longrightarrow>
      parse_discord_audit_timeline (timeline_document t) = Inr t)
   \<and> (channels_platform c = DISCORD \<and> list_all valid_channel (channels_items c) \<longrightarrow>
      parse_discord_channel_catalog (catalog_document c) = Inr c)
   \<and> (PlatformWelcomeSettings_post_init w = Inr w \<and> welcome_platform w = DISCORD \<longrightarrow>
      parse_discord_welcome_settings (welcome_document w) = Inr w)"
proof (intro conjI impI, goal_cases)
  case 1
  then have "collect parse_module (map module_document ms) = Inr ms"
    by (intro collect_map, case_tac x) (auto simp: list_all_iff parse_module_def module_document_def discord_module_def dict_readers numeral_nat)
  then show ?case
    by (simp add: parse_discord_modules_def payload_object)
next
  case 2
  then show ?case
    by (cases d) (auto simp: parse_discord_dashboard_def dashboard_document_def payload_object dict_readers numeral_nat)
next
  case 3
  then show ?case
    by (cases st) (auto simp: parse_discord_server_statistics_def statistics_document_def payload_object dict_readers numeral_nat)
next
  case 4
  then have "collect timeline_event (objects_of (map (\<lambda>e. object_of [(''event_type'', JString (timeline_event_type e)),
      (''occurred_at'', JString (timeline_occurred_at e))]) (timeline_events t))) = Inr (timeline_events t)"
    by (intro collect_objects) (auto simp: list_all_iff timeline_event_def valid_event_def stripped_def dict_readers)
  with 4 show ?case
    by (cases t) (auto simp: parse_discord_audit_timeline_def timeline_document_def payload_object dict_readers)
next
  case 5
  then have "collect platform_channel (objects_of (map (\<lambda>ch. object_of [(''id'', JString (channel_id ch)),
      (''name'', JString (channel_name ch)), (''kind'', JString (ascii (ChannelKind_value (channel_kind ch))))])
      (channels_items c))) = Inr (channels_items c)"
    by (intro collect_objects)
      (auto simp: list_all_iff platform_channel_def valid_channel_def stripped_def json_enum_def dict_readers)
  with 5 show ?case
    by (cases c) (auto simp: parse_discord_channel_catalog_def catalog_document_def payload_object)
next
  case 6
  then show ?case
    by (cases w) (auto simp: parse_discord_welcome_settings_def welcome_document_def payload_object dict_readers numeral_nat)
qed

end
