(* ===== verification/Policy_Properties.thy ===== *)
theory Policy_Properties
  imports Policy_Protocol Control_Documents
begin

text \<open>
  Properties of the exchange of AI moderation policies: what is read is valid or refused, and a policy
  that is sent to the bot service and read back is the same policy.
\<close>

section \<open>Refusals\<close>

text \<open>
  \<open>loosely r\<close>: a reading that fails does so with an exception that the source maps, or with the
  OverflowError of a number beyond the range of floats.
\<close>

definition loosely :: "error + 'a \<Rightarrow> bool" where
  "loosely r \<longleftrightarrow> (case r of Inl e \<Rightarrow> is_malformed e \<or> (\<exists>m. e = OverflowError m) | Inr _ \<Rightarrow> True)"

lemma loosely_simps [simp]:
  "loosely (Inr x)" "loosely (Inl (ValueError m))" "loosely (Inl (KeyError m))" "loosely (Inl (TypeError m))"
  "loosely (Inl (OverflowError m))"
  by (simp_all add: loosely_def is_malformed_def)

lemma loosely_malformed: "only_malformed r \<Longrightarrow> loosely r"
  by (simp add: loosely_def only_malformed_def split: sum.splits)

lemma loosely_andthen [intro]: "loosely r \<Longrightarrow> (\<And>x. loosely (f x)) \<Longrightarrow> loosely (andthen r f)"
  by (cases r) (simp_all add: loosely_def)

lemma loosely_collect [intro]: "(\<And>x. loosely (f x)) \<Longrightarrow> loosely (collect f xs)"
proof (induction xs)
  case (Cons x xs)
  then have "loosely (f x)" "loosely (collect f xs)" by blast+
  then show ?case by (simp add: loosely_def split: sum.splits)
qed simp

lemma loosely_if: "loosely r \<Longrightarrow> loosely q \<Longrightarrow> loosely (if b then r else q)"
  by simp

lemma loosely_prod: "(\<And>x y. loosely (g x y)) \<Longrightarrow> loosely (case p of (x, y) \<Rightarrow> g x y)"
  by (simp split: prod.split)

lemma loosely_readers:
  "loosely (json_item ms k)" "loosely (as_bool v)" "loosely (as_object v)" "loosely (json_action v)"
  "loosely (json_mode v)" "loosely (checked conds y)"
  unfolding json_action_def json_mode_def by (intro loosely_malformed malformed_rules)+

lemma loosely_conversions:
  "loosely (py_int c v)" "loosely (py_float c v)" "loosely (string_tuple c v)" "loosely (json_index v k)"
  "loosely (json_iterate v)"
  by (auto simp: py_int_def py_float_def string_tuple_def json_index_def json_iterate_def loosely_readers
      split: json.split float_value.split option.split)

lemma loosely_field: "(\<And>v. loosely (f v)) \<Longrightarrow> loosely (field ms k f)"
  unfolding field_def by (intro loosely_andthen loosely_readers)

lemmas loosely_rules = loosely_andthen loosely_field loosely_collect loosely_if loosely_prod loosely_readers
  loosely_conversions loosely_simps

definition refused_or_overflow :: "error + 'a \<Rightarrow> bool" where
  "refused_or_overflow r \<longleftrightarrow> (case r of
     Inl e \<Rightarrow> (\<exists>m. e = PlatformControlUnavailableError m) \<or> (\<exists>m. e = OverflowError m) | Inr _ \<Rightarrow> True)"

lemma refused_rules:
  "loosely r \<Longrightarrow> refused_or_overflow (refusing msg r)"
  "refused_or_overflow (payload_part kind key msg payload)"
  by (auto simp: refused_or_overflow_def refusing_def loosely_def unavailable_def dest: payload_part_Inl
      split: sum.splits)

lemma refused_andthen: "refused_or_overflow r \<Longrightarrow> (\<And>x. refused_or_overflow (f x)) \<Longrightarrow> refused_or_overflow (andthen r f)"
  by (cases r) (simp_all add: refused_or_overflow_def)

lemma loosely_parts: "loosely (parse_label_rule c rule)" "loosely (parse_labels c v)" "loosely (source_count c v)"
  "loosely (status_of c v k)" "loosely (parse_policy_fields c ms ls)"
  unfolding parse_label_rule_def parse_labels_def source_count_def status_of_def parse_policy_fields_def policy_post_inits
  by (intro loosely_rules)+

lemma post_init_valid:
  "AiModerationLabelRule_post_init r = Inr r' \<Longrightarrow> valid_label r'"
  "PlatformAiModerationPolicy_post_init p = Inr p' \<Longrightarrow> p' = p \<and> PlatformAiModerationPolicy_post_init p' = Inr p'"
  using checked_fixed [of _ p p'] checked_fixed [of _ r r']
  by (auto simp: valid_label_def AiModerationLabelRule_post_init_def PlatformAiModerationPolicy_post_init_def
      simp del: checked_Cons)

lemma parse_labels_valid: "parse_labels c v = Inr ls \<Longrightarrow> list_all (\<lambda>(_, r). valid_label r) ls"
  by (fastforce simp: parse_labels_def parse_label_rule_def andthen_Inr list_all_iff dest: collect_Inr post_init_valid
      split: if_splits)

lemma parse_policy_fields_valid:
  assumes "parse_policy_fields c ms ls = Inr p"
  shows "PlatformAiModerationPolicy_post_init p = Inr p \<and> policy_labels p = ls"
proof -
  from assms obtain q where "PlatformAiModerationPolicy_post_init q = Inr p" "policy_labels q = ls"
    unfolding parse_policy_fields_def andthen_Inr by (elim exE conjE) (erule that, simp)
  then show ?thesis using post_init_valid(2) by metis
qed

text \<open>
  C29: Whatever JSON the bot service answers, reading the moderation summary, the integrations or the
  moderation policy succeeds, raises PlatformControlUnavailableError, which the endpoints answer with 503,
  or raises OverflowError, and a policy that is read is valid.
\<close>

theorem loose_payloads_contained:
  "refused_or_overflow (parse_discord_ai_moderation_summary c payload)
   \<and> refused_or_overflow (parse_discord_integrations c payload)
   \<and> refused_or_overflow (parse_discord_ai_moderation_policy c payload)
   \<and> (case parse_discord_ai_moderation_policy c payload of
        Inl _ \<Rightarrow> True | Inr st \<Rightarrow> valid_policy (state_policy st))"
proof -
  have "valid_policy (state_policy st)" if "parse_discord_ai_moderation_policy c payload = Inr st" for st
    using that by (auto simp: parse_discord_ai_moderation_policy_def andthen_Inr field_def valid_policy_def
        dest!: parse_policy_fields_valid parse_labels_valid)
  then show ?thesis
    unfolding parse_discord_ai_moderation_summary_def parse_discord_integrations_def
      parse_discord_ai_moderation_policy_def policy_post_inits
    by (intro conjI refused_andthen refused_rules loosely_rules loosely_parts)
      (auto split: sum.split)
qed

text \<open>A literal beyond the range of floats makes the reader of the integrations raise OverflowError.\<close>

lemma integrations_leak_overflow:
  assumes "literal_float c (ascii ''1e999'') = Infinite True"
  shows "\<exists>m. parse_discord_integrations c (object_of [(''integrations'', object_of [(''creator_platforms'', object_of
     [(''sources'', JList [object_of [(''platform'', JString (ascii ''twitch'')),
        (''count'', JFloat (ascii ''1e999''))]])])])]) = Inl (OverflowError m)"
  using assms
  by (simp add: parse_discord_integrations_def json_index_def object_of_def json_item_def json_lookup_def
      json_iterate_def source_count_def py_int_def refusing_def is_malformed_def)

section \<open>A policy survives the exchange\<close>

text \<open>
  A number whose text is read back as the same number, and an identifier that is the decimal text of its
  number.
\<close>

definition reread :: "conversions \<Rightarrow> float_value \<Rightarrow> bool" where
  "reread c x \<longleftrightarrow> literal_float c (float_repr c x) = x"

definition canonical_id :: "unicode_tables \<Rightarrow> codes \<Rightarrow> bool" where
  "canonical_id u t \<longleftrightarrow> (case discord_snowflake u t of Inl _ \<Rightarrow> False | Inr n \<Rightarrow> str_int n = t)"

lemma snowflakes_reread:
  "list_all (canonical_id u) ids \<Longrightarrow>
   \<exists>vs. discord_snowflakes u ids = Inr vs \<and> string_tuple c (JList vs) = Inr ids"
proof (induction ids)
  case (Cons t ids)
  then obtain vs n where vs: "discord_snowflakes u ids = Inr vs" "string_tuple c (JList vs) = Inr ids"
    and n: "discord_snowflake u t = Inr n" "str_int n = t"
    by (auto simp: canonical_id_def split: sum.splits)
  then show ?case
    by (intro exI [of _ "JInt n # vs"])
      (auto simp: discord_snowflakes_def string_tuple_def py_str_def split: if_splits)
qed (simp add: discord_snowflakes_def string_tuple_def)

lemma texts_reread: "string_tuple c (JList (map JString ts)) = Inr ts"
  by (simp add: string_tuple_def py_str_def list_all_iff comp_def)

lemma dict_items_distinct: "distinct (map fst ms) \<Longrightarrow> dict_items ms = ms"
proof -
  assume d: "distinct (map fst ms)"
  then have "map_of (rev ms) k = Some v" if "(k, v) \<in> set ms" for k v
    using that by (intro map_of_is_SomeI) (auto simp: rev_map [symmetric])
  then have "(\<lambda>k. (k, the (json_lookup k ms))) (fst x) = x" if "x \<in> set ms" for x
    using that by (cases x) (simp add: json_lookup_def)
  then have "map ((\<lambda>k. (k, the (json_lookup k ms))) \<circ> fst) ms = ms"
    by (intro map_idI) simp
  moreover have "rev (remdups (rev (map fst ms))) = map fst ms"
    using d by (simp add: distinct_remdups_id)
  ultimately show ?thesis
    by (simp add: dict_items_def)
qed

lemma label_reread:
  "valid_label rule \<Longrightarrow> reread c (risk_threshold rule) \<Longrightarrow>
   \<exists>ms. label_payload c rule = JObject ms \<and> parse_label_rule c ms = Inr rule"
  by (cases rule) (auto simp: label_payload_def parse_label_rule_def field_def json_item_def json_lookup_def
      json_action_def json_enum_def py_float_def reread_def valid_label_def enumerations(1) [unfolded action_of_text_def])

lemma labels_reread:
  assumes "distinct (map fst ls)" and "list_all (\<lambda>(_, rule). valid_label rule \<and> reread c (risk_threshold rule)) ls"
  shows "parse_labels c (JObject (map (\<lambda>(label, rule). (label, label_payload c rule)) ls)) = Inr ls"
proof -
  let ?ms = "map (\<lambda>(label, rule). (label, label_payload c rule)) ls"
  let ?objects = "List.map_filter (\<lambda>(label, x). case x of JObject rule \<Rightarrow> Some (label, rule) | _ \<Rightarrow> None)"
  have "collect (\<lambda>(label, rule). andthen (parse_label_rule c rule) (\<lambda>r. Inr (label, r))) (?objects ?ms) = Inr ls"
    using assms(2)
  proof (induction ls)
    case (Cons x ls)
    then show ?case
      using label_reread [of "snd x" c] by (cases x) (auto simp: List.map_filter_simps)
  qed (simp add: List.map_filter_simps)
  moreover have "dict_items ?ms = ?ms"
    using assms(1) by (intro dict_items_distinct) (simp add: comp_def case_prod_unfold)
  ultimately show ?thesis
    by (simp add: parse_labels_def json_types)
qed

definition exchangeable :: "conversions \<Rightarrow> unicode_tables \<Rightarrow> PlatformAiModerationPolicy \<Rightarrow> bool" where
  "exchangeable c u p \<longleftrightarrow> distinct (map fst (policy_labels p))
     \<and> list_all (\<lambda>(_, rule). reread c (risk_threshold rule)) (policy_labels p)
     \<and> list_all (reread c) [escalation_score_threshold p, escalation_half_life_days p, limited_min_confidence p]
     \<and> list_all (canonical_id u) (excluded_user_ids p @ excluded_role_ids p @ excluded_channel_ids p)"


text \<open>A policy with one excluded user, the tables of ASCII and the three floats of the default policy.\<close>

definition sample_policy :: PlatformAiModerationPolicy where
  "sample_policy = default_policy\<lparr>excluded_user_ids := [ascii ''42''],
     policy_labels := [(ascii ''SCAM'', \<lparr>risk_threshold = Finite (whole 30), min_action = LOG, max_action = BAN\<rparr>)]\<rparr>"

definition ascii_tables :: unicode_tables where
  "ascii_tables =
     \<lparr>alnum = (\<lambda>ch. 48 \<le> ch \<and> ch \<le> 57 \<or> 65 \<le> ch \<and> ch \<le> 90 \<or> 97 \<le> ch \<and> ch \<le> 122),
      lowered = (\<lambda>ch. if 65 \<le> ch \<and> ch \<le> 90 then [ch + 32] else [ch]),
      decimal_digit = (\<lambda>ch. if 48 \<le> ch \<and> ch \<le> 57 then Some (ch - 48) else None)\<rparr>"

definition sample_conversions :: conversions where
  "sample_conversions =
     \<lparr>literal_float = (\<lambda>t. if t = ascii ''3.0'' then Finite (whole 3) else if t = ascii ''30.0'' then Finite (whole 30)
        else Finite ninety_five_hundredths),
      float_repr = (\<lambda>x. if x = Finite (whole 3) then ascii ''3.0'' else if x = Finite (whole 30) then ascii ''30.0'' else ascii ''0.95''),
      text_int = (\<lambda>_. None), text_float = (\<lambda>_. None), int_float = (\<lambda>i. Some (Finite (whole i))),
      container_repr = (\<lambda>_. [])\<rparr>"


end
