(* ===== verification/Control_Samples.thy ===== *)
theory Control_Samples
  imports Control_Properties Connection_Properties Policy_Properties
begin

text \<open>
  The properties of the control use cases on the sample deployment, whose organization 100 has the
  active Discord connection 70 and the owner 1; user 4 belongs to no organization. The properties of the
  readers and of the assertions on small documents.
\<close>

section \<open>The use cases\<close>

definition sample_dashboard :: PlatformDashboardSummary where
  "sample_dashboard = \<lparr>dashboard_platform = DISCORD, messages_today = 12, ai_flagged_today = 1,
     creator_sources = 3, bot_latency_ms = Some 40\<rparr>"

theorem control_calls_authorized_witness:
  "GetPlatformDashboardSummary_execute (\<lambda>_. Some (\<lambda>_ _ _ _. ret sample_dashboard)) 1 100 70 9 sample =
     (Inr sample_dashboard, sample)
   \<and> (\<exists>c. control_target sample 1 100 ACTION_READ 70 c \<and> is_usable c)"
proof -
  have "GetPlatformDashboardSummary_execute (\<lambda>_. Some (\<lambda>_ _ _ _. ret sample_dashboard)) 1 100 70 9 sample =
     (Inr sample_dashboard, sample)"
    by (simp add: control_use_cases control_guards is_usable_def connection_evaluation)
  with control_calls_authorized [OF sample_ok, THEN conjunct1, rule_format, OF this] show ?thesis by blast
qed

theorem control_denied_without_grant_witness:
  "GetPlatformDashboardSummary_execute (\<lambda>_. Some (\<lambda>_ _ _ _. ret sample_dashboard)) 4 100 70 9 sample =
     (Inl (AccessDeniedError ''The actor is not allowed to view platform dashboard summaries.''), sample)"
proof -
  have "\<not> may_control sample 4 100 ACTION_READ"
    by (simp add: may_control_def row_grants_def sample_defs authorization_request_def)
  with control_denied_without_grant [OF sample_ok] show ?thesis by blast
qed

definition sample_principal :: BrowserSessionPrincipal where
  "sample_principal = \<lparr>principal_user_id = 1, principal_session_id = 60,
     principal_assurance_level = RECENT_AUTHENTICATION, principal_authenticated_at = Some (Aware 999999999)\<rparr>"

definition sample_summary :: PlatformAiModerationSummary where
  "sample_summary = \<lparr>summary_platform = DISCORD, summary_enforcement_mode = ascii ''SHADOW'', summary_test_mode = False,
     summary_is_default_policy = False, covered_channel_count = 4, log_channel_configured = True, label_count = 0,
     blacklist_word_count = 0, allowed_domain_count = 0, automated_timeout_enabled = False,
     automated_kick_enabled = False, automated_ban_enabled = False\<rparr>"


section \<open>Documents\<close>


theorem control_documents_roundtrip_witness:
  "parse_discord_dashboard (dashboard_document sample_dashboard) = Inr sample_dashboard"
proof -
  have "PlatformDashboardSummary_post_init sample_dashboard = Inr sample_dashboard \<and> dashboard_platform sample_dashboard = DISCORD"
    by (simp add: sample_dashboard_def PlatformDashboardSummary_post_init_def)
  with control_documents_roundtrip show ?thesis by blast
qed

section \<open>Assertions\<close>

definition sample_issuer :: HmacControlAssertionIssuer where
  "sample_issuer = \<lparr>assertion_issuer = ''muxivo-console'', assertion_audience = ''muxivo-bot-discord'',
     assertion_signing_key = replicate 32 7\<rparr>"

definition sample_grant :: control_grant where
  "sample_grant = \<lparr>grant_actor_id = 1, grant_organization_id = 100, grant_resource = CONTROL_MODULES,
     grant_action = ACTION_READ, grant_correlation_id = 9, grant_platform_subject = Some ''900'',
     grant_platform_resource_id = Some ''guild-1''\<rparr>"

theorem assertion_verifies_witness:
  "\<exists>token claims. issue (\<lambda>_ _. [1, 2, 3]) sample_issuer (Aware 1700000000000000) 7 sample_grant = Inr token
     \<and> read_assertion (\<lambda>_ _. [1, 2, 3]) (assertion_signing_key sample_issuer) token = Some (JObject claims)
     \<and> json_lookup (ascii ''sub'') claims = Some (JString (ascii (uuid_str 1)))"
proof -
  have "valid_resource_id (grant_platform_resource_id sample_grant)"
    by (simp add: valid_resource_id_def sample_grant_def py_strip_eq_Nil_iff py_isspace_def)
  moreover have "(0::int) \<le> instant (Aware 1700000000000000)" "instant (Aware 1700000000000000) < (10::int) ^ 20"
    by simp_all
  from assertion_verifies [OF this, where hmac = "\<lambda>_ _. [1, 2, 3]" and i = sample_issuer and jti = 7 and g = sample_grant]
  show ?thesis
    using calculation by (auto simp: sample_grant_def split: sum.splits)
qed

section \<open>A bot service\<close>

text \<open>A client whose service answers every request with the same dashboard.\<close>

definition sample_client :: control_client where
  "sample_client = \<lparr>client_hmac = (\<lambda>_ _. [1, 2, 3]), client_assertions = sample_issuer,
     client_now = Aware 1700000000000000, client_jti = 7,
     client_http = (\<lambda>_. Some (dashboard_document sample_dashboard)), client_unicode = ascii_tables,
     client_conversions = sample_conversions, client_identities = True\<rparr>"

end
