(* ===== verification/Control_Service.thy ===== *)
theory Control_Service
  imports Service_Properties Control_Samples
begin

text \<open>
  The endpoints on bot services in the running console: what has to be true of the session, the
  membership and the connection behind a request that is answered with content of a bot service.
\<close>

section \<open>What a request asks for\<close>

primrec control_organization :: "control_endpoint \<Rightarrow> uuid" where
  "control_organization (ListModules org) = org" | "control_organization (HealthOf org _) = org"
| "control_organization (Dashboard org _) = org" | "control_organization (BotSettings org _) = org"
| "control_organization (AuditTimeline org _) = org" | "control_organization (ServerStatistics org _) = org"
| "control_organization (Integrations org _) = org" | "control_organization (Channels org _) = org"
| "control_organization (ChannelPurposes org _) = org" | "control_organization (AiSummary org _) = org"
| "control_organization (UpdateAiPolicy org _ _) = org" | "control_organization (AiPolicy org _) = org"
| "control_organization (UpdateChannelPurpose org _ _ _) = org" | "control_organization (WelcomeSettings org _) = org"
| "control_organization (UpdateWelcomeSettings org _ _) = org"

primrec required_action :: "control_endpoint \<Rightarrow> AuthorizationAction" where
  "required_action (ListModules _) = ACTION_READ" | "required_action (HealthOf _ _) = ACTION_READ"
| "required_action (Dashboard _ _) = ACTION_READ" | "required_action (BotSettings _ _) = ACTION_MANAGE"
| "required_action (AuditTimeline _ _) = ACTION_MANAGE" | "required_action (ServerStatistics _ _) = ACTION_MANAGE"
| "required_action (Integrations _ _) = ACTION_MANAGE" | "required_action (Channels _ _) = ACTION_READ"
| "required_action (ChannelPurposes _ _) = ACTION_READ" | "required_action (AiSummary _ _) = ACTION_READ"
| "required_action (UpdateAiPolicy _ _ _) = ACTION_MANAGE" | "required_action (AiPolicy _ _) = ACTION_MANAGE"
| "required_action (UpdateChannelPurpose _ _ _ _) = ACTION_MANAGE" | "required_action (WelcomeSettings _ _) = ACTION_READ"
| "required_action (UpdateWelcomeSettings _ _ _) = ACTION_MANAGE"

text \<open>The connection a request names has to be stored for the organization and usable; an update needs it active.\<close>

definition behind_connection :: "console \<Rightarrow> uuid \<Rightarrow> uuid \<Rightarrow> bool \<Rightarrow> bool" where
  "behind_connection s org cid active \<longleftrightarrow>
     (\<exists>r c. r \<in> set (platform_connections s) \<and> c_organization_id r = org \<and> c_id r = cid
        \<and> connection_from_record r = Some c \<and> (if active then is_active_discord c else is_usable c))"

primrec connected :: "console \<Rightarrow> control_endpoint \<Rightarrow> bool" where
  "connected s (ListModules org) = True"
| "connected s (HealthOf org pf) = (\<exists>c. usable_connection s org pf c)"
| "connected s (Dashboard org cid) = behind_connection s org cid False"
| "connected s (BotSettings org cid) = behind_connection s org cid False"
| "connected s (AuditTimeline org cid) = behind_connection s org cid False"
| "connected s (ServerStatistics org cid) = behind_connection s org cid False"
| "connected s (Integrations org cid) = behind_connection s org cid False"
| "connected s (Channels org cid) = behind_connection s org cid False"
| "connected s (ChannelPurposes org cid) = behind_connection s org cid False"
| "connected s (AiSummary org cid) = behind_connection s org cid False"
| "connected s (UpdateAiPolicy org cid _) = behind_connection s org cid True"
| "connected s (AiPolicy org cid) = behind_connection s org cid False"
| "connected s (UpdateChannelPurpose org cid _ _) = behind_connection s org cid True"
| "connected s (WelcomeSettings org cid) = behind_connection s org cid False"
| "connected s (UpdateWelcomeSettings org cid _) = behind_connection s org cid True"

section \<open>From the answer back to the use case\<close>

lemma http_answer_body: "http_answer e = Some q \<Longrightarrow> \<exists>d. rs_body q = Detail d"
  by (cases e; simp_all only: http_answer_def error.case option.distinct) (auto simp: plain_response_def)

lemma content_answers:
  fixes r :: "'b response"
  assumes "attach_correlation_id policy cid
      (attach_browser_security_headers policy (exception_middleware endpoint)) st u = (Inr r, t)"
    and "rs_body r = Content x"
  obtains q where "endpoint (st\<lparr>st_correlation_id := Some cid\<rparr>) u = (Inr q, t)" "rs_body q = Content x"
proof -
  obtain a v where run: "endpoint (st\<lparr>st_correlation_id := Some cid\<rparr>) u = (a, v)" by fastforce
  show thesis
  proof (cases a)
    case (Inl e)
    with run have answer: "exception_middleware endpoint (st\<lparr>st_correlation_id := Some cid\<rparr>) u =
        (case http_answer e of Some q \<Rightarrow> (Inr q, v) | None \<Rightarrow> (Inl e, v))"
      by (intro exception_answer) simp
    have False
    proof (cases "http_answer e :: 'b response option")
      case None
      with answer assms show False
        by (auto simp: attach_correlation_id_def attach_browser_security_headers_def bnd_apply catching_apply ret_def
            plain_response_def)
    next
      case (Some q)
      then obtain d where "rs_body q = Detail d" using http_answer_body by blast
      with Some answer assms show False
        by (auto simp: attach_correlation_id_def attach_browser_security_headers_def bnd_apply catching_apply ret_def)
    qed
    then show thesis ..
  next
    case (Inr q)
    with assms run that show thesis
      by (auto simp: attach_correlation_id_def attach_browser_security_headers_def exception_middleware_def
          bnd_apply catching_apply ret_def set_header_def)
  qed
qed

lemma content_from_endpoint:
  assumes "serve env policy cookies cid req e w = (Inr a, w')" and "rs_body a = Content x" and "\<not> is_public e"
    and "db_ok (fst w)"
  obtains tok who u q where "http_cookie req (cookie_session_name cookies) = Some tok"
    "session_resolver env tok w = (Inr (Some who), u)" "db_ok (fst u)"
    "handle (create_production_app env) cookies req e
       ((with_principal who fresh_state)\<lparr>st_correlation_id := Some cid\<rparr>) u = (Inr q, w')" "rs_body q = Content x"
  using assms(1) unfolding serve_def
proof (cases rule: http_app_answers)
  case rejected
  with assms(2) show thesis by (simp add: csrf_rejection_def plain_response_def)
next
  case (ran st u)
  from ran(1) assms(2) obtain q where q: "handle (create_production_app env) cookies req e
      (st\<lparr>st_correlation_id := Some cid\<rparr>) u = (Inr q, w')" "rs_body q = Content x"
    by (rule content_answers)
  have "st \<noteq> fresh_state"
  proof
    assume "st = fresh_state"
    then have "st_actor_id (st\<lparr>st_correlation_id := Some cid\<rparr>) = None" by (simp add: fresh_state_def)
    note denied = anonymous_denied [OF assms(3) this, of "create_production_app env" cookies req]
    with q(1) show False
      by (auto simp: http_error_def outcomes split: option.splits)
  qed
  with ran(3) obtain tok who where principal: "http_cookie req (cookie_session_name cookies) = Some tok"
    "session_resolver env tok w = (Inr (Some who), u)" "st = with_principal who fresh_state"
    by (auto split: option.splits)
  have "db_ok (fst u)"
    using principal(2) obeysD [OF resolver_lasting [of env tok], of w] assms(4)
    by (simp add: world_law_def db_law_def lasting_revoked_def lasting_def)
  with that principal q show thesis by blast
qed

section \<open>What stands behind the use cases\<close>

lemma production_controls_app:
  "app_controls (create_production_app env) =
     production_controls (first_io env) (env_discord_control env) (env_twitch_control env)"
  by (simp add: create_production_app_def Let_def)

lemma entitled_connection:
  assumes "with_connection action denied actor org cid suitable f s = (Inr v, t)" and "db_ok s"
    and "\<And>c. suitable c \<Longrightarrow> (if active then is_active_discord c else is_usable c)"
  shows "may_control s actor org action \<and> behind_connection s org cid active"
proof -
  obtain c where target: "control_target s actor org action cid c" and "suitable c"
    using with_connection_returns [OF assms(2,1)] by blast
  from assms(3) [OF this(2)] target show ?thesis
    unfolding control_target_def behind_connection_def by blast
qed

lemma entitled_modules:
  "ListControlModules_execute catalog actor org cor s = (Inr v, t) \<Longrightarrow> db_ok s \<Longrightarrow> may_control s actor org ACTION_READ"
  by (simp add: ListControlModules_execute_def with_control_access_run split: if_splits)

lemma entitled_health:
  assumes "GetPlatformHealth_execute readers actor org pf cor s = (Inr v, t)" and "db_ok s"
  shows "may_control s actor org ACTION_READ \<and> (\<exists>c. usable_connection s org pf c)"
proof -
  from assms obtain cs u where access: "may_control s actor org ACTION_READ"
    and cs: "list_connections_for_organization org None 100 s = (Inr cs, u)"
    and "list_ex (\<lambda>c. connection_platform c = pf \<and> is_usable c) cs"
    by (auto simp: GetPlatformHealth_execute_def with_control_access_run bnd_returns no_usable_connection_def raise_def
        split: if_splits)
  then obtain c where "c \<in> set cs" "connection_platform c = pf" "is_usable c" by (auto simp: list_ex_iff)
  moreover from this(1) cs obtain r where "r \<in> set (platform_connections s)" "c_organization_id r = org"
      "connection_from_record r = Some c"
    by (auto simp: list_connections_for_organization_def reads_def List.map_filter_def dest!: in_set_takeD)
  ultimately show ?thesis
    using access by (auto simp: usable_connection_def)
qed

lemma entitled_policy_update:
  assumes "UpdatePlatformAiModerationPolicy_execute io writer who org cid policy cor s = (Inr v, t)" and "db_ok s"
  shows "fst (RequireRecentAuthentication_check (clock io 0) who s) = Inr ()
    \<and> may_control s (principal_user_id who) org ACTION_MANAGE \<and> behind_connection s org cid True"
proof -
  from assms(1) obtain u s' where check: "RequireRecentAuthentication_check (clock io 0) who s = (Inr u, s')"
    and rest: "with_connection ACTION_MANAGE ''The actor is not allowed to update AI moderation policy.''
       (principal_user_id who) org cid
       (\<lambda>c. is_active_discord c \<and> policy_platform policy = connection_platform c) (\<lambda>connection.
     bnd (catching (writer policy org (principal_user_id who) (connection_external_resource_id connection) cor)
            (\<lambda>e. bnd (record_policy_audit io who org cid cor ''failed'') (\<lambda>_. raise e))) (\<lambda>summary.
     bnd (record_policy_audit io who org cid cor ''succeeded'') (\<lambda>_. ret summary))) s' = (Inr v, t)"
    unfolding UpdatePlatformAiModerationPolicy_execute_def bnd_returns by blast
  have s': "s' = s" using silentD [OF silent_session_checks(1) check] .
  have "may_control s (principal_user_id who) org ACTION_MANAGE \<and> behind_connection s org cid True"
    by (rule entitled_connection [OF rest [unfolded s'] assms(2)]) simp
  with check show ?thesis by simp
qed

lemma entitled_readers:
  assumes "db_ok s"
  shows "GetPlatformDashboardSummary_execute r1 actor org cid cor s = (Inr v1, t) \<Longrightarrow>
      may_control s actor org ACTION_READ \<and> behind_connection s org cid False"
    "GetPlatformBotSettings_execute r2 actor org cid cor s = (Inr v2, t) \<Longrightarrow>
      may_control s actor org ACTION_MANAGE \<and> behind_connection s org cid False"
    "GetPlatformAuditTimeline_execute r3 actor org cid cor s = (Inr v3, t) \<Longrightarrow>
      may_control s actor org ACTION_MANAGE \<and> behind_connection s org cid False"
    "GetPlatformServerStatistics_execute r4 actor org cid cor s = (Inr v4, t) \<Longrightarrow>
      may_control s actor org ACTION_MANAGE \<and> behind_connection s org cid False"
    "GetPlatformIntegrations_execute r5 actor org cid cor s = (Inr v5, t) \<Longrightarrow>
      may_control s actor org ACTION_MANAGE \<and> behind_connection s org cid False"
    "ListPlatformConnectionChannels_execute r6 actor org cid cor s = (Inr v6, t) \<Longrightarrow>
      may_control s actor org ACTION_READ \<and> behind_connection s org cid False"
    "GetPlatformChannelPurposes_execute r7 actor org cid cor s = (Inr v7, t) \<Longrightarrow>
      may_control s actor org ACTION_READ \<and> behind_connection s org cid False"
    "GetPlatformAiModerationSummary_execute r8 actor org cid cor s = (Inr v8, t) \<Longrightarrow>
      may_control s actor org ACTION_READ \<and> behind_connection s org cid False"
    "GetPlatformAiModerationPolicy_execute r9 actor org cid cor s = (Inr v9, t) \<Longrightarrow>
      may_control s actor org ACTION_MANAGE \<and> behind_connection s org cid False"
    "GetPlatformWelcomeSettings_execute r10 actor org cid cor s = (Inr v10, t) \<Longrightarrow>
      may_control s actor org ACTION_READ \<and> behind_connection s org cid False"
    "UpdatePlatformChannelPurpose_execute w1 actor org cid pu ch cor s = (Inr v11, t) \<Longrightarrow>
      may_control s actor org ACTION_MANAGE \<and> behind_connection s org cid True"
    "UpdatePlatformWelcomeSettings_execute w2 actor org cid st cor s = (Inr v12, t) \<Longrightarrow>
      may_control s actor org ACTION_MANAGE \<and> behind_connection s org cid True"
  unfolding control_use_cases
  by (erule entitled_connection [OF _ assms]; simp add: is_usable_discord_def)+

text \<open>An endpoint that returned has run its use case on the database.\<close>

lemma ran_use_case:
  assumes "with_actor st (\<lambda>actor. available uc d (\<lambda>use_case.
      bnd (excepting cl (with_correlation st (\<lambda>correlation. use_case actor org cid correlation))) k)) u = (Inr q, w')"
    and "uc = Some (\<lambda>actor org cid cor. on_db (X actor org cid cor))" and "st_actor_id st = Some actor"
  obtains cor v t where "X actor org cid cor (fst u) = (Inr v, t)"
  using assms by (cases u) (auto simp: guards_return bnd_returns excepting_returns on_db_outcome)

lemma on_db_returns: "on_db m u = (Inr v, t) \<Longrightarrow> m (fst u) = (Inr v, fst t)"
  by (cases u; cases t) (simp add: on_db_outcome)

lemma ran_endpoint:
  assumes "with_actor st (\<lambda>actor. available uc d (\<lambda>use_case.
      bnd (excepting cl (with_correlation st (\<lambda>correlation. F use_case actor correlation))) k)) u = (Inr q, w')"
  obtains a use_case cor v t where "st_actor_id st = Some a" "uc = Some use_case" "F use_case a cor u = (Inr v, t)"
  using assms by (auto simp: guards_return bnd_returns excepting_returns)

lemma production_control_fields:
  fixes env :: "('s, 'l) environment"
  defines "uc \<equiv> app_controls (create_production_app env)" and "bound \<equiv> with_identities (env_discord_control env)"
    and "plain \<equiv> without_identities (env_discord_control env)"
  shows "uc_dashboard uc = Some (\<lambda>actor org cid cor.
      on_db (GetPlatformDashboardSummary_execute (discord_only (discord_get_dashboard bound)) actor org cid cor))"
    "uc_bot_settings uc = Some (\<lambda>actor org cid cor.
      on_db (GetPlatformBotSettings_execute (discord_only (discord_get_bot_settings bound)) actor org cid cor))"
    "uc_audit_timeline uc = Some (\<lambda>actor org cid cor.
      on_db (GetPlatformAuditTimeline_execute (discord_only (discord_get_audit_timeline bound)) actor org cid cor))"
    "uc_server_statistics uc = Some (\<lambda>actor org cid cor.
      on_db (GetPlatformServerStatistics_execute (discord_only (discord_get_server_statistics bound)) actor org cid cor))"
    "uc_integrations uc = Some (\<lambda>actor org cid cor.
      on_db (GetPlatformIntegrations_execute (discord_only (discord_get_integrations bound)) actor org cid cor))"
    "uc_channels uc = Some (\<lambda>actor org cid cor.
      on_db (ListPlatformConnectionChannels_execute (discord_only (discord_get_channel_catalog bound)) actor org cid cor))"
    "uc_channel_purposes uc = Some (\<lambda>actor org cid cor.
      on_db (GetPlatformChannelPurposes_execute (discord_get_channel_purposes plain) actor org cid cor))"
    "uc_ai_summary uc = Some (\<lambda>actor org cid cor.
      on_db (GetPlatformAiModerationSummary_execute (discord_get_ai_moderation_summary plain) actor org cid cor))"
    "uc_ai_policy uc = Some (\<lambda>actor org cid cor.
      on_db (GetPlatformAiModerationPolicy_execute (discord_get_ai_moderation_policy bound) actor org cid cor))"
    "uc_welcome_settings uc = Some (\<lambda>actor org cid cor.
      on_db (GetPlatformWelcomeSettings_execute (discord_get_welcome_settings plain) actor org cid cor))"
  unfolding assms production_controls_app production_controls_def by (simp_all add: Let_def)

lemma reports_entitled:
  assumes "st_actor_id st = Some actor" and "db_ok (fst u)"
  shows "handle_control (create_production_app env) (Dashboard org cid) st u = (Inr q, w') \<Longrightarrow>
      may_control (fst u) actor org ACTION_READ \<and> behind_connection (fst u) org cid False"
    "handle_control (create_production_app env) (BotSettings org cid) st u = (Inr q, w') \<Longrightarrow>
      may_control (fst u) actor org ACTION_MANAGE \<and> behind_connection (fst u) org cid False"
    "handle_control (create_production_app env) (AuditTimeline org cid) st u = (Inr q, w') \<Longrightarrow>
      may_control (fst u) actor org ACTION_MANAGE \<and> behind_connection (fst u) org cid False"
    "handle_control (create_production_app env) (ServerStatistics org cid) st u = (Inr q, w') \<Longrightarrow>
      may_control (fst u) actor org ACTION_MANAGE \<and> behind_connection (fst u) org cid False"
    "handle_control (create_production_app env) (Integrations org cid) st u = (Inr q, w') \<Longrightarrow>
      may_control (fst u) actor org ACTION_MANAGE \<and> behind_connection (fst u) org cid False"
    "handle_control (create_production_app env) (Channels org cid) st u = (Inr q, w') \<Longrightarrow>
      may_control (fst u) actor org ACTION_READ \<and> behind_connection (fst u) org cid False"
    "handle_control (create_production_app env) (ChannelPurposes org cid) st u = (Inr q, w') \<Longrightarrow>
      may_control (fst u) actor org ACTION_READ \<and> behind_connection (fst u) org cid False"
    "handle_control (create_production_app env) (AiSummary org cid) st u = (Inr q, w') \<Longrightarrow>
      may_control (fst u) actor org ACTION_READ \<and> behind_connection (fst u) org cid False"
    "handle_control (create_production_app env) (AiPolicy org cid) st u = (Inr q, w') \<Longrightarrow>
      may_control (fst u) actor org ACTION_MANAGE \<and> behind_connection (fst u) org cid False"
    "handle_control (create_production_app env) (WelcomeSettings org cid) st u = (Inr q, w') \<Longrightarrow>
      may_control (fst u) actor org ACTION_READ \<and> behind_connection (fst u) org cid False"
  by (simp only: handle_control.simps control_endpoints, erule ran_use_case, rule production_control_fields,
      rule assms(1), drule entitled_readers [OF assms(2)], blast)+

lemma updates_entitled:
  assumes "st_actor_id st = Some actor" and "db_ok (fst u)"
  shows "handle_control (create_production_app env) (UpdateChannelPurpose org cid p ch) st u = (Inr q, w') \<Longrightarrow>
      may_control (fst u) actor org ACTION_MANAGE \<and> behind_connection (fst u) org cid True"
    "handle_control (create_production_app env) (UpdateWelcomeSettings org cid x) st u = (Inr q, w') \<Longrightarrow>
      may_control (fst u) actor org ACTION_MANAGE \<and> behind_connection (fst u) org cid True"
    "handle_control (create_production_app env) (ListModules org) st u = (Inr q, w') \<Longrightarrow>
      may_control (fst u) actor org ACTION_READ"
    "handle_control (create_production_app env) (HealthOf org pf) st u = (Inr q, w') \<Longrightarrow>
      may_control (fst u) actor org ACTION_READ \<and> (\<exists>c. usable_connection (fst u) org pf c)"
proof (goal_cases)
  case 1
  then show ?case
    unfolding handle_control.simps control_endpoints
    by (rule ran_endpoint) (use assms in \<open>auto simp: production_controls_app production_controls_def Let_def
        dest!: on_db_returns dest: entitled_readers\<close>)
next
  case 2
  then show ?case
    unfolding handle_control.simps control_endpoints
    by (rule ran_endpoint) (use assms in \<open>auto simp: production_controls_app production_controls_def Let_def bnd_returns
        construct_outcome dest!: on_db_returns dest: entitled_readers\<close>)
next
  case 3
  then obtain cor v t where "on_db (ListControlModules_execute (discord_list_modules (with_identities
      (env_discord_control env))) actor org cor) u = (Inr v, t)"
    using assms(1) by (auto simp: control_endpoints guards_return bnd_returns excepting_returns
        production_controls_app production_controls_def Let_def)
  then show ?case using entitled_modules assms(2) by (blast dest: on_db_returns)
next
  case 4
  then show ?case
    unfolding handle_control.simps control_endpoints
    by (rule ran_endpoint) (use assms in \<open>auto simp: production_controls_app production_controls_def Let_def
        dest!: on_db_returns entitled_health\<close>)
qed

lemma policy_update_entitled:
  assumes "handle_control (create_production_app env) (UpdateAiPolicy org cid x)
      ((with_principal who fresh_state)\<lparr>st_correlation_id := Some cor\<rparr>) u = (Inr q, w')" and "db_ok (fst u)"
  shows "may_control (fst u) (principal_user_id who) org ACTION_MANAGE \<and> behind_connection (fst u) org cid True
    \<and> fst (RequireRecentAuthentication_check (clock (first_io env) 0) who (fst u)) = Inr ()"
proof -
  have "\<lparr>principal_user_id = principal_user_id who, principal_session_id = principal_session_id who,
      principal_assurance_level = principal_assurance_level who,
      principal_authenticated_at = principal_authenticated_at who\<rparr> = who" by (cases who) simp
  with assms(1) obtain policy v t where "on_db (UpdatePlatformAiModerationPolicy_execute (first_io env)
      (discord_update_ai_moderation_policy (with_identities (env_discord_control env))) who org cid policy cor) u = (Inr v, t)"
    by (auto simp: control_endpoints with_assured_def with_principal_def guards_return bnd_returns excepting_returns
        construct_outcome production_controls_app production_controls_def Let_def)
  from entitled_policy_update [OF on_db_returns [OF this] assms(2)] show ?thesis by blast
qed

lemma reading_or_updating_entitled:
  assumes "handle_control (create_production_app env) e st u = (Inr q, w')" and "st_actor_id st = Some actor"
    and "db_ok (fst u)" and "\<nexists>org k x. e = UpdateAiPolicy org k x"
  shows "may_control (fst u) actor (control_organization e) (required_action e) \<and> connected (fst u) e"
proof -
  note run = assms(1) and reports = reports_entitled [OF assms(2,3)] and updates = updates_entitled [OF assms(2,3)]
  show ?thesis
  proof (cases e)
    case (UpdateAiPolicy org k x)
    with assms(4) show ?thesis by blast
  next
    case (Dashboard org k)
    from reports(1) [OF run [unfolded this]] show ?thesis by (simp add: Dashboard)
  next
    case (BotSettings org k)
    from reports(2) [OF run [unfolded this]] show ?thesis by (simp add: BotSettings)
  next
    case (AuditTimeline org k)
    from reports(3) [OF run [unfolded this]] show ?thesis by (simp add: AuditTimeline)
  next
    case (ServerStatistics org k)
    from reports(4) [OF run [unfolded this]] show ?thesis by (simp add: ServerStatistics)
  next
    case (Integrations org k)
    from reports(5) [OF run [unfolded this]] show ?thesis by (simp add: Integrations)
  next
    case (Channels org k)
    from reports(6) [OF run [unfolded this]] show ?thesis by (simp add: Channels)
  next
    case (ChannelPurposes org k)
    from reports(7) [OF run [unfolded this]] show ?thesis by (simp add: ChannelPurposes)
  next
    case (AiSummary org k)
    from reports(8) [OF run [unfolded this]] show ?thesis by (simp add: AiSummary)
  next
    case (AiPolicy org k)
    from reports(9) [OF run [unfolded this]] show ?thesis by (simp add: AiPolicy)
  next
    case (WelcomeSettings org k)
    from reports(10) [OF run [unfolded this]] show ?thesis by (simp add: WelcomeSettings)
  next
    case (UpdateChannelPurpose org k p ch)
    from updates(1) [OF run [unfolded this]] show ?thesis by (simp add: UpdateChannelPurpose)
  next
    case (UpdateWelcomeSettings org k x)
    from updates(2) [OF run [unfolded this]] show ?thesis by (simp add: UpdateWelcomeSettings)
  next
    case (ListModules org)
    from updates(3) [OF run [unfolded this]] show ?thesis by (simp add: ListModules)
  next
    case (HealthOf org pf)
    from updates(4) [OF run [unfolded this]] show ?thesis by (simp add: HealthOf)
  qed
qed


end
