(* ===== verification/Service_Samples.thy ===== *)
theory Service_Samples
  imports Control_Service
begin

text \<open>
  A deployment with the process-local token store and rate limiter over the database of \<open>Samples\<close>, on
  which the properties of the running service are exercised.
\<close>

definition sample_environment :: "(memory_store, buckets) environment" where
  "sample_environment =
     \<lparr>env_ports = sample_ports, env_io = (\<lambda>_. sample_io), env_now = Aware 1000000000, env_code = ''123456'',
      env_store = memory_token_store, env_limiter = local_check DEFAULT_AUTH_RATE_LIMIT_RULES 0,
      env_database_reachable = True, env_oauth = (\<lambda>_. None), env_verifiers = Map.empty,
      env_candidates = Map.empty, env_verification_notifier = (\<lambda>_ _ _ _ _. None),
      env_recovery_notifier = (\<lambda>_ _ _ _ _. None), env_completion_notifier = (\<lambda>_ _ _ _. None),
      env_invitation_notifier = (\<lambda>_ _ _ _ _ _ _. Inr True), env_discord_control = sample_client,
      env_twitch_control = None\<rparr>"

definition sample_world :: "(memory_store, buckets) world" where
  "sample_world = (sample, (\<lparr>ms_values = Map.empty, ms_wall = (\<lambda>_. Aware 1000000000)\<rparr>, Map.empty))"

definition sample_request :: "string \<Rightarrow> string \<Rightarrow> string option \<Rightarrow> http_request" where
  "sample_request m path tok =
     \<lparr>http_method = m, http_path = path, http_client = None, http_header = [''x-csrf-token'' \<mapsto> ''abc''],
      http_cookie = (\<lambda>n. if n = ''__Host-muxivo_session'' then tok
                         else if n = ''__Host-muxivo_csrf'' then Some ''abc'' else None)\<rparr>"

lemma sample_environment_simps [simp]:
  "env_ports sample_environment = sample_ports" "first_io sample_environment = sample_io"
  "resolver_io sample_environment = sample_io"
  "env_limiter sample_environment = local_check DEFAULT_AUTH_RATE_LIMIT_RULES 0"
  by (simp_all add: sample_environment_def first_io_def resolver_io_def)

lemma sample_request_simps [simp]:
  "http_method (sample_request m path tok) = m" "http_path (sample_request m path tok) = path"
  "http_client (sample_request m path tok) = None"
  "http_header (sample_request m path tok) = [''x-csrf-token'' \<mapsto> ''abc'']"
  "http_cookie (sample_request m path tok) =
     (\<lambda>n. if n = ''__Host-muxivo_session'' then tok else if n = ''__Host-muxivo_csrf'' then Some ''abc'' else None)"
  by (simp_all add: sample_request_def)

lemma default_cookies_simps [simp]:
  "cookie_session_name default_cookies = ''__Host-muxivo_session''"
  "cookie_csrf_name default_cookies = ''__Host-muxivo_csrf''" "cookie_secure default_cookies = True"
  by (simp_all add: default_cookies_def)

lemma fresh_state_simps [simp]:
  "st_correlation_id fresh_state = None" "st_actor_id fresh_state = None" "st_session_id fresh_state = None"
  by (simp_all add: fresh_state_def)

lemma sample_world_ok: "db_ok (fst sample_world)"
  by (simp add: sample_world_def sample_ok)

section \<open>Runs\<close>

abbreviation serve_sample ::
  "uuid \<Rightarrow> http_request \<Rightarrow> endpoint \<Rightarrow> ((memory_store, buckets) world, answer) operation" where
  "serve_sample \<equiv> serve sample_environment default_security_policy default_cookies"

text \<open>The answer of an endpoint that returns passes through the middlewares with its cookies.\<close>

lemma served_answer:
  assumes "handle (create_production_app env) cookies req e (st\<lparr>st_correlation_id := Some cid\<rparr>) v = (Inr q, w')"
    and "is_protected req \<longrightarrow> csrf_valid cookies req"
    and "resolve_browser_session (Some (session_resolver env)) cookies req
      (attach_correlation_id policy cid (attach_browser_security_headers policy (exception_middleware
        (handle (create_production_app env) cookies req e)))) fresh_state w =
      attach_correlation_id policy cid (attach_browser_security_headers policy (exception_middleware
        (handle (create_production_app env) cookies req e))) st v"
  shows "\<exists>a. serve env policy cookies cid req e w = (Inr a, w') \<and> rs_cookies a = rs_cookies q \<and> rs_body a = rs_body q"
  using assms(1) unfolding serve_def http_app_def csrf_passes [OF assms(2)] assms(3)
  by (simp add: attach_correlation_id_def attach_browser_security_headers_def exception_middleware_def bnd_apply
      catching_apply ret_def set_header_def)

definition login_request :: http_request where
  "login_request = sample_request ''POST'' ''/api/v1/auth/email-password/sessions'' None"

lemma sample_authentication:
  "fst (AuthenticateEmailPassword_execute sample_ports sample_io
     \<lparr>ae_email = ''b@x'', ae_password = ''secret'', ae_correlation_id = 9, ae_client_ip = None,
      ae_user_agent = None\<rparr> sample) =
   Inr \<lparr>issued_id = 500, issued_raw_token = ''tok-a'', issued_raw_csrf_token = ''tok-b'',
     issued_expires_at = Aware (1000000000 + 1209600000000), issued_assurance_level = RECENT_AUTHENTICATION\<rparr>"
  by (simp add: session_evaluation py_strip_def)

lemma sample_login:
  "\<exists>a w'. serve_sample 9 login_request (Login ''b@x'' ''secret'') sample_world = (Inr a, w')
     \<and> SetCookie (cookie_session_name default_cookies) ''tok-a'' (Aware (1000000000 + 1209600000000)) True True
         \<in> set (rs_cookies a)"
proof -
  let ?st = "fresh_state\<lparr>st_correlation_id := Some 9\<rparr>"
  let ?run = "handle (create_production_app sample_environment) default_cookies login_request (Login ''b@x'' ''secret'') ?st"
  have "\<exists>b. local_check DEFAULT_AUTH_RATE_LIMIT_RULES 0 ''auth.login'' ''unknown'' Map.empty = (Inr rate_allowed, b)"
    by (simp add: local_check_def DEFAULT_AUTH_RATE_LIMIT_RULES_def)
  then obtain b where limiter: "local_check DEFAULT_AUTH_RATE_LIMIT_RULES 0 ''auth.login'' ''unknown'' Map.empty =
      (Inr rate_allowed, b)" by blast
  have "\<exists>q. fst (?run sample_world) = Inr q
     \<and> SetCookie (cookie_session_name default_cookies) ''tok-a'' (Aware (1000000000 + 1209600000000)) True True
         \<in> set (rs_cookies q)"
    by (simp add: login_request_def authenticate_email_password_endpoint_def enforce_auth_rate_limit_def
        production_app with_correlation_def available_def excepting_def bnd_apply catching_apply on_db_apply
        on_store_apply on_right_def sample_world_def sample_authentication request_client_ip_def Let_def
        rate_allowed_def set_browser_session_cookies_def no_content_def plain_response_def ret_def limiter)
  then obtain q w' where run: "?run sample_world = (Inr q, w')" and
    q: "SetCookie (cookie_session_name default_cookies) ''tok-a'' (Aware (1000000000 + 1209600000000)) True True
         \<in> set (rs_cookies q)"
    by (metis prod.collapse)
  have "\<exists>a. serve_sample 9 login_request (Login ''b@x'' ''secret'') sample_world = (Inr a, w') \<and> rs_cookies a = rs_cookies q
      \<and> rs_body a = rs_body q"
    by (rule served_answer [OF run]) (simp_all add: login_request_def is_protected_def CSRF_EXEMPT_PATHS_def
        resolve_browser_session_def)
  with q show ?thesis by metis
qed

definition logout_request :: http_request where
  "logout_request = sample_request ''DELETE'' ''/api/v1/auth/session'' (Some ''token'')"

lemma sample_logout:
  "\<exists>a w'. serve_sample 9 logout_request RevokeSession sample_world = (Inr a, w') \<and> rs_cookies a \<noteq> []"
proof -
  let ?resolve = "ResolveBrowserSession_execute sample_ports sample_io True (minutes 5) ''token''"
  have "fst (?resolve sample) = Inr (Some sample_principal)"
    by (simp add: session_evaluation sample_principal_def)
  then obtain t where resolve: "?resolve sample = (Inr (Some sample_principal), t)" by (rule returns_value)
  have "fst (RevokeBrowserSession_execute sample_io 60 1 9 (snd (?resolve sample))) = Inr ()"
    by (simp add: session_evaluation)
  then have revoke: "fst (RevokeBrowserSession_execute sample_io 60 1 9 t) = Inr ()"
    by (simp add: resolve)
  let ?st = "(with_principal sample_principal fresh_state)\<lparr>st_correlation_id := Some 9\<rparr>"
  let ?run = "handle (create_production_app sample_environment) default_cookies logout_request RevokeSession ?st"
  let ?v = "(t, snd sample_world)"
  have "\<exists>q. fst (?run ?v) = Inr q \<and> rs_cookies q \<noteq> []"
    by (simp add: revoke_browser_session_endpoint_def with_session_def available_def excepting_def with_correlation_def
        production_app bnd_apply catching_apply on_db_apply with_principal_def sample_principal_def revoke
        delete_browser_session_cookies_def no_content_def plain_response_def ret_def)
  then obtain q w' where run: "?run ?v = (Inr q, w')" and q: "rs_cookies q \<noteq> []"
    by (metis prod.collapse)
  have resolved: "session_resolver sample_environment ''token'' sample_world = (Inr (Some sample_principal), ?v)"
    by (simp add: session_resolver_run sample_world_def resolve)
  have "\<exists>a. serve_sample 9 logout_request RevokeSession sample_world = (Inr a, w') \<and> rs_cookies a = rs_cookies q
      \<and> rs_body a = rs_body q"
    by (rule served_answer [OF run]) (simp_all add: logout_request_def csrf_valid_def is_ascii_text_def
        resolve_browser_session_def resolved bnd_apply catching_apply)
  with q show ?thesis by metis
qed

text \<open>A report of the bot service on the connection 70, asked for by the owner of the organization 100.\<close>

definition report_request :: http_request where
  "report_request = sample_request ''GET'' (snd (control_route (Dashboard 100 70))) (Some ''token'')"

lemma sample_client_dashboard:
  "valid_resource_id (Some ext) \<Longrightarrow> discord_get_dashboard (with_identities sample_client) org actor ext cor = ret sample_dashboard"
proof -
  assume "valid_resource_id (Some ext)"
  then obtain token where issued: "issue (client_hmac sample_client) (client_assertions sample_client)
      (client_now sample_client) (client_jti sample_client) (module_grant actor org cor None (Some ext)) = Inr token"
    by (simp add: issue_def Let_def module_grant_def)
  have "parse_discord_dashboard (dashboard_document sample_dashboard) = Inr sample_dashboard"
    by (simp add: parse_discord_dashboard_def dashboard_document_def payload_object dict_readers numeral_nat
        sample_dashboard_def PlatformDashboardSummary_post_init_def)
  moreover have "client_http sample_client = (\<lambda>_. Some (dashboard_document sample_dashboard))"
    by (simp add: sample_client_def)
  ultimately show ?thesis
    by (simp add: discord_get_dashboard_def control_call_def with_identities_def issued construct_def bnd_def tries_def ret_def)
qed

lemma sample_report:
  "\<exists>a w' x. serve_sample 9 report_request (Control (Dashboard 100 70)) sample_world = (Inr a, w') \<and> rs_body a = Content x"
proof -
  let ?resolve = "ResolveBrowserSession_execute sample_ports sample_io True (minutes 5) ''token''"
  let ?read = "GetPlatformDashboardSummary_execute
      (discord_only (discord_get_dashboard (with_identities sample_client))) 1 100 70 9"
  have "fst (?resolve sample) = Inr (Some sample_principal)"
    by (simp add: session_evaluation sample_principal_def)
  then obtain t where resolve: "?resolve sample = (Inr (Some sample_principal), t)" by (rule returns_value)
  have "fst (?read (snd (?resolve sample))) = Inr sample_dashboard"
    by (simp add: control_use_cases control_guards is_usable_def discord_only_def sample_client_dashboard
        valid_resource_id_def py_strip_eq_Nil_iff py_isspace_def connection_evaluation)
  then have read: "fst (?read t) = Inr sample_dashboard"
    by (simp add: resolve)
  let ?st = "(with_principal sample_principal fresh_state)\<lparr>st_correlation_id := Some 9\<rparr>"
  let ?run = "handle (create_production_app sample_environment) default_cookies report_request (Control (Dashboard 100 70)) ?st"
  let ?v = "(t, snd sample_world)"
  have client: "env_discord_control sample_environment = sample_client" by (simp add: sample_environment_def)
  have "fst (?run ?v) = Inr (control_response (DashboardContent 100 70 sample_dashboard))"
    by (simp add: get_platform_dashboard_summary_endpoint_def with_actor_def available_def excepting_def
        with_correlation_def production_control_fields client bnd_apply catching_apply on_db_apply with_principal_def
        sample_principal_def read ret_def)
  then obtain w' where run: "?run ?v = (Inr (control_response (DashboardContent 100 70 sample_dashboard)), w')"
    by (metis prod.collapse)
  have resolved: "session_resolver sample_environment ''token'' sample_world = (Inr (Some sample_principal), ?v)"
    by (simp add: session_resolver_run sample_world_def resolve)
  have "\<exists>a. serve_sample 9 report_request (Control (Dashboard 100 70)) sample_world = (Inr a, w')
      \<and> rs_cookies a = rs_cookies (control_response (DashboardContent 100 70 sample_dashboard))
      \<and> rs_body a = rs_body (control_response (DashboardContent 100 70 sample_dashboard))"
    by (rule served_answer [OF run]) (simp_all add: report_request_def is_protected_def SAFE_HTTP_METHODS_def
        resolve_browser_session_def resolved bnd_apply catching_apply)
  then obtain a where "serve_sample 9 report_request (Control (Dashboard 100 70)) sample_world = (Inr a, w')"
    and "rs_body a = rs_body (control_response (DashboardContent 100 70 sample_dashboard))" by blast
  then show ?thesis by (intro exI conjI) (assumption, simp add: control_response_def plain_response_def)
qed

section \<open>The properties at work\<close>

theorem console_invariant_witness:
  "\<exists>w'. reaches False sample_world w' \<and> db_ok (fst w') \<and> prefix (audit_events sample) (audit_events (fst w'))"
proof -
  obtain a w' where "serve_sample 9 login_request (Login ''b@x'' ''secret'') sample_world = (Inr a, w')"
    using sample_login by blast
  then have "reaches False sample_world w'"
    by (intro reaches.step [OF reaches.here] console_step.served)
  with console_invariant [OF this sample_world_ok] have
    "reaches False sample_world w' \<and> db_ok (fst w') \<and> prefix (audit_events sample) (audit_events (fst w'))"
    by (simp add: sample_world_def)
  then show ?thesis by blast
qed



theorem session_required_witness:
  "\<exists>a w'. serve_sample 9 (sample_request ''GET'' ''/api/v1/auth/sessions'' None) ListSessions sample_world = (Inr a, w')
     \<and> rs_status a = 403 \<and> fst w' = sample"
proof -
  let ?req = "sample_request ''GET'' ''/api/v1/auth/sessions'' None"
  have "\<exists>a. fst (serve_sample 9 ?req ListSessions sample_world) = Inr a"
    by (simp add: serve_def http_app_def protect_mutations_from_csrf_def is_protected_def SAFE_HTTP_METHODS_def
        resolve_browser_session_def attach_correlation_id_def attach_browser_security_headers_def
        exception_middleware_def bnd_apply catching_apply list_browser_sessions_endpoint_def with_session_def
        http_error_def raise_def ret_def)
  then obtain a w' where run: "serve_sample 9 ?req ListSessions sample_world = (Inr a, w')"
    by (metis prod.collapse)
  have "anonymous sample_environment default_cookies ?req sample_world"
    by (simp add: anonymous_def)
  with session_required [OF _ this run] run show ?thesis
    by (simp add: sample_world_def)
qed


end
