(* ===== verification/Spec2Isabelle.thy ===== *)
theory Spec2Isabelle
  imports Recovery_Properties Identifiers Control_Service Service_Samples
begin

text \<open>
  A verification development of the backend of the Muxivo console, the Python service under
  \<open>src/apps/api/src/muxivo_console\<close>. File names below are relative to that directory.

  \<^bold>\<open>The program.\<close> A browser talks to a FastAPI application (\<open>presentation/api.py\<close>). Four middlewares
  surround its endpoints: a CSRF check, the resolution of the session cookie, a correlation identifier,
  security headers. An endpoint checks its actor, asks a rate limiter, calls one use case
  (\<open>application/\<close>) and maps the exceptions of that call to statuses. Use cases work on domain objects
  (\<open>domain/\<close>), whose constructors validate, through repositories (\<open>infrastructure/persistence/\<close>) on one
  relational database, and through adapters on a store of short-lived tokens and on the bot services of
  the connected platforms (\<open>infrastructure/\<close>). \<open>infrastructure/composition.py\<close> wires the parts together.

  \<^bold>\<open>State and effects.\<close> The database is the record \<open>console\<close> of \<open>Database\<close>, with one list of row records
  for each mapped class. An operation maps a state to an exception or a value, and to a state
  (\<open>Console_Prelude\<close>); every raise, early return and except clause is a branch. A transaction runs as one
  step, and its rollback restores the state. The world of a running service adds the states of the
  token store and of the rate limiter (\<open>Composition\<close>). Strings that come from the program are HOL
  strings; texts that come from JSON or the network are lists of code points; identifiers are 128-bit
  words, bytes are 8-bit words, other integers are unbounded as in Python; instants are in microseconds.

  \<^bold>\<open>The theories and the code they model.\<close>

    \<^item> \<open>Console_Prelude\<close>: values, exceptions, the monad, and \<open>step_law\<close>, the locale of relations between
      states that are kept by composition. \<open>Ports\<close>: the collaborators that come from outside the
      repository (clock, random source, cryptography) as records of functions.
    \<^item> \<open>Domain_Identity\<close>, \<open>Domain_Organizations\<close>, \<open>Domain_Connections\<close>, \<open>Control_Values\<close>, \<open>Control_Policy\<close>:
      the classes of \<open>domain/\<close> with their \<open>__post_init__\<close> checks.
    \<^item> \<open>Database\<close>, \<open>Schema\<close>: \<open>persistence/models.py\<close>, its keys, references and checks as the predicate
      \<open>db_ok\<close>, and the laws of inserting, updating and deleting. \<open>Repo_Organizations\<close>, \<open>Repo_Identity\<close>,
      \<open>Repo_Sessions\<close>, \<open>Repo_Connections\<close>, \<open>Repo_Invitations\<close>: the readers and writers of \<open>persistence/\<close>.
    \<^item> \<open>Organizations\<close>, \<open>Sessions\<close>, \<open>Connections\<close>, \<open>Candidates\<close>, \<open>Invitations\<close>, \<open>Identities\<close>,
      \<open>Pending_Registration\<close>, \<open>Token_Flows\<close>, \<open>Control\<close>: the use cases of \<open>application/\<close>. \<open>Pagination\<close>: the
      listings with cursors.
    \<^item> \<open>Resp\<close>, \<open>Redis\<close>, \<open>Token_Store\<close>, \<open>Rate_Limiting\<close>, \<open>Identifiers\<close>: the wire format, the two Redis
      adapters, both token stores, both rate limiters, the UUIDv7 generator. \<open>Json\<close>: \<open>json.dumps\<close> and
      \<open>json.loads\<close> on the documents that the service writes itself, and base64.
    \<^item> \<open>Control_Assertions\<close>, \<open>Control_Parsers\<close>, \<open>Policy_Protocol\<close>, \<open>Control_Client\<close>:
      \<open>infrastructure/discord_control_api.py\<close> and \<open>twitch_control_api.py\<close>, the signed assertions, the
      readers of the answers, and every method of the clients. \<open>Policy_Contract\<close>, \<open>Control_Responses\<close>,
      \<open>Api_Responses\<close>: \<open>contracts/v1/\<close>.
    \<^item> \<open>Http\<close>, \<open>Api\<close>, \<open>Api_Flows\<close>, \<open>Api_Organizations\<close>, \<open>Api_Control\<close>, \<open>Routes\<close>: the middlewares, the
      endpoints and the routes of \<open>presentation/api.py\<close>. \<open>Composition\<close>: \<open>infrastructure/composition.py\<close>,
      the function \<open>serve\<close> that answers one request, and the steps between requests.
    \<^item> \<open>Samples\<close>, \<open>Control_Samples\<close>, \<open>Service_Samples\<close>: a small deployment on which the theorems with
      hypotheses are exercised.

  \<^bold>\<open>Interfaces.\<close> A locale states each contract that several parts rely on, and every locale is interpreted
  on the model of the code.

    \<^item> \<open>step_law\<close>: a preorder of states. Its instances say that the constraints of the schema are kept
      (\<open>inv\<close>), that histories only grow (\<open>his\<close>), that revocations (\<open>rev\<close>) and owners (\<open>own\<close>) stay, and that
      connections follow their life cycle (\<open>life\<close>). Each repository operation proves the laws that it keeps,
      and use cases inherit them.
    \<^item> \<open>membership_directory\<close> (the authorizer on the stored memberships), \<open>keyset\<close> (an order with unique
      keys under a paginated listing), \<open>one_time_ledger\<close> (a value that can be consumed once: link, login
      and recovery transactions), \<open>one_time_tokens\<close> (the token store).
    \<^item> \<open>flow_law\<close>, \<open>lawful_controls\<close> and \<open>lawful_application\<close> extend \<open>step_law\<close>: whatever law each use case
      keeps, each flow, endpoint and request keeps. \<open>Console_System\<close> interprets them on the composed service.

  \<^bold>\<open>What the lemmas show.\<close>

    \<^item> \<open>Service_Properties\<close> and \<open>Control_Service\<close>, on whole requests: the invariant of every run, what a
      request without a session can reach, a session from sign-in to sign-out, the CSRF gate, the answers
      to exceptions, and what has to be true before content of a bot service is shown.
    \<^item> \<open>Organizations\<close>, \<open>Sessions\<close>, \<open>Connection_Properties\<close>, \<open>Connection_Lifecycle\<close>,
      \<open>Invitation_Properties\<close>, \<open>Identity_Properties\<close>, \<open>Account_Properties\<close>, \<open>Recovery_Properties\<close>,
      \<open>Flow_Properties\<close>, \<open>Control_Properties\<close>: each use case on every branch, denials included, and what
      can never happen twice.
    \<^item> \<open>Control_Documents\<close>, \<open>Policy_Properties\<close>, \<open>Policy_Contract\<close>, \<open>Control_Assertions\<close>: a reader returns
      a valid value or a mapped exception on every JSON value, with the exceptions that escape stated as
      lemmas; documents, policies and assertions survive a round trip.
    \<^item> \<open>Token_Store\<close>, \<open>Redis\<close>, \<open>Resp\<close>, \<open>Rate_Limiting\<close>, \<open>Pagination\<close>, \<open>Identifiers\<close>: the process-local
      store refines a map with deadlines, the network reader ends and fails closed, a window admits at most
      its limit, pages enumerate every row once, identifiers are well formed.

  \<^bold>\<open>Bounds and fuel.\<close> The reader of Redis replies takes the depth of nesting as fuel; the theorem
  \<open>reply_reading_terminates\<close> shows that the length of the stream is enough. All other recursion is
  structural or has a measure.
  Floats are integer multiples of 2^-1074, infinities or NaN, which covers every double; only comparisons
  and truncation are computed on them. The theorem on assertions asks for an instant between 1970 and
  10^20 microseconds later, some three million years.

  \<^bold>\<open>Not modelled.\<close> The FastAPI router, the parsing of requests by Pydantic, CORS, cookies beyond their
  attributes, metrics and logs; the settings (\<open>settings.py\<close> and its parts), which appear as arguments of the
  composed service; the clients of the OAuth providers, the mail transport, the candidate catalogues, and
  the cryptographic primitives, which are arguments of the operations that use them; the timers of the two
  workers, whose passes are steps of the service; the scripts and the front end. Requests are
  atomic: their interleaving inside the event loop or between processes is not modelled. Argument functions
  carry no assumption except where a theorem states one.
\<close>

end
